(* ===== verification/Prelude.thy ===== *)
theory Prelude
  imports "HOL-Library.Word"
begin

text \<open>
  The prelude of the development: what every component theory shares.

  \<^item> names for the machine integers of the C++ code (\<open>uint8_t\<close>, \<open>uint32_t\<close>, \<open>uint64_t\<close>);
  \<^item> the type \<open>outcome\<close> of a C++ call that may fail. \<open>Ok\<close> and \<open>Err\<close> are the two cases of the
    repository's \<open>Expect<T>\<close>. \<open>Undef\<close> marks a call that the C++ standard leaves undefined
    (\<open>back()\<close> of an empty vector, dereferencing an \<open>Expect\<close> that holds an error, a shift by at
    least the width, reading bytes that were never written). \<open>Timeout\<close> is not a behaviour of the
    program: it is the value of a fuelled definition whose fuel ran out, and every such definition
    comes with a lemma that enough fuel never gives it;
  \<^item> the state and error monad in which the stateful components are written
    (\<open>bindM m f\<close> is the \<open>if (auto Res = m) ... else return Unexpect(Res)\<close> idiom of the code);
  \<^item> the collections of simplification rules, and lemmas on lists and words.
\<close>

unbundle bit_operations_syntax

type_synonym u8 = "8 word"
type_synonym u32 = "32 word"
type_synonym u64 = "64 word"
type_synonym Bytes = "8 word list"

named_theorems monad_simps "unfolding of the outcome and state monads"
named_theorems ssvm_defs "definitions of model operations that proofs unfold"

section \<open>Outcomes\<close>

datatype ('e, 'a) outcome = Ok 'a | Err 'e | Undef | Timeout

definition obind :: "('e, 'a) outcome \<Rightarrow> ('a \<Rightarrow> ('e, 'b) outcome) \<Rightarrow> ('e, 'b) outcome" where
  [monad_simps]: "obind r f =
     (case r of Ok x \<Rightarrow> f x | Err e \<Rightarrow> Err e | Undef \<Rightarrow> Undef | Timeout \<Rightarrow> Timeout)"

text \<open>\<open>defined r\<close>: the call neither hits undefined behaviour nor is cut off by the fuel.\<close>

definition defined :: "('e, 'a) outcome \<Rightarrow> bool" where
  "defined r \<longleftrightarrow> r \<noteq> Undef \<and> r \<noteq> Timeout"

lemma defined_simps [simp]:
  "defined (Ok x)" "defined (Err e)" "\<not> defined Undef" "\<not> defined Timeout"
  by (simp_all add: defined_def)

lemma defined_cases:
  assumes "defined r"
  obtains (Ok) x where "r = Ok x" | (Err) e where "r = Err e"
  using assms by (cases r) auto

section \<open>The state and error monad\<close>

type_synonym ('s, 'e, 'a) sm = "'s \<Rightarrow> ('e, 'a) outcome \<times> 's"

definition retM :: "'a \<Rightarrow> ('s, 'e, 'a) sm" where
  [monad_simps]: "retM x s = (Ok x, s)"

definition errM :: "'e \<Rightarrow> ('s, 'e, 'a) sm" where
  [monad_simps]: "errM e s = (Err e, s)"

definition undefM :: "('s, 'e, 'a) sm" where
  [monad_simps]: "undefM s = (Undef, s)"

definition timeoutM :: "('s, 'e, 'a) sm" where
  [monad_simps]: "timeoutM s = (Timeout, s)"

definition bindM :: "('s, 'e, 'a) sm \<Rightarrow> ('a \<Rightarrow> ('s, 'e, 'b) sm) \<Rightarrow> ('s, 'e, 'b) sm" where
  "bindM m f s =
     (case m s of
        (Ok x, t) \<Rightarrow> f x t
      | (Err e, t) \<Rightarrow> (Err e, t)
      | (Undef, t) \<Rightarrow> (Undef, t)
      | (Timeout, t) \<Rightarrow> (Timeout, t))"

text \<open>\<open>seqM m n\<close> runs \<open>m\<close> for its effect; \<open>liftM\<close> embeds a call that does not touch the state.\<close>

definition seqM :: "('s, 'e, unit) sm \<Rightarrow> ('s, 'e, 'b) sm \<Rightarrow> ('s, 'e, 'b) sm" where
  "seqM m n = bindM m (\<lambda>_. n)"

definition getM :: "('s, 'e, 's) sm" where
  [monad_simps]: "getM s = (Ok s, s)"

definition putM :: "'s \<Rightarrow> ('s, 'e, unit) sm" where
  [monad_simps]: "putM t s = (Ok (), t)"

definition modifyM :: "('s \<Rightarrow> 's) \<Rightarrow> ('s, 'e, unit) sm" where
  [monad_simps]: "modifyM f s = (Ok (), f s)"

definition liftM :: "('e, 'a) outcome \<Rightarrow> ('s, 'e, 'a) sm" where
  [monad_simps]: "liftM r s = (r, s)"

text \<open>A range-based \<open>for\<close> whose body may return early with an error.\<close>

fun forM :: "('a \<Rightarrow> ('s, 'e, unit) sm) \<Rightarrow> 'a list \<Rightarrow> ('s, 'e, unit) sm" where
  "forM f [] = retM ()"
| "forM f (x # xs) = seqM (f x) (forM f xs)"

text \<open>A counted loop that collects what its body yields (\<open>for (i < n) Vec.push_back(...)\<close>).\<close>

fun repeatM :: "nat \<Rightarrow> ('s, 'e, 'a) sm \<Rightarrow> ('s, 'e, 'a list) sm" where
  "repeatM 0 m = retM []"
| "repeatM (Suc n) m = bindM m (\<lambda>x. bindM (repeatM n m) (\<lambda>xs. retM (x # xs)))"

lemma bindM_simps [monad_simps]:
  "m s = (Ok x, t) \<Longrightarrow> bindM m f s = f x t"
  "m s = (Err e, t) \<Longrightarrow> bindM m f s = (Err e, t)"
  "m s = (Undef, t) \<Longrightarrow> bindM m f s = (Undef, t)"
  "m s = (Timeout, t) \<Longrightarrow> bindM m f s = (Timeout, t)"
  by (simp_all add: bindM_def)

lemma bindM_Ok_iff:
  "bindM m f s = (Ok y, u) \<longleftrightarrow> (\<exists>x t. m s = (Ok x, t) \<and> f x t = (Ok y, u))"
  by (auto simp: bindM_def split: prod.splits outcome.splits)

lemma seqM_Ok_iff:
  "seqM m n s = (Ok y, u) \<longleftrightarrow> (\<exists>t. m s = (Ok (), t) \<and> n t = (Ok y, u))"
  by (simp add: seqM_def bindM_Ok_iff)

lemma bindM_Ok_E:
  assumes "bindM m f s = (Ok y, u)"
  obtains x t where "m s = (Ok x, t)" and "f x t = (Ok y, u)"
  using assms by (auto simp: bindM_Ok_iff)

lemma bindM_retM [simp]: "bindM (retM x) f = f x"
  by (rule ext) (simp add: bindM_def retM_def)

lemma seqM_simps [monad_simps]:
  "m s = (Ok (), t) \<Longrightarrow> seqM m n s = n t"
  "m s = (Err e, t) \<Longrightarrow> seqM m n s = (Err e, t)"
  "m s = (Undef, t) \<Longrightarrow> seqM m n s = (Undef, t)"
  "m s = (Timeout, t) \<Longrightarrow> seqM m n s = (Timeout, t)"
  by (simp_all add: seqM_def bindM_def)

section \<open>Contracts of monadic calls\<close>

text \<open>
  \<open>keeps I m\<close>: from a state with \<open>I\<close> the call ends, normally or with an error, in a state with
  \<open>I\<close>. This is how invariants are pushed through the control flow of the code.
\<close>

definition keeps :: "('s \<Rightarrow> bool) \<Rightarrow> ('s, 'e, 'a) sm \<Rightarrow> bool" where
  "keeps I m \<longleftrightarrow> (\<forall>s. I s \<longrightarrow> I (snd (m s)))"

lemma keepsI: "(\<And>s. I s \<Longrightarrow> I (snd (m s))) \<Longrightarrow> keeps I m"
  by (simp add: keeps_def)

lemma keepsD: "keeps I m \<Longrightarrow> I s \<Longrightarrow> m s = (r, t) \<Longrightarrow> I t"
  by (metis keeps_def snd_conv)

lemma keeps_basic [simp, intro]:
  "keeps I (retM x)" "keeps I (errM e)" "keeps I undefM" "keeps I timeoutM" "keeps I getM"
  "keeps I (liftM r)"
  by (auto simp: keeps_def monad_simps)

lemma keeps_modifyM: "(\<And>s. I s \<Longrightarrow> I (f s)) \<Longrightarrow> keeps I (modifyM f)"
  by (auto simp: keeps_def monad_simps)

lemma keeps_bindM [intro]:
  assumes "keeps I m" and "\<And>x. keeps I (f x)"
  shows "keeps I (bindM m f)"
proof (rule keepsI)
  fix s assume "I s"
  then have "I (snd (m s))" using assms(1) by (simp add: keeps_def)
  then show "I (snd (bindM m f s))"
    using assms(2) by (auto simp: bindM_def keeps_def split: prod.splits outcome.splits)
qed

lemma keeps_seqM [intro]: "keeps I m \<Longrightarrow> keeps I n \<Longrightarrow> keeps I (seqM m n)"
  by (simp add: seqM_def keeps_bindM)

lemma keeps_forM: "(\<And>x. x \<in> set xs \<Longrightarrow> keeps I (f x)) \<Longrightarrow> keeps I (forM f xs)"
  by (induction xs) (auto intro: keeps_seqM)

lemma keeps_repeatM: "keeps I m \<Longrightarrow> keeps I (repeatM n m)"
  by (induction n) (auto intro: keeps_bindM)

text \<open>A continuation may use what it is given.\<close>

lemma keeps_bindM_given:
  assumes "keeps I m" and "\<And>s x t. I s \<Longrightarrow> m s = (Ok x, t) \<Longrightarrow> Q x" and "\<And>x. Q x \<Longrightarrow> keeps I (f x)"
  shows "keeps I (bindM m f)"
proof (rule keepsI)
  fix s assume s: "I s"
  obtain r t where m: "m s = (r, t)" by fastforce
  then have "I t" using assms(1) s keepsD by metis
  then show "I (snd (bindM m f s))" using assms(2) [OF s] assms(3) m by (cases r) (auto simp: bindM_def keeps_def)
qed

lemma repeatM_length: "repeatM n m s = (Ok xs, t) \<Longrightarrow> length xs = n"
  by (induction n arbitrary: s xs t) (auto simp: retM_def elim!: bindM_Ok_E)

section \<open>Vectors\<close>

text \<open>
  A \<open>std::vector\<close> is a list with index 0 first. \<open>erase_range a c xs\<close> is the
  \<open>Vec.erase(Vec.begin() + a, Vec.end() - c)\<close> of the stack manager.
\<close>

definition erase_range :: "nat \<Rightarrow> nat \<Rightarrow> 'a list \<Rightarrow> 'a list" where
  "erase_range a c xs = take a xs @ drop (length xs - c) xs"

lemma length_erase_range:
  "a + c \<le> length xs \<Longrightarrow> length (erase_range a c xs) = a + c"
  by (simp add: erase_range_def)

lemma erase_range_append:
  "length ys = c \<Longrightarrow> a \<le> length xs \<Longrightarrow> erase_range a c (xs @ ys) = take a xs @ ys"
  by (simp add: erase_range_def)

text \<open>\<open>vresize n d xs\<close> is \<open>Vec.resize(n)\<close>, which appends default values or cuts the tail.\<close>

definition vresize :: "nat \<Rightarrow> 'a \<Rightarrow> 'a list \<Rightarrow> 'a list" where
  "vresize n d xs = take n xs @ replicate (n - length xs) d"

lemma length_vresize [simp]: "length (vresize n d xs) = n"
  by (simp add: vresize_def)

lemma vresize_nth:
  "length xs \<le> n \<Longrightarrow> i < n \<Longrightarrow> vresize n d xs ! i = (if i < length xs then xs ! i else d)"
  by (simp add: vresize_def nth_append)

text \<open>\<open>overwrite off ys xs\<close> overwrites \<open>xs\<close> with \<open>ys\<close> from index \<open>off\<close> (\<open>std::copy\<close>).\<close>

definition overwrite :: "nat \<Rightarrow> 'a list \<Rightarrow> 'a list \<Rightarrow> 'a list" where
  "overwrite off ys xs = take off xs @ ys @ drop (off + length ys) xs"

lemma length_overwrite [simp]:
  "off + length ys \<le> length xs \<Longrightarrow> length (overwrite off ys xs) = length xs"
  by (simp add: overwrite_def)

lemma overwrite_read:
  "off \<le> length xs \<Longrightarrow> take (length ys) (drop off (overwrite off ys xs)) = ys"
  by (simp add: overwrite_def)

lemma overwrite_nth_other:
  assumes "off + length ys \<le> length xs" and "i < off \<or> off + length ys \<le> i"
    and "i < length xs"
  shows "overwrite off ys xs ! i = xs ! i"
  using assms by (auto simp: overwrite_def nth_append min_def)

text \<open>Inverting a table with distinct keys and distinct values.\<close>

lemma map_of_swap:
  assumes "distinct (map fst xs)" "distinct (map snd xs)"
  shows "map_of xs a = Some b \<longleftrightarrow> map_of (map (\<lambda>(a, b). (b, a)) xs) b = Some a"
proof -
  have "map fst (map (\<lambda>(a, b). (b, a)) xs) = map snd xs" by (induction xs) auto
  then have "distinct (map fst (map (\<lambda>(a, b). (b, a)) xs))" using assms by (simp only:)
  with assms(1) show ?thesis
    by (auto simp: map_of_eq_Some_iff)
qed

section \<open>Words\<close>

lemma unat_u32_less: "unat (w :: u32) < 4294967296"
  using unsigned_less [where ?'a = nat and w = w] by simp

lemma unat_u64_less: "unat (w :: u64) < 18446744073709551616"
  using unsigned_less [where ?'a = nat and w = w] by simp

lemma unat_u8_less: "unat (w :: u8) < 256"
  using unsigned_less [where ?'a = nat and w = w] by simp

lemma unat_Suc_no_wrap:
  fixes w :: "'a::len word"
  assumes "Suc (unat w) < 2 ^ LENGTH('a)"
  shows "unat (w + 1) = Suc (unat w)"
  using assms by (simp add: unat_word_ariths)

lemma unat_add_no_wrap:
  fixes v w :: "'a::len word"
  assumes "unat v + unat w < 2 ^ LENGTH('a)"
  shows "unat (v + w) = unat v + unat w"
  using assms by (simp add: unat_word_ariths)

lemma unat_of_nat_less:
  "n < 2 ^ LENGTH('a) \<Longrightarrow> unat (of_nat n :: 'a::len word) = n"
  by (simp add: unsigned_of_nat take_bit_nat_eq_self_iff)

end
