(* ===== verification/Common.thy ===== *)
theory Common
  imports Prelude
begin

text \<open>
  The definitions that every part of the virtual machine shares: \<open>include/common/errcode.h\<close>,
  \<open>include/common/types.h\<close> and \<open>include/common/value.h\<close> with the untagged union of
  \<open>include/support/variant.h\<close>.

  The enumerations of \<open>types.h\<close> have a fixed underlying type and are made from bytes of the input
  by \<open>static_cast\<close>, so each has a constructor for the bytes that are not an enumerator.
\<close>

section \<open>Error codes\<close>

datatype (plugins only: code size) ErrCode =
    Success | Terminated
  | InvalidPath | ReadError | EndOfFile | InvalidGrammar
  | ValidationFailed
  | WrongExecutorFlow | WrongWorkerFlow | WrongVMWorkflow | InstantiateFailed
  | WrongInstanceAddress | ImportNotMatch | ExecutionFailed | TypeNotMatch | StackWrongEntry
  | StackEmpty | WrongLocalAddress | InstructionTypeMismatch | DivideByZero
  | FloatPointException | CastingError | Unimplemented | AccessForbidMemory | SliceDataFailed
  | Unreachable | WrongInstructionCounter | TableSizeExceeded | MemorySizeExceeded
  | FunctionInvalid | CallFunctionError | CostLimitExceeded | Revert | ModuleNameConflict

type_synonym 'a Expect = "(ErrCode, 'a) outcome"
type_synonym ('s, 'a) exec = "'s \<Rightarrow> 'a Expect \<times> 's"

section \<open>Types\<close>

datatype ValType = VNone | I32 | I64 | F32 | F64 | VOther u8
datatype ElemType = Func | FuncRef | EOther u8
datatype ValMut = Const | Var | MOther u8
datatype ExternalType = Function | Table | Memory | Global | XOther u8

definition ValType_of :: "u8 \<Rightarrow> ValType" where
  "ValType_of b =
     (if b = 0x40 then VNone else if b = 0x7F then I32 else if b = 0x7E then I64
      else if b = 0x7D then F32 else if b = 0x7C then F64 else VOther b)"

definition ElemType_of :: "u8 \<Rightarrow> ElemType" where
  "ElemType_of b = (if b = 0x60 then Func else if b = 0x70 then FuncRef else EOther b)"

definition ValMut_of :: "u8 \<Rightarrow> ValMut" where
  "ValMut_of b = (if b = 0 then Const else if b = 1 then Var else MOther b)"

definition ExternalType_of :: "u8 \<Rightarrow> ExternalType" where
  "ExternalType_of b =
     (if b = 0 then Function else if b = 1 then Table else if b = 2 then Memory
      else if b = 3 then Global else XOther b)"

text \<open>The \<open>switch\<close> that accepts the four number types (and \<open>None\<close> for a block).\<close>

definition isNumType :: "ValType \<Rightarrow> bool" where
  "isNumType t \<longleftrightarrow> t \<in> {I32, I64, F32, F64}"

definition isBlockType :: "ValType \<Rightarrow> bool" where
  "isBlockType t \<longleftrightarrow> t \<in> {I32, I64, F32, F64, VNone}"

section \<open>Values\<close>

text \<open>
  \<open>ValVariant\<close> is \<open>Support::Variant<uint32_t, uint64_t, float, double>\<close>: eight bytes of storage
  and no tag. A variant made from a four-byte member has only its low four bytes initialised
  (\<open>V32\<close>), one made from an eight-byte member has all eight (\<open>V64\<close>). \<open>get<T>\<close> reinterprets
  the storage (on a little-endian machine, which the memory instructions rely on as well), so a
  four-byte read is always possible and an eight-byte read of \<open>V32\<close> reads indeterminate bytes.
  A \<open>float\<close> or \<open>double\<close> is its bit pattern.
\<close>

datatype ValVariant = V32 u32 | V64 u64

fun get32 :: "ValVariant \<Rightarrow> u32" where
  "get32 (V32 w) = w"
| "get32 (V64 w) = ucast w"

fun get64 :: "ValVariant \<Rightarrow> u64 Expect" where
  "get64 (V32 w) = Undef"
| "get64 (V64 w) = Ok w"

text \<open>Assignment through the reference that \<open>retrieveValue<T>\<close> returns.\<close>

fun set32 :: "ValVariant \<Rightarrow> u32 \<Rightarrow> ValVariant" where
  "set32 (V32 _) x = V32 x"
| "set32 (V64 w) x = V64 (push_bit 32 (drop_bit 32 w) OR ucast x)"

fun set64 :: "ValVariant \<Rightarrow> u64 \<Rightarrow> ValVariant" where
  "set64 _ x = V64 x"

definition ValueFromType :: "ValType \<Rightarrow> ValVariant" where
  "ValueFromType t = (case t of I64 \<Rightarrow> V64 0 | F32 \<Rightarrow> V32 0 | F64 \<Rightarrow> V64 0 | _ \<Rightarrow> V32 0)"

text \<open>
  A value can be read at type \<open>t\<close>: four-byte types always, eight-byte types when all bytes are
  initialised. This is what the validator has to guarantee about the operand stack.
\<close>

fun fits :: "ValVariant \<Rightarrow> ValType \<Rightarrow> bool" where
  "fits v I64 = (\<exists>w. v = V64 w)"
| "fits v F64 = (\<exists>w. v = V64 w)"
| "fits v _ = True"

lemma fits_ValueFromType [simp]: "fits (ValueFromType t) t"
  by (cases t) (simp_all add: ValueFromType_def)

lemma get32_set32 [simp]: "get32 (set32 v x) = x"
proof (cases v)
  case (V64 w)
  have "ucast (push_bit 32 (drop_bit 32 w) OR ucast x :: u64) = x"
    by (rule bit_word_eqI) (auto simp: bit_simps)
  with V64 show ?thesis by simp
qed simp

lemma get64_set64 [simp]: "get64 (set64 v x) = Ok x"
  by simp

lemma get64_fits: "fits v I64 \<Longrightarrow> \<exists>w. get64 v = Ok w"
  by auto

text \<open>The high half is not touched by a four-byte store.\<close>

lemma set32_high: "get64 (set32 (V64 w) x) = Ok y \<Longrightarrow> drop_bit 32 y = drop_bit 32 w"
proof -
  assume "get64 (set32 (V64 w) x) = Ok y"
  then have y: "y = push_bit 32 (drop_bit 32 w) OR ucast x" by simp
  show ?thesis unfolding y
    by (rule bit_word_eqI) (auto simp: bit_simps dest: bit_imp_le_length)
qed

lemma fits_set32: "fits v t \<Longrightarrow> fits (set32 v x) t"
  by (cases v; cases t) auto

end
