(* ===== verification/Instruction.thy ===== *)
theory Instruction
  imports Common
begin

text \<open>
  The instruction nodes of \<open>include/common/ast/instruction.h\<close>: the opcode enumeration, the node
  classes and the dispatch from an opcode to a node class.

  \<open>dispatchInstruction\<close> sends each of the 172 enumerators to one of twelve node classes, and a
  node is only ever made by that dispatch. The opcode type is therefore written as one datatype per
  node class, with \<open>OpCode\<close> as their union; the \<open>static_cast\<close> of the dispatch is then correct by
  construction. The regular part of the numeric instructions (an operation at a width) is a
  constructor with a width, and every enumerator of the source is an abbreviation with the source's
  name.
\<close>

section \<open>Opcodes\<close>

text \<open>Operand width: \<open>N32\<close> for \<open>i32\<close> and \<open>f32\<close>, \<open>N64\<close> for \<open>i64\<close> and \<open>f64\<close>.\<close>

datatype width = N32 | N64
datatype sx = Sx | Ux

datatype irel = ieq | ine | ilt_s | ilt_u | igt_s | igt_u | ile_s | ile_u | ige_s | ige_u
datatype frel = feq | fne | flt | fgt | fle | fge
datatype ibin = iadd | isub | imul | idiv_s | idiv_u | irem_s | irem_u | iand | ior | ixor
  | ishl | ishr_s | ishr_u | irotl | irotr
datatype fbin = fadd | fsub | fmul | fdiv | fmin | fmax | fcopysign
datatype iun = iclz | ictz | ipopcnt
datatype fun_op = fabs | fneg | fceil | ffloor | ftrunc | fnearest | fsqrt

datatype ControlOp = Unreachable | Nop | Return
datatype BlockOp = Block | Loop
datatype BrOp = Br | Br_if
datatype CallOp = Call | Call_indirect
datatype ParametricOp = Drop | Select
datatype VariableOp = Local__get | Local__set | Local__tee | Global__get | Global__set
datatype (plugins only: code size) MemoryOp =
    I32__load | I64__load | F32__load | F64__load | I32__load8_s | I32__load8_u | I32__load16_s
  | I32__load16_u | I64__load8_s | I64__load8_u | I64__load16_s | I64__load16_u | I64__load32_s
  | I64__load32_u | I32__store | I64__store | F32__store | F64__store | I32__store8
  | I32__store16 | I64__store8 | I64__store16 | I64__store32 | Memory__size | Memory__grow
datatype ConstOp = I32__const | I64__const | F32__const | F64__const
datatype UnaryOp = IEqz width | IUn width iun | FUn width fun_op | IWrap | ITrunc width width sx
  | IExtend sx | FConvert width width sx | FDemote | FPromote | IReinterpret width
  | FReinterpret width
datatype BinaryOp = IRel width irel | FRel width frel | IBin width ibin | FBin width fbin

text \<open>The enumerators of the numeric instructions, under their names in the source.\<close>

abbreviation (input) I32__eqz :: UnaryOp where "I32__eqz \<equiv> IEqz N32"
abbreviation (input) I32__eq :: BinaryOp where "I32__eq \<equiv> IRel N32 ieq"
abbreviation (input) I32__ne :: BinaryOp where "I32__ne \<equiv> IRel N32 ine"
abbreviation (input) I32__lt_s :: BinaryOp where "I32__lt_s \<equiv> IRel N32 ilt_s"
abbreviation (input) I32__lt_u :: BinaryOp where "I32__lt_u \<equiv> IRel N32 ilt_u"
abbreviation (input) I32__gt_s :: BinaryOp where "I32__gt_s \<equiv> IRel N32 igt_s"
abbreviation (input) I32__gt_u :: BinaryOp where "I32__gt_u \<equiv> IRel N32 igt_u"
abbreviation (input) I32__le_s :: BinaryOp where "I32__le_s \<equiv> IRel N32 ile_s"
abbreviation (input) I32__le_u :: BinaryOp where "I32__le_u \<equiv> IRel N32 ile_u"
abbreviation (input) I32__ge_s :: BinaryOp where "I32__ge_s \<equiv> IRel N32 ige_s"
abbreviation (input) I32__ge_u :: BinaryOp where "I32__ge_u \<equiv> IRel N32 ige_u"
abbreviation (input) I64__eqz :: UnaryOp where "I64__eqz \<equiv> IEqz N64"
abbreviation (input) I64__eq :: BinaryOp where "I64__eq \<equiv> IRel N64 ieq"
abbreviation (input) I64__ne :: BinaryOp where "I64__ne \<equiv> IRel N64 ine"
abbreviation (input) I64__lt_s :: BinaryOp where "I64__lt_s \<equiv> IRel N64 ilt_s"
abbreviation (input) I64__lt_u :: BinaryOp where "I64__lt_u \<equiv> IRel N64 ilt_u"
abbreviation (input) I64__gt_s :: BinaryOp where "I64__gt_s \<equiv> IRel N64 igt_s"
abbreviation (input) I64__gt_u :: BinaryOp where "I64__gt_u \<equiv> IRel N64 igt_u"
abbreviation (input) I64__le_s :: BinaryOp where "I64__le_s \<equiv> IRel N64 ile_s"
abbreviation (input) I64__le_u :: BinaryOp where "I64__le_u \<equiv> IRel N64 ile_u"
abbreviation (input) I64__ge_s :: BinaryOp where "I64__ge_s \<equiv> IRel N64 ige_s"
abbreviation (input) I64__ge_u :: BinaryOp where "I64__ge_u \<equiv> IRel N64 ige_u"
abbreviation (input) F32__eq :: BinaryOp where "F32__eq \<equiv> FRel N32 feq"
abbreviation (input) F32__ne :: BinaryOp where "F32__ne \<equiv> FRel N32 fne"
abbreviation (input) F32__lt :: BinaryOp where "F32__lt \<equiv> FRel N32 flt"
abbreviation (input) F32__gt :: BinaryOp where "F32__gt \<equiv> FRel N32 fgt"
abbreviation (input) F32__le :: BinaryOp where "F32__le \<equiv> FRel N32 fle"
abbreviation (input) F32__ge :: BinaryOp where "F32__ge \<equiv> FRel N32 fge"
abbreviation (input) F64__eq :: BinaryOp where "F64__eq \<equiv> FRel N64 feq"
abbreviation (input) F64__ne :: BinaryOp where "F64__ne \<equiv> FRel N64 fne"
abbreviation (input) F64__lt :: BinaryOp where "F64__lt \<equiv> FRel N64 flt"
abbreviation (input) F64__gt :: BinaryOp where "F64__gt \<equiv> FRel N64 fgt"
abbreviation (input) F64__le :: BinaryOp where "F64__le \<equiv> FRel N64 fle"
abbreviation (input) F64__ge :: BinaryOp where "F64__ge \<equiv> FRel N64 fge"
abbreviation (input) I32__clz :: UnaryOp where "I32__clz \<equiv> IUn N32 iclz"
abbreviation (input) I32__ctz :: UnaryOp where "I32__ctz \<equiv> IUn N32 ictz"
abbreviation (input) I32__popcnt :: UnaryOp where "I32__popcnt \<equiv> IUn N32 ipopcnt"
abbreviation (input) I32__add :: BinaryOp where "I32__add \<equiv> IBin N32 iadd"
abbreviation (input) I32__sub :: BinaryOp where "I32__sub \<equiv> IBin N32 isub"
abbreviation (input) I32__mul :: BinaryOp where "I32__mul \<equiv> IBin N32 imul"
abbreviation (input) I32__div_s :: BinaryOp where "I32__div_s \<equiv> IBin N32 idiv_s"
abbreviation (input) I32__div_u :: BinaryOp where "I32__div_u \<equiv> IBin N32 idiv_u"
abbreviation (input) I32__rem_s :: BinaryOp where "I32__rem_s \<equiv> IBin N32 irem_s"
abbreviation (input) I32__rem_u :: BinaryOp where "I32__rem_u \<equiv> IBin N32 irem_u"
abbreviation (input) I32__and :: BinaryOp where "I32__and \<equiv> IBin N32 iand"
abbreviation (input) I32__or :: BinaryOp where "I32__or \<equiv> IBin N32 ior"
abbreviation (input) I32__xor :: BinaryOp where "I32__xor \<equiv> IBin N32 ixor"
abbreviation (input) I32__shl :: BinaryOp where "I32__shl \<equiv> IBin N32 ishl"
abbreviation (input) I32__shr_s :: BinaryOp where "I32__shr_s \<equiv> IBin N32 ishr_s"
abbreviation (input) I32__shr_u :: BinaryOp where "I32__shr_u \<equiv> IBin N32 ishr_u"
abbreviation (input) I32__rotl :: BinaryOp where "I32__rotl \<equiv> IBin N32 irotl"
abbreviation (input) I32__rotr :: BinaryOp where "I32__rotr \<equiv> IBin N32 irotr"
abbreviation (input) I64__clz :: UnaryOp where "I64__clz \<equiv> IUn N64 iclz"
abbreviation (input) I64__ctz :: UnaryOp where "I64__ctz \<equiv> IUn N64 ictz"
abbreviation (input) I64__popcnt :: UnaryOp where "I64__popcnt \<equiv> IUn N64 ipopcnt"
abbreviation (input) I64__add :: BinaryOp where "I64__add \<equiv> IBin N64 iadd"
abbreviation (input) I64__sub :: BinaryOp where "I64__sub \<equiv> IBin N64 isub"
abbreviation (input) I64__mul :: BinaryOp where "I64__mul \<equiv> IBin N64 imul"
abbreviation (input) I64__div_s :: BinaryOp where "I64__div_s \<equiv> IBin N64 idiv_s"
abbreviation (input) I64__div_u :: BinaryOp where "I64__div_u \<equiv> IBin N64 idiv_u"
abbreviation (input) I64__rem_s :: BinaryOp where "I64__rem_s \<equiv> IBin N64 irem_s"
abbreviation (input) I64__rem_u :: BinaryOp where "I64__rem_u \<equiv> IBin N64 irem_u"
abbreviation (input) I64__and :: BinaryOp where "I64__and \<equiv> IBin N64 iand"
abbreviation (input) I64__or :: BinaryOp where "I64__or \<equiv> IBin N64 ior"
abbreviation (input) I64__xor :: BinaryOp where "I64__xor \<equiv> IBin N64 ixor"
abbreviation (input) I64__shl :: BinaryOp where "I64__shl \<equiv> IBin N64 ishl"
abbreviation (input) I64__shr_s :: BinaryOp where "I64__shr_s \<equiv> IBin N64 ishr_s"
abbreviation (input) I64__shr_u :: BinaryOp where "I64__shr_u \<equiv> IBin N64 ishr_u"
abbreviation (input) I64__rotl :: BinaryOp where "I64__rotl \<equiv> IBin N64 irotl"
abbreviation (input) I64__rotr :: BinaryOp where "I64__rotr \<equiv> IBin N64 irotr"
abbreviation (input) F32__abs :: UnaryOp where "F32__abs \<equiv> FUn N32 fabs"
abbreviation (input) F32__neg :: UnaryOp where "F32__neg \<equiv> FUn N32 fneg"
abbreviation (input) F32__ceil :: UnaryOp where "F32__ceil \<equiv> FUn N32 fceil"
abbreviation (input) F32__floor :: UnaryOp where "F32__floor \<equiv> FUn N32 ffloor"
abbreviation (input) F32__trunc :: UnaryOp where "F32__trunc \<equiv> FUn N32 ftrunc"
abbreviation (input) F32__nearest :: UnaryOp where "F32__nearest \<equiv> FUn N32 fnearest"
abbreviation (input) F32__sqrt :: UnaryOp where "F32__sqrt \<equiv> FUn N32 fsqrt"
abbreviation (input) F32__add :: BinaryOp where "F32__add \<equiv> FBin N32 fadd"
abbreviation (input) F32__sub :: BinaryOp where "F32__sub \<equiv> FBin N32 fsub"
abbreviation (input) F32__mul :: BinaryOp where "F32__mul \<equiv> FBin N32 fmul"
abbreviation (input) F32__div :: BinaryOp where "F32__div \<equiv> FBin N32 fdiv"
abbreviation (input) F32__min :: BinaryOp where "F32__min \<equiv> FBin N32 fmin"
abbreviation (input) F32__max :: BinaryOp where "F32__max \<equiv> FBin N32 fmax"
abbreviation (input) F32__copysign :: BinaryOp where "F32__copysign \<equiv> FBin N32 fcopysign"
abbreviation (input) F64__abs :: UnaryOp where "F64__abs \<equiv> FUn N64 fabs"
abbreviation (input) F64__neg :: UnaryOp where "F64__neg \<equiv> FUn N64 fneg"
abbreviation (input) F64__ceil :: UnaryOp where "F64__ceil \<equiv> FUn N64 fceil"
abbreviation (input) F64__floor :: UnaryOp where "F64__floor \<equiv> FUn N64 ffloor"
abbreviation (input) F64__trunc :: UnaryOp where "F64__trunc \<equiv> FUn N64 ftrunc"
abbreviation (input) F64__nearest :: UnaryOp where "F64__nearest \<equiv> FUn N64 fnearest"
abbreviation (input) F64__sqrt :: UnaryOp where "F64__sqrt \<equiv> FUn N64 fsqrt"
abbreviation (input) F64__add :: BinaryOp where "F64__add \<equiv> FBin N64 fadd"
abbreviation (input) F64__sub :: BinaryOp where "F64__sub \<equiv> FBin N64 fsub"
abbreviation (input) F64__mul :: BinaryOp where "F64__mul \<equiv> FBin N64 fmul"
abbreviation (input) F64__div :: BinaryOp where "F64__div \<equiv> FBin N64 fdiv"
abbreviation (input) F64__min :: BinaryOp where "F64__min \<equiv> FBin N64 fmin"
abbreviation (input) F64__max :: BinaryOp where "F64__max \<equiv> FBin N64 fmax"
abbreviation (input) F64__copysign :: BinaryOp where "F64__copysign \<equiv> FBin N64 fcopysign"
abbreviation (input) I32__wrap_i64 :: UnaryOp where "I32__wrap_i64 \<equiv> IWrap"
abbreviation (input) I32__trunc_f32_s :: UnaryOp where "I32__trunc_f32_s \<equiv> ITrunc N32 N32 Sx"
abbreviation (input) I32__trunc_f32_u :: UnaryOp where "I32__trunc_f32_u \<equiv> ITrunc N32 N32 Ux"
abbreviation (input) I32__trunc_f64_s :: UnaryOp where "I32__trunc_f64_s \<equiv> ITrunc N32 N64 Sx"
abbreviation (input) I32__trunc_f64_u :: UnaryOp where "I32__trunc_f64_u \<equiv> ITrunc N32 N64 Ux"
abbreviation (input) I64__extend_i32_s :: UnaryOp where "I64__extend_i32_s \<equiv> IExtend Sx"
abbreviation (input) I64__extend_i32_u :: UnaryOp where "I64__extend_i32_u \<equiv> IExtend Ux"
abbreviation (input) I64__trunc_f32_s :: UnaryOp where "I64__trunc_f32_s \<equiv> ITrunc N64 N32 Sx"
abbreviation (input) I64__trunc_f32_u :: UnaryOp where "I64__trunc_f32_u \<equiv> ITrunc N64 N32 Ux"
abbreviation (input) I64__trunc_f64_s :: UnaryOp where "I64__trunc_f64_s \<equiv> ITrunc N64 N64 Sx"
abbreviation (input) I64__trunc_f64_u :: UnaryOp where "I64__trunc_f64_u \<equiv> ITrunc N64 N64 Ux"
abbreviation (input) F32__convert_i32_s :: UnaryOp where "F32__convert_i32_s \<equiv> FConvert N32 N32 Sx"
abbreviation (input) F32__convert_i32_u :: UnaryOp where "F32__convert_i32_u \<equiv> FConvert N32 N32 Ux"
abbreviation (input) F32__convert_i64_s :: UnaryOp where "F32__convert_i64_s \<equiv> FConvert N32 N64 Sx"
abbreviation (input) F32__convert_i64_u :: UnaryOp where "F32__convert_i64_u \<equiv> FConvert N32 N64 Ux"
abbreviation (input) F32__demote_f64 :: UnaryOp where "F32__demote_f64 \<equiv> FDemote"
abbreviation (input) F64__convert_i32_s :: UnaryOp where "F64__convert_i32_s \<equiv> FConvert N64 N32 Sx"
abbreviation (input) F64__convert_i32_u :: UnaryOp where "F64__convert_i32_u \<equiv> FConvert N64 N32 Ux"
abbreviation (input) F64__convert_i64_s :: UnaryOp where "F64__convert_i64_s \<equiv> FConvert N64 N64 Sx"
abbreviation (input) F64__convert_i64_u :: UnaryOp where "F64__convert_i64_u \<equiv> FConvert N64 N64 Ux"
abbreviation (input) F64__promote_f32 :: UnaryOp where "F64__promote_f32 \<equiv> FPromote"
abbreviation (input) I32__reinterpret_f32 :: UnaryOp where "I32__reinterpret_f32 \<equiv> IReinterpret N32"
abbreviation (input) I64__reinterpret_f64 :: UnaryOp where "I64__reinterpret_f64 \<equiv> IReinterpret N64"
abbreviation (input) F32__reinterpret_i32 :: UnaryOp where "F32__reinterpret_i32 \<equiv> FReinterpret N32"
abbreviation (input) F64__reinterpret_i64 :: UnaryOp where "F64__reinterpret_i64 \<equiv> FReinterpret N64"

datatype OpCode = OpControl ControlOp | OpBlock BlockOp | OpIf | OpElse | OpEnd | OpBr BrOp
  | OpBr_table | OpCall CallOp | OpParametric ParametricOp | OpVariable VariableOp
  | OpMemory MemoryOp | OpConst ConstOp | OpUnary UnaryOp | OpBinary BinaryOp | OpInvalid u8

text \<open>The values of the enumeration, in the order of the source.\<close>

definition opcode_table :: "(u8 \<times> OpCode) list" where
  "opcode_table = [
    (0x00, OpControl Unreachable), (0x01, OpControl Nop), (0x02, OpBlock Block),
    (0x03, OpBlock Loop), (0x04, OpIf), (0x05, OpElse), (0x0b, OpEnd), (0x0c, OpBr Br),
    (0x0d, OpBr Br_if), (0x0e, OpBr_table), (0x0f, OpControl Return), (0x10, OpCall Call),
    (0x11, OpCall Call_indirect), (0x1a, OpParametric Drop), (0x1b, OpParametric Select),
    (0x20, OpVariable Local__get), (0x21, OpVariable Local__set), (0x22, OpVariable Local__tee),
    (0x23, OpVariable Global__get), (0x24, OpVariable Global__set), (0x28, OpMemory I32__load),
    (0x29, OpMemory I64__load), (0x2a, OpMemory F32__load), (0x2b, OpMemory F64__load),
    (0x2c, OpMemory I32__load8_s), (0x2d, OpMemory I32__load8_u), (0x2e, OpMemory I32__load16_s),
    (0x2f, OpMemory I32__load16_u), (0x30, OpMemory I64__load8_s), (0x31, OpMemory I64__load8_u),
    (0x32, OpMemory I64__load16_s), (0x33, OpMemory I64__load16_u),
    (0x34, OpMemory I64__load32_s), (0x35, OpMemory I64__load32_u), (0x36, OpMemory I32__store),
    (0x37, OpMemory I64__store), (0x38, OpMemory F32__store), (0x39, OpMemory F64__store),
    (0x3a, OpMemory I32__store8), (0x3b, OpMemory I32__store16), (0x3c, OpMemory I64__store8),
    (0x3d, OpMemory I64__store16), (0x3e, OpMemory I64__store32), (0x3f, OpMemory Memory__size),
    (0x40, OpMemory Memory__grow), (0x41, OpConst I32__const), (0x42, OpConst I64__const),
    (0x43, OpConst F32__const), (0x44, OpConst F64__const), (0x45, OpUnary I32__eqz),
    (0x46, OpBinary I32__eq), (0x47, OpBinary I32__ne), (0x48, OpBinary I32__lt_s),
    (0x49, OpBinary I32__lt_u), (0x4a, OpBinary I32__gt_s), (0x4b, OpBinary I32__gt_u),
    (0x4c, OpBinary I32__le_s), (0x4d, OpBinary I32__le_u), (0x4e, OpBinary I32__ge_s),
    (0x4f, OpBinary I32__ge_u), (0x50, OpUnary I64__eqz), (0x51, OpBinary I64__eq),
    (0x52, OpBinary I64__ne), (0x53, OpBinary I64__lt_s), (0x54, OpBinary I64__lt_u),
    (0x55, OpBinary I64__gt_s), (0x56, OpBinary I64__gt_u), (0x57, OpBinary I64__le_s),
    (0x58, OpBinary I64__le_u), (0x59, OpBinary I64__ge_s), (0x5a, OpBinary I64__ge_u),
    (0x5b, OpBinary F32__eq), (0x5c, OpBinary F32__ne), (0x5d, OpBinary F32__lt),
    (0x5e, OpBinary F32__gt), (0x5f, OpBinary F32__le), (0x60, OpBinary F32__ge),
    (0x61, OpBinary F64__eq), (0x62, OpBinary F64__ne), (0x63, OpBinary F64__lt),
    (0x64, OpBinary F64__gt), (0x65, OpBinary F64__le), (0x66, OpBinary F64__ge),
    (0x67, OpUnary I32__clz), (0x68, OpUnary I32__ctz), (0x69, OpUnary I32__popcnt),
    (0x6a, OpBinary I32__add), (0x6b, OpBinary I32__sub), (0x6c, OpBinary I32__mul),
    (0x6d, OpBinary I32__div_s), (0x6e, OpBinary I32__div_u), (0x6f, OpBinary I32__rem_s),
    (0x70, OpBinary I32__rem_u), (0x71, OpBinary I32__and), (0x72, OpBinary I32__or),
    (0x73, OpBinary I32__xor), (0x74, OpBinary I32__shl), (0x75, OpBinary I32__shr_s),
    (0x76, OpBinary I32__shr_u), (0x77, OpBinary I32__rotl), (0x78, OpBinary I32__rotr),
    (0x79, OpUnary I64__clz), (0x7a, OpUnary I64__ctz), (0x7b, OpUnary I64__popcnt),
    (0x7c, OpBinary I64__add), (0x7d, OpBinary I64__sub), (0x7e, OpBinary I64__mul),
    (0x7f, OpBinary I64__div_s), (0x80, OpBinary I64__div_u), (0x81, OpBinary I64__rem_s),
    (0x82, OpBinary I64__rem_u), (0x83, OpBinary I64__and), (0x84, OpBinary I64__or),
    (0x85, OpBinary I64__xor), (0x86, OpBinary I64__shl), (0x87, OpBinary I64__shr_s),
    (0x88, OpBinary I64__shr_u), (0x89, OpBinary I64__rotl), (0x8a, OpBinary I64__rotr),
    (0x8b, OpUnary F32__abs), (0x8c, OpUnary F32__neg), (0x8d, OpUnary F32__ceil),
    (0x8e, OpUnary F32__floor), (0x8f, OpUnary F32__trunc), (0x90, OpUnary F32__nearest),
    (0x91, OpUnary F32__sqrt), (0x92, OpBinary F32__add), (0x93, OpBinary F32__sub),
    (0x94, OpBinary F32__mul), (0x95, OpBinary F32__div), (0x96, OpBinary F32__min),
    (0x97, OpBinary F32__max), (0x98, OpBinary F32__copysign), (0x99, OpUnary F64__abs),
    (0x9a, OpUnary F64__neg), (0x9b, OpUnary F64__ceil), (0x9c, OpUnary F64__floor),
    (0x9d, OpUnary F64__trunc), (0x9e, OpUnary F64__nearest), (0x9f, OpUnary F64__sqrt),
    (0xa0, OpBinary F64__add), (0xa1, OpBinary F64__sub), (0xa2, OpBinary F64__mul),
    (0xa3, OpBinary F64__div), (0xa4, OpBinary F64__min), (0xa5, OpBinary F64__max),
    (0xa6, OpBinary F64__copysign), (0xa7, OpUnary I32__wrap_i64),
    (0xa8, OpUnary I32__trunc_f32_s), (0xa9, OpUnary I32__trunc_f32_u),
    (0xaa, OpUnary I32__trunc_f64_s), (0xab, OpUnary I32__trunc_f64_u),
    (0xac, OpUnary I64__extend_i32_s), (0xad, OpUnary I64__extend_i32_u),
    (0xae, OpUnary I64__trunc_f32_s), (0xaf, OpUnary I64__trunc_f32_u),
    (0xb0, OpUnary I64__trunc_f64_s), (0xb1, OpUnary I64__trunc_f64_u),
    (0xb2, OpUnary F32__convert_i32_s), (0xb3, OpUnary F32__convert_i32_u),
    (0xb4, OpUnary F32__convert_i64_s), (0xb5, OpUnary F32__convert_i64_u),
    (0xb6, OpUnary F32__demote_f64), (0xb7, OpUnary F64__convert_i32_s),
    (0xb8, OpUnary F64__convert_i32_u), (0xb9, OpUnary F64__convert_i64_s),
    (0xba, OpUnary F64__convert_i64_u), (0xbb, OpUnary F64__promote_f32),
    (0xbc, OpUnary I32__reinterpret_f32), (0xbd, OpUnary I64__reinterpret_f64),
    (0xbe, OpUnary F32__reinterpret_i32), (0xbf, OpUnary F64__reinterpret_i64)]"

text \<open>\<open>static_cast<OpCode>(Byte)\<close> and back.\<close>

definition OpCode_of :: "u8 \<Rightarrow> OpCode" where
  "OpCode_of b = (case map_of opcode_table b of Some c \<Rightarrow> c | None \<Rightarrow> OpInvalid b)"

definition byte_of :: "OpCode \<Rightarrow> u8" where
  "byte_of c = (case c of OpInvalid b \<Rightarrow> b
     | _ \<Rightarrow> (case map_of (map (\<lambda>(b, c). (c, b)) opcode_table) c of Some b \<Rightarrow> b | None \<Rightarrow> 0))"

section \<open>Instruction nodes\<close>

datatype Instr =
    ControlInstr ControlOp
  | BlockInstr BlockOp ValType "Instr list"
  | IfElseInstr ValType "Instr list" "Instr list"
  | BrInstr BrOp u32
  | BrTableInstr "u32 list" u32
  | CallInstr CallOp u32
  | ParametricInstr ParametricOp
  | VariableInstr VariableOp u32
  | MemoryInstr MemoryOp u32 u32
  | ConstInstr ConstOp ValVariant
  | UnaryInstr UnaryOp
  | BinaryInstr BinaryOp

fun getOpCode :: "Instr \<Rightarrow> OpCode" where
  "getOpCode (ControlInstr c) = OpControl c"
| "getOpCode (BlockInstr c _ _) = OpBlock c"
| "getOpCode (IfElseInstr _ _ _) = OpIf"
| "getOpCode (BrInstr c _) = OpBr c"
| "getOpCode (BrTableInstr _ _) = OpBr_table"
| "getOpCode (CallInstr c _) = OpCall c"
| "getOpCode (ParametricInstr c) = OpParametric c"
| "getOpCode (VariableInstr c _) = OpVariable c"
| "getOpCode (MemoryInstr c _ _) = OpMemory c"
| "getOpCode (ConstInstr c _) = OpConst c"
| "getOpCode (UnaryInstr c) = OpUnary c"
| "getOpCode (BinaryInstr c) = OpBinary c"

text \<open>
  \<open>makeInstructionNode(Code)\<close>: the node of the class that \<open>dispatchInstruction\<close> selects, with the
  initial values of its members (\<open>BlockType\<close> and \<open>Num\<close> have none; every load sets them).
\<close>

fun makeInstructionNode :: "OpCode \<Rightarrow> Instr Expect" where
  "makeInstructionNode (OpControl c) = Ok (ControlInstr c)"
| "makeInstructionNode (OpBlock c) = Ok (BlockInstr c VNone [])"
| "makeInstructionNode OpIf = Ok (IfElseInstr VNone [] [])"
| "makeInstructionNode (OpBr c) = Ok (BrInstr c 0)"
| "makeInstructionNode OpBr_table = Ok (BrTableInstr [] 0)"
| "makeInstructionNode (OpCall c) = Ok (CallInstr c 0)"
| "makeInstructionNode (OpParametric c) = Ok (ParametricInstr c)"
| "makeInstructionNode (OpVariable c) = Ok (VariableInstr c 0)"
| "makeInstructionNode (OpMemory c) = Ok (MemoryInstr c 0 0)"
| "makeInstructionNode (OpConst c) = Ok (ConstInstr c (V32 0))"
| "makeInstructionNode (OpUnary c) = Ok (UnaryInstr c)"
| "makeInstructionNode (OpBinary c) = Ok (BinaryInstr c)"
| "makeInstructionNode OpElse = Err InvalidGrammar"
| "makeInstructionNode OpEnd = Err InvalidGrammar"
| "makeInstructionNode (OpInvalid b) = Err InvalidGrammar"

text \<open>
  \<open>makeInstructionNode(Instr)\<close> duplicates a node by the copy constructor of its class. The copy
  constructors of the block nodes copy their bodies through it and skip an instruction that could
  not be copied.
\<close>

fun copy_instr :: "Instr \<Rightarrow> Instr Expect" and copy_instrs :: "Instr list \<Rightarrow> Instr list" where
  "copy_instr (BlockInstr c t body) =
     obind (makeInstructionNode (OpBlock c)) (\<lambda>_. Ok (BlockInstr c t (copy_instrs body)))"
| "copy_instr (IfElseInstr t is es) =
     obind (makeInstructionNode OpIf) (\<lambda>_. Ok (IfElseInstr t (copy_instrs is) (copy_instrs es)))"
| "copy_instr i = obind (makeInstructionNode (getOpCode i)) (\<lambda>_. Ok i)"
| "copy_instrs [] = []"
| "copy_instrs (i # is) =
     (case copy_instr i of Ok j \<Rightarrow> j # copy_instrs is | _ \<Rightarrow> copy_instrs is)"

text \<open>The bytes that are enumerators, as ranges.\<close>

definition enumerator_bytes :: "nat set" where
  "enumerator_bytes = {0..<6} \<union> {11..<18} \<union> {26..<28} \<union> {32..<37} \<union> {40..<192}"

section \<open>The opcode table\<close>

lemma opcode_table_bytes:
  "map (unat \<circ> fst) opcode_table = [0..<6] @ [11..<18] @ [26..<28] @ [32..<37] @ [40..<192]"
  by (simp add: opcode_table_def upt_conv_Cons)

lemma distinct_opcode_fst: "distinct (map fst opcode_table)"
proof -
  have "distinct (map unat (map fst opcode_table))"
    using opcode_table_bytes by simp
  then show ?thesis by (simp only: distinct_map)
qed

lemma distinct_opcode_snd: "distinct (map snd opcode_table)"
  by (simp add: opcode_table_def)

lemma OpInvalid_not_in_table: "OpInvalid b \<notin> snd ` set opcode_table"
  by (simp add: opcode_table_def)

lemma byte_of_OpCode_of: "byte_of (OpCode_of b) = b"
proof (cases "map_of opcode_table b")
  case None
  then show ?thesis by (simp add: OpCode_of_def byte_of_def)
next
  case (Some c)
  then have "map_of (map (\<lambda>(b, c). (c, b)) opcode_table) c = Some b"
    using map_of_swap [OF distinct_opcode_fst distinct_opcode_snd] by simp
  moreover have "\<forall>b'. c \<noteq> OpInvalid b'"
    using Some map_of_SomeD OpInvalid_not_in_table by force
  ultimately show ?thesis using Some
    by (cases c) (simp_all add: OpCode_of_def byte_of_def)
qed

lemma opcode_total: "(\<And>b. c \<noteq> OpInvalid b) \<Longrightarrow> c \<in> set (map snd opcode_table)"
proof (cases c)
  case (OpControl x) then show ?thesis by (cases x) (simp_all add: opcode_table_def)
next
  case (OpBlock x) then show ?thesis by (cases x) (simp_all add: opcode_table_def)
next
  case (OpBr x) then show ?thesis by (cases x) (simp_all add: opcode_table_def)
next
  case (OpCall x) then show ?thesis by (cases x) (simp_all add: opcode_table_def)
next
  case (OpParametric x) then show ?thesis by (cases x) (simp_all add: opcode_table_def)
next
  case (OpVariable x) then show ?thesis by (cases x) (simp_all add: opcode_table_def)
next
  case (OpConst x) then show ?thesis by (cases x) (simp_all add: opcode_table_def)
next
  case (OpMemory x) 
  have "(OpMemory x \<in> set (map snd opcode_table)) = True"
    by (cases x) (simp_all add: opcode_table_def)
  with OpMemory show ?thesis by simp
next
  case (OpUnary x)
  have "OpUnary x \<in> set (map snd opcode_table)"
  proof (cases x)
    case (IEqz w) then show ?thesis by (cases w) (simp_all add: opcode_table_def)
  next
    case (IUn w f) then show ?thesis by (cases w; cases f) (simp_all add: opcode_table_def)
  next
    case (FUn w f) then show ?thesis by (cases w; cases f) (simp_all add: opcode_table_def)
  next
    case (ITrunc w f s) then show ?thesis by (cases w; cases f; cases s) (simp_all add: opcode_table_def)
  next
    case (FConvert w f s) then show ?thesis by (cases w; cases f; cases s) (simp_all add: opcode_table_def)
  next
    case (IExtend s) then show ?thesis by (cases s) (simp_all add: opcode_table_def)
  next
    case (IReinterpret w) then show ?thesis by (cases w) (simp_all add: opcode_table_def)
  next
    case (FReinterpret w) then show ?thesis by (cases w) (simp_all add: opcode_table_def)
  qed (simp_all add: opcode_table_def)
  with OpUnary show ?thesis by simp
next
  case (OpBinary x)
  have "OpBinary x \<in> set (map snd opcode_table)"
  proof (cases x)
    case (IRel w f) then show ?thesis by (cases w; cases f) (simp_all add: opcode_table_def)
  next
    case (FRel w f) then show ?thesis by (cases w; cases f) (simp_all add: opcode_table_def)
  next
    case (IBin w f) then show ?thesis by (cases w; cases f) (simp_all add: opcode_table_def)
  next
    case (FBin w f) then show ?thesis by (cases w; cases f) (simp_all add: opcode_table_def)
  qed
  with OpBinary show ?thesis by simp
qed (auto simp: opcode_table_def)

lemma OpCode_of_byte_of:
  assumes "\<And>b. c \<noteq> OpInvalid b"
  shows "OpCode_of (byte_of c) = c"
proof -
  from opcode_total [OF assms] obtain b where "(b, c) \<in> set opcode_table" by auto
  then have b: "map_of opcode_table b = Some c"
    using distinct_opcode_fst by (simp add: map_of_eq_Some_iff)
  then have "map_of (map (\<lambda>(b, c). (c, b)) opcode_table) c = Some b"
    using map_of_swap [OF distinct_opcode_fst distinct_opcode_snd] by simp
  with b assms show ?thesis by (cases c) (auto simp: OpCode_of_def byte_of_def)
qed

lemma OpCode_of_invalid_iff: "OpCode_of b = OpInvalid b \<longleftrightarrow> unat b \<notin> enumerator_bytes"
proof -
  have "map_of opcode_table b = None \<longleftrightarrow> unat b \<notin> set (map (unat \<circ> fst) opcode_table)"
    by (force simp: map_of_eq_None_iff image_iff dest: unsigned_word_eqI)
  also have "\<dots> \<longleftrightarrow> unat b \<notin> enumerator_bytes"
    by (simp only: opcode_table_bytes set_append set_upt Un_assoc enumerator_bytes_def)
  finally have "map_of opcode_table b = None \<longleftrightarrow> unat b \<notin> enumerator_bytes" .
  moreover have "map_of opcode_table b = Some c \<Longrightarrow> c \<noteq> OpInvalid b" for c
    using map_of_SomeD OpInvalid_not_in_table by force
  ultimately show ?thesis
    by (auto simp: OpCode_of_def split: option.splits)
qed

text \<open>A node made for an opcode carries it.\<close>

lemma getOpCode_makeInstructionNode:
  "makeInstructionNode c = Ok i \<Longrightarrow> getOpCode i = c"
  by (cases c rule: makeInstructionNode.cases) auto

lemma makeInstructionNode_cases:
  "makeInstructionNode c = Err InvalidGrammar \<longleftrightarrow> c \<in> {OpElse, OpEnd} \<or> (\<exists>b. c = OpInvalid b)"
  by (cases c rule: makeInstructionNode.cases) auto

lemma copy_instr_id: "copy_instr i = Ok i" and copy_instrs_id: "copy_instrs is = is"
  by (induction i and "is" rule: copy_instr_copy_instrs.induct) (simp_all add: obind_def)

end
