(* ===== verification/FileMgr.thy ===== *)
theory FileMgr
  imports Common
begin

text \<open>
  The byte source of the loader: \<open>FileMgrVector\<close> of \<open>include/loader/filemgr.h\<close> and
  \<open>lib/loader/filemgr.cpp\<close>, with its LEB128 readers.

  \<open>Pos\<close> is a \<open>uint32_t\<close> and is kept at that width, because the bounds checks of \<open>readF32\<close>,
  \<open>readF64\<close> and \<open>readName\<close> add to it in 32-bit arithmetic. A shift by at least the width of its
  operand is undefined; a left shift of a signed operand that loses bits is not (the compilers the
  build names define it as truncation).
\<close>

section \<open>The file manager\<close>

record FileMgr =
  Code :: Bytes
  Pos :: u32
  Status :: ErrCode

type_synonym 'a reader = "(FileMgr, 'a) exec"

definition newFileMgrVector :: FileMgr where
  "newFileMgrVector = \<lparr>Code = [], Pos = 0, Status = InvalidPath\<rparr>"

definition setCode :: "Bytes \<Rightarrow> unit reader" where
  "setCode code m =
     (let m' = m\<lparr>Code := code, Pos := 0\<rparr> in
      if length code = 0 then (Err EndOfFile, m'\<lparr>Status := EndOfFile\<rparr>)
      else (Ok (), m'\<lparr>Status := Success\<rparr>))"

definition clearBuffer :: "FileMgr \<Rightarrow> FileMgr" where
  "clearBuffer m = m\<lparr>Code := [], Pos := 0, Status := EndOfFile\<rparr>"

definition getRemainSize :: "FileMgr \<Rightarrow> u32" where
  "getRemainSize m = of_nat (length (Code m)) - Pos m"

definition readByte :: "u8 reader" where
  "readByte m =
     (if length (Code m) \<le> unat (Pos m) then (Err EndOfFile, m\<lparr>Status := EndOfFile\<rparr>)
      else (Ok (Code m ! unat (Pos m)), m\<lparr>Pos := Pos m + 1\<rparr>))"

definition readBytes :: "nat \<Rightarrow> Bytes reader" where
  "readBytes n m =
     (if n > 0 then
        if unat (Pos m) + n > length (Code m)
        then (Err EndOfFile, m\<lparr>Pos := of_nat (length (Code m)), Status := EndOfFile\<rparr>)
        else (Ok (take n (drop (unat (Pos m)) (Code m))), m\<lparr>Pos := Pos m + of_nat n\<rparr>)
      else (Ok [], m))"

text \<open>
  The loop shared by \<open>readU32\<close>, \<open>readU64\<close>, \<open>readS32\<close> and \<open>readS64\<close>: seven bits of each byte are
  or-ed into \<open>Result\<close> at \<open>Offset\<close> until a byte without the continuation bit. The result is the
  value, the final \<open>Offset\<close> and the last byte.
\<close>

function leb_loop :: "'a::len word \<Rightarrow> nat \<Rightarrow> ('a word \<times> nat \<times> u8) reader" where
  "leb_loop result offset m =
     (if length (Code m) \<le> unat (Pos m) then (Err EndOfFile, m\<lparr>Status := EndOfFile\<rparr>)
      else
        let byte = Code m ! unat (Pos m);
            m' = m\<lparr>Pos := Pos m + 1\<rparr>
        in if LENGTH('a) \<le> offset then (Undef, m')
           else
             let result' = result OR push_bit offset (ucast (byte AND 0x7F))
             in if byte AND 0x80 \<noteq> 0 then leb_loop result' (offset + 7) m'
                else (Ok (result', offset + 7, byte), m'))"
  by pat_completeness auto
termination
  by (relation "measure (\<lambda>(r :: 'a word, off, m). LENGTH('a) - off)") auto

declare leb_loop.simps [simp del]

definition readU32 :: "u32 reader" where
  "readU32 = bindM (leb_loop 0 0) (\<lambda>(r, _, _). retM r)"

definition readU64 :: "u64 reader" where
  "readU64 = bindM (leb_loop 0 0) (\<lambda>(r, _, _). retM r)"

text \<open>The sign extension after the loop of \<open>readS32\<close> and \<open>readS64\<close>.\<close>

definition leb_sign :: "'a::len word \<Rightarrow> nat \<Rightarrow> u8 \<Rightarrow> 'a word" where
  "leb_sign r offset byte =
     (if byte AND 0x40 \<noteq> 0 \<and> offset < LENGTH('a) then r OR push_bit offset (- 1) else r)"

definition readS32 :: "u32 reader" where
  "readS32 = bindM (leb_loop 0 0) (\<lambda>(r, off, b). retM (leb_sign r off b))"

definition readS64 :: "u64 reader" where
  "readS64 = bindM (leb_loop 0 0) (\<lambda>(r, off, b). retM (leb_sign r off b))"

text \<open>Little-endian bytes to a word, as the loops of \<open>readF32\<close> and \<open>readF64\<close> build it.\<close>

fun le_word :: "Bytes \<Rightarrow> 'a::len word" where
  "le_word [] = 0"
| "le_word (b # bs) = ucast b OR push_bit 8 (le_word bs)"

definition readF32 :: "u32 reader" where
  "readF32 m =
     (if unat (Pos m + 4) > length (Code m)
      then (Err EndOfFile, m\<lparr>Pos := of_nat (length (Code m)), Status := EndOfFile\<rparr>)
      else if unat (Pos m) + 4 > length (Code m) then (Undef, m)
      else (Ok (le_word (take 4 (drop (unat (Pos m)) (Code m)))), m\<lparr>Pos := Pos m + 4\<rparr>))"

definition readF64 :: "u64 reader" where
  "readF64 m =
     (if unat (Pos m + 8) > length (Code m)
      then (Err EndOfFile, m\<lparr>Pos := of_nat (length (Code m)), Status := EndOfFile\<rparr>)
      else if unat (Pos m) + 8 > length (Code m) then (Undef, m)
      else (Ok (le_word (take 8 (drop (unat (Pos m)) (Code m)))), m\<lparr>Pos := Pos m + 8\<rparr>))"

text \<open>
  \<open>readName\<close>: the sum \<open>Pos + *Size\<close> of the bounds check is a 32-bit sum; a copy past the end
  of the buffer is undefined.
\<close>

definition readName :: "Bytes reader" where
  "readName = bindM readU32 (\<lambda>size m.
     if size > 0 then
       if unat (Pos m + size) > length (Code m)
       then (Err EndOfFile, m\<lparr>Pos := of_nat (length (Code m)), Status := EndOfFile\<rparr>)
       else if unat (Pos m) + unat size > length (Code m) then (Undef, m)
       else (Ok (take (unat size) (drop (unat (Pos m)) (Code m))), m\<lparr>Pos := Pos m + size\<rparr>)
     else (Ok [], m))"

section \<open>Reading position and invariant\<close>

text \<open>
  The unread input, and the invariant under which the position counts it: the buffer is shorter
  than 4 GiB and the position is inside it.
\<close>

definition unread :: "FileMgr \<Rightarrow> Bytes" where
  "unread m = drop (unat (Pos m)) (Code m)"

definition fm_inv :: "FileMgr \<Rightarrow> bool" where
  "fm_inv m \<longleftrightarrow> length (Code m) < 2 ^ 32 \<and> unat (Pos m) \<le> length (Code m)"

text \<open>LEB128 encodings of the WebAssembly binary format, the specification of the readers.\<close>

fun leb_u :: "nat \<Rightarrow> Bytes" where
  "leb_u n = (if n < 128 then [of_nat n] else of_nat (n mod 128 + 128) # leb_u (n div 128))"

function leb_s :: "int \<Rightarrow> Bytes" where
  "leb_s i = (if - 64 \<le> i \<and> i < 64 then [of_int (i mod 128)]
     else of_int (i mod 128 + 128) # leb_s (i div 128))"
  by pat_completeness auto
termination
  by (relation "measure (\<lambda>i. nat \<bar>i\<bar>)") auto

declare leb_u.simps [simp del] leb_s.simps [simp del]

section \<open>One byte at a time\<close>

lemma unread_step:
  assumes "fm_inv m" and "unread m = b # bs"
  shows "unat (Pos m) < length (Code m)" and "Code m ! unat (Pos m) = b"
    and "fm_inv (m\<lparr>Pos := Pos m + 1\<rparr>)" and "unread (m\<lparr>Pos := Pos m + 1\<rparr>) = bs"
proof -
  have lt: "unat (Pos m) < length (Code m)"
    using assms(2) by (cases "unat (Pos m) < length (Code m)") (simp_all add: unread_def)
  then have S: "unat (Pos m + 1) = Suc (unat (Pos m))"
    using assms(1) by (intro unat_Suc_no_wrap) (simp add: fm_inv_def)
  have "drop (unat (Pos m)) (Code m) = Code m ! unat (Pos m) # drop (Suc (unat (Pos m))) (Code m)"
    using lt by (simp add: Cons_nth_drop_Suc)
  with assms(2) S show "Code m ! unat (Pos m) = b" "unread (m\<lparr>Pos := Pos m + 1\<rparr>) = bs"
    by (simp_all add: unread_def)
  show "fm_inv (m\<lparr>Pos := Pos m + 1\<rparr>)" using assms(1) lt S by (simp add: fm_inv_def)
  show "unat (Pos m) < length (Code m)" by (rule lt)
qed

lemma unread_Nil: "fm_inv m \<Longrightarrow> unread m = [] \<longleftrightarrow> length (Code m) \<le> unat (Pos m)"
  by (auto simp: unread_def)

lemma readByte_Cons:
  "fm_inv m \<Longrightarrow> unread m = b # bs \<Longrightarrow>
     \<exists>m'. readByte m = (Ok b, m') \<and> fm_inv m' \<and> unread m' = bs"
  using unread_step [of m b bs] by (auto simp: readByte_def)

lemma readByte_Nil:
  "fm_inv m \<Longrightarrow> unread m = [] \<Longrightarrow> readByte m = (Err EndOfFile, m\<lparr>Status := EndOfFile\<rparr>)"
  by (simp add: readByte_def unread_Nil)

section \<open>LEB128\<close>

lemma of_nat_split7:
  "(of_nat k :: 'a::len word) = of_nat (k mod 128) OR push_bit 7 (of_nat (k div 128))"
proof -
  have "k = take_bit 7 k OR push_bit 7 (drop_bit 7 k)"
  proof (rule bit_eqI)
    show "bit k n = bit (take_bit 7 k OR push_bit 7 (drop_bit 7 k)) n" for n
      by (cases "n < 7") (auto simp: bit_simps)
  qed
  then have "(of_nat k :: 'a word) = of_nat (take_bit 7 k OR push_bit 7 (drop_bit 7 k))"
    by (rule arg_cong)
  also have "\<dots> = of_nat (take_bit 7 k) OR push_bit 7 (of_nat (drop_bit 7 k))"
    by (simp add: of_nat_or_eq push_bit_of_nat)
  finally show ?thesis by (simp add: take_bit_eq_mod drop_bit_eq_div)
qed

lemma and_0x80_iff: "(b :: u8) AND 0x80 = 0 \<longleftrightarrow> \<not> bit b 7"
  using and_exp_eq_0_iff_not_bit [of b 7] by simp

lemma and_0x40_iff: "(b :: u8) AND 0x40 = 0 \<longleftrightarrow> \<not> bit b 6"
  using and_exp_eq_0_iff_not_bit [of b 6] by simp

lemma and_0x7F: "(b :: u8) AND 0x7F = take_bit 7 b"
  by (simp add: take_bit_eq_mask mask_eq_exp_minus_1)

lemma ucast_low7: "ucast ((of_nat n :: u8) AND 0x7F) = (of_nat (n mod 128) :: 'a::len word)"
proof -
  have "unat (take_bit 7 (of_nat n :: u8)) = n mod 128"
    by (simp only: unsigned_take_bit_eq unsigned_of_nat take_bit_take_bit)
      (simp add: take_bit_eq_mod mod_mod_cancel)
  then show ?thesis by (metis and_0x7F of_nat_unat)
qed

lemma bit7_of_nat: "bit (of_nat n :: u8) 7 \<longleftrightarrow> odd (n div 128)"
  by (simp add: bit_simps) (simp add: bit_iff_odd)

lemma leb_loop_more:
  fixes r :: "'a::len word"
  assumes "fm_inv m" and "unread m = b # bs" and "off < LENGTH('a)" and "bit b 7"
  shows "\<exists>m'. fm_inv m' \<and> unread m' = bs \<and>
     leb_loop r off m = leb_loop (r OR push_bit off (ucast (b AND 0x7F))) (off + 7) m'"
  using unread_step [OF assms(1,2)] assms(3,4)
  by (intro exI [of _ "m\<lparr>Pos := Pos m + 1\<rparr>"])
    (simp add: leb_loop.simps [of r off m] Let_def and_0x80_iff)

lemma leb_loop_last:
  fixes r :: "'a::len word"
  assumes "fm_inv m" and "unread m = b # bs" and "off < LENGTH('a)" and "\<not> bit b 7"
  shows "\<exists>m'. fm_inv m' \<and> unread m' = bs \<and>
     leb_loop r off m = (Ok (r OR push_bit off (ucast (b AND 0x7F)), off + 7, b), m')"
  using unread_step [OF assms(1,2)] assms(3,4)
  by (intro exI [of _ "m\<lparr>Pos := Pos m + 1\<rparr>"])
    (simp add: leb_loop.simps [of r off m] Let_def and_0x80_iff)

lemma leb_loop_leb_u:
  fixes r :: "'a::len word"
  assumes "fm_inv m" and "unread m = leb_u k @ rest" and "off < LENGTH('a)"
    and "k < 2 ^ (LENGTH('a) - off)"
  shows "\<exists>m' off' b. leb_loop r off m = (Ok (r OR push_bit off (of_nat k), off', b), m') \<and>
           fm_inv m' \<and> unread m' = rest"
  using assms
proof (induction k arbitrary: r off m rule: less_induct)
  case (less k)
  show ?case
  proof (cases "k < 128")
    case True
    then have u: "unread m = of_nat k # rest" and "\<not> bit (of_nat k :: u8) 7"
      using less.prems(2) by (simp_all add: leb_u.simps [of k] bit7_of_nat)
    then show ?thesis
      using leb_loop_last [OF less.prems(1) u less.prems(3), of r] True by (auto simp: ucast_low7)
  next
    case False
    let ?b = "of_nat (k mod 128 + 128) :: u8"
    let ?r = "r OR push_bit off (of_nat (k mod 128))"
    have u: "unread m = ?b # leb_u (k div 128) @ rest"
      using less.prems(2) False by (simp add: leb_u.simps [of k])
    have "(k mod 128 + 128) div 128 = 1" by simp
    then have b7: "bit ?b 7" by (simp only: bit7_of_nat) simp
    have lo: "ucast (?b AND 0x7F) = (of_nat (k mod 128) :: 'a word)" by (simp only: ucast_low7) simp
    have "(2::nat) ^ 7 < 2 ^ (LENGTH('a) - off)"
      using False less.prems(4) by simp
    then have off7: "off + 7 < LENGTH('a)"
      by (simp only: power_strict_increasing_iff one_less_numeral_iff semiring_norm
          less_diff_conv add.commute)
    have "(2::nat) ^ (LENGTH('a) - off) = 128 * 2 ^ (LENGTH('a) - (off + 7))"
      using off7 power_add [of "2::nat" 7 "LENGTH('a) - (off + 7)"] by simp
    then have kd: "k div 128 < 2 ^ (LENGTH('a) - (off + 7))"
      using less.prems(4) by (simp add: less_mult_imp_div_less mult.commute)
    have e: "?r OR push_bit (off + 7) (of_nat (k div 128)) = r OR push_bit off (of_nat k)"
      unfolding of_nat_split7 [of k] by (simp add: push_bit_or or.assoc push_bit_push_bit)
    from leb_loop_more [OF less.prems(1) u less.prems(3) b7, of r]
    obtain m' where m': "fm_inv m'" "unread m' = leb_u (k div 128) @ rest"
      "leb_loop r off m = leb_loop ?r (off + 7) m'"
      unfolding lo by blast
    from less.IH [OF _ m'(1,2) off7 kd, of ?r] False show ?thesis
      unfolding e m'(3) by simp
  qed
qed

lemma of_int_split7:
  "(of_int i :: 'a::len word) = of_int (i mod 128) OR push_bit 7 (of_int (i div 128))"
proof -
  have "i = take_bit 7 i OR push_bit 7 (drop_bit 7 i)"
  proof (rule bit_eqI)
    show "bit i n = bit (take_bit 7 i OR push_bit 7 (drop_bit 7 i)) n" for n
      by (cases "n < 7") (auto simp: bit_simps)
  qed
  then have "(of_int i :: 'a word) = of_int (take_bit 7 i OR push_bit 7 (drop_bit 7 i))"
    by (rule arg_cong)
  also have "\<dots> = of_int (take_bit 7 i) OR push_bit 7 (of_int (drop_bit 7 i))"
    by (simp add: of_int_or_eq push_bit_of_int)
  finally show ?thesis by (simp add: take_bit_eq_mod drop_bit_eq_div)
qed

lemma ucast_low7_int: "ucast ((of_int i :: u8) AND 0x7F) = (of_int (i mod 128) :: 'a::len word)"
proof -
  have "uint (take_bit 7 (of_int i :: u8)) = i mod 128"
    by (simp only: unsigned_take_bit_eq unsigned_of_int take_bit_take_bit)
      (simp add: take_bit_eq_mod mod_mod_cancel)
  then show ?thesis by (metis and_0x7F of_int_uint)
qed

lemma bit7_of_int: "bit (of_int i :: u8) 7 \<longleftrightarrow> odd (i div 128)"
  by (simp add: bit_simps) (simp add: bit_iff_odd)

lemma bit6_of_int: "bit (of_int i :: u8) 6 \<longleftrightarrow> odd (i div 64)"
  by (simp add: bit_simps) (simp add: bit_iff_odd)

lemma small7: 
  fixes i :: int
  assumes "- 64 \<le> i" "i < 64"
  shows "odd (i mod 128 div 64) \<longleftrightarrow> i < 0" "i div 128 = (if i < 0 then - 1 else 0)"
proof -
  show hi: "i div 128 = (if i < 0 then - 1 else 0)"
  proof (cases "i < 0")
    case True
    then have "(i + 128) div 128 = 0" using assms by (intro div_pos_pos_trivial) auto
    then show ?thesis using True by simp
  next
    case False
    then show ?thesis using assms by simp
  qed
  then have "i mod 128 = (if i < 0 then i + 128 else i)"
    using div_mult_mod_eq [of i 128] by auto
  moreover have "i < 0 \<Longrightarrow> (i + 128) div 64 = 1" "0 \<le> i \<Longrightarrow> i div 64 = 0"
    using assms by auto
  ultimately show "odd (i mod 128 div 64) \<longleftrightarrow> i < 0" by auto
qed
lemma leb_loop_leb_s:
  fixes r :: "'a::len word"
  assumes "fm_inv m" and "unread m = leb_s i @ rest" and "off < LENGTH('a)"
    and "- (2 ^ (LENGTH('a) - off - 1)) \<le> i" and "i < 2 ^ (LENGTH('a) - off - 1)"
  shows "\<exists>m' r' off' b. leb_loop r off m = (Ok (r', off', b), m') \<and>
           leb_sign r' off' b = r OR push_bit off (of_int i) \<and> fm_inv m' \<and> unread m' = rest"
  using assms
proof (induction i arbitrary: r off m rule: leb_s.induct)
  case (1 i)
  show ?case
  proof (cases "- 64 \<le> i \<and> i < 64")
    case True
    let ?b = "of_int (i mod 128) :: u8"
    have u: "unread m = ?b # rest"
      using "1.prems"(2) True by (simp add: leb_s.simps [of i])
    have b7: "\<not> bit ?b 7" by (simp add: bit7_of_int)
    have b6: "bit ?b 6 \<longleftrightarrow> i < 0" and hi: "i div 128 = (if i < 0 then - 1 else 0)"
      using True small7 [of i] by (simp_all only: bit6_of_int)
    have lo: "ucast (?b AND 0x7F) = (of_int (i mod 128) :: 'a word)" by (simp add: ucast_low7_int)
    have "leb_sign (r OR push_bit off (of_int (i mod 128))) (off + 7) ?b
            = r OR push_bit off (of_int i)"
    proof (cases "i < 0 \<and> off + 7 < LENGTH('a)")
      case True
      then show ?thesis
        unfolding of_int_split7 [of i] hi leb_sign_def and_0x40_iff b6
        by (simp only: push_bit_or or.assoc push_bit_push_bit) simp
    next
      case False
      then have "push_bit (off + 7) (of_int (i div 128) :: 'a word) = 0"
        unfolding hi by (auto intro!: bit_word_eqI simp: bit_simps)
      with False show ?thesis
        unfolding of_int_split7 [of i] leb_sign_def and_0x40_iff b6
        by (auto simp: push_bit_or push_bit_push_bit)
    qed
    then show ?thesis
      using leb_loop_last [OF "1.prems"(1) u "1.prems"(3) b7, of r] unfolding lo by blast
  next
    case False
    let ?b = "of_int (i mod 128 + 128) :: u8"
    let ?r = "r OR push_bit off (of_int (i mod 128))"
    have u: "unread m = ?b # leb_s (i div 128) @ rest"
      using "1.prems"(2) False by (simp add: leb_s.simps [of i])
    have "(i mod 128 + 128) div 128 = 1" by simp
    then have b7: "bit ?b 7" by (simp only: bit7_of_int) simp
    have lo: "ucast (?b AND 0x7F) = (of_int (i mod 128) :: 'a word)"
      by (simp only: ucast_low7_int) simp
    have "(2::int) ^ 6 < 2 ^ (LENGTH('a) - off - 1)"
      using False "1.prems"(4,5) by auto
    then have off7: "off + 7 < LENGTH('a)"
      by (simp only: power_strict_increasing_iff one_less_numeral_iff semiring_norm)
    have "(2::int) ^ (LENGTH('a) - off - 1) = 128 * 2 ^ (LENGTH('a) - (off + 7) - 1)"
      using off7 power_add [of "2::int" 7 "LENGTH('a) - (off + 7) - 1"] by simp
    then have bounds: "- (2 ^ (LENGTH('a) - (off + 7) - 1)) \<le> i div 128"
      "i div 128 < 2 ^ (LENGTH('a) - (off + 7) - 1)"
      using "1.prems"(4,5) by auto
    have e: "?r OR push_bit (off + 7) (of_int (i div 128)) = r OR push_bit off (of_int i)"
      unfolding of_int_split7 [of i] by (simp add: push_bit_or or.assoc push_bit_push_bit)
    from leb_loop_more [OF "1.prems"(1) u "1.prems"(3) b7, of r]
    obtain m' where m': "fm_inv m'" "unread m' = leb_s (i div 128) @ rest"
      "leb_loop r off m = leb_loop ?r (off + 7) m'"
      unfolding lo by blast
    from "1.IH" [OF False m'(1,2) off7 bounds, of ?r] show ?thesis
      unfolding e m'(3) .
  qed
qed

lemmas leb_reader_defs = readU32_def readU64_def readS32_def readS64_def bindM_def retM_def

section \<open>Reader contracts\<close>

text \<open>
  \<open>accepts rd bs x\<close>: whatever follows \<open>bs\<close> in the input, \<open>rd\<close> consumes exactly \<open>bs\<close> and
  returns \<open>x\<close>.
\<close>

definition accepts :: "'a reader \<Rightarrow> Bytes \<Rightarrow> 'a \<Rightarrow> bool" where
  "accepts rd bs x \<longleftrightarrow> (\<forall>m rest. fm_inv m \<longrightarrow> unread m = bs @ rest \<longrightarrow>
     (\<exists>m'. rd m = (Ok x, m') \<and> fm_inv m' \<and> unread m' = rest))"

lemma acceptsI:
  "(\<And>m rest. fm_inv m \<Longrightarrow> unread m = bs @ rest \<Longrightarrow>
      \<exists>m'. rd m = (Ok x, m') \<and> fm_inv m' \<and> unread m' = rest) \<Longrightarrow> accepts rd bs x"
  by (simp add: accepts_def)

lemma acceptsE:
  assumes "accepts rd bs x" and "fm_inv m" and "unread m = bs @ rest"
  obtains m' where "rd m = (Ok x, m')" "fm_inv m'" "unread m' = rest"
  using assms unfolding accepts_def by blast

lemma accepts_retM [simp, intro]: "accepts (retM x) [] x"
  by (auto simp: accepts_def retM_def)

lemma accepts_bindM:
  assumes "accepts rd bs x" and "accepts (f x) cs y"
  shows "accepts (bindM rd f) (bs @ cs) y"
proof (rule acceptsI)
  fix m rest assume m: "fm_inv m" "unread m = (bs @ cs) @ rest"
  then obtain m1 where m1: "rd m = (Ok x, m1)" "fm_inv m1" "unread m1 = cs @ rest"
    using acceptsE [OF assms(1)] by (metis append.assoc)
  then obtain m2 where "f x m1 = (Ok y, m2)" "fm_inv m2" "unread m2 = rest"
    using acceptsE [OF assms(2)] by metis
  with m1 show "\<exists>m'. bindM rd f m = (Ok y, m') \<and> fm_inv m' \<and> unread m' = rest"
    by (simp add: bindM_def)
qed

lemma accepts_bindM_Nil:
  "accepts rd bs x \<Longrightarrow> accepts (f x) [] y \<Longrightarrow> accepts (bindM rd f) bs y"
  using accepts_bindM [of rd bs x f "[]" y] by simp

lemma accepts_repeatM:
  "list_all2 (accepts rd) bss xs \<Longrightarrow> accepts (repeatM (length xs) rd) (concat bss) xs"
proof (induction rule: list_all2_induct)
  case (Cons bs bss x xs)
  then show ?case by (auto intro!: accepts_bindM intro: accepts_bindM_Nil)
qed simp

text \<open>
  \<open>reads_in B rd\<close>: on at most \<open>B\<close> bytes of unread input, \<open>rd\<close> keeps the buffer and the
  invariant, does not move backwards and is not cut off. \<open>consumes_in B rd\<close>: moreover every
  success consumes input.
\<close>

definition reads_in :: "nat \<Rightarrow> 'a reader \<Rightarrow> bool" where
  "reads_in B rd \<longleftrightarrow> (\<forall>m r m'. fm_inv m \<longrightarrow> length (unread m) \<le> B \<longrightarrow> rd m = (r, m') \<longrightarrow>
     fm_inv m' \<and> Code m' = Code m \<and> length (unread m') \<le> length (unread m) \<and> r \<noteq> Timeout)"

definition consumes_in :: "nat \<Rightarrow> 'a reader \<Rightarrow> bool" where
  "consumes_in B rd \<longleftrightarrow> reads_in B rd \<and> (\<forall>m x m'. fm_inv m \<longrightarrow> length (unread m) \<le> B \<longrightarrow>
     rd m = (Ok x, m') \<longrightarrow> length (unread m') < length (unread m))"

lemma reads_inD:
  assumes "reads_in B rd" "fm_inv m" "length (unread m) \<le> B" "rd m = (r, m')"
  shows "fm_inv m'" "Code m' = Code m" "length (unread m') \<le> length (unread m)" "r \<noteq> Timeout"
  using assms unfolding reads_in_def by blast+

lemma consumes_inD:
  "consumes_in B rd \<Longrightarrow> fm_inv m \<Longrightarrow> length (unread m) \<le> B \<Longrightarrow> rd m = (Ok x, m') \<Longrightarrow>
     length (unread m') < length (unread m)"
  unfolding consumes_in_def by blast

lemma consumes_imp_reads: "consumes_in B rd \<Longrightarrow> reads_in B rd"
  by (simp add: consumes_in_def)

lemma reads_in_basic [simp, intro]:
  "reads_in B (retM x)" "reads_in B (errM e)" "reads_in B undefM"
  "consumes_in B (errM e)" "consumes_in B undefM"
  by (auto simp: reads_in_def consumes_in_def monad_simps)

lemma reads_in_bindM:
  assumes "reads_in B rd" and "\<And>x. reads_in B (f x)"
  shows "reads_in B (bindM rd f)"
  unfolding reads_in_def
proof (intro allI impI)
  fix m r m' assume m: "fm_inv m" "length (unread m) \<le> B" "bindM rd f m = (r, m')"
  obtain r1 m1 where r1: "rd m = (r1, m1)" by fastforce
  note R = reads_inD [OF assms(1) m(1,2) r1]
  show "fm_inv m' \<and> Code m' = Code m \<and> length (unread m') \<le> length (unread m) \<and> r \<noteq> Timeout"
  proof (cases r1)
    case (Ok x)
    then have "f x m1 = (r, m')" using m(3) r1 by (simp add: bindM_def)
    with reads_inD [OF assms(2) [of x], of m1 r m'] R m(2) show ?thesis by auto
  qed (use m(3) r1 R in \<open>auto simp: bindM_def\<close>)
qed

lemma consumes_in_bindM:
  assumes "consumes_in B rd" and "\<And>x. 0 < B \<Longrightarrow> reads_in (B - 1) (f x)"
  shows "consumes_in B (bindM rd f)"
proof -
  have "fm_inv m' \<and> Code m' = Code m \<and> length (unread m') \<le> length (unread m) \<and> r \<noteq> Timeout
     \<and> (\<forall>x. r = Ok x \<longrightarrow> length (unread m') < length (unread m))"
    if m: "fm_inv m" "length (unread m) \<le> B" "bindM rd f m = (r, m')" for m r m'
  proof -
    obtain r1 m1 where r1: "rd m = (r1, m1)" by fastforce
    note R = reads_inD [OF consumes_imp_reads [OF assms(1)] m(1,2) r1]
    show ?thesis
    proof (cases r1)
      case (Ok x)
      then have f: "f x m1 = (r, m')" using m(3) r1 by (simp add: bindM_def)
      have lt: "length (unread m1) < length (unread m)"
        using consumes_inD [OF assms(1) m(1,2)] r1 Ok by simp
      then have "length (unread m1) \<le> B - 1" using m(2) by simp
      moreover have "0 < B" using lt m(2) by linarith
      ultimately show ?thesis using reads_inD [OF assms(2) [of x] _ _ f] R lt by auto
    qed (use m(3) r1 R in \<open>auto simp: bindM_def\<close>)
  qed
  then show ?thesis unfolding consumes_in_def reads_in_def by blast
qed

lemma reads_in_mono: "reads_in B rd \<Longrightarrow> A \<le> B \<Longrightarrow> reads_in A rd"
  using reads_inD [of B rd] unfolding reads_in_def [of A] by (metis order.trans)

lemma consumes_in_mono: "consumes_in B rd \<Longrightarrow> A \<le> B \<Longrightarrow> consumes_in A rd"
  unfolding consumes_in_def by (meson reads_in_mono order.trans)

lemma reads_in_repeatM: "reads_in B rd \<Longrightarrow> reads_in B (repeatM n rd)"
  by (induction n) (auto intro!: reads_in_bindM)

lemma reads_in_if:
  "(b \<Longrightarrow> reads_in B x) \<Longrightarrow> (\<not> b \<Longrightarrow> reads_in B y) \<Longrightarrow> reads_in B (if b then x else y)"
  by simp

lemma reads_in_split: "(\<And>a b. reads_in B (f a b)) \<Longrightarrow> reads_in B (case p of (a, b) \<Rightarrow> f a b)"
  by (cases p) simp

lemma reads_in_liftM [simp, intro]: "r \<noteq> Timeout \<Longrightarrow> reads_in B (liftM r)"
  by (auto simp: reads_in_def liftM_def)

lemmas reads_intros = consumes_in_bindM reads_in_bindM reads_in_if reads_in_split

text \<open>The primitive readers.\<close>

lemma reads_in_alt:
  "fm_inv m \<Longrightarrow> length (unread m) = length (Code m) - unat (Pos m)"
  by (simp add: unread_def)

lemma consumes_readByte [simp, intro]: "consumes_in B readByte"
proof -
  have "fm_inv m' \<and> Code m' = Code m \<and> length (unread m') \<le> length (unread m) \<and> r \<noteq> Timeout
     \<and> (\<forall>x. r = Ok x \<longrightarrow> length (unread m') < length (unread m))"
    if "fm_inv m" "readByte m = (r, m')" for m r m'
  proof (cases "unread m")
    case Nil
    then show ?thesis using that by (auto simp: readByte_Nil fm_inv_def unread_def)
  next
    case (Cons b bs)
    then show ?thesis using readByte_Cons [OF that(1) Cons] that(2) by (auto simp: readByte_def split: if_splits)
  qed
  then show ?thesis unfolding consumes_in_def reads_in_def by blast
qed

lemma leb_loop_consumes:
  fixes r :: "'a::len word"
  assumes "fm_inv m" "leb_loop r off m = (res, m')"
  shows "fm_inv m' \<and> Code m' = Code m \<and> length (unread m') \<le> length (unread m) \<and> res \<noteq> Timeout
     \<and> (\<forall>x. res = Ok x \<longrightarrow> length (unread m') < length (unread m))"
  using assms
proof (induction r off m rule: leb_loop.induct)
  case (1 r off m)
  show ?case
  proof (cases "unread m")
    case Nil
    then show ?thesis using "1.prems"
      by (auto simp: leb_loop.simps [of r off m] unread_Nil) (auto simp: unread_def fm_inv_def)
  next
    case (Cons b bs)
    note U = unread_step [OF "1.prems"(1) Cons]
    let ?m = "m\<lparr>Pos := Pos m + 1\<rparr>" and ?r = "r OR push_bit off (ucast (b AND 0x7F))"
    note IH = "1.IH" [OF _ refl refl _ refl]
    show ?thesis
    proof (cases "off < LENGTH('a) \<and> b AND 0x80 \<noteq> 0")
      case True
      then have "leb_loop ?r (off + 7) ?m = (res, m')"
        using "1.prems"(2) U by (simp add: leb_loop.simps [of r off m] Let_def)
      with IH U True Cons show ?thesis by fastforce
    next
      case False
      then show ?thesis
        using "1.prems"(2) U Cons
        by (auto simp: leb_loop.simps [of r off m] Let_def split: if_splits)
    qed
  qed
qed

lemma consumes_leb [simp, intro]:
  "consumes_in B readU32" "consumes_in B readU64" "consumes_in B readS32" "consumes_in B readS64"
  unfolding readU32_def readU64_def readS32_def readS64_def
  by (auto intro!: consumes_in_bindM simp: split_def)
    (auto simp: consumes_in_def reads_in_def dest: leb_loop_consumes)

lemma Pos_add_no_wrap:
  assumes "fm_inv m" "unat (Pos m) + unat k \<le> length (Code m)"
  shows "unat (Pos m + k) = unat (Pos m) + unat k"
  using assms by (intro unat_add_no_wrap) (simp add: fm_inv_def)

lemma fm_inv_eof: "fm_inv m \<Longrightarrow> fm_inv (m\<lparr>Pos := of_nat (length (Code m)), Status := e\<rparr>)"
  by (simp add: fm_inv_def unat_of_nat_less)

lemma reads_readBytes [simp, intro]: "reads_in B (readBytes n)"
proof -
  have "fm_inv m' \<and> Code m' = Code m \<and> length (unread m') \<le> length (unread m) \<and> r \<noteq> Timeout"
    if "fm_inv m" "readBytes n m = (r, m')" for m r m'
  proof -
    have "unat (of_nat n :: u32) = n \<and> unat (Pos m + of_nat n) = unat (Pos m) + n"
      if "unat (Pos m) + n \<le> length (Code m)"
    proof -
      have n: "unat (of_nat n :: u32) = n" using that \<open>fm_inv m\<close> by (intro unat_of_nat_less) (simp add: fm_inv_def)
      with Pos_add_no_wrap [OF \<open>fm_inv m\<close>, of "of_nat n"] that show ?thesis by simp
    qed
    then show ?thesis
      using that fm_inv_eof [of m EndOfFile]
      by (auto simp: readBytes_def fm_inv_def unread_def unat_of_nat_less split: if_splits)
  qed
  then show ?thesis unfolding reads_in_def by blast
qed

lemma fixed_size_reads:
  assumes "\<And>m. rd m = (if unat (Pos m + k) > length (Code m)
      then (Err EndOfFile, m\<lparr>Pos := of_nat (length (Code m)), Status := EndOfFile\<rparr>)
      else if unat (Pos m) + unat k > length (Code m) then (Undef, m)
      else (Ok (f m), m\<lparr>Pos := Pos m + k\<rparr>))"
  shows "reads_in B rd"
proof -
  have "fm_inv m' \<and> Code m' = Code m \<and> length (unread m') \<le> length (unread m) \<and> r \<noteq> Timeout"
    if "fm_inv m" "rd m = (r, m')" for m r m'
    using that fm_inv_eof [of m EndOfFile] Pos_add_no_wrap [of m k]
    by (auto simp: assms fm_inv_def unread_def unat_of_nat_less split: if_splits)
  then show ?thesis unfolding reads_in_def by blast
qed

lemma reads_readF [simp, intro]: "reads_in B readF32" "reads_in B readF64"
  by (rule fixed_size_reads [where k = 4 and f = "\<lambda>m. le_word (take 4 (drop (unat (Pos m)) (Code m)))"],
      simp add: readF32_def)
    (rule fixed_size_reads [where k = 8 and f = "\<lambda>m. le_word (take 8 (drop (unat (Pos m)) (Code m)))"],
      simp add: readF64_def)

lemma consumes_readName [simp, intro]: "consumes_in B readName"
  unfolding readName_def
proof (rule consumes_in_bindM)
  fix size :: u32
  show "reads_in (B - 1) (\<lambda>m.
     if size > 0 then
       if unat (Pos m + size) > length (Code m)
       then (Err EndOfFile, m\<lparr>Pos := of_nat (length (Code m)), Status := EndOfFile\<rparr>)
       else if unat (Pos m) + unat size > length (Code m) then (Undef, m)
       else (Ok (take (unat size) (drop (unat (Pos m)) (Code m))), m\<lparr>Pos := Pos m + size\<rparr>)
     else (Ok [], m))"
  proof (cases "size > 0")
    case True
    then show ?thesis by (intro fixed_size_reads [where k = size]) simp
  qed (simp add: reads_in_def)
qed simp


lemma consumes_length:
  assumes "consumes_in B rd" and "fm_inv m" and "length (unread m) \<le> B"
    and "repeatM n rd m = (Ok xs, m')"
  shows "n + length (unread m') \<le> length (unread m)"
  using assms(2,3,4)
proof (induction n arbitrary: m xs)
  case 0
  then show ?case by (simp add: retM_def)
next
  case (Suc n)
  from Suc.prems(3) obtain x m1 ys where s: "rd m = (Ok x, m1)" "repeatM n rd m1 = (Ok ys, m')"
    by (auto elim!: bindM_Ok_E simp: retM_def)
  note lt = consumes_inD [OF assms(1) Suc.prems(1,2) s(1)]
  have "fm_inv m1"
    using reads_inD(1) [OF consumes_imp_reads [OF assms(1)] Suc.prems(1,2) s(1)] .
  from Suc.IH [OF this _ s(2)] lt Suc.prems(2) show ?case by simp
qed

lemmas reads_primitive [simp, intro] =
  consumes_imp_reads [OF consumes_readByte] consumes_imp_reads [OF consumes_leb(1)]
  consumes_imp_reads [OF consumes_leb(2)] consumes_imp_reads [OF consumes_leb(3)]
  consumes_imp_reads [OF consumes_leb(4)] consumes_imp_reads [OF consumes_readName]

section \<open>What the primitive readers accept\<close>

lemma accepts_readByte: "accepts readByte [b] b"
  by (rule acceptsI) (use readByte_Cons in force)

lemma accepts_leb:
  "k < 2 ^ 32 \<Longrightarrow> accepts readU32 (leb_u k) (of_nat k)"
  "k < 2 ^ 64 \<Longrightarrow> accepts readU64 (leb_u k) (of_nat k)"
  "- (2 ^ 31) \<le> i \<Longrightarrow> i < 2 ^ 31 \<Longrightarrow> accepts readS32 (leb_s i) (of_int i)"
  "- (2 ^ 63) \<le> i \<Longrightarrow> i < 2 ^ 63 \<Longrightarrow> accepts readS64 (leb_s i) (of_int i)"
proof -
  show "k < 2 ^ 32 \<Longrightarrow> accepts readU32 (leb_u k) (of_nat k)"
    using leb_loop_leb_u [of _ k _ 0 "0 :: u32"] by (fastforce intro!: acceptsI simp: leb_reader_defs)
  show "k < 2 ^ 64 \<Longrightarrow> accepts readU64 (leb_u k) (of_nat k)"
    using leb_loop_leb_u [of _ k _ 0 "0 :: u64"] by (fastforce intro!: acceptsI simp: leb_reader_defs)
  show "- (2 ^ 31) \<le> i \<Longrightarrow> i < 2 ^ 31 \<Longrightarrow> accepts readS32 (leb_s i) (of_int i)"
    using leb_loop_leb_s [of _ i _ 0 "0 :: u32"] by (fastforce intro!: acceptsI simp: leb_reader_defs)
  show "- (2 ^ 63) \<le> i \<Longrightarrow> i < 2 ^ 63 \<Longrightarrow> accepts readS64 (leb_s i) (of_int i)"
    using leb_loop_leb_s [of _ i _ 0 "0 :: u64"] by (fastforce intro!: acceptsI simp: leb_reader_defs)
qed

lemma accepts_u32: "accepts readU32 (leb_u (unat w)) w"
  using accepts_leb(1) [of "unat w"] by (simp add: unat_u32_less)

lemma accepts_s32: "accepts readS32 (leb_s (sint w)) w"
  using accepts_leb(3) [of "sint w"] sint_ge [of w] sint_lt [of w] by simp

lemma accepts_s64: "accepts readS64 (leb_s (sint w)) w"
  using accepts_leb(4) [of "sint w"] sint_ge [of w] sint_lt [of w] by simp

lemma unread_take:
  assumes "fm_inv m" "unread m = bs @ rest"
  shows "unat (Pos m) + length bs \<le> length (Code m)"
    and "take (length bs) (drop (unat (Pos m)) (Code m)) = bs"
    and "unat (Pos m + of_nat (length bs)) = unat (Pos m) + length bs"
    and "fm_inv (m\<lparr>Pos := Pos m + of_nat (length bs)\<rparr>)"
    and "unread (m\<lparr>Pos := Pos m + of_nat (length bs)\<rparr>) = rest"
proof -
  have "length (unread m) = length bs + length rest" using assms(2) by simp
  then show le: "unat (Pos m) + length bs \<le> length (Code m)"
    using assms(1) by (auto simp: unread_def fm_inv_def)
  show "take (length bs) (drop (unat (Pos m)) (Code m)) = bs"
    using assms(2) by (simp add: unread_def)
  have "unat (of_nat (length bs) :: u32) = length bs"
    using le assms(1) by (intro unat_of_nat_less) (simp add: fm_inv_def)
  then show P: "unat (Pos m + of_nat (length bs)) = unat (Pos m) + length bs"
    using Pos_add_no_wrap [OF assms(1), of "of_nat (length bs)"] le by simp
  show "fm_inv (m\<lparr>Pos := Pos m + of_nat (length bs)\<rparr>)"
    using P le assms(1) by (simp add: fm_inv_def)
  have "drop (length bs) (unread m) = rest" using assms(2) by simp
  then show "unread (m\<lparr>Pos := Pos m + of_nat (length bs)\<rparr>) = rest"
    using P by (simp add: unread_def add.commute)
qed

lemma accepts_readBytes: "accepts (readBytes (length bs)) bs bs"
proof (rule acceptsI)
  fix m rest assume m: "fm_inv m" "unread m = bs @ rest"
  show "\<exists>m'. readBytes (length bs) m = (Ok bs, m') \<and> fm_inv m' \<and> unread m' = rest"
    using unread_take [OF m] m by (cases "bs = []") (simp_all add: readBytes_def)
qed

lemma accepts_readName:
  assumes "length bs < 2 ^ 32"
  shows "accepts readName (leb_u (length bs) @ bs) bs"
  unfolding readName_def
proof (rule accepts_bindM [OF accepts_leb(1) [OF assms]], rule acceptsI)
  fix m rest assume m: "fm_inv m" "unread m = bs @ rest"
  have "unat (of_nat (length bs) :: u32) = length bs"
    using assms by (intro unat_of_nat_less) simp
  moreover from this have "(0 < (of_nat (length bs) :: u32)) = (bs \<noteq> [])"
    using unat_gt_0 [of "of_nat (length bs) :: u32"] by (simp add: word_gt_0)
  ultimately show "\<exists>m'. (if of_nat (length bs) > (0 :: u32) then
       if unat (Pos m + of_nat (length bs)) > length (Code m)
       then (Err EndOfFile, m\<lparr>Pos := of_nat (length (Code m)), Status := EndOfFile\<rparr>)
       else if unat (Pos m) + unat (of_nat (length bs) :: u32) > length (Code m) then (Undef, m)
       else (Ok (take (unat (of_nat (length bs) :: u32)) (drop (unat (Pos m)) (Code m))),
             m\<lparr>Pos := Pos m + of_nat (length bs)\<rparr>)
     else (Ok [], m)) = (Ok bs, m') \<and> fm_inv m' \<and> unread m' = rest"
    using unread_take [OF m] m by (cases "bs = []") simp_all
qed

text \<open>The little-endian bytes of a word; \<open>le_word\<close> reads them back.\<close>

fun le_bytes :: "nat \<Rightarrow> 'a::len word \<Rightarrow> Bytes" where
  "le_bytes 0 w = []"
| "le_bytes (Suc n) w = ucast w # le_bytes n (drop_bit 8 w)"

lemma length_le_bytes [simp]: "length (le_bytes n w) = n"
  by (induction n arbitrary: w) auto

lemma le_word_le_bytes:
  fixes w :: "'a::len word"
  shows "le_word (le_bytes n w) = take_bit (8 * n) w"
proof (induction n arbitrary: w)
  case (Suc n)
  show ?case
  proof (rule bit_word_eqI)
    fix k assume "k < LENGTH('a)"
    then show "bit (le_word (le_bytes (Suc n) w) :: 'a word) k = bit (take_bit (8 * Suc n) w) k"
      by (cases "k < 8") (auto simp: Suc.IH bit_simps dest: bit_imp_le_length)
  qed
qed simp

lemma accepts_readF32: "accepts readF32 (le_bytes 4 w) w"
proof (rule acceptsI)
  fix m rest assume m: "fm_inv m" "unread m = le_bytes 4 w @ rest"
  show "\<exists>m'. readF32 m = (Ok w, m') \<and> fm_inv m' \<and> unread m' = rest"
    using unread_take [OF m] le_word_le_bytes [of 4 w]
    by (simp add: readF32_def take_bit_word_eq_self)
qed

lemma accepts_readF64: "accepts readF64 (le_bytes 8 w) w"
proof (rule acceptsI)
  fix m rest assume m: "fm_inv m" "unread m = le_bytes 8 w @ rest"
  show "\<exists>m'. readF64 m = (Ok w, m') \<and> fm_inv m' \<and> unread m' = rest"
    using unread_take [OF m] le_word_le_bytes [of 8 w]
    by (simp add: readF64_def take_bit_word_eq_self)
qed

section \<open>Properties\<close>

text \<open>A file manager at the start of a buffer.\<close>

definition mgr :: "Bytes \<Rightarrow> FileMgr" where
  "mgr bs = \<lparr>Code = bs, Pos = 0, Status = Success\<rparr>"

text \<open>\<open>readU32\<close> decodes unsigned LEB128: on the encoding of any number below \<open>2^32\<close> it returns
  that number and leaves exactly the bytes after the encoding unread.\<close>

lemma readU32_leb_u:
  assumes "fm_inv m" and "unread m = leb_u k @ rest" and "k < 2 ^ 32"
  shows "\<exists>m'. readU32 m = (Ok (of_nat k), m') \<and> fm_inv m' \<and> unread m' = rest"
  using acceptsE [OF accepts_leb(1) [OF assms(3)] assms(1,2)] by metis

text \<open>\<open>readS64\<close> decodes signed LEB128: on the encoding of any integer of 64 bits it returns its
  two's complement representation, sign extension included, and consumes exactly the encoding.\<close>

lemma readS64_leb_s:
  assumes "fm_inv m" and "unread m = leb_s i @ rest" and "- (2 ^ 63) \<le> i" and "i < 2 ^ 63"
  shows "\<exists>m'. readS64 m = (Ok (of_int i), m') \<and> fm_inv m' \<and> unread m' = rest"
  using acceptsE [OF accepts_leb(4) [OF assms(3,4)] assms(1,2)] by metis

text \<open>C39. The bounds check of \<open>readName\<close> adds the length to the position in 32 bits. Whenever that
  sum wraps around to a position inside the buffer, the check passes and the copy runs past the end
  of the buffer.\<close>

theorem readName_overrun:
  assumes "fm_inv m" and "readU32 m = (Ok sz, m')"
    and "2 ^ 32 \<le> unat (Pos m') + unat sz"
  shows "readName m = (Undef, m')"
proof -
  have inv: "fm_inv m'"
    using reads_inD(1) [OF consumes_imp_reads [OF consumes_leb(1)] assms(1) order.refl assms(2)] .
  have "unat (Pos m') + unat sz - 4294967296 < 4294967296"
    using unat_u32_less [of "Pos m'"] unat_u32_less [of sz] by linarith
  then have lt: "unat (Pos m') + unat sz - 2 ^ 32 < 2 ^ 32" by simp
  have "unat (Pos m' + sz) = (unat (Pos m') + unat sz) mod 2 ^ 32"
    by (simp add: unat_word_ariths)
  then have wrap: "unat (Pos m' + sz) = unat (Pos m') + unat sz - 2 ^ 32"
    by (simp only: le_mod_geq [OF assms(3)] mod_less [OF lt])
  have "0 < unat sz" using assms(3) unat_u32_less [of "Pos m'"] by (cases "unat sz") auto
  then have "0 < sz" by (simp add: unat_gt_0 word_gt_0)
  moreover have "unat (Pos m' + sz) \<le> length (Code m')"
    using wrap inv unat_u32_less [of sz] by (auto simp: fm_inv_def)
  moreover have "length (Code m') < unat (Pos m') + unat sz"
    using inv assms(3) by (simp add: fm_inv_def)
  ultimately show ?thesis by (simp add: readName_def bindM_def assms(2))
qed

theorem readName_overrun_witness:
  "readName (mgr [0xFF, 0xFF, 0xFF, 0xFF, 0x0F, 1]) =
     (Undef, mgr [0xFF, 0xFF, 0xFF, 0xFF, 0x0F, 1] \<lparr>Pos := 5\<rparr>)"
  using readName_overrun [of "mgr [0xFF, 0xFF, 0xFF, 0xFF, 0x0F, 1]" "0xFFFFFFFF"
      "mgr [0xFF, 0xFF, 0xFF, 0xFF, 0x0F, 1] \<lparr>Pos := 5\<rparr>"]
  by (simp add: readU32_def mgr_def leb_loop.simps bindM_def retM_def Let_def fm_inv_def)

end
