(* ===== verification/FileStream.thy ===== *)
theory FileStream
  imports FileMgr
begin

text \<open>
  \<open>FileMgrFStream\<close> of \<open>include/loader/filemgr.h\<close> and \<open>lib/loader/filemgr.cpp\<close>: the byte source of the
  loader that reads a file, and its comparison with \<open>FileMgrVector\<close>.

  The stream is modelled as the standard library documents it: the bytes that are left, and the two
  state bits that the code looks at. \<open>get\<close> on a stream that is not good, or at the end, sets the
  fail bit and leaves its argument alone. An iterator over the buffer does not set any bit, and reading
  through it at the end of the file is undefined. \<open>copy_n\<close> advances such an iterator once less than it
  copies, which the code makes up for. The files are a function from paths to contents; input errors of
  the operating system are left out.
\<close>

section \<open>Streams\<close>

record FStream =
  Opened :: bool
  Rest :: Bytes
  FailBit :: bool
  EofBit :: bool

definition getChar :: "u8 \<Rightarrow> FStream \<Rightarrow> u8 \<times> FStream" where
  "getChar c fin =
     (if FailBit fin \<or> EofBit fin then (c, fin\<lparr>FailBit := True\<rparr>)
      else case Rest fin of
        [] \<Rightarrow> (c, fin\<lparr>FailBit := True, EofBit := True\<rparr>)
      | b # bs \<Rightarrow> (b, fin\<lparr>Rest := bs\<rparr>))"

definition copyChars :: "nat \<Rightarrow> FStream \<Rightarrow> Bytes Expect \<times> FStream" where
  "copyChars n fin =
     (if length (Rest fin) < n then (Undef, fin\<lparr>Rest := []\<rparr>)
      else (Ok (take n (Rest fin)), fin\<lparr>Rest := drop n (Rest fin)\<rparr>))"

definition closeStream :: "FStream \<Rightarrow> FStream" where
  "closeStream fin = fin\<lparr>Opened := False, Rest := []\<rparr>"

text \<open>A successful \<open>open\<close> clears the state bits.\<close>

definition openStream :: "('p \<rightharpoonup> Bytes) \<Rightarrow> 'p \<Rightarrow> FStream \<Rightarrow> FStream" where
  "openStream files path fin = (case files path of
       None \<Rightarrow> fin\<lparr>FailBit := True\<rparr>
     | Some bs \<Rightarrow> \<lparr>Opened = True, Rest = bs, FailBit = False, EofBit = False\<rparr>)"

section \<open>The file manager\<close>

record FileMgrFStream =
  Fin :: FStream
  FStatus :: ErrCode

type_synonym 'a freader = "(FileMgrFStream, 'a) exec"

definition newFileMgrFStream :: FileMgrFStream where
  "newFileMgrFStream = \<lparr>Fin = \<lparr>Opened = False, Rest = [], FailBit = False, EofBit = False\<rparr>, FStatus = InvalidPath\<rparr>"

definition setPath :: "('p \<rightharpoonup> Bytes) \<Rightarrow> 'p \<Rightarrow> unit freader" where
  "setPath files path f =
     (let f1 = (if Opened (Fin f) then f\<lparr>Fin := closeStream (Fin f), FStatus := InvalidPath\<rparr> else f);
          f2 = f1\<lparr>Fin := openStream files path (Fin f1)\<rparr>;
          f3 = (if \<not> FailBit (Fin f2) then f2\<lparr>FStatus := Success\<rparr> else f2)
      in if FStatus f3 \<noteq> Success then (Err (FStatus f3), f3) else (Ok (), f3))"

text \<open>A stream does not take code from memory.\<close>

definition fsetCode :: "Bytes \<Rightarrow> unit freader" where
  "fsetCode code f = (Err InvalidPath, f)"

definition ready :: "'a freader \<Rightarrow> 'a freader" where
  "ready m f = (if FStatus f \<noteq> Success then (Err (FStatus f), f) else m f)"

text \<open>\<open>if (Fin.fail()) { Status = Fin.eof() ? EndOfFile : ReadError; return Unexpect(Status); } return x;\<close>\<close>

definition unlessFailed :: "'a \<Rightarrow> 'a freader" where
  "unlessFailed x f =
     (if FailBit (Fin f)
      then (let s = (if EofBit (Fin f) then EndOfFile else ReadError) in (Err s, f\<lparr>FStatus := s\<rparr>))
      else (Ok x, f))"

definition freadByte :: "u8 freader" where
  "freadByte = ready (\<lambda>f. let (b, fin) = getChar 0 (Fin f) in unlessFailed b (f\<lparr>Fin := fin\<rparr>))"

definition fcopy :: "nat \<Rightarrow> Bytes freader" where
  "fcopy n f = (if n > 0 then let (r, fin) = copyChars n (Fin f) in (r, f\<lparr>Fin := fin\<rparr>) else (Ok [], f))"

definition freadBytes :: "nat \<Rightarrow> Bytes freader" where
  "freadBytes n = ready (bindM (fcopy n) unlessFailed)"

text \<open>The loop of the LEB128 readers; the byte of a failed \<open>get\<close> is or-ed in once more before the test.\<close>

function fleb_loop :: "'a::len word \<Rightarrow> nat \<Rightarrow> u8 \<Rightarrow> FStream \<Rightarrow> ('a word \<times> nat \<times> u8) Expect \<times> FStream" where
  "fleb_loop result offset byte fin =
     (if \<not> FailBit fin \<and> byte AND 0x80 \<noteq> 0 then
        let (byte', fin') = getChar byte fin in
        if LENGTH('a) \<le> offset then (Undef, fin')
        else fleb_loop (result OR push_bit offset (ucast (byte' AND 0x7F))) (offset + 7) byte' fin'
      else (Ok (result, offset, byte), fin))"
  by pat_completeness auto
termination
  by (relation "measure (\<lambda>(r :: 'a word, off, b, fin). LENGTH('a) - off)") auto

declare fleb_loop.simps [simp del]

definition fleb :: "('a::len word \<times> nat \<times> u8) freader" where
  "fleb f = (let (r, fin) = fleb_loop 0 0 0x80 (Fin f); f' = f\<lparr>Fin := fin\<rparr> in bindM (liftM r) unlessFailed f')"

definition freadU32 :: "u32 freader" where
  "freadU32 = ready (bindM fleb (\<lambda>(r, _, _). retM r))"

definition freadU64 :: "u64 freader" where
  "freadU64 = ready (bindM fleb (\<lambda>(r, _, _). retM r))"

definition freadS32 :: "u32 freader" where
  "freadS32 = ready (bindM fleb (\<lambda>(r, off, b). retM (leb_sign r off b)))"

definition freadS64 :: "u64 freader" where
  "freadS64 = ready (bindM fleb (\<lambda>(r, off, b). retM (leb_sign r off b)))"

fun ffloat :: "nat \<Rightarrow> nat \<Rightarrow> 'a::len word \<Rightarrow> 'a word freader" where
  "ffloat 0 i val f = (Ok val, f)"
| "ffloat (Suc k) i val f =
     (let (b, fin) = getChar 0 (Fin f) in
      bindM (unlessFailed b) (\<lambda>b. ffloat k (Suc i) (val OR push_bit (i * 8) (ucast b))) (f\<lparr>Fin := fin\<rparr>))"

definition freadF32 :: "u32 freader" where
  "freadF32 = ready (ffloat 4 0 0)"

definition freadF64 :: "u64 freader" where
  "freadF64 = ready (ffloat 8 0 0)"

definition freadName :: "Bytes freader" where
  "freadName = bindM freadU32 (\<lambda>size. bindM (fcopy (unat size)) unlessFailed)"


section \<open>Agreement with the vector\<close>

text \<open>\<open>sim f m\<close>: a working stream and a vector with the same bytes to read.\<close>

definition sim :: "FileMgrFStream \<Rightarrow> FileMgr \<Rightarrow> bool" where
  "sim f m \<longleftrightarrow> FStatus f = Success \<and> \<not> FailBit (Fin f) \<and> \<not> EofBit (Fin f) \<and> Rest (Fin f) = unread m \<and> fm_inv m"

definition agree :: "'a freader \<Rightarrow> 'a reader \<Rightarrow> bool" where
  "agree fr vr \<longleftrightarrow> (\<forall>f m x m'. sim f m \<longrightarrow> vr m = (Ok x, m') \<longrightarrow> (\<exists>f'. fr f = (Ok x, f') \<and> sim f' m'))"

lemma agreeI: "(\<And>f m x m'. sim f m \<Longrightarrow> vr m = (Ok x, m') \<Longrightarrow> \<exists>f'. fr f = (Ok x, f') \<and> sim f' m') \<Longrightarrow> agree fr vr"
  by (auto simp: agree_def)

lemma agree_bindM: "agree fr vr \<Longrightarrow> (\<And>x. agree (g x) (h x)) \<Longrightarrow> agree (bindM fr g) (bindM vr h)"
  unfolding agree_def bindM_Ok_iff by metis

lemma agree_retM: "agree (retM x) (retM x)"
  by (simp add: agree_def retM_def)

lemma agree_ready: "agree fr vr \<Longrightarrow> agree (ready fr) vr"
  by (auto simp: agree_def ready_def sim_def)

text \<open>One byte: where the vector has one, \<open>get\<close> delivers it.\<close>

lemma sim_getChar:
  assumes "sim f m" and "unat (Pos m) < length (Code m)"
  shows "getChar c (Fin f) = (Code m ! unat (Pos m), (Fin f)\<lparr>Rest := tl (unread m)\<rparr>)"
    and "sim (f\<lparr>Fin := (Fin f)\<lparr>Rest := tl (unread m)\<rparr>\<rparr>) (m\<lparr>Pos := Pos m + 1\<rparr>)"
proof -
  have inv: "fm_inv m" using assms(1) by (simp add: sim_def)
  have u: "unread m = Code m ! unat (Pos m) # tl (unread m)"
    using assms(2) by (simp add: unread_def Cons_nth_drop_Suc [symmetric])
  then show "getChar c (Fin f) = (Code m ! unat (Pos m), (Fin f)\<lparr>Rest := tl (unread m)\<rparr>)"
    using assms(1) by (auto simp: getChar_def sim_def split: list.split)
  show "sim (f\<lparr>Fin := (Fin f)\<lparr>Rest := tl (unread m)\<rparr>\<rparr>) (m\<lparr>Pos := Pos m + 1\<rparr>)"
    using unread_step [OF inv u] assms(1) by (simp add: sim_def)
qed

lemma agree_readByte: "agree freadByte readByte"
  unfolding freadByte_def
proof (rule agree_ready, rule agreeI)
  fix f m x m' assume s: "sim f m" and "readByte m = (Ok x, m')"
  then have r: "unat (Pos m) < length (Code m)" "x = Code m ! unat (Pos m)" "m' = m\<lparr>Pos := Pos m + 1\<rparr>"
    by (auto simp: readByte_def split: if_splits)
  show "\<exists>f'. (let (b, fin) = getChar 0 (Fin f) in unlessFailed b (f\<lparr>Fin := fin\<rparr>)) = (Ok x, f') \<and> sim f' m'"
    using sim_getChar [OF s r(1)] r(2,3) s by (auto simp: unlessFailed_def sim_def)
qed

lemma agree_leb_loop:
  fixes r :: "'a::len word"
  assumes "sim f m" and "leb_loop r off m = (Ok (v, off', b), m')" and "byte AND 0x80 \<noteq> 0"
  shows "\<exists>fin. fleb_loop r off byte (Fin f) = (Ok (v, off', b), fin) \<and> sim (f\<lparr>Fin := fin\<rparr>) m'"
  using assms
proof (induction r off m arbitrary: f byte rule: leb_loop.induct)
  case (1 r off m)
  let ?b = "Code m ! unat (Pos m)" and ?m = "m\<lparr>Pos := Pos m + 1\<rparr>" and ?r = "r OR push_bit off (ucast (Code m ! unat (Pos m) AND 0x7F))"
  have lt: "unat (Pos m) < length (Code m)" and off: "off < LENGTH('a)"
    using 1(3) by (auto simp: leb_loop.simps [of r off m] Let_def split: if_splits)
  note g = sim_getChar [OF 1(2) lt]
  have nf: "\<not> FailBit (Fin f)" using 1(2) by (simp add: sim_def)
  let ?fin = "(Fin f)\<lparr>Rest := tl (unread m)\<rparr>"
  have step: "fleb_loop r off byte (Fin f) = fleb_loop ?r (off + 7) ?b ?fin"
    using 1(4) off nf by (simp add: fleb_loop.simps [of r off byte] g(1))
  show ?case
  proof (cases "?b AND 0x80 = 0")
    case True
    then have "v = ?r" "off' = off + 7" "b = ?b" "m' = ?m"
      using 1(3) lt off by (auto simp: leb_loop.simps [of r off m] Let_def)
    moreover have "fleb_loop ?r (off + 7) ?b ?fin = (Ok (?r, off + 7, ?b), ?fin)" using True by (simp add: fleb_loop.simps)
    ultimately show ?thesis using step g(2) by auto
  next
    case False
    then have "leb_loop ?r (off + 7) ?m = (Ok (v, off', b), m')"
      using 1(3) lt off by (simp add: leb_loop.simps [of r off m] Let_def)
    then show ?thesis using 1(1) [OF _ refl refl _ refl False g(2), of ?b] lt off False step by simp
  qed
qed

lemma agree_leb: "agree fleb (leb_loop 0 0)"
proof (rule agreeI)
  fix f m m' and x :: "'a word \<times> nat \<times> u8" assume s: "sim f m" and l: "leb_loop 0 0 m = (Ok x, m')"
  obtain v off b where x: "x = (v, off, b)" by (cases x)
  have "(0x80 :: u8) AND 0x80 \<noteq> 0" by simp
  then obtain fin where "fleb_loop 0 0 0x80 (Fin f) = (Ok x, fin)" "sim (f\<lparr>Fin := fin\<rparr>) m'"
    using agree_leb_loop [OF s, of 0 0 v off b m' "0x80"] l x by auto
  then show "\<exists>f'. fleb f = (Ok x, f') \<and> sim f' m'"
    by (auto simp: fleb_def bindM_def liftM_def unlessFailed_def sim_def)
qed

lemma agree_leb_readers: "agree freadU32 readU32" "agree freadU64 readU64" "agree freadS32 readS32" "agree freadS64 readS64"
  unfolding freadU32_def freadU64_def freadS32_def freadS64_def readU32_def readU64_def readS32_def readS64_def
  by (auto intro!: agree_ready agree_bindM agree_leb agree_retM)

text \<open>Several bytes at once.\<close>

lemma sim_drop:
  assumes "sim f m" and "unat (Pos m) + n \<le> length (Code m)"
  shows "sim (f\<lparr>Fin := (Fin f)\<lparr>Rest := drop n (Rest (Fin f))\<rparr>\<rparr>) (m\<lparr>Pos := Pos m + of_nat n\<rparr>)"
proof -
  have "n < 2 ^ 32" "length (Code m) < 2 ^ 32" using assms by (auto simp: sim_def fm_inv_def)
  then have "unat (Pos m + of_nat n) = unat (Pos m) + n"
    using assms(2) by (subst unat_add_no_wrap) (simp_all add: unat_of_nat_less)
  then show ?thesis using assms by (auto simp: sim_def fm_inv_def unread_def add.commute)
qed

lemma sim_fcopy:
  assumes "sim f m" and "unat (Pos m) + n \<le> length (Code m)"
  shows "\<exists>f'. bindM (fcopy n) unlessFailed f = (Ok (take n (unread m)), f') \<and> sim f' (m\<lparr>Pos := Pos m + of_nat n\<rparr>)"
proof (cases "n = 0")
  case True
  then show ?thesis using assms(1) by (auto simp: fcopy_def bindM_def unlessFailed_def sim_def)
next
  case False
  have "\<not> length (Rest (Fin f)) < n" using assms by (auto simp: sim_def unread_def)
  then show ?thesis using sim_drop [OF assms] False assms(1) by (auto simp: fcopy_def copyChars_def bindM_def unlessFailed_def sim_def)
qed

lemma agree_readBytes: "agree (freadBytes n) (readBytes n)"
  unfolding freadBytes_def
proof (rule agree_ready, rule agreeI)
  fix f m x m' assume s: "sim f m" and r: "readBytes n m = (Ok x, m')"
  have "unat (Pos m) + n \<le> length (Code m)" "x = take n (unread m)" "m' = m\<lparr>Pos := Pos m + of_nat n\<rparr>"
    using r s by (auto simp: readBytes_def unread_def sim_def fm_inv_def split: if_splits)
  then show "\<exists>f'. bindM (fcopy n) unlessFailed f = (Ok x, f') \<and> sim f' m'" using sim_fcopy [OF s] by simp
qed

lemma agree_readName: "agree freadName readName"
  unfolding freadName_def readName_def
proof (rule agree_bindM, rule agree_leb_readers, rule agreeI)
  fix size f m x m' assume s: "sim f m"
    and r: "(if size > 0 then if unat (Pos m + size) > length (Code m)
         then (Err EndOfFile, m\<lparr>Pos := of_nat (length (Code m)), Status := EndOfFile\<rparr>)
       else if unat (Pos m) + unat size > length (Code m) then (Undef, m)
       else (Ok (take (unat size) (drop (unat (Pos m)) (Code m))), m\<lparr>Pos := Pos m + size\<rparr>) else (Ok [], m)) = (Ok x, m')"
  have "unat (Pos m) + unat size \<le> length (Code m)" "x = take (unat size) (unread m)" "m' = m\<lparr>Pos := Pos m + of_nat (unat size)\<rparr>"
    using r s by (auto simp: unread_def sim_def fm_inv_def word_gt_0 split: if_splits)
  then show "\<exists>f'. bindM (fcopy (unat size)) unlessFailed f = (Ok x, f') \<and> sim f' m'" using sim_fcopy [OF s, of "unat size"] by simp
qed

lemma sim_ffloat:
  fixes v :: "'a::len word"
  assumes "sim f m" and "unat (Pos m) + k \<le> length (Code m)"
  shows "\<exists>f'. ffloat k i v f = (Ok (v OR push_bit (i * 8) (le_word (take k (unread m)))), f') \<and> sim f' (m\<lparr>Pos := Pos m + of_nat k\<rparr>)"
  using assms
proof (induction k arbitrary: i v f m)
  case 0
  then show ?case by simp
next
  case (Suc k)
  let ?b = "Code m ! unat (Pos m)" and ?m = "m\<lparr>Pos := Pos m + 1\<rparr>" and ?f = "f\<lparr>Fin := (Fin f)\<lparr>Rest := tl (unread m)\<rparr>\<rparr>"
  have lt: "unat (Pos m) < length (Code m)" using Suc.prems(2) by simp
  note g = sim_getChar [OF Suc.prems(1) lt]
  have p: "unat (Pos m + 1) = Suc (unat (Pos m))"
    using lt Suc.prems(1) by (intro unat_Suc_no_wrap) (simp add: sim_def fm_inv_def)
  have u: "unread m = ?b # unread ?m" using lt p by (simp add: unread_def Cons_nth_drop_Suc)
  obtain f' where f': "ffloat k (Suc i) (v OR push_bit (i * 8) (ucast ?b)) ?f
      = (Ok (v OR push_bit (i * 8) (ucast ?b) OR push_bit (Suc i * 8) (le_word (take k (unread ?m)))), f')"
    "sim f' (?m\<lparr>Pos := Pos ?m + of_nat k\<rparr>)"
    using Suc.IH [OF g(2), of "Suc i" "v OR push_bit (i * 8) (ucast ?b)"] Suc.prems(2) p by (auto simp: or.assoc)
  have "(le_word (take (Suc k) (unread m)) :: 'a word) = ucast ?b OR push_bit 8 (le_word (take k (unread ?m)))" by (subst u) simp
  then have e: "v OR push_bit (i * 8) (ucast ?b) OR push_bit (Suc i * 8) (le_word (take k (unread ?m)))
      = v OR push_bit (i * 8) (le_word (take (Suc k) (unread m)))"
    by (simp add: push_bit_or or.assoc push_bit_push_bit add.commute)
  show ?case using f' e g Suc.prems(1) by (auto simp: bindM_def unlessFailed_def sim_def add.assoc)
qed

lemma agree_floats: "agree freadF32 readF32" "agree freadF64 readF64"
proof -
  have "\<exists>f'. ffloat 4 0 0 f = (Ok x, f') \<and> sim f' m'" if s: "sim f m" and r: "readF32 m = (Ok x, m')" for f m x m'
    using r sim_ffloat [OF s, of 4 0 0] by (auto simp: readF32_def unread_def split: if_splits)
  then show "agree freadF32 readF32" unfolding freadF32_def by (intro agree_ready agreeI)
  have "\<exists>f'. ffloat 8 0 0 f = (Ok x, f') \<and> sim f' m'" if s: "sim f m" and r: "readF64 m = (Ok x, m')" for f m x m'
    using r sim_ffloat [OF s, of 8 0 0] by (auto simp: readF64_def unread_def split: if_splits)
  then show "agree freadF64 readF64" unfolding freadF64_def by (intro agree_ready agreeI)
qed

section \<open>Sequences of reads\<close>

text \<open>The interface \<open>FileMgr\<close> as requests and answers.\<close>

datatype Request = ReqByte | ReqBytes nat | ReqU32 | ReqU64 | ReqS32 | ReqS64 | ReqF32 | ReqF64 | ReqName

datatype Answer = AnsByte u8 | AnsBytes Bytes | Ans32 u32 | Ans64 u64

definition answer :: "('a \<Rightarrow> Answer) \<Rightarrow> ('s, 'a) exec \<Rightarrow> ('s, Answer) exec" where
  "answer c m = bindM m (\<lambda>x. retM (c x))"

fun vecRead :: "Request \<Rightarrow> Answer reader" where
  "vecRead ReqByte = answer AnsByte readByte"
| "vecRead (ReqBytes n) = answer AnsBytes (readBytes n)"
| "vecRead ReqU32 = answer Ans32 readU32"
| "vecRead ReqU64 = answer Ans64 readU64"
| "vecRead ReqS32 = answer Ans32 readS32"
| "vecRead ReqS64 = answer Ans64 readS64"
| "vecRead ReqF32 = answer Ans32 readF32"
| "vecRead ReqF64 = answer Ans64 readF64"
| "vecRead ReqName = answer AnsBytes readName"

fun fileRead :: "Request \<Rightarrow> Answer freader" where
  "fileRead ReqByte = answer AnsByte freadByte"
| "fileRead (ReqBytes n) = answer AnsBytes (freadBytes n)"
| "fileRead ReqU32 = answer Ans32 freadU32"
| "fileRead ReqU64 = answer Ans64 freadU64"
| "fileRead ReqS32 = answer Ans32 freadS32"
| "fileRead ReqS64 = answer Ans64 freadS64"
| "fileRead ReqF32 = answer Ans32 freadF32"
| "fileRead ReqF64 = answer Ans64 freadF64"
| "fileRead ReqName = answer AnsBytes freadName"

fun readAll :: "(Request \<Rightarrow> ('s, Answer) exec) \<Rightarrow> Request list \<Rightarrow> ('s, Answer list) exec" where
  "readAll rd [] = retM []"
| "readAll rd (q # qs) = bindM (rd q) (\<lambda>a. bindM (readAll rd qs) (\<lambda>as. retM (a # as)))"

lemma agree_answer: "agree fr vr \<Longrightarrow> agree (answer c fr) (answer c vr)"
  unfolding answer_def by (intro agree_bindM agree_retM)

lemma agree_request: "agree (fileRead q) (vecRead q)"
  by (cases q) (simp_all add: agree_answer agree_readByte agree_readBytes agree_leb_readers agree_floats agree_readName)

lemma agree_readAll: "agree (readAll fileRead qs) (readAll vecRead qs)"
  by (induction qs) (auto intro!: agree_bindM agree_request agree_retM)

section \<open>The interface \<open>FileMgr\<close>\<close>

text \<open>The encodings of the values that can be asked for.\<close>

inductive encodes :: "Request \<Rightarrow> Answer \<Rightarrow> Bytes \<Rightarrow> bool" where
  enc_byte: "encodes ReqByte (AnsByte b) [b]"
| enc_bytes: "n = length bs \<Longrightarrow> encodes (ReqBytes n) (AnsBytes bs) bs"
| enc_u32: "encodes ReqU32 (Ans32 w) (leb_u (unat w))"
| enc_s32: "encodes ReqS32 (Ans32 w) (leb_s (sint w))"
| enc_s64: "encodes ReqS64 (Ans64 v) (leb_s (sint v))"
| enc_f32: "encodes ReqF32 (Ans32 w) (le_bytes 4 w)"
| enc_f64: "encodes ReqF64 (Ans64 v) (le_bytes 8 v)"
| enc_name: "length bs < 2 ^ 32 \<Longrightarrow> encodes ReqName (AnsBytes bs) (leb_u (length bs) @ bs)"

text \<open>What the loader relies on: a request at the encoding of a value is answered with it and consumes it.\<close>

locale byte_source =
  fixes good :: "'s \<Rightarrow> bool" and rest :: "'s \<Rightarrow> Bytes" and rd :: "Request \<Rightarrow> ('s, Answer) exec"
  assumes rd_encoded: "encodes q a bs \<Longrightarrow> good s \<Longrightarrow> rest s = bs @ zs \<Longrightarrow>
      \<exists>s'. rd q s = (Ok a, s') \<and> good s' \<and> rest s' = zs"
begin

lemma readAll_encoded:
  assumes "list_all (\<lambda>item. encodes (fst item) (fst (snd item)) (snd (snd item))) items" and "good s" and "rest s = concat (map (\<lambda>i. snd (snd i)) items) @ zs"
  shows "\<exists>s'. readAll rd (map fst items) s = (Ok (map (\<lambda>i. fst (snd i)) items), s') \<and> good s' \<and> rest s' = zs"
  using assms
proof (induction items arbitrary: s)
  case Nil
  then show ?case by (simp add: retM_def)
next
  case (Cons item items)
  obtain q a bs where item: "item = (q, a, bs)" by (cases item)
  obtain s1 where s1: "rd q s = (Ok a, s1)" "good s1" "rest s1 = concat (map (\<lambda>i. snd (snd i)) items) @ zs"
    using rd_encoded [of q a bs s] Cons.prems item by auto
  then obtain s2 where "readAll rd (map fst items) s1 = (Ok (map (\<lambda>i. fst (snd i)) items), s2)" "good s2" "rest s2 = zs"
    using Cons.IH Cons.prems(1) by auto
  then show ?case using s1(1) item by (simp add: bindM_def retM_def)
qed

end

interpretation vec_source: byte_source fm_inv unread vecRead
proof
  fix q a bs m zs assume "encodes q a bs" and m: "fm_inv m" "unread m = bs @ zs"
  then have "accepts (vecRead q) bs a"
    by cases (auto simp: answer_def intro!: accepts_bindM_Nil accepts_readByte accepts_readBytes accepts_u32 accepts_s32 accepts_s64
        accepts_readF32 accepts_readF64 accepts_readName)
  then show "\<exists>m'. vecRead q m = (Ok a, m') \<and> fm_inv m' \<and> unread m' = zs" using m by (auto elim: acceptsE)
qed

text \<open>A stream that is working on less than 4 GiB.\<close>

definition stream_good :: "FileMgrFStream \<Rightarrow> bool" where
  "stream_good f \<longleftrightarrow> FStatus f = Success \<and> \<not> FailBit (Fin f) \<and> \<not> EofBit (Fin f) \<and> length (Rest (Fin f)) < 2 ^ 32"

lemma sim_good: "sim f m \<Longrightarrow> stream_good f"
  by (auto simp: sim_def stream_good_def fm_inv_def unread_def)

interpretation file_source: byte_source stream_good "\<lambda>f. Rest (Fin f)" fileRead
proof
  fix q a bs f zs assume e: "encodes q a bs" and f: "stream_good f" "Rest (Fin f) = bs @ zs"
  let ?m = "\<lparr>Code = bs @ zs, Pos = 0, Status = Success\<rparr>"
  have s: "sim f ?m" using f by (simp add: sim_def stream_good_def unread_def fm_inv_def)
  obtain m' where "vecRead q ?m = (Ok a, m')" "unread m' = zs"
    using vec_source.rd_encoded [OF e, of ?m zs] s f(2) by (auto simp: sim_def)
  then obtain f' where "fileRead q f = (Ok a, f')" "sim f' m'" using agree_request s unfolding agree_def by blast
  then show "\<exists>f'. fileRead q f = (Ok a, f') \<and> stream_good f' \<and> Rest (Fin f') = zs"
    using sim_good \<open>unread m' = zs\<close> by (auto simp: sim_def)
qed

section \<open>Properties\<close>

lemma sim_opened:
  assumes "files path = Some code" and "code \<noteq> []" and "length code < 2 ^ 32"
    and "setPath files path f = (r, f1)" and "setCode code m = (q, m1)"
  shows "sim f1 m1"
  using assms by (auto simp: setPath_def openStream_def setCode_def sim_def unread_def fm_inv_def Let_def split: if_splits)

text \<open>C19. The two byte sources of the loader agree: after a file is opened and its contents are given to the
  vector, every sequence of reads of bytes, blocks, LEB128 numbers, floats and names, interleaved in any
  way, that the vector answers is answered by the stream with the same values.\<close>

theorem fstream_agrees:
  assumes "files path = Some code" and "code \<noteq> []" and "length code < 2 ^ 32"
    and "fst (seqM (setCode code) (readAll vecRead qs) m) = Ok as"
  shows "fst (seqM (setPath files path) (readAll fileRead qs) f) = Ok as"
proof -
  obtain m1 m2 where m: "setCode code m = (Ok (), m1)" "readAll vecRead qs m1 = (Ok as, m2)"
    using assms(4) by (metis prod.collapse seqM_Ok_iff)
  obtain f1 where f: "setPath files path f = (Ok (), f1)"
    using assms(1) by (auto simp: setPath_def openStream_def Let_def)
  have "sim f1 m1" using sim_opened [OF assms(1-3) f m(1)] .
  then obtain f2 where "readAll fileRead qs f1 = (Ok as, f2)" using agree_readAll m(2) unfolding agree_def by blast
  then show ?thesis using f by (simp add: seqM_def bindM_def)
qed

theorem fstream_agrees_witness:
  "fst (seqM (setPath [True \<mapsto> [0x05, 0x02, 0x61, 0x62]] True) (readAll fileRead [ReqByte, ReqName]) newFileMgrFStream)
     = Ok [AnsByte 5, AnsBytes [0x61, 0x62]]"
proof -
  let ?m = "\<lparr>Code = [], Pos = 0, Status = InvalidPath\<rparr>"
  have "fst (seqM (setCode [0x05, 0x02, 0x61, 0x62]) (readAll vecRead [ReqByte, ReqName]) ?m) = Ok [AnsByte 5, AnsBytes [0x61, 0x62]]"
    by (simp add: seqM_def bindM_def setCode_def answer_def readByte_def readName_def readU32_def leb_loop.simps retM_def Let_def)
  then show ?thesis by (intro fstream_agrees [where m = ?m]) simp_all
qed

text \<open>C38. They differ on a truncated file: where the vector reports the end of the file for a block that is not
  there in full, the stream reads through its iterator past the end, which is undefined; neither state
  bit would show it.\<close>

theorem fstream_truncated:
  assumes "sim f m" and "length (unread m) < n"
  shows "fst (readBytes n m) = Err EndOfFile \<and> fst (freadBytes n f) = Undef"
  using assms by (auto simp: readBytes_def freadBytes_def ready_def fcopy_def copyChars_def bindM_def sim_def unread_def fm_inv_def)

theorem fstream_truncated_witness:
  "fst (freadBytes 3 (snd (setPath [True \<mapsto> [0x05, 0x02]] True newFileMgrFStream))) = Undef"
proof -
  have "sim (snd (setPath [True \<mapsto> [0x05, 0x02]] True newFileMgrFStream)) \<lparr>Code = [0x05, 0x02], Pos = 0, Status = Success\<rparr>"
    by (simp add: setPath_def openStream_def sim_def unread_def fm_inv_def Let_def newFileMgrFStream_def)
  then show ?thesis by (rule fstream_truncated [THEN conjunct2]) (simp add: unread_def)
qed

end
