(* ===== verification/Loading.thy ===== *)
theory Loading
  imports FileMgr Instruction
begin

text \<open>
  The abstract syntax tree and its loaders: \<open>include/common/ast/*.h\<close>, \<open>lib/ast/*.cpp\<close> and
  \<open>lib/loader/loader.cpp\<close>. Each \<open>loadBinary\<close> method is a reader that returns the node it fills
  (a node whose load fails is dropped by every caller).

  The two loops that read instructions up to \<open>End\<close> recurse through \<open>loadBinary\<close> of the block nodes;
  they take fuel, as does the section loop of \<open>Module::loadBinary\<close>. One unit per unread byte and
  one more is enough, because every iteration reads at least one byte.
\<close>

section \<open>Nodes\<close>

text \<open>\<open>Limit\<close> has a \<open>Max\<close> exactly when its type is \<open>HasMinMax\<close>.\<close>

datatype Limit = HasMin u32 | HasMinMax u32 u32

fun getMin :: "Limit \<Rightarrow> u32" where
  "getMin (HasMin n) = n"
| "getMin (HasMinMax n _) = n"

fun hasMax :: "Limit \<Rightarrow> bool" where
  "hasMax (HasMin _) = False"
| "hasMax (HasMinMax _ _) = True"

record FunctionType =
  ParamTypes :: "ValType list"
  ReturnTypes :: "ValType list"

record TableType =
  TabElem :: ElemType
  TabLimit :: Limit

record GlobalType =
  GlobType :: ValType
  GlobMut :: ValMut

type_synonym MemoryType = Limit

datatype ExtContent = ExtFunction u32 | ExtTable TableType | ExtMemory MemoryType | ExtGlobal GlobalType

record ImportDesc =
  ImpModName :: Bytes
  ImpExtName :: Bytes
  ImpContent :: ExtContent

record ExportDesc =
  ExpExtName :: Bytes
  ExpExtType :: ExternalType
  ExpExtIdx :: u32

type_synonym Expression = "Instr list"

record GlobalSegment =
  GSegType :: GlobalType
  GSegExpr :: Expression

record ElementSegment =
  ESegTableIdx :: u32
  ESegExpr :: Expression
  ESegFuncIdxes :: "u32 list"

record CodeSegment =
  CSegSize :: u32
  CSegLocals :: "(u32 \<times> ValType) list"
  CSegExpr :: Expression

record DataSegment =
  DSegMemoryIdx :: u32
  DSegExpr :: Expression
  DSegData :: Bytes

record Module =
  Magic :: Bytes
  Version :: Bytes
  CustomSec :: "Bytes option"
  TypeSec :: "FunctionType list option"
  ImportSec :: "ImportDesc list option"
  FunctionSec :: "u32 list option"
  TableSec :: "TableType list option"
  MemorySec :: "MemoryType list option"
  GlobalSec :: "GlobalSegment list option"
  ExportSec :: "ExportDesc list option"
  StartSec :: "u32 option"
  ElementSec :: "ElementSegment list option"
  CodeSec :: "CodeSegment list option"
  DataSec :: "DataSegment list option"

definition empty_Module :: Module where
  "empty_Module = \<lparr>Magic = [], Version = [], CustomSec = None, TypeSec = None, ImportSec = None,
     FunctionSec = None, TableSec = None, MemorySec = None, GlobalSec = None, ExportSec = None,
     StartSec = None, ElementSec = None, CodeSec = None, DataSec = None\<rparr>"

section \<open>Vectors and instructions\<close>

text \<open>The vector loop: a count, then that many nodes.\<close>

definition loadToVector :: "'a reader \<Rightarrow> 'a list reader" where
  "loadToVector rd = bindM readU32 (\<lambda>n. repeatM (unat n) rd)"

text \<open>The type byte of \<open>BlockControlInstruction\<close> and \<open>IfElseControlInstruction\<close>.\<close>

definition loadBlockType :: "ValType reader" where
  "loadBlockType = bindM readByte (\<lambda>b.
     if isBlockType (ValType_of b) then retM (ValType_of b) else errM InvalidGrammar)"

text \<open>
  \<open>loadBinary\<close> of a node of each class. The first two arguments read the instruction lists of the
  block nodes.
\<close>

definition loadCall :: "CallOp \<Rightarrow> Instr reader" where
  "loadCall c = bindM readU32 (\<lambda>i.
     if c = Call_indirect
     then bindM readByte (\<lambda>b. if b \<noteq> 0 then errM InvalidGrammar else retM (CallInstr c i))
     else retM (CallInstr c i))"

definition loadMemArg :: "MemoryOp \<Rightarrow> Instr reader" where
  "loadMemArg c = bindM readU32 (\<lambda>a. bindM readU32 (\<lambda>off. retM (MemoryInstr c a off)))"

definition loadMemory :: "MemoryOp \<Rightarrow> Instr reader" where
  "loadMemory c =
     (if c = Memory__grow \<or> c = Memory__size
      then bindM readByte (\<lambda>b. if b = 0 then retM (MemoryInstr c 0 0) else loadMemArg c)
      else loadMemArg c)"

fun loadConst :: "ConstOp \<Rightarrow> Instr reader" where
  "loadConst I32__const = bindM readS32 (\<lambda>w. retM (ConstInstr I32__const (V32 w)))"
| "loadConst I64__const = bindM readS64 (\<lambda>w. retM (ConstInstr I64__const (V64 w)))"
| "loadConst F32__const = bindM readF32 (\<lambda>w. retM (ConstInstr F32__const (V32 w)))"
| "loadConst F64__const = bindM readF64 (\<lambda>w. retM (ConstInstr F64__const (V64 w)))"

fun loadInstr ::
  "Instr list reader \<Rightarrow> (Instr list \<times> Instr list) reader \<Rightarrow> Instr \<Rightarrow> Instr reader" where
  "loadInstr body ifelse (BlockInstr c _ _) =
     bindM loadBlockType (\<lambda>t. bindM body (\<lambda>is. retM (BlockInstr c t is)))"
| "loadInstr body ifelse (IfElseInstr _ _ _) =
     bindM loadBlockType (\<lambda>t. bindM ifelse (\<lambda>(is, es). retM (IfElseInstr t is es)))"
| "loadInstr body ifelse (BrInstr c _) = bindM readU32 (\<lambda>l. retM (BrInstr c l))"
| "loadInstr body ifelse (BrTableInstr _ _) =
     bindM (loadToVector readU32) (\<lambda>ls. bindM readU32 (\<lambda>l. retM (BrTableInstr ls l)))"
| "loadInstr body ifelse (CallInstr c _) = loadCall c"
| "loadInstr body ifelse (VariableInstr c _) = bindM readU32 (\<lambda>i. retM (VariableInstr c i))"
| "loadInstr body ifelse (MemoryInstr c _ _) = loadMemory c"
| "loadInstr body ifelse (ConstInstr c _) = loadConst c"
| "loadInstr body ifelse i = retM i"

text \<open>The loops up to \<open>End\<close>; \<open>loadIfElse\<close> carries \<open>IsElseStatement\<close>.\<close>

fun loadBody :: "nat \<Rightarrow> Instr list reader"
and loadIfElse :: "nat \<Rightarrow> bool \<Rightarrow> (Instr list \<times> Instr list) reader" where
  "loadBody 0 = timeoutM"
| "loadBody (Suc n) = bindM readByte (\<lambda>b.
     if OpCode_of b = OpEnd then retM []
     else bindM (liftM (makeInstructionNode (OpCode_of b))) (\<lambda>node.
          bindM (loadInstr (loadBody n) (loadIfElse n False) node) (\<lambda>i.
          bindM (loadBody n) (\<lambda>is. retM (i # is)))))"
| "loadIfElse 0 e = timeoutM"
| "loadIfElse (Suc n) e = bindM readByte (\<lambda>b.
     if OpCode_of b = OpEnd then retM ([], [])
     else if OpCode_of b = OpElse then loadIfElse n True
     else bindM (liftM (makeInstructionNode (OpCode_of b))) (\<lambda>node.
          bindM (loadInstr (loadBody n) (loadIfElse n False) node) (\<lambda>i.
          bindM (loadIfElse n e) (\<lambda>(is, es).
            retM (if e then (is, i # es) else (i # is, es))))))"

definition Expression_loadBinary :: "nat \<Rightarrow> Expression reader" where
  "Expression_loadBinary n = loadBody n"

section \<open>Types, descriptions and segments\<close>

definition Limit_loadBinary :: "Limit reader" where
  "Limit_loadBinary = bindM readByte (\<lambda>b.
     if b \<noteq> 0 \<and> b \<noteq> 1 then errM InvalidGrammar
     else bindM readU32 (\<lambda>mn.
          if b = 1 then bindM readU32 (\<lambda>mx. retM (HasMinMax mn mx)) else retM (HasMin mn)))"

definition readNumType :: "ValType reader" where
  "readNumType = bindM readByte (\<lambda>b.
     if isNumType (ValType_of b) then retM (ValType_of b) else errM InvalidGrammar)"

definition FunctionType_loadBinary :: "FunctionType reader" where
  "FunctionType_loadBinary = bindM readByte (\<lambda>b.
     if ElemType_of b \<noteq> Func then errM InvalidGrammar
     else bindM (loadToVector readNumType) (\<lambda>ps.
          bindM (loadToVector readNumType) (\<lambda>rs.
          retM \<lparr>ParamTypes = ps, ReturnTypes = rs\<rparr>)))"

definition MemoryType_loadBinary :: "MemoryType reader" where
  "MemoryType_loadBinary = Limit_loadBinary"

definition TableType_loadBinary :: "TableType reader" where
  "TableType_loadBinary = bindM readByte (\<lambda>b.
     if ElemType_of b \<noteq> FuncRef then errM InvalidGrammar
     else bindM Limit_loadBinary (\<lambda>l. retM \<lparr>TabElem = ElemType_of b, TabLimit = l\<rparr>))"

definition GlobalType_loadBinary :: "GlobalType reader" where
  "GlobalType_loadBinary = bindM readByte (\<lambda>b. bindM readByte (\<lambda>c.
     if \<not> isNumType (ValType_of b) then errM InvalidGrammar
     else if ValMut_of c \<noteq> Const \<and> ValMut_of c \<noteq> Var then errM InvalidGrammar
     else retM \<lparr>GlobType = ValType_of b, GlobMut = ValMut_of c\<rparr>))"

definition ImportDesc_loadBinary :: "ImportDesc reader" where
  "ImportDesc_loadBinary = bindM readName (\<lambda>mname. bindM readName (\<lambda>ename. bindM readByte (\<lambda>b.
     let mk = (\<lambda>c. \<lparr>ImpModName = mname, ImpExtName = ename, ImpContent = c\<rparr>) in
     case ExternalType_of b of
       Function \<Rightarrow> bindM readU32 (\<lambda>i. retM (mk (ExtFunction i)))
     | Table \<Rightarrow> bindM TableType_loadBinary (\<lambda>t. retM (mk (ExtTable t)))
     | Memory \<Rightarrow> bindM MemoryType_loadBinary (\<lambda>t. retM (mk (ExtMemory t)))
     | Global \<Rightarrow> bindM GlobalType_loadBinary (\<lambda>t. retM (mk (ExtGlobal t)))
     | XOther _ \<Rightarrow> errM InvalidGrammar)))"

definition ExportDesc_loadBinary :: "ExportDesc reader" where
  "ExportDesc_loadBinary = bindM readName (\<lambda>ename. bindM readByte (\<lambda>b.
     if ExternalType_of b \<in> {Function, Table, Memory, Global}
     then bindM readU32 (\<lambda>i.
       retM \<lparr>ExpExtName = ename, ExpExtType = ExternalType_of b, ExpExtIdx = i\<rparr>)
     else errM InvalidGrammar))"

definition GlobalSegment_loadBinary :: "nat \<Rightarrow> GlobalSegment reader" where
  "GlobalSegment_loadBinary n = bindM GlobalType_loadBinary (\<lambda>t.
     bindM (Expression_loadBinary n) (\<lambda>e. retM \<lparr>GSegType = t, GSegExpr = e\<rparr>))"

definition ElementSegment_loadBinary :: "nat \<Rightarrow> ElementSegment reader" where
  "ElementSegment_loadBinary n = bindM readU32 (\<lambda>i.
     bindM (Expression_loadBinary n) (\<lambda>e.
     bindM (loadToVector readU32) (\<lambda>fs.
     retM \<lparr>ESegTableIdx = i, ESegExpr = e, ESegFuncIdxes = fs\<rparr>)))"

text \<open>The pair of a count and a type in the locals of a code segment. The type is not checked.\<close>

definition loadLocal :: "(u32 \<times> ValType) reader" where
  "loadLocal = bindM readU32 (\<lambda>n. bindM readByte (\<lambda>b. retM (n, ValType_of b)))"

definition CodeSegment_loadBinary :: "nat \<Rightarrow> CodeSegment reader" where
  "CodeSegment_loadBinary n = bindM readU32 (\<lambda>sz.
     bindM (loadToVector loadLocal) (\<lambda>ls.
     bindM (Expression_loadBinary n) (\<lambda>e.
     retM \<lparr>CSegSize = sz, CSegLocals = ls, CSegExpr = e\<rparr>)))"

definition DataSegment_loadBinary :: "nat \<Rightarrow> DataSegment reader" where
  "DataSegment_loadBinary n = bindM readU32 (\<lambda>i.
     bindM (Expression_loadBinary n) (\<lambda>e.
     bindM readU32 (\<lambda>c.
     bindM (readBytes (unat c)) (\<lambda>d.
     retM \<lparr>DSegMemoryIdx = i, DSegExpr = e, DSegData = d\<rparr>))))"

section \<open>Sections and the module\<close>

text \<open>
  \<open>Section::loadBinary\<close> reads the content size and then the content. Only the custom section uses
  the size.
\<close>

definition Section_loadBinary :: "(u32 \<Rightarrow> 'a reader) \<Rightarrow> 'a reader" where
  "Section_loadBinary content = bindM readU32 content"

definition CustomSection_loadContent :: "u32 \<Rightarrow> Bytes reader" where
  "CustomSection_loadContent sz = readBytes (unat sz)"

definition FunctionSection_loadContent :: "u32 \<Rightarrow> u32 list reader" where
  "FunctionSection_loadContent sz = loadToVector readU32"

definition StartSection_loadContent :: "u32 \<Rightarrow> u32 reader" where
  "StartSection_loadContent sz = readU32"

text \<open>The body of the \<open>switch\<close> over the section number; a repeated section replaces the former.\<close>

definition loadSection :: "nat \<Rightarrow> u8 \<Rightarrow> Module \<Rightarrow> Module reader" where
  "loadSection n i M =
    (if i = 0x00 then bindM (Section_loadBinary CustomSection_loadContent)
       (\<lambda>c. retM (M\<lparr>CustomSec := Some c\<rparr>))
     else if i = 0x01 then bindM (Section_loadBinary (\<lambda>_. loadToVector FunctionType_loadBinary))
       (\<lambda>c. retM (M\<lparr>TypeSec := Some c\<rparr>))
     else if i = 0x02 then bindM (Section_loadBinary (\<lambda>_. loadToVector ImportDesc_loadBinary))
       (\<lambda>c. retM (M\<lparr>ImportSec := Some c\<rparr>))
     else if i = 0x03 then bindM (Section_loadBinary FunctionSection_loadContent)
       (\<lambda>c. retM (M\<lparr>FunctionSec := Some c\<rparr>))
     else if i = 0x04 then bindM (Section_loadBinary (\<lambda>_. loadToVector TableType_loadBinary))
       (\<lambda>c. retM (M\<lparr>TableSec := Some c\<rparr>))
     else if i = 0x05 then bindM (Section_loadBinary (\<lambda>_. loadToVector MemoryType_loadBinary))
       (\<lambda>c. retM (M\<lparr>MemorySec := Some c\<rparr>))
     else if i = 0x06 then bindM (Section_loadBinary (\<lambda>_. loadToVector (GlobalSegment_loadBinary n)))
       (\<lambda>c. retM (M\<lparr>GlobalSec := Some c\<rparr>))
     else if i = 0x07 then bindM (Section_loadBinary (\<lambda>_. loadToVector ExportDesc_loadBinary))
       (\<lambda>c. retM (M\<lparr>ExportSec := Some c\<rparr>))
     else if i = 0x08 then bindM (Section_loadBinary StartSection_loadContent)
       (\<lambda>c. retM (M\<lparr>StartSec := Some c\<rparr>))
     else if i = 0x09 then bindM (Section_loadBinary (\<lambda>_. loadToVector (ElementSegment_loadBinary n)))
       (\<lambda>c. retM (M\<lparr>ElementSec := Some c\<rparr>))
     else if i = 0x0A then bindM (Section_loadBinary (\<lambda>_. loadToVector (CodeSegment_loadBinary n)))
       (\<lambda>c. retM (M\<lparr>CodeSec := Some c\<rparr>))
     else if i = 0x0B then bindM (Section_loadBinary (\<lambda>_. loadToVector (DataSegment_loadBinary n)))
       (\<lambda>c. retM (M\<lparr>DataSec := Some c\<rparr>))
     else errM InvalidGrammar)"

text \<open>The section loop: \<open>EndOfFile\<close> at a section number ends the module.\<close>

fun loadSections :: "nat \<Rightarrow> Module \<Rightarrow> Module reader" where
  "loadSections 0 M = timeoutM"
| "loadSections (Suc n) M = (\<lambda>m.
     case readByte m of
       (Ok i, m') \<Rightarrow> bindM (loadSection n i M) (loadSections n) m'
     | (Err e, m') \<Rightarrow> if e = EndOfFile then (Ok M, m') else (Err e, m')
     | (Undef, m') \<Rightarrow> (Undef, m')
     | (Timeout, m') \<Rightarrow> (Timeout, m'))"

definition Module_loadBinary :: "nat \<Rightarrow> Module reader" where
  "Module_loadBinary n = bindM (readBytes 4) (\<lambda>magic. bindM (readBytes 4) (\<lambda>version.
     loadSections n (empty_Module\<lparr>Magic := magic, Version := version\<rparr>)))"

text \<open>\<open>Loader::parseModule\<close> on a byte vector, with the fuel that the code always suffices for.\<close>

definition parseModule :: "Bytes \<Rightarrow> Module reader" where
  "parseModule code = bindM (setCode code) (\<lambda>_. Module_loadBinary (Suc (length code)))"

section \<open>Enough fuel\<close>

text \<open>
  The interface between the loaders and their byte source: a reader that, on fewer than \<open>N\<close> bytes
  of unread input, is not cut off and consumes input whenever it succeeds. A vector of such nodes
  is such a reader, and costs at least one byte of input per node.
\<close>

locale bounded_reader =
  fixes rd :: "'a reader" and N :: nat
  assumes consumes_below: "B < N \<Longrightarrow> consumes_in B rd"
begin

lemma loadToVector_consumes_below: "B < N \<Longrightarrow> consumes_in B (loadToVector rd)"
  unfolding loadToVector_def
  by (rule consumes_in_bindM)
    (simp_all add: reads_in_repeatM consumes_imp_reads [OF consumes_below])

lemma loadToVector_length:
  assumes "fm_inv m" and "length (unread m) < N" and "loadToVector rd m = (Ok xs, m')"
  shows "length xs + length (unread m') < length (unread m)"
proof -
  from assms(3) obtain n m1 where s: "readU32 m = (Ok n, m1)" "repeatM (unat n) rd m1 = (Ok xs, m')"
    by (auto simp: loadToVector_def elim!: bindM_Ok_E)
  note lt = consumes_inD [OF consumes_leb(1) assms(1) order.refl s(1)]
  have "fm_inv m1"
    using reads_inD(1) [OF consumes_imp_reads [OF consumes_leb(1)] assms(1) order.refl s(1)] .
  from consumes_length [OF consumes_below this order.refl s(2)] repeatM_length [OF s(2)] lt assms(2)
  show ?thesis by simp
qed

end

text \<open>The readers without fuel meet the contract at every bound.\<close>

locale consuming_reader =
  fixes rd :: "'a reader"
  assumes consumes: "consumes_in B rd"

sublocale consuming_reader \<subseteq> bounded_reader rd N for N
  by unfold_locales (rule consumes)

context consuming_reader
begin

lemma loadToVector_consumes: "consumes_in B (loadToVector rd)"
  by (rule loadToVector_consumes_below [of B "Suc B"]) simp

lemma loadToVector_length_le:
  "fm_inv m \<Longrightarrow> loadToVector rd m = (Ok xs, m') \<Longrightarrow>
     length xs + length (unread m') < length (unread m)"
  by (rule loadToVector_length [of m "Suc (length (unread m))"]) simp_all

end

lemma makeInstructionNode_not_Timeout [simp]: "makeInstructionNode c \<noteq> Timeout"
  by (cases c rule: makeInstructionNode.cases) auto

interpretation u32_vec: consuming_reader readU32 by unfold_locales simp


lemmas u32_vec_reads [simp, intro] = consumes_imp_reads [OF u32_vec.loadToVector_consumes]

lemma loadBlockType_consumes [simp, intro]: "consumes_in B loadBlockType"
  unfolding loadBlockType_def by (auto intro!: reads_intros)

lemmas loadBlockType_reads [simp, intro] = consumes_imp_reads [OF loadBlockType_consumes]

lemma loadMemArg_reads [simp, intro]: "reads_in B (loadMemArg c)"
  unfolding loadMemArg_def by (auto intro!: reads_intros)

lemma loadConst_reads [simp, intro]: "reads_in B (loadConst c)"
  by (cases c) (auto intro!: reads_intros)

lemma loadInstr_reads:
  assumes "reads_in B body" "reads_in B ifelse"
  shows "reads_in B (loadInstr body ifelse i)"
  using assms by (cases i) (auto intro!: reads_intros simp: loadCall_def loadMemory_def)

text \<open>The loops up to \<open>End\<close> are never cut off when the fuel exceeds the unread input.\<close>

lemma body_fuel:
  "(\<forall>B < n. consumes_in B (loadBody n)) \<and> (\<forall>B < n. \<forall>e. consumes_in B (loadIfElse n e))"
proof (induction n)
  case (Suc n)
  have IH: "reads_in (B - 1) (loadBody n)" "reads_in (B - 1) (loadIfElse n e)"
    if "B < Suc n" "0 < B" for B e
    using Suc.IH that by (auto intro: consumes_imp_reads)
  show ?case
    by (intro conjI allI impI; unfold loadBody.simps loadIfElse.simps)
      (rule consumes_in_bindM, simp, intro reads_intros reads_in_liftM loadInstr_reads
        makeInstructionNode_not_Timeout reads_in_basic IH; assumption)+
qed simp

lemmas loadBody_fuel = body_fuel [THEN conjunct1, rule_format]

section \<open>Section loaders\<close>

lemma Limit_consumes [simp, intro]: "consumes_in B Limit_loadBinary"
  unfolding Limit_loadBinary_def by (auto intro!: reads_intros)

lemma readNumType_consumes [simp, intro]: "consumes_in B readNumType"
  unfolding readNumType_def by (auto intro!: reads_intros)

interpretation num_vec: consuming_reader readNumType by unfold_locales simp

lemma FunctionType_consumes [simp, intro]: "consumes_in B FunctionType_loadBinary"
  unfolding FunctionType_loadBinary_def
  by (auto intro!: reads_intros num_vec.loadToVector_consumes [THEN consumes_imp_reads])

lemma TableType_consumes [simp, intro]: "consumes_in B TableType_loadBinary"
  unfolding TableType_loadBinary_def by (auto intro!: reads_intros Limit_consumes [THEN consumes_imp_reads])

lemma MemoryType_consumes [simp, intro]: "consumes_in B MemoryType_loadBinary"
  by (simp add: MemoryType_loadBinary_def)

lemma GlobalType_consumes [simp, intro]: "consumes_in B GlobalType_loadBinary"
  unfolding GlobalType_loadBinary_def by (auto intro!: reads_intros)

lemmas type_reads [simp, intro] =
  Limit_consumes [THEN consumes_imp_reads] TableType_consumes [THEN consumes_imp_reads]
  MemoryType_consumes [THEN consumes_imp_reads] GlobalType_consumes [THEN consumes_imp_reads]

lemma ImportDesc_consumes [simp, intro]: "consumes_in B ImportDesc_loadBinary"
  unfolding ImportDesc_loadBinary_def Let_def
  by (intro reads_intros) (auto intro!: reads_intros split: ExternalType.split)

lemma ExportDesc_consumes [simp, intro]: "consumes_in B ExportDesc_loadBinary"
  unfolding ExportDesc_loadBinary_def by (auto intro!: reads_intros)

interpretation functype_vec: consuming_reader FunctionType_loadBinary by unfold_locales simp
interpretation import_vec: consuming_reader ImportDesc_loadBinary by unfold_locales simp
interpretation table_vec: consuming_reader TableType_loadBinary by unfold_locales simp
interpretation memory_vec: consuming_reader MemoryType_loadBinary by unfold_locales simp
interpretation export_vec: consuming_reader ExportDesc_loadBinary by unfold_locales simp
interpretation local_vec: consuming_reader loadLocal
  by unfold_locales (auto intro!: reads_intros simp: loadLocal_def)


lemma Expression_fuel: "B < n \<Longrightarrow> consumes_in B (Expression_loadBinary n)"
  unfolding Expression_loadBinary_def by (rule loadBody_fuel)

lemmas Expression_reads = Expression_fuel [THEN consumes_imp_reads]

interpretation global_seg: bounded_reader "GlobalSegment_loadBinary n" n for n
  by unfold_locales
    (auto intro!: reads_intros Expression_reads simp: GlobalSegment_loadBinary_def)

interpretation elem_seg: bounded_reader "ElementSegment_loadBinary n" n for n
  by unfold_locales
    (auto intro!: reads_intros Expression_reads simp: ElementSegment_loadBinary_def)

interpretation code_seg: bounded_reader "CodeSegment_loadBinary n" n for n
  by unfold_locales
    (auto intro!: reads_intros Expression_reads local_vec.loadToVector_consumes [THEN consumes_imp_reads]
      simp: CodeSegment_loadBinary_def)

interpretation data_seg: bounded_reader "DataSegment_loadBinary n" n for n
  by unfold_locales
    (auto intro!: reads_intros Expression_reads simp: DataSegment_loadBinary_def)

lemma Section_consumes:
  assumes "\<And>sz. 0 < B \<Longrightarrow> reads_in (B - 1) (content sz)"
  shows "consumes_in B (Section_loadBinary content)"
  unfolding Section_loadBinary_def using assms by (auto intro: consumes_in_bindM)

lemmas vec_reads =
  functype_vec.loadToVector_consumes [THEN consumes_imp_reads]
  import_vec.loadToVector_consumes [THEN consumes_imp_reads]
  table_vec.loadToVector_consumes [THEN consumes_imp_reads]
  memory_vec.loadToVector_consumes [THEN consumes_imp_reads]
  export_vec.loadToVector_consumes [THEN consumes_imp_reads]
  global_seg.loadToVector_consumes_below [THEN consumes_imp_reads]
  elem_seg.loadToVector_consumes_below [THEN consumes_imp_reads]
  code_seg.loadToVector_consumes_below [THEN consumes_imp_reads]
  data_seg.loadToVector_consumes_below [THEN consumes_imp_reads]

lemma loadSection_reads:
  assumes "B < n"
  shows "reads_in B (loadSection n i M)"
  unfolding loadSection_def
  by (intro reads_in_if reads_in_bindM reads_in_basic Section_consumes [THEN consumes_imp_reads];
      auto intro!: vec_reads simp: CustomSection_loadContent_def FunctionSection_loadContent_def
        StartSection_loadContent_def intro: less_le_trans [OF _ less_imp_le [OF assms]])

lemma loadSections_reads: "B < n \<Longrightarrow> reads_in B (loadSections n M)"
proof (induction n arbitrary: B M)
  case (Suc n)
  have "reads_in (B - 1) (loadSection n x M)" "reads_in (B - 1) (loadSections n M')"
    if "0 < B" for x M'
    using Suc that by (auto intro!: loadSection_reads)
  then have "reads_in B (bindM readByte (\<lambda>i. bindM (loadSection n i M) (loadSections n)))"
    by (intro consumes_imp_reads [OF consumes_in_bindM [OF consumes_readByte]] reads_in_bindM)
  note bind = reads_inD [OF this]
  have "fm_inv m' \<and> Code m' = Code m \<and> length (unread m') \<le> length (unread m) \<and> r \<noteq> Timeout"
    if m: "fm_inv m" "length (unread m) \<le> B" "loadSections (Suc n) M m = (r, m')" for m r m'
  proof -
    obtain q m1 where q: "readByte m = (q, m1)" by fastforce
    note byte = reads_inD [OF reads_primitive(1) m(1) order.refl q]
    show ?thesis
    proof (cases "q = Err EndOfFile")
      case True
      then have "r = Ok M" "m' = m1" using m(3) q by simp_all
      with byte show ?thesis by simp
    next
      case False
      then have "bindM readByte (\<lambda>i. bindM (loadSection n i M) (loadSections n)) m = (r, m')"
        using m(3) q by (cases q) (simp_all add: bindM_def [of readByte])
      from bind [OF m(1,2) this] show ?thesis by simp
    qed
  qed
  then show ?case unfolding reads_in_def by blast
qed simp

text \<open>C24. Parsing a byte vector of less than 4 GiB always ends: the fuel of one unit per byte and one
  more is never used up, on any input and from any earlier state of the file manager.\<close>

theorem parseModule_total: "length code < 2 ^ 32 \<Longrightarrow> fst (parseModule code m) \<noteq> Timeout"
proof -
  assume len: "length code < 2 ^ 32"
  let ?m = "m\<lparr>Code := code, Pos := 0, Status := Success\<rparr>"
  have inv: "fm_inv ?m" and un: "length (unread ?m) < Suc (length code)"
    using len by (simp_all add: fm_inv_def unread_def)
  have "reads_in (length (unread ?m)) (Module_loadBinary (Suc (length code)))"
    unfolding Module_loadBinary_def
    by (intro reads_in_bindM reads_readBytes loadSections_reads un)
  from reads_inD(4) [OF this inv order.refl]
  have "fst (Module_loadBinary (Suc (length code)) ?m) \<noteq> Timeout" by (metis prod.collapse)
  then show ?thesis by (simp add: parseModule_def bindM_def setCode_def Let_def)
qed

theorem parseModule_total_witness:
  "length [0x00, 0x61, 0x73, 0x6D, 1, 0, 0, 0 :: u8] < 2 ^ 32 \<and>
   fst (parseModule [0x00, 0x61, 0x73, 0x6D, 1, 0, 0, 0]
          \<lparr>Code = [], Pos = 0, Status = Success\<rparr>) \<noteq> Timeout"
  using parseModule_total [of "[0x00, 0x61, 0x73, 0x6D, 1, 0, 0, 0]"] by simp

end
