(* ===== verification/Encoding.thy ===== *)
theory Encoding imports Loading begin

text \<open>
  The binary format as a specification: an encoder for the instruction, type, description, segment
  and section nodes, written from the WebAssembly binary format. The loaders of the code read back
  what it produces.
\<close>

section \<open>Encoders\<close>

definition byte_of_ValType :: "ValType \<Rightarrow> u8" where
  "byte_of_ValType t = (case t of VNone \<Rightarrow> 0x40 | I32 \<Rightarrow> 0x7F | I64 \<Rightarrow> 0x7E | F32 \<Rightarrow> 0x7D | F64 \<Rightarrow> 0x7C
     | VOther b \<Rightarrow> b)"

definition enc_u32 :: "u32 \<Rightarrow> Bytes" where
  "enc_u32 w = leb_u (unat w)"

definition enc_vec :: "('a \<Rightarrow> Bytes) \<Rightarrow> 'a list \<Rightarrow> Bytes" where
  "enc_vec e xs = leb_u (length xs) @ concat (map e xs)"

fun enc_const :: "ConstOp \<Rightarrow> ValVariant \<Rightarrow> Bytes" where
  "enc_const I32__const (V32 w) = leb_s (sint w)"
| "enc_const I64__const (V64 w) = leb_s (sint w)"
| "enc_const F32__const (V32 w) = le_bytes 4 w"
| "enc_const F64__const (V64 w) = le_bytes 8 w"
| "enc_const _ _ = []"

definition enc_mem :: "MemoryOp \<Rightarrow> u32 \<Rightarrow> u32 \<Rightarrow> Bytes" where
  "enc_mem c a off = (if c = Memory__grow \<or> c = Memory__size then [0] else enc_u32 a @ enc_u32 off)"

fun enc_instr :: "Instr \<Rightarrow> Bytes" and enc_instrs :: "Instr list \<Rightarrow> Bytes" where
  "enc_instr (ControlInstr c) = [byte_of (OpControl c)]"
| "enc_instr (BlockInstr c t body) =
     byte_of (OpBlock c) # byte_of_ValType t # enc_instrs body @ [byte_of OpEnd]"
| "enc_instr (IfElseInstr t is es) =
     byte_of OpIf # byte_of_ValType t # enc_instrs is @
     (if es = [] then [] else byte_of OpElse # enc_instrs es) @ [byte_of OpEnd]"
| "enc_instr (BrInstr c l) = byte_of (OpBr c) # enc_u32 l"
| "enc_instr (BrTableInstr ls l) = byte_of OpBr_table # enc_vec enc_u32 ls @ enc_u32 l"
| "enc_instr (CallInstr c i) =
     byte_of (OpCall c) # enc_u32 i @ (if c = Call_indirect then [0] else [])"
| "enc_instr (ParametricInstr c) = [byte_of (OpParametric c)]"
| "enc_instr (VariableInstr c i) = byte_of (OpVariable c) # enc_u32 i"
| "enc_instr (MemoryInstr c a off) = byte_of (OpMemory c) # enc_mem c a off"
| "enc_instr (ConstInstr c v) = byte_of (OpConst c) # enc_const c v"
| "enc_instr (UnaryInstr c) = [byte_of (OpUnary c)]"
| "enc_instr (BinaryInstr c) = [byte_of (OpBinary c)]"
| "enc_instrs [] = []"
| "enc_instrs (i # is) = enc_instr i @ enc_instrs is"

text \<open>The instructions that have a binary form.\<close>

fun const_ok :: "ConstOp \<Rightarrow> ValVariant \<Rightarrow> bool" where
  "const_ok I32__const (V32 _) = True"
| "const_ok F32__const (V32 _) = True"
| "const_ok I64__const (V64 _) = True"
| "const_ok F64__const (V64 _) = True"
| "const_ok _ _ = False"

fun enc_ok :: "Instr \<Rightarrow> bool" and encs_ok :: "Instr list \<Rightarrow> bool" where
  "enc_ok (BlockInstr c t body) = (isBlockType t \<and> encs_ok body)"
| "enc_ok (IfElseInstr t is es) = (isBlockType t \<and> encs_ok is \<and> encs_ok es)"
| "enc_ok (BrTableInstr ls l) = (length ls < 2 ^ 32)"
| "enc_ok (MemoryInstr c a off) = ((c = Memory__grow \<or> c = Memory__size) \<longrightarrow> a = 0 \<and> off = 0)"
| "enc_ok (ConstInstr c v) = const_ok c v"
| "enc_ok _ = True"
| "encs_ok [] = True"
| "encs_ok (i # is) = (enc_ok i \<and> encs_ok is)"

section \<open>Round trips\<close>

lemma ValType_of_byte: "isBlockType t \<Longrightarrow> ValType_of (byte_of_ValType t) = t"
  by (auto simp: isBlockType_def ValType_of_def byte_of_ValType_def)

lemma isNumType_isBlockType: "isNumType t \<Longrightarrow> isBlockType t"
  by (auto simp: isNumType_def isBlockType_def)

lemma accepts_if: "(b \<Longrightarrow> accepts x bs v) \<Longrightarrow> (\<not> b \<Longrightarrow> accepts y bs v) \<Longrightarrow> accepts (if b then x else y) bs v"
  by simp

lemma accepts_ret_eq: "x = y \<Longrightarrow> accepts (retM x) [] y"
  by simp

lemma accepts_byte_bind: "accepts (f b) bs x \<Longrightarrow> accepts (bindM readByte f) (b # bs) x"
  using accepts_bindM [OF accepts_readByte, of f b bs x] by simp

lemma accepts_u32_bind: "accepts (f w) bs x \<Longrightarrow> accepts (bindM readU32 f) (enc_u32 w @ bs) x"
  unfolding enc_u32_def by (rule accepts_bindM [OF accepts_u32])

lemma accepts_loadToVector:
  assumes "length xs < 2 ^ 32" and "\<And>x. x \<in> set xs \<Longrightarrow> accepts rd (e x) x"
  shows "accepts (loadToVector rd) (enc_vec e xs) xs"
proof -
  have "list_all2 (accepts rd) (map e xs) xs"
    using assms(2) by (induction xs) auto
  then have "accepts (repeatM (unat (of_nat (length xs) :: u32)) rd) (concat (map e xs)) xs"
    using accepts_repeatM assms(1) by (simp add: unat_of_nat_less)
  then show ?thesis
    unfolding loadToVector_def enc_vec_def by (rule accepts_bindM [OF accepts_leb(1) [OF assms(1)]])
qed

lemma accepts_loadBlockType:
  "isBlockType t \<Longrightarrow> accepts loadBlockType [byte_of_ValType t] t"
  unfolding loadBlockType_def by (rule accepts_byte_bind) (simp add: ValType_of_byte)

lemma enc_u32_readU32: "accepts readU32 (enc_u32 w) w"
  by (simp add: enc_u32_def accepts_u32)

lemma accepts_loadConst: "const_ok c v \<Longrightarrow> accepts (loadConst c) (enc_const c v) (ConstInstr c v)"
  by (cases c; cases v)
    (auto intro!: accepts_bindM_Nil accepts_s32 accepts_s64 accepts_readF32 accepts_readF64)

lemma accepts_loadMemory:
  "enc_ok (MemoryInstr c a off) \<Longrightarrow> accepts (loadMemory c) (enc_mem c a off) (MemoryInstr c a off)"
  by (auto simp: loadMemory_def loadMemArg_def enc_mem_def
      intro!: accepts_byte_bind accepts_u32_bind accepts_bindM_Nil enc_u32_readU32)

lemma accepts_loadCall:
  "accepts (loadCall c) (enc_u32 i @ (if c = Call_indirect then [0] else [])) (CallInstr c i)"
  by (auto simp: loadCall_def intro!: accepts_byte_bind accepts_u32_bind
      intro: accepts_bindM_Nil enc_u32_readU32)

lemma OpCode_of_instr [simp]:
  "OpCode_of (byte_of (getOpCode i)) = getOpCode i"
  "OpCode_of (byte_of OpEnd) = OpEnd" "OpCode_of (byte_of OpElse) = OpElse"
  by (rule OpCode_of_byte_of, cases i; simp) (rule OpCode_of_byte_of; simp)+

lemma getOpCode_not_delimiter [simp]: "getOpCode i \<noteq> OpEnd" "getOpCode i \<noteq> OpElse"
  by (cases i; simp)+

text \<open>The bytes after the opcode.\<close>

definition enc_args :: "Instr \<Rightarrow> Bytes" where
  "enc_args i = tl (enc_instr i)"

lemma enc_instr_args: "enc_instr i = byte_of (getOpCode i) # enc_args i"
  by (cases i) (simp_all add: enc_args_def)

text \<open>An instruction is read back by the dispatch on its opcode.\<close>

definition instr_rt :: "Instr \<Rightarrow> bool" where
  "instr_rt i \<longleftrightarrow> (\<forall>n \<ge> length (enc_args i). accepts
     (bindM (liftM (makeInstructionNode (getOpCode i)))
            (loadInstr (loadBody n) (loadIfElse n False))) (enc_args i) i)"

text \<open>A list of instructions followed by bytes that the loop reads with enough fuel.\<close>

definition instrs_rt :: "Instr list \<Rightarrow> bool" where
  "instrs_rt is \<longleftrightarrow>
     (\<forall>K bs r. (\<forall>n \<ge> K. accepts (loadBody n) bs r) \<longrightarrow>
        (\<forall>n \<ge> K + length (enc_instrs is). accepts (loadBody n) (enc_instrs is @ bs) (is @ r))) \<and>
     (\<forall>K bs e a b. (\<forall>n \<ge> K. accepts (loadIfElse n e) bs (a, b)) \<longrightarrow>
        (\<forall>n \<ge> K + length (enc_instrs is). accepts (loadIfElse n e) (enc_instrs is @ bs)
           (if e then (a, is @ b) else (is @ a, b))))"

lemma bindM_liftM_Ok [simp]: "bindM (liftM (Ok x)) f = f x"
  by (rule ext) (simp add: bindM_def liftM_def)

lemma bindM_assoc: "bindM (bindM m f) g = bindM m (\<lambda>x. bindM (f x) g)"
  by (rule ext) (simp add: bindM_def split: prod.split outcome.split)

lemma loadBody_end: "1 \<le> n \<Longrightarrow> accepts (loadBody n) [byte_of OpEnd] []"
  by (cases n) (auto intro!: accepts_byte_bind)

lemma loadIfElse_end: "1 \<le> n \<Longrightarrow> accepts (loadIfElse n e) [byte_of OpEnd] ([], [])"
  by (cases n) (auto intro!: accepts_byte_bind)

lemma loadIfElse_else:
  assumes "\<And>n. K \<le> n \<Longrightarrow> accepts (loadIfElse n True) bs r" and "Suc K \<le> n"
  shows "accepts (loadIfElse n e) (byte_of OpElse # bs) r"
proof (cases n)
  case (Suc k)
  have "OpElse \<noteq> OpEnd" by simp
  with Suc assms show ?thesis by (auto intro!: accepts_byte_bind)
qed (use assms in simp)

lemma instrs_rt_Nil: "instrs_rt []"
  by (simp add: instrs_rt_def)

lemma instrs_rt_Cons:
  assumes "instr_rt i" and "instrs_rt is"
  shows "instrs_rt (i # is)"
proof -
  let ?load = "\<lambda>k. bindM (liftM (makeInstructionNode (getOpCode i)))
     (loadInstr (loadBody k) (loadIfElse k False))"
  have fuel: "\<exists>k. n = Suc k \<and> K + length (enc_instrs is) \<le> k \<and> accepts (?load k) (enc_args i) i"
    if "K + length (enc_instrs (i # is)) \<le> n" for K n
    using that assms(1) by (cases n) (auto simp: enc_instr_args instr_rt_def)
  have body: "accepts (loadBody n) (enc_instrs (i # is) @ bs) ((i # is) @ r)"
    if K: "\<forall>n\<ge>K. accepts (loadBody n) bs r" and n: "K + length (enc_instrs (i # is)) \<le> n" for K bs r n
  proof -
    from fuel [OF n] obtain k where k: "n = Suc k" "K + length (enc_instrs is) \<le> k"
      "accepts (?load k) (enc_args i) i" by blast
    have "accepts (loadBody k) (enc_instrs is @ bs) (is @ r)"
      using assms(2) K k(2) unfolding instrs_rt_def by blast
    then have "accepts (bindM (?load k) (\<lambda>i. bindM (loadBody k) (\<lambda>is. retM (i # is))))
      (enc_args i @ enc_instrs is @ bs) (i # is @ r)"
      by (rule accepts_bindM [OF k(3) accepts_bindM_Nil]) simp
    then show ?thesis
      unfolding k(1) by (auto intro!: accepts_byte_bind simp: enc_instr_args bindM_assoc)
  qed
  have ifelse: "accepts (loadIfElse n e) (enc_instrs (i # is) @ bs)
      (if e then (a, (i # is) @ b) else ((i # is) @ a, b))"
    if K: "\<forall>n\<ge>K. accepts (loadIfElse n e) bs (a, b)"
      and n: "K + length (enc_instrs (i # is)) \<le> n" for K bs e a b n
  proof -
    from fuel [OF n] obtain k where k: "n = Suc k" "K + length (enc_instrs is) \<le> k"
      "accepts (?load k) (enc_args i) i" by blast
    have "accepts (loadIfElse k e) (enc_instrs is @ bs) (if e then (a, is @ b) else (is @ a, b))"
      using assms(2) K k(2) unfolding instrs_rt_def by blast
    then have "accepts (bindM (?load k) (\<lambda>i. bindM (loadIfElse k e)
        (\<lambda>(is, es). retM (if e then (is, i # es) else (i # is, es)))))
      (enc_args i @ enc_instrs is @ bs) (if e then (a, (i # is) @ b) else ((i # is) @ a, b))"
      by (rule accepts_bindM [OF k(3) accepts_bindM_Nil]) simp
    then show ?thesis
      unfolding k(1) by (auto intro!: accepts_byte_bind simp: enc_instr_args bindM_assoc)
  qed
  show ?thesis unfolding instrs_rt_def using body ifelse by blast
qed

lemma instrs_rtD:
  assumes "instrs_rt is" and "length (enc_instrs is) < n"
  shows "accepts (loadBody n) (enc_instrs is @ [byte_of OpEnd]) is"
    and "accepts (loadIfElse n e) (enc_instrs is @ [byte_of OpEnd]) (if e then ([], is) else (is, []))"
proof -
  have "accepts (loadBody n) (enc_instrs is @ [byte_of OpEnd]) (is @ [])"
    using assms loadBody_end unfolding instrs_rt_def by (metis Suc_leI plus_1_eq_Suc)
  then show "accepts (loadBody n) (enc_instrs is @ [byte_of OpEnd]) is" by simp
  have "accepts (loadIfElse n e) (enc_instrs is @ [byte_of OpEnd])
      (if e then ([], is @ []) else (is @ [], []))"
    using assms loadIfElse_end unfolding instrs_rt_def by (metis Suc_leI plus_1_eq_Suc)
  then show "accepts (loadIfElse n e) (enc_instrs is @ [byte_of OpEnd])
      (if e then ([], is) else (is, []))" by (simp only: append_Nil2)
qed

lemma block_rt:
  assumes "instrs_rt body" and "isBlockType t"
  shows "instr_rt (BlockInstr c t body)"
  unfolding instr_rt_def
proof (intro allI impI)
  fix n assume n: "length (enc_args (BlockInstr c t body)) \<le> n"
  then have "accepts (bindM loadBlockType (\<lambda>t. bindM (loadBody n) (\<lambda>is. retM (BlockInstr c t is))))
      ([byte_of_ValType t] @ enc_instrs body @ [byte_of OpEnd]) (BlockInstr c t body)"
    by (intro accepts_bindM [OF accepts_loadBlockType [OF assms(2)]
          accepts_bindM_Nil [OF instrs_rtD(1) [OF assms(1)]]]) (simp_all add: enc_args_def)
  then show "accepts (bindM (liftM (makeInstructionNode (getOpCode (BlockInstr c t body))))
      (loadInstr (loadBody n) (loadIfElse n False))) (enc_args (BlockInstr c t body))
      (BlockInstr c t body)" by (simp add: enc_args_def)
qed

lemma ifelse_rt:
  assumes "instrs_rt is" and "instrs_rt es" and "isBlockType t"
  shows "instr_rt (IfElseInstr t is es)"
  unfolding instr_rt_def
proof (intro allI impI)
  let ?else = "(if es = [] then [] else byte_of OpElse # enc_instrs es) @ [byte_of OpEnd]"
  fix n assume n: "length (enc_args (IfElseInstr t is es)) \<le> n"
  have else_part: "\<forall>k \<ge> length ?else. accepts (loadIfElse k False) ?else ([], es)"
    using loadIfElse_else [where bs = "enc_instrs es @ [byte_of OpEnd]" and r = "([], es)"
        and K = "Suc (length (enc_instrs es))"] instrs_rtD(2) [OF assms(2), where e = True]
      loadIfElse_end by simp
  have "\<forall>k \<ge> length ?else + length (enc_instrs is).
      accepts (loadIfElse k False) (enc_instrs is @ ?else) (if False then ([], is @ es) else (is @ [], es))"
    using assms(1) else_part unfolding instrs_rt_def by blast
  then have "accepts (loadIfElse n False) (enc_instrs is @ ?else) (is, es)"
    using n by (simp add: enc_args_def split: if_splits)
  then have "accepts (bindM loadBlockType
        (\<lambda>t. bindM (loadIfElse n False) (\<lambda>(is, es). retM (IfElseInstr t is es))))
      ([byte_of_ValType t] @ enc_instrs is @ ?else) (IfElseInstr t is es)"
    by (rule accepts_bindM [OF accepts_loadBlockType [OF assms(3)] accepts_bindM_Nil])
      (simp only: prod.case accepts_retM)
  then show "accepts (bindM (liftM (makeInstructionNode (getOpCode (IfElseInstr t is es))))
      (loadInstr (loadBody n) (loadIfElse n False))) (enc_args (IfElseInstr t is es))
      (IfElseInstr t is es)" by (simp add: enc_args_def)
qed

lemma instr_round_trip: "enc_ok i \<Longrightarrow> instr_rt i"
  and instrs_round_trip: "encs_ok is \<Longrightarrow> instrs_rt is"
proof (induction i and "is" rule: enc_instr_enc_instrs.induct)
  case (2 c t body)
  then show ?case by (simp add: block_rt)
next
  case (3 t "is" es)
  then show ?case by (cases "es = []") (simp_all add: ifelse_rt instrs_rt_Nil)
next
  case (5 ls l)
  then have "accepts (loadToVector readU32) (enc_vec enc_u32 ls) ls"
    by (intro accepts_loadToVector enc_u32_readU32) simp
  then have "accepts (bindM (loadToVector readU32)
      (\<lambda>ls. bindM readU32 (\<lambda>l. retM (BrTableInstr ls l))))
      (enc_vec enc_u32 ls @ enc_u32 l) (BrTableInstr ls l)"
    by (rule accepts_bindM [OF _ accepts_bindM_Nil [OF enc_u32_readU32]]) (rule accepts_retM)
  then show ?case by (simp add: instr_rt_def enc_args_def)
next
  case (6 c i)
  then show ?case using accepts_loadCall [of c i] by (simp add: instr_rt_def enc_args_def)
qed (auto simp: instrs_rt_Nil instrs_rt_Cons, auto simp: instr_rt_def enc_args_def
    intro: accepts_bindM_Nil accepts_loadConst accepts_loadMemory enc_u32_readU32)

definition enc_expr :: "Expression \<Rightarrow> Bytes" where
  "enc_expr is = enc_instrs is @ [byte_of OpEnd]"

lemma accepts_Expression:
  "encs_ok is \<Longrightarrow> length (enc_expr is) \<le> n \<Longrightarrow> accepts (Expression_loadBinary n) (enc_expr is) is"
  unfolding Expression_loadBinary_def enc_expr_def
  by (rule instrs_rtD(1) [OF instrs_round_trip]) simp_all

section \<open>Types, descriptions and segments\<close>

fun enc_limit :: "Limit \<Rightarrow> Bytes" where
  "enc_limit (HasMin a) = 0 # enc_u32 a"
| "enc_limit (HasMinMax a b) = 1 # enc_u32 a @ enc_u32 b"

definition enc_functype :: "FunctionType \<Rightarrow> Bytes" where
  "enc_functype t = 0x60 # enc_vec (\<lambda>t. [byte_of_ValType t]) (ParamTypes t) @
     enc_vec (\<lambda>t. [byte_of_ValType t]) (ReturnTypes t)"

definition functype_ok :: "FunctionType \<Rightarrow> bool" where
  "functype_ok t \<longleftrightarrow> length (ParamTypes t) < 2 ^ 32 \<and> length (ReturnTypes t) < 2 ^ 32 \<and>
     (\<forall>p \<in> set (ParamTypes t) \<union> set (ReturnTypes t). isNumType p)"

definition enc_tabletype :: "TableType \<Rightarrow> Bytes" where
  "enc_tabletype t = 0x70 # enc_limit (TabLimit t)"

definition tabletype_ok :: "TableType \<Rightarrow> bool" where
  "tabletype_ok t \<longleftrightarrow> TabElem t = FuncRef"

definition enc_globaltype :: "GlobalType \<Rightarrow> Bytes" where
  "enc_globaltype t = [byte_of_ValType (GlobType t), if GlobMut t = Const then 0 else 1]"

definition globaltype_ok :: "GlobalType \<Rightarrow> bool" where
  "globaltype_ok t \<longleftrightarrow> isNumType (GlobType t) \<and> GlobMut t \<in> {Const, Var}"

definition enc_name :: "Bytes \<Rightarrow> Bytes" where
  "enc_name bs = leb_u (length bs) @ bs"

fun enc_extcontent :: "ExtContent \<Rightarrow> Bytes" where
  "enc_extcontent (ExtFunction i) = 0 # enc_u32 i"
| "enc_extcontent (ExtTable t) = 1 # enc_tabletype t"
| "enc_extcontent (ExtMemory t) = 2 # enc_limit t"
| "enc_extcontent (ExtGlobal t) = 3 # enc_globaltype t"

fun extcontent_ok :: "ExtContent \<Rightarrow> bool" where
  "extcontent_ok (ExtTable t) = tabletype_ok t"
| "extcontent_ok (ExtGlobal t) = globaltype_ok t"
| "extcontent_ok _ = True"

definition enc_import :: "ImportDesc \<Rightarrow> Bytes" where
  "enc_import d = enc_name (ImpModName d) @ enc_name (ImpExtName d) @ enc_extcontent (ImpContent d)"

definition import_ok :: "ImportDesc \<Rightarrow> bool" where
  "import_ok d \<longleftrightarrow> length (ImpModName d) < 2 ^ 32 \<and> length (ImpExtName d) < 2 ^ 32 \<and>
     extcontent_ok (ImpContent d)"

definition byte_of_ExternalType :: "ExternalType \<Rightarrow> u8" where
  "byte_of_ExternalType t =
     (case t of Function \<Rightarrow> 0 | Table \<Rightarrow> 1 | Memory \<Rightarrow> 2 | Global \<Rightarrow> 3 | XOther b \<Rightarrow> b)"

definition enc_export :: "ExportDesc \<Rightarrow> Bytes" where
  "enc_export d = enc_name (ExpExtName d) @ byte_of_ExternalType (ExpExtType d) # enc_u32 (ExpExtIdx d)"

definition export_ok :: "ExportDesc \<Rightarrow> bool" where
  "export_ok d \<longleftrightarrow> length (ExpExtName d) < 2 ^ 32 \<and>
     ExpExtType d \<in> {Function, Table, Memory, Global}"

definition enc_globalseg :: "GlobalSegment \<Rightarrow> Bytes" where
  "enc_globalseg g = enc_globaltype (GSegType g) @ enc_expr (GSegExpr g)"

definition globalseg_ok :: "GlobalSegment \<Rightarrow> bool" where
  "globalseg_ok g \<longleftrightarrow> globaltype_ok (GSegType g) \<and> encs_ok (GSegExpr g)"

definition enc_elemseg :: "ElementSegment \<Rightarrow> Bytes" where
  "enc_elemseg g = enc_u32 (ESegTableIdx g) @ enc_expr (ESegExpr g) @ enc_vec enc_u32 (ESegFuncIdxes g)"

definition elemseg_ok :: "ElementSegment \<Rightarrow> bool" where
  "elemseg_ok g \<longleftrightarrow> encs_ok (ESegExpr g) \<and> length (ESegFuncIdxes g) < 2 ^ 32"

definition enc_codeseg :: "CodeSegment \<Rightarrow> Bytes" where
  "enc_codeseg g = enc_u32 (CSegSize g) @
     enc_vec (\<lambda>(n, t). enc_u32 n @ [byte_of_ValType t]) (CSegLocals g) @ enc_expr (CSegExpr g)"

definition codeseg_ok :: "CodeSegment \<Rightarrow> bool" where
  "codeseg_ok g \<longleftrightarrow> encs_ok (CSegExpr g) \<and> length (CSegLocals g) < 2 ^ 32 \<and>
     (\<forall>(n, t) \<in> set (CSegLocals g). isBlockType t)"

definition enc_dataseg :: "DataSegment \<Rightarrow> Bytes" where
  "enc_dataseg g = enc_u32 (DSegMemoryIdx g) @ enc_expr (DSegExpr g) @ enc_name (DSegData g)"

definition dataseg_ok :: "DataSegment \<Rightarrow> bool" where
  "dataseg_ok g \<longleftrightarrow> encs_ok (DSegExpr g) \<and> length (DSegData g) < 2 ^ 32"

lemma accepts_limit: "accepts Limit_loadBinary (enc_limit l) l"
proof (cases l)
  case (HasMin a)
  have "accepts (bindM readU32 (\<lambda>mn. retM (HasMin mn))) (enc_u32 a) (HasMin a)"
    by (rule accepts_bindM_Nil [OF enc_u32_readU32]) simp
  with HasMin show ?thesis by (auto simp: Limit_loadBinary_def intro!: accepts_byte_bind)
next
  case (HasMinMax a b)
  have "accepts (bindM readU32 (\<lambda>mn. bindM readU32 (\<lambda>mx. retM (HasMinMax mn mx))))
      (enc_u32 a @ enc_u32 b) (HasMinMax a b)"
    by (rule accepts_u32_bind, rule accepts_bindM_Nil [OF enc_u32_readU32]) simp
  with HasMinMax show ?thesis by (auto simp: Limit_loadBinary_def intro!: accepts_byte_bind)
qed

lemma accepts_numtype: "isNumType t \<Longrightarrow> accepts readNumType [byte_of_ValType t] t"
  unfolding readNumType_def
  by (rule accepts_byte_bind) (simp add: ValType_of_byte isNumType_isBlockType)

lemma accepts_functype:
  assumes "functype_ok t"
  shows "accepts FunctionType_loadBinary (enc_functype t) t"
proof -
  have p: "accepts (loadToVector readNumType) (enc_vec (\<lambda>t. [byte_of_ValType t]) (ParamTypes t)) (ParamTypes t)"
   and r: "accepts (loadToVector readNumType) (enc_vec (\<lambda>t. [byte_of_ValType t]) (ReturnTypes t)) (ReturnTypes t)"
    using assms by (auto simp: functype_ok_def intro!: accepts_loadToVector accepts_numtype)
  have "accepts (bindM (loadToVector readNumType) (\<lambda>ps. bindM (loadToVector readNumType)
          (\<lambda>rs. retM \<lparr>ParamTypes = ps, ReturnTypes = rs\<rparr>))) (tl (enc_functype t)) t"
    unfolding enc_functype_def list.sel
    by (rule accepts_bindM [OF p accepts_bindM_Nil [OF r]], rule accepts_ret_eq) (cases t, simp)
  then show ?thesis
    by (auto simp: FunctionType_loadBinary_def enc_functype_def ElemType_of_def intro!: accepts_byte_bind)
qed

lemma accepts_tabletype: "tabletype_ok t \<Longrightarrow> accepts TableType_loadBinary (enc_tabletype t) t"
  by (cases t) (auto simp: TableType_loadBinary_def enc_tabletype_def tabletype_ok_def ElemType_of_def
      intro!: accepts_byte_bind accepts_bindM_Nil [OF accepts_limit])

lemma accepts_globaltype: "globaltype_ok t \<Longrightarrow> accepts GlobalType_loadBinary (enc_globaltype t) t"
  by (cases t) (auto simp: GlobalType_loadBinary_def enc_globaltype_def globaltype_ok_def ValMut_of_def
      ValType_of_byte isNumType_isBlockType intro!: accepts_byte_bind)

lemma accepts_name: "length bs < 2 ^ 32 \<Longrightarrow> accepts readName (enc_name bs) bs"
  unfolding enc_name_def by (rule accepts_readName)

lemma accepts_import:
  assumes "import_ok d"
  shows "accepts ImportDesc_loadBinary (enc_import d) d"
  unfolding ImportDesc_loadBinary_def enc_import_def
proof (intro accepts_bindM [OF accepts_name])
  let ?mk = "\<lambda>c. \<lparr>ImpModName = ImpModName d, ImpExtName = ImpExtName d, ImpContent = c\<rparr>"
  have mk: "?mk (ImpContent d) = d" by (cases d) simp
  show "accepts (bindM readByte (\<lambda>b. let mk = ?mk in case ExternalType_of b of
       Function \<Rightarrow> bindM readU32 (\<lambda>i. retM (mk (ExtFunction i)))
     | Table \<Rightarrow> bindM TableType_loadBinary (\<lambda>t. retM (mk (ExtTable t)))
     | Memory \<Rightarrow> bindM MemoryType_loadBinary (\<lambda>t. retM (mk (ExtMemory t)))
     | Global \<Rightarrow> bindM GlobalType_loadBinary (\<lambda>t. retM (mk (ExtGlobal t)))
     | XOther _ \<Rightarrow> errM InvalidGrammar)) (enc_extcontent (ImpContent d)) d"
    using assms mk
    by (cases "ImpContent d")
      (auto simp: import_ok_def ExternalType_of_def MemoryType_loadBinary_def Let_def
        intro!: accepts_byte_bind accepts_bindM_Nil [OF enc_u32_readU32] accepts_ret_eq
          accepts_bindM_Nil [OF accepts_tabletype] accepts_bindM_Nil [OF accepts_limit]
          accepts_bindM_Nil [OF accepts_globaltype])
qed (use assms in \<open>simp_all add: import_ok_def\<close>)

lemma accepts_export:
  assumes "export_ok d"
  shows "accepts ExportDesc_loadBinary (enc_export d) d"
proof -
  have t: "ExternalType_of (byte_of_ExternalType (ExpExtType d)) = ExpExtType d"
    using assms by (auto simp: export_ok_def ExternalType_of_def byte_of_ExternalType_def)
  have eta: "\<lparr>ExpExtName = ExpExtName d, ExpExtType = ExpExtType d, ExpExtIdx = ExpExtIdx d\<rparr> = d"
    by (cases d) simp
  show ?thesis
    unfolding ExportDesc_loadBinary_def enc_export_def using assms eta
    by (intro accepts_bindM [OF accepts_name] accepts_byte_bind)
      (auto simp: export_ok_def t intro!: accepts_bindM_Nil [OF enc_u32_readU32] accepts_ret_eq)
qed

lemma segment_eta [simp]:
  "\<lparr>GSegType = GSegType g, GSegExpr = GSegExpr g\<rparr> = g"
  "\<lparr>ESegTableIdx = ESegTableIdx e, ESegExpr = ESegExpr e, ESegFuncIdxes = ESegFuncIdxes e\<rparr> = e"
  "\<lparr>CSegSize = CSegSize c, CSegLocals = CSegLocals c, CSegExpr = CSegExpr c\<rparr> = c"
  "\<lparr>DSegMemoryIdx = DSegMemoryIdx d, DSegExpr = DSegExpr d, DSegData = DSegData d\<rparr> = d"
  by (cases g, cases e, cases c, cases d, simp)+

lemma accepts_globalseg:
  assumes "globalseg_ok g" "length (enc_globalseg g) \<le> n"
  shows "accepts (GlobalSegment_loadBinary n) (enc_globalseg g) g"
  unfolding GlobalSegment_loadBinary_def enc_globalseg_def
  by (rule accepts_bindM [OF accepts_globaltype accepts_bindM_Nil [OF accepts_Expression]])
    (use assms in \<open>simp_all add: globalseg_ok_def enc_globalseg_def\<close>)

lemma accepts_elemseg:
  assumes "elemseg_ok g" "length (enc_elemseg g) \<le> n"
  shows "accepts (ElementSegment_loadBinary n) (enc_elemseg g) g"
proof -
  have v: "accepts (loadToVector readU32) (enc_vec enc_u32 (ESegFuncIdxes g)) (ESegFuncIdxes g)"
    using assms(1) by (intro accepts_loadToVector enc_u32_readU32) (simp add: elemseg_ok_def)
  show ?thesis
    unfolding ElementSegment_loadBinary_def enc_elemseg_def
    by (rule accepts_u32_bind, rule accepts_bindM [OF accepts_Expression accepts_bindM_Nil [OF v]])
      (use assms in \<open>simp_all add: elemseg_ok_def enc_elemseg_def\<close>)
qed

lemma accepts_local:
  "isBlockType t \<Longrightarrow> accepts loadLocal (enc_u32 n @ [byte_of_ValType t]) (n, t)"
  unfolding loadLocal_def
  by (rule accepts_u32_bind, rule accepts_byte_bind) (simp add: ValType_of_byte)

lemma accepts_codeseg:
  assumes "codeseg_ok g" "length (enc_codeseg g) \<le> n"
  shows "accepts (CodeSegment_loadBinary n) (enc_codeseg g) g"
proof -
  have v: "accepts (loadToVector loadLocal)
     (enc_vec (\<lambda>(n, t). enc_u32 n @ [byte_of_ValType t]) (CSegLocals g)) (CSegLocals g)"
    using assms(1) by (intro accepts_loadToVector) (auto simp: codeseg_ok_def intro!: accepts_local)
  show ?thesis
    unfolding CodeSegment_loadBinary_def enc_codeseg_def
    by (rule accepts_u32_bind, rule accepts_bindM [OF v accepts_bindM_Nil [OF accepts_Expression]])
      (use assms in \<open>simp_all add: codeseg_ok_def enc_codeseg_def\<close>)
qed

lemma accepts_sized_bytes:
  assumes "length bs < 2 ^ 32"
  shows "accepts (bindM readU32 (\<lambda>c. readBytes (unat c))) (enc_name bs) bs"
  unfolding enc_name_def
  by (rule accepts_bindM [OF accepts_leb(1) [OF assms]])
    (use assms accepts_readBytes [of bs] in \<open>simp add: unat_of_nat_less\<close>)

lemma accepts_dataseg:
  assumes "dataseg_ok g" "length (enc_dataseg g) \<le> n"
  shows "accepts (DataSegment_loadBinary n) (enc_dataseg g) g"
proof -
  have d: "accepts (bindM readU32 (\<lambda>c. readBytes (unat c))) (enc_name (DSegData g)) (DSegData g)"
    using assms(1) by (intro accepts_sized_bytes) (simp add: dataseg_ok_def)
  have "accepts (bindM readU32 (\<lambda>i. bindM (Expression_loadBinary n) (\<lambda>e.
      bindM (bindM readU32 (\<lambda>c. readBytes (unat c)))
        (\<lambda>d. retM \<lparr>DSegMemoryIdx = i, DSegExpr = e, DSegData = d\<rparr>)))) (enc_dataseg g) g"
    unfolding enc_dataseg_def
    by (rule accepts_u32_bind, rule accepts_bindM [OF accepts_Expression accepts_bindM_Nil [OF d]])
      (use assms in \<open>simp_all add: dataseg_ok_def enc_dataseg_def\<close>)
  then show ?thesis unfolding DataSegment_loadBinary_def bindM_assoc .
qed


section \<open>Sections and modules\<close>

definition enc_section :: "u8 \<Rightarrow> ('a \<Rightarrow> Bytes) \<Rightarrow> 'a option \<Rightarrow> Bytes" where
  "enc_section i e c = (case c of None \<Rightarrow> [] | Some x \<Rightarrow> i # enc_u32 (of_nat (length (e x))) @ e x)"

text \<open>The bytes of the section with number \<open>k\<close>, and the module with its sections below \<open>k\<close>.\<close>

definition enc_nth :: "nat \<Rightarrow> Module \<Rightarrow> Bytes" where
  "enc_nth k M =
    [enc_section 0 id (CustomSec M), enc_section 1 (enc_vec enc_functype) (TypeSec M),
     enc_section 2 (enc_vec enc_import) (ImportSec M), enc_section 3 (enc_vec enc_u32) (FunctionSec M),
     enc_section 4 (enc_vec enc_tabletype) (TableSec M), enc_section 5 (enc_vec enc_limit) (MemorySec M),
     enc_section 6 (enc_vec enc_globalseg) (GlobalSec M), enc_section 7 (enc_vec enc_export) (ExportSec M),
     enc_section 8 enc_u32 (StartSec M), enc_section 9 (enc_vec enc_elemseg) (ElementSec M),
     enc_section 10 (enc_vec enc_codeseg) (CodeSec M), enc_section 11 (enc_vec enc_dataseg) (DataSec M)] ! k"

definition upto :: "nat \<Rightarrow> Module \<Rightarrow> Module" where
  "upto k M = \<lparr>Magic = Magic M, Version = Version M,
     CustomSec = (if 0 < k then CustomSec M else None),
     TypeSec = (if 1 < k then TypeSec M else None),
     ImportSec = (if 2 < k then ImportSec M else None),
     FunctionSec = (if 3 < k then FunctionSec M else None),
     TableSec = (if 4 < k then TableSec M else None),
     MemorySec = (if 5 < k then MemorySec M else None),
     GlobalSec = (if 6 < k then GlobalSec M else None),
     ExportSec = (if 7 < k then ExportSec M else None),
     StartSec = (if 8 < k then StartSec M else None),
     ElementSec = (if 9 < k then ElementSec M else None),
     CodeSec = (if 10 < k then CodeSec M else None),
     DataSec = (if 11 < k then DataSec M else None)\<rparr>"

definition enc_module :: "Module \<Rightarrow> Bytes" where
  "enc_module M = Magic M @ Version M @ concat (map (\<lambda>k. enc_nth k M) [0..<12])"

definition vec_ok :: "('a \<Rightarrow> bool) \<Rightarrow> 'a list option \<Rightarrow> bool" where
  "vec_ok P c \<longleftrightarrow> (case c of None \<Rightarrow> True | Some xs \<Rightarrow> length xs < 2 ^ 32 \<and> list_all P xs)"

definition module_ok :: "Module \<Rightarrow> bool" where
  "module_ok M \<longleftrightarrow> length (Magic M) = 4 \<and> length (Version M) = 4 \<and>
     vec_ok (\<lambda>_. True) (CustomSec M) \<and> vec_ok functype_ok (TypeSec M) \<and>
     vec_ok import_ok (ImportSec M) \<and> vec_ok (\<lambda>_. True) (FunctionSec M) \<and>
     vec_ok tabletype_ok (TableSec M) \<and> vec_ok (\<lambda>_. True) (MemorySec M) \<and>
     vec_ok globalseg_ok (GlobalSec M) \<and> vec_ok export_ok (ExportSec M) \<and>
     vec_ok elemseg_ok (ElementSec M) \<and> vec_ok codeseg_ok (CodeSec M) \<and>
     vec_ok dataseg_ok (DataSec M)"

lemma vec_section:
  assumes "length xs < 2 ^ 32" and "\<And>x. x \<in> set xs \<Longrightarrow> accepts rd (e x) x" and "f xs = y"
  shows "accepts (bindM (Section_loadBinary (\<lambda>_. loadToVector rd)) (\<lambda>c. retM (f c)))
     (enc_u32 sz @ enc_vec e xs) y"
  unfolding Section_loadBinary_def bindM_assoc
  by (rule accepts_u32_bind, rule accepts_bindM_Nil [OF accepts_loadToVector])
    (use assms in auto)

lemma enc_vec_member: "x \<in> set xs \<Longrightarrow> length (e x) \<le> length (enc_vec e xs)"
  by (auto simp: enc_vec_def length_concat dest!: split_list)

text \<open>
  Reading one section: either the module has none with this number and its encoding is empty, or the
  loop body reads it and sets the member.
\<close>

definition section_step :: "Module \<Rightarrow> nat \<Rightarrow> bool" where
  "section_step M k \<longleftrightarrow> enc_nth k M = [] \<and> upto (Suc k) M = upto k M \<or>
     (\<exists>bs. enc_nth k M = of_nat k # bs \<and> (\<forall>n \<ge> length bs.
        accepts (loadSection n (of_nat k) (upto k M)) bs (upto (Suc k) M)))"

lemma vec_step:
  assumes "\<And>n x. x \<in> set (case c of None \<Rightarrow> [] | Some xs \<Rightarrow> xs) \<Longrightarrow> P x \<Longrightarrow> length (e x) \<le> n \<Longrightarrow>
       accepts (rd n) (e x) x"
    and "vec_ok P c"
    and "enc_nth k M = enc_section (of_nat k) (enc_vec e) c"
    and "\<And>n M'. loadSection n (of_nat k) M' =
       bindM (Section_loadBinary (\<lambda>_. loadToVector (rd n))) (\<lambda>c. retM (f c M'))"
    and "\<And>xs. c = Some xs \<Longrightarrow> f xs (upto k M) = upto (Suc k) M"
    and "c = None \<Longrightarrow> upto k M = upto (Suc k) M"
  shows "section_step M k"
proof (cases c)
  case None
  then show ?thesis using assms(3,6) by (simp add: section_step_def enc_section_def)
next
  case (Some xs)
  have "accepts (loadSection n (of_nat k) (upto k M))
      (enc_u32 (of_nat (length (enc_vec e xs))) @ enc_vec e xs) (upto (Suc k) M)"
    if "length (enc_u32 (of_nat (length (enc_vec e xs))) @ enc_vec e xs) \<le> n" for n
    unfolding assms(4)
  proof (rule vec_section)
    show "accepts (rd n) (e x) x" if "x \<in> set xs" for x
      using assms(1) [of x n] assms(2) Some that enc_vec_member [OF that, of e]
        \<open>length (enc_u32 _ @ _) \<le> n\<close> by (auto simp: vec_ok_def list_all_iff)
  qed (use assms(2,5) Some in \<open>auto simp: vec_ok_def\<close>)
  then show ?thesis unfolding section_step_def assms(3)
    by (intro disjI2 exI conjI allI impI) (auto simp: Some enc_section_def)
qed

lemma section_steps:
  assumes "module_ok M"
  shows "section_step M 1" "section_step M 2" "section_step M 3" "section_step M 4"
    "section_step M 5" "section_step M 6" "section_step M 7" 
    "section_step M 9" "section_step M 10" "section_step M 11"
proof -
  note S = assms [unfolded module_ok_def] and D = enc_nth_def loadSection_def upto_def
  have F: "FunctionSection_loadContent = (\<lambda>_. loadToVector readU32)"
    by (rule ext) (simp add: FunctionSection_loadContent_def)
  show "section_step M 1"
    by (rule vec_step [where c = "TypeSec M" and P = functype_ok and e = enc_functype
        and rd = "\<lambda>_. FunctionType_loadBinary" and f = "\<lambda>c M. M\<lparr>TypeSec := Some c\<rparr>"])
      (use S in \<open>auto simp: D accepts_functype\<close>)
  show "section_step M 2"
    by (rule vec_step [where c = "ImportSec M" and P = import_ok and e = enc_import
        and rd = "\<lambda>_. ImportDesc_loadBinary" and f = "\<lambda>c M. M\<lparr>ImportSec := Some c\<rparr>"])
      (use S in \<open>auto simp: D accepts_import\<close>)
  show "section_step M 3"
    by (rule vec_step [where c = "FunctionSec M" and P = "\<lambda>_. True" and e = enc_u32
        and rd = "\<lambda>_. readU32" and f = "\<lambda>c M. M\<lparr>FunctionSec := Some c\<rparr>"])
      (use S in \<open>auto simp: D enc_u32_readU32 F\<close>)
  show "section_step M 4"
    by (rule vec_step [where c = "TableSec M" and P = tabletype_ok and e = enc_tabletype
        and rd = "\<lambda>_. TableType_loadBinary" and f = "\<lambda>c M. M\<lparr>TableSec := Some c\<rparr>"])
      (use S in \<open>auto simp: D accepts_tabletype\<close>)
  show "section_step M 5"
    by (rule vec_step [where c = "MemorySec M" and P = "\<lambda>_. True" and e = enc_limit
        and rd = "\<lambda>_. MemoryType_loadBinary" and f = "\<lambda>c M. M\<lparr>MemorySec := Some c\<rparr>"])
      (use S in \<open>auto simp: D accepts_limit MemoryType_loadBinary_def\<close>)
  show "section_step M 6"
    by (rule vec_step [where c = "GlobalSec M" and P = globalseg_ok and e = enc_globalseg
        and rd = GlobalSegment_loadBinary and f = "\<lambda>c M. M\<lparr>GlobalSec := Some c\<rparr>"])
      (use S in \<open>auto simp: D accepts_globalseg\<close>)
  show "section_step M 7"
    by (rule vec_step [where c = "ExportSec M" and P = export_ok and e = enc_export
        and rd = "\<lambda>_. ExportDesc_loadBinary" and f = "\<lambda>c M. M\<lparr>ExportSec := Some c\<rparr>"])
      (use S in \<open>auto simp: D accepts_export\<close>)
  show "section_step M 9"
    by (rule vec_step [where c = "ElementSec M" and P = elemseg_ok and e = enc_elemseg
        and rd = ElementSegment_loadBinary and f = "\<lambda>c M. M\<lparr>ElementSec := Some c\<rparr>"])
      (use S in \<open>auto simp: D accepts_elemseg\<close>)
  show "section_step M 10"
    by (rule vec_step [where c = "CodeSec M" and P = codeseg_ok and e = enc_codeseg
        and rd = CodeSegment_loadBinary and f = "\<lambda>c M. M\<lparr>CodeSec := Some c\<rparr>"])
      (use S in \<open>auto simp: D accepts_codeseg\<close>)
  show "section_step M 11"
    by (rule vec_step [where c = "DataSec M" and P = dataseg_ok and e = enc_dataseg
        and rd = DataSegment_loadBinary and f = "\<lambda>c M. M\<lparr>DataSec := Some c\<rparr>"])
      (use S in \<open>auto simp: D accepts_dataseg\<close>)
qed

lemma section_step_start: "section_step M 8"
proof (cases "StartSec M")
  case (Some w)
  have "accepts (bindM (Section_loadBinary StartSection_loadContent) (\<lambda>c. retM (upto 8 M\<lparr>StartSec := Some c\<rparr>)))
     (enc_u32 sz @ enc_u32 w) (upto 9 M)" for sz
    unfolding Section_loadBinary_def StartSection_loadContent_def bindM_assoc
    by (rule accepts_u32_bind, rule accepts_bindM_Nil [OF enc_u32_readU32])
      (simp add: upto_def Some)
  then show ?thesis by (auto simp: section_step_def enc_nth_def enc_section_def Some loadSection_def)
qed (simp add: section_step_def enc_nth_def enc_section_def upto_def)

lemma section_step_custom: "module_ok M \<Longrightarrow> section_step M 0"
proof (cases "CustomSec M")
  case (Some bs)
  assume "module_ok M"
  with Some have "unat (of_nat (length bs) :: u32) = length bs"
    by (intro unat_of_nat_less) (simp add: module_ok_def vec_ok_def)
  then have "accepts (bindM (Section_loadBinary CustomSection_loadContent) (\<lambda>c. retM (upto 0 M\<lparr>CustomSec := Some c\<rparr>)))
     (enc_u32 (of_nat (length bs)) @ bs) (upto 1 M)"
    unfolding Section_loadBinary_def CustomSection_loadContent_def bindM_assoc
    by (intro accepts_u32_bind accepts_bindM_Nil [where x = bs] accepts_ret_eq)
      (simp_all add: upto_def Some accepts_readBytes)
  then show ?thesis by (auto simp: section_step_def enc_nth_def enc_section_def Some loadSection_def)
qed (simp add: section_step_def enc_nth_def enc_section_def upto_def)

lemma section_step_all:
  assumes "module_ok M" "k < 12"
  shows "section_step M k"
proof -
  have "k \<in> {0, 1, 2, 3, 4, 5, 6, 7, 8, 9, 10, 11}" using assms(2) by simp arith
  then show ?thesis
    using section_steps [OF assms(1)] section_step_start section_step_custom [OF assms(1)] by blast
qed

lemma loadSections_rt:
  assumes "module_ok M" "k \<le> 12" "fm_inv m"
    and "unread m = concat (map (\<lambda>k. enc_nth k M) [k..<12])" and "length (unread m) < n"
  shows "\<exists>m'. loadSections n (upto k M) m = (Ok (upto 12 M), m') \<and> unread m' = []"
  using assms(2-5)
proof (induction k arbitrary: m n rule: inc_induct)
  case base
  then obtain n' where "n = Suc n'" by (cases n) auto
  with base show ?case by (auto simp: readByte_Nil unread_def)
next
  case (step k)
  have un: "unread m = enc_nth k M @ concat (map (\<lambda>k. enc_nth k M) [Suc k..<12])"
    using step by (simp add: upt_conv_Cons)
  from section_step_all [OF assms(1) step.hyps(2)] consider
     (none) "enc_nth k M = []" "upto (Suc k) M = upto k M"
   | (some) bs where "enc_nth k M = of_nat k # bs" "\<forall>n \<ge> length bs.
        accepts (loadSection n (of_nat k) (upto k M)) bs (upto (Suc k) M)"
    unfolding section_step_def by blast
  then show ?case
  proof cases
    case none
    with un step show ?thesis by simp
  next
    case some
    let ?rest = "concat (map (\<lambda>k. enc_nth k M) [Suc k..<12])"
    have u: "unread m = of_nat k # (bs @ ?rest)" using un some by simp
    obtain m1 where m1: "readByte m = (Ok (of_nat k), m1)" "fm_inv m1" "unread m1 = bs @ ?rest"
      using readByte_Cons [OF step.prems(1) u] by blast
    obtain n' where n': "n = Suc n'" "length bs \<le> n'" "length ?rest < n'"
      using step.prems(3) u by (cases n) auto
    obtain m2 where m2: "loadSection n' (of_nat k) (upto k M) m1 = (Ok (upto (Suc k) M), m2)"
       "fm_inv m2" "unread m2 = ?rest"
      using acceptsE [OF some(2) [rule_format, OF n'(2)] m1(2,3)] by metis
    from step.IH [OF m2(2,3)] n'(3) m2(3) have "\<exists>m'. loadSections n' (upto (Suc k) M) m2 = (Ok (upto 12 M), m') \<and> unread m' = []"
      by simp
    then show ?thesis using m1 m2 n' by (simp add: bindM_def)
  qed
qed

text \<open>C1. Loading is the inverse of the binary format: for every module whose nodes have a binary form
  and whose encoding is shorter than 4 GiB, \<open>Loader::parseModule\<close> on the encoding returns exactly
  that module and reads all of the input.\<close>

theorem parse_enc_module:
  assumes "module_ok M" and "length (enc_module M) < 2 ^ 32"
  shows "\<exists>m'. parseModule (enc_module M) m = (Ok M, m') \<and> unread m' = []"
proof -
  let ?c = "enc_module M"
  let ?m = "m\<lparr>Code := ?c, Pos := 0, Status := Success\<rparr>"
  have ok: "fm_inv ?m" "unread ?m = Magic M @ Version M @ concat (map (\<lambda>k. enc_nth k M) [0..<12])"
    using assms(2) by (simp_all add: fm_inv_def unread_def enc_module_def)
  have len: "length (Magic M) = 4" "length (Version M) = 4" using assms(1) by (simp_all add: module_ok_def)
  obtain m1 where m1: "readBytes 4 ?m = (Ok (Magic M), m1)" "fm_inv m1"
    "unread m1 = Version M @ concat (map (\<lambda>k. enc_nth k M) [0..<12])"
    using acceptsE [OF accepts_readBytes [of "Magic M"] ok] len by metis
  obtain m2 where m2: "readBytes 4 m1 = (Ok (Version M), m2)" "fm_inv m2"
    "unread m2 = concat (map (\<lambda>k. enc_nth k M) [0..<12])"
    using acceptsE [OF accepts_readBytes [of "Version M"] m1(2,3)] len by metis
  have start: "empty_Module\<lparr>Magic := Magic M, Version := Version M\<rparr> = upto 0 M"
    by (simp add: empty_Module_def upto_def)
  have "length (unread m2) < Suc (length ?c)" using m2(3) by (simp add: enc_module_def)
  from loadSections_rt [OF assms(1) _ m2(2,3) this]
  obtain m' where m': "loadSections (Suc (length ?c)) (upto 0 M) m2 = (Ok (upto 12 M), m')" "unread m' = []"
    by auto
  have "?c \<noteq> []" using len by (auto simp: enc_module_def)
  moreover have "upto 12 M = M" by (cases M) (simp add: upto_def)
  ultimately show ?thesis using m1(1) m2(1) m'
    by (simp add: parseModule_def Module_loadBinary_def setCode_def bindM_def start Let_def del: loadSections.simps)
qed


text \<open>A module with one function type, one function without parameters that returns a constant, and
  an export, in the text form \<open>(func (export "f") (result i32) (i32.const 42))\<close>.\<close>

definition sample_module :: Module where
  "sample_module = empty_Module\<lparr>Magic := [0, 0x61, 0x73, 0x6D], Version := [1, 0, 0, 0],
     TypeSec := Some [\<lparr>ParamTypes = [], ReturnTypes = [I32]\<rparr>], FunctionSec := Some [0],
     ExportSec := Some [\<lparr>ExpExtName = [0x66], ExpExtType = Function, ExpExtIdx = 0\<rparr>],
     CodeSec := Some [\<lparr>CSegSize = 4, CSegLocals = [], CSegExpr = [ConstInstr I32__const (V32 42)]\<rparr>]\<rparr>"

lemma sample_module_ok: "module_ok sample_module"
  by (simp add: sample_module_def module_ok_def empty_Module_def vec_ok_def functype_ok_def
      isNumType_def export_ok_def codeseg_ok_def)

lemma sample_module_bytes:
  "enc_module sample_module =
     [0, 0x61, 0x73, 0x6D, 1, 0, 0, 0, 1, 5, 1, 0x60, 0, 1, 0x7F, 3, 2, 1, 0,
      7, 5, 1, 1, 0x66, 0, 0, 10, 6, 1, 4, 0, 0x41, 42, 0x0B]"
  by (simp add: enc_module_def sample_module_def empty_Module_def enc_nth_def enc_section_def
      upt_conv_Cons enc_vec_def enc_functype_def byte_of_ValType_def enc_u32_def leb_u.simps
      enc_export_def enc_name_def byte_of_ExternalType_def enc_codeseg_def enc_expr_def
      leb_s.simps byte_of_def opcode_table_def)

theorem parse_enc_module_witness:
  "\<exists>m'. parseModule [0, 0x61, 0x73, 0x6D, 1, 0, 0, 0, 1, 5, 1, 0x60, 0, 1, 0x7F, 3, 2, 1, 0,
      7, 5, 1, 1, 0x66, 0, 0, 10, 6, 1, 4, 0, 0x41, 42, 0x0B]
      \<lparr>Code = [], Pos = 0, Status = Success\<rparr> = (Ok sample_module, m') \<and> unread m' = []"
  using parse_enc_module [OF sample_module_ok] by (simp add: sample_module_bytes)

text \<open>The instruction loader is the inverse of the binary format: \<open>Expression::loadBinary\<close> reads
  back any instruction list with a binary form, nested blocks and both branches of \<open>if\<close> included,
  with fuel equal to the length of its encoding, and stops right after its \<open>End\<close>.\<close>

lemma Expression_round_trip:
  assumes "encs_ok is" and "length (enc_expr is) \<le> n" and "fm_inv m"
    and "unread m = enc_expr is @ rest"
  shows "\<exists>m'. Expression_loadBinary n m = (Ok is, m') \<and> fm_inv m' \<and> unread m' = rest"
  using acceptsE [OF accepts_Expression [OF assms(1,2)] assms(3,4)] by metis

end
