(* ===== verification/Memory.thy ===== *)
theory Memory
  imports Loading
begin

text \<open>
  \<open>include/runtime/instance/memory.h\<close>: the memory instance. The byte vector is allocated lazily:
  \<open>Data\<close> may be shorter than the memory of \<open>CurrPage\<close> pages, and \<open>checkDataSize\<close> enlarges it
  before an access. The sizes it computes are \<open>uint32_t\<close> and are kept at that width. An access to
  \<open>Data\<close> past its end is undefined.
\<close>

section \<open>The memory instance\<close>

record MemoryInstance =
  HasMaxPage :: bool
  MinPage :: u32
  MaxPage :: u32
  CurrPage :: u32
  Data :: Bytes

fun limMax :: "Limit \<Rightarrow> u32" where
  "limMax (HasMin _) = 0"
| "limMax (HasMinMax _ b) = b"

definition newMemory :: "Limit \<Rightarrow> MemoryInstance" where
  "newMemory lim = \<lparr>HasMaxPage = hasMax lim, MinPage = getMin lim, MaxPage = limMax lim,
     CurrPage = getMin lim, Data = []\<rparr>"

type_synonym 'a memop = "(MemoryInstance, 'a) exec"

definition growPage :: "u32 \<Rightarrow> unit memop" where
  "growPage count m =
     (if HasMaxPage m \<and> MaxPage m < count + CurrPage m \<or> 65536 < count + CurrPage m
      then (Err MemorySizeExceeded, m)
      else (Ok (), m\<lparr>CurrPage := CurrPage m + count\<rparr>))"

text \<open>
  The new size of the byte vector. \<open>TargetSize *= 1.1\<close> multiplies in \<open>double\<close> and truncates; for
  the 32-bit sizes at hand the result is the integer part of eleven tenths.
\<close>

definition targetSize :: "u32 \<Rightarrow> u32" where
  "targetSize s = (let t = s div 8 + 1 in
     if t < 32 * 65536 then t * 2 else of_nat (unat t * 11 div 10))"

definition checkDataSize :: "u32 \<Rightarrow> u32 \<Rightarrow> MemoryInstance \<Rightarrow> bool \<times> MemoryInstance" where
  "checkDataSize off len m =
     (if unat off + unat len > unat (CurrPage m) * 65536 then (False, m)
      else if length (Data m) < unat (off + len) then
        let t = targetSize (off + len) in
        if CurrPage m * 65536 < t * 8
        then (True, m\<lparr>Data := vresize (unat (CurrPage m * 65536)) 0 (Data m)\<rparr>)
        else (True, m\<lparr>Data := vresize (unat (t * 8)) 0 (Data m)\<rparr>)
      else (True, m))"

text \<open>\<open>Data[off], ..., Data[off + n - 1]\<close>, and writing them.\<close>

definition sliceM :: "nat \<Rightarrow> nat \<Rightarrow> Bytes memop" where
  "sliceM off n m =
     (if length (Data m) < off + n then (Undef, m) else (Ok (take n (drop off (Data m))), m))"

definition copyM :: "nat \<Rightarrow> Bytes \<Rightarrow> unit memop" where
  "copyM off bs m =
     (if length (Data m) < off + length bs then (Undef, m)
      else (Ok (), m\<lparr>Data := overwrite off bs (Data m)\<rparr>))"

text \<open>The guard with which every access starts.\<close>

definition guarded :: "u32 \<Rightarrow> u32 \<Rightarrow> 'a memop \<Rightarrow> 'a memop" where
  "guarded off len body m =
     (case checkDataSize off len m of
        (False, m') \<Rightarrow> (Err MemorySizeExceeded, m')
      | (True, m') \<Rightarrow> body m')"

definition getBytes :: "u32 \<Rightarrow> u32 \<Rightarrow> Bytes memop" where
  "getBytes off len = guarded off len
     (if len > 0 then sliceM (unat off) (unat len) else retM [])"

text \<open>In \<open>setBytes\<close> the sum \<open>Start + Length\<close> is a 32-bit sum.\<close>

definition setBytes :: "Bytes \<Rightarrow> u32 \<Rightarrow> u32 \<Rightarrow> u32 \<Rightarrow> unit memop" where
  "setBytes src off start len = guarded off len
     (if length src > 0 \<and> length src \<le> unat start \<or> length src < unat (start + len)
      then errM AccessForbidMemory
      else if len > 0 then
        if length src < unat start + unat len then undefM
        else copyM (unat off) (take (unat len) (drop (unat start) src))
      else retM ())"

text \<open>
  \<open>getArray\<close> fills a caller's array of at least \<open>len\<close> bytes and \<open>setArray\<close> reads one; the array
  is a list here, and for \<open>setArray\<close> its first \<open>len\<close> bytes are used.
\<close>

definition getArray :: "u32 \<Rightarrow> u32 \<Rightarrow> bool \<Rightarrow> Bytes memop" where
  "getArray off len rev_order = guarded off len
     (if len > 0 then
        if rev_order then bindM (sliceM (unat off) (unat len)) (\<lambda>bs. retM (rev bs))
        else sliceM (unat off) (unat len)
      else retM [])"

definition setArray :: "Bytes \<Rightarrow> u32 \<Rightarrow> u32 \<Rightarrow> bool \<Rightarrow> unit memop" where
  "setArray arr off len rev_order = guarded off len
     (if len > 0 then
        if length arr < unat len then undefM
        else copyM (unat off)
          (if rev_order then rev (take (unat len) arr) else take (unat len) arr)
      else retM ())"

text \<open>
  The raw addresses that host functions get: an index into the vector, or null. They do not go through
  \<open>checkDataSize\<close>, so an address in a part of the memory that is not allocated yet is null.
\<close>

definition getPointerOrNull :: "u32 \<Rightarrow> nat option memop" where
  "getPointerOrNull off m = (Ok (if length (Data m) \<le> unat off \<or> off = 0 then None else Some (unat off)), m)"

definition getPointer :: "u32 \<Rightarrow> nat option memop" where
  "getPointer off m = (Ok (if length (Data m) \<le> unat off then None else Some (unat off)), m)"

text \<open>The template arguments of \<open>loadValue\<close>, \<open>storeValue\<close> and the numeric operations.\<close>

datatype numT = TU32 | TS32 | TU64 | TS64 | TF32 | TF64

definition sizeof :: "numT \<Rightarrow> u32" where
  "sizeof t = (if t \<in> {TU32, TS32, TF32} then 4 else 8)"

definition isFloat :: "numT \<Rightarrow> bool" where
  "isFloat t \<longleftrightarrow> t \<in> {TF32, TF64}"

definition isSigned :: "numT \<Rightarrow> bool" where
  "isSigned t \<longleftrightarrow> t \<in> {TS32, TS64, TF32, TF64}"

text \<open>The \<open>for\<close> loop that sets the bytes from \<open>Length\<close> on.\<close>

definition signExtend :: "u32 \<Rightarrow> u64 \<Rightarrow> u64" where
  "signExtend len w = fold (\<lambda>i v. v OR push_bit (i * 8) 0xFF) [unat len..<8] w"

text \<open>
  \<open>loadValue\<close>: the old and the new value of the reference parameter are bit patterns; a four-byte
  type keeps the low half.
\<close>

definition loadValue :: "numT \<Rightarrow> u64 \<Rightarrow> u32 \<Rightarrow> u32 \<Rightarrow> u64 memop" where
  "loadValue t old off len =
     (if sizeof t < len then errM AccessForbidMemory
      else guarded off len
        (if len > 0 then
           if isFloat t
           then bindM (sliceM (unat off) (unat (sizeof t))) (\<lambda>bs. retM (le_word bs))
           else bindM (sliceM (unat off) (unat len)) (\<lambda>bs.
             let w = le_word bs;
                 v = (if isSigned t \<and> drop_bit (unat len * 8 - 1) w \<noteq> 0 then signExtend len w else w)
             in retM (if sizeof t = 4 then take_bit 32 v else v))
         else retM old))"

definition storeValue :: "numT \<Rightarrow> u64 \<Rightarrow> u32 \<Rightarrow> u32 \<Rightarrow> unit memop" where
  "storeValue t v off len =
     (if sizeof t < len then errM AccessForbidMemory
      else guarded off len
        (if len > 0 then copyM (unat off) (le_bytes (unat len) v) else retM ()))"

section \<open>The logical memory\<close>

text \<open>
  What a memory instance stands for: \<open>msize\<close> bytes, of which those past the end of the vector are
  zero. The lazy allocation is correct up to \<open>59578\<close> pages; from there on the size computed for the
  vector can exceed 32 bits.
\<close>

definition msize :: "MemoryInstance \<Rightarrow> nat" where
  "msize m = unat (CurrPage m) * 65536"

definition mbyte :: "MemoryInstance \<Rightarrow> nat \<Rightarrow> u8" where
  "mbyte m i = (if i < length (Data m) then Data m ! i else 0)"

definition mem_ok :: "MemoryInstance \<Rightarrow> bool" where
  "mem_ok m \<longleftrightarrow> CurrPage m \<le> 59578 \<and> length (Data m) \<le> msize m"

text \<open>Two states with the same limits, size and bytes.\<close>

definition same_mem :: "MemoryInstance \<Rightarrow> MemoryInstance \<Rightarrow> bool" where
  "same_mem m m' \<longleftrightarrow> HasMaxPage m' = HasMaxPage m \<and> MinPage m' = MinPage m \<and>
     MaxPage m' = MaxPage m \<and> CurrPage m' = CurrPage m \<and> mbyte m' = mbyte m"

lemma same_mem_refl [simp]: "same_mem m m"
  by (simp add: same_mem_def)

lemma same_mem_msize: "same_mem m m' \<Longrightarrow> msize m' = msize m"
  by (simp add: same_mem_def msize_def)

lemma same_mem_trans: "same_mem a b \<Longrightarrow> same_mem b c \<Longrightarrow> same_mem a c"
  by (simp add: same_mem_def)

lemma mbyte_resize:
  "length (Data m) \<le> n \<Longrightarrow> mbyte (m\<lparr>Data := vresize n 0 (Data m)\<rparr>) = mbyte m"
  by (rule ext) (auto simp: mbyte_def vresize_nth)

lemma same_mem_resize:
  "length (Data m) \<le> n \<Longrightarrow> same_mem m (m\<lparr>Data := vresize n 0 (Data m)\<rparr>)"
  by (simp add: same_mem_def mbyte_resize)

lemma CurrPage_bound: "CurrPage m \<le> 59578 \<Longrightarrow> unat (CurrPage m) \<le> 59578"
  using word_le_nat_alt [of "CurrPage m" 59578] by simp

lemma unat_pages: "CurrPage m \<le> 59578 \<Longrightarrow> unat (CurrPage m * 65536) = msize m"
proof -
  assume "CurrPage m \<le> 59578"
  then have "unat (CurrPage m) * 65536 < 2 ^ 32" using CurrPage_bound [of m] by simp
  then show ?thesis by (simp add: msize_def unat_word_ariths)
qed

lemma targetSize_big_enough:
  assumes "unat s \<le> 59578 * 65536"
  shows "unat s \<le> unat (targetSize s * 8)"
proof -
  let ?t = "s div 8 + 1"
  have t: "unat ?t = unat s div 8 + 1"
    using assms by (simp add: unat_word_ariths unat_div)
  have lt: "?t < 32 * 65536 \<longleftrightarrow> unat ?t < 2097152"
    by (simp add: word_less_nat_alt)
  show ?thesis
  proof (cases "unat ?t < 2097152")
    case True
    have "unat (w * 2 * 8) = unat w * 2 * 8" if "unat w < 2097152" for w :: u32
      using that by (simp add: unat_word_ariths)
    from this [OF True] have "unat (targetSize s * 8) = unat ?t * 2 * 8"
      using True lt by (simp add: targetSize_def Let_def)
    then show ?thesis using t by simp
  next
    case False
    have "unat ?t * 11 div 10 \<le> 536869274" using assms t by simp
    then have "unat (of_nat (unat ?t * 11 div 10) * 8 :: u32) = unat ?t * 11 div 10 * 8"
      by (simp add: unat_word_ariths unsigned_of_nat take_bit_nat_eq_self)
    then have "unat (targetSize s * 8) = unat ?t * 11 div 10 * 8"
      using False lt by (simp add: targetSize_def Let_def)
    moreover have "n \<le> n * 11 div 10" for n :: nat by (simp add: less_eq_div_iff_mult_less_eq)
    moreover have "unat s \<le> (unat s div 8 + 1) * 8" by simp
    ultimately show ?thesis using t by (metis mult_le_mono1 order.trans)
  qed
qed

lemma checkDataSize_spec:
  assumes "mem_ok m" and "checkDataSize off len m = (b, m')"
  shows "b \<longleftrightarrow> unat off + unat len \<le> msize m" and "mem_ok m'" and "same_mem m m'"
    and "b \<Longrightarrow> unat off + unat len \<le> length (Data m')"
    and "\<not> b \<Longrightarrow> m' = m"
proof -
  have pages: "unat (CurrPage m * 65536) = msize m" and le: "unat (CurrPage m) \<le> 59578"
    using assms(1) by (simp_all add: mem_ok_def unat_pages CurrPage_bound)
  show b: "b \<longleftrightarrow> unat off + unat len \<le> msize m"
    using assms(2) by (auto simp: checkDataSize_def msize_def Let_def split: if_splits)
  let ?A = "mem_ok m' \<and> same_mem m m' \<and> (b \<longrightarrow> unat off + unat len \<le> length (Data m')) \<and> (\<not> b \<longrightarrow> m' = m)"
  have ?A
  proof (cases "unat off + unat len \<le> msize m")
    case False
    then show ?thesis using assms b by (auto simp: checkDataSize_def msize_def)
  next
    case True
    then have sum: "unat (off + len) = unat off + unat len"
      using le by (intro unat_add_no_wrap) (simp add: msize_def)
    have big: "unat (off + len) \<le> unat (targetSize (off + len) * 8)"
      using True le sum by (intro targetSize_big_enough) (simp add: msize_def)
    have less: "CurrPage m * 65536 < targetSize (off + len) * 8 \<longleftrightarrow> msize m < unat (targetSize (off + len) * 8)"
      by (simp add: word_less_nat_alt pages)
    show ?thesis
      using assms True sum big pages
      by (auto simp: checkDataSize_def msize_def [symmetric] Let_def less mem_ok_def
          intro!: same_mem_resize split: if_splits) (auto simp: msize_def)
  qed
  then show "mem_ok m'" "same_mem m m'" "b \<Longrightarrow> unat off + unat len \<le> length (Data m')" "\<not> b \<Longrightarrow> m' = m"
    by blast+
qed

lemma sliceM_bytes:
  "off + n \<le> length (Data m) \<Longrightarrow> sliceM off n m = (Ok (map (mbyte m) [off..<off + n]), m)"
  by (auto simp: sliceM_def mbyte_def intro!: nth_equalityI)

lemma mbyte_overwrite:
  "off + length bs \<le> length (Data m) \<Longrightarrow>
     mbyte (m\<lparr>Data := overwrite off bs (Data m)\<rparr>) =
       (\<lambda>i. if off \<le> i \<and> i < off + length bs then bs ! (i - off) else mbyte m i)"
  by (rule ext) (auto simp: mbyte_def overwrite_def nth_append min_def)


section \<open>Accesses\<close>

lemma guarded_spec:
  assumes "mem_ok m"
  obtains (oob) "msize m < unat off + unat len" "guarded off len body m = (Err MemorySizeExceeded, m)"
  | (ok) m' where "unat off + unat len \<le> msize m" "mem_ok m'" "same_mem m m'"
      "unat off + unat len \<le> length (Data m')" "guarded off len body m = body m'"
proof -
  obtain b m' where c: "checkDataSize off len m = (b, m')" by fastforce
  note S = checkDataSize_spec [OF assms c]
  show thesis
  proof (cases b)
    case True
    then show thesis using S c by (intro ok [of m']) (simp_all add: guarded_def)
  next
    case False
    then show thesis using S c by (intro oob) (simp_all add: guarded_def)
  qed
qed

text \<open>
  The contract of a linear memory: in bounds, a read returns the bytes and changes nothing, a write
  changes exactly the bytes written; out of bounds, both fail and change nothing.
\<close>

locale linear_memory =
  fixes ok :: "'m \<Rightarrow> bool"
    and sz :: "'m \<Rightarrow> nat"
    and byte :: "'m \<Rightarrow> nat \<Rightarrow> u8"
    and rd :: "u32 \<Rightarrow> u32 \<Rightarrow> ('m, Bytes) exec"
    and wr :: "Bytes \<Rightarrow> u32 \<Rightarrow> ('m, unit) exec"
  assumes rd_in: "ok m \<Longrightarrow> unat off + unat len \<le> sz m \<Longrightarrow>
      \<exists>m'. rd off len m = (Ok (map (byte m) [unat off..<unat off + unat len]), m') \<and>
        ok m' \<and> sz m' = sz m \<and> byte m' = byte m"
    and rd_out: "ok m \<Longrightarrow> sz m < unat off + unat len \<Longrightarrow> rd off len m = (Err MemorySizeExceeded, m)"
    and wr_in: "ok m \<Longrightarrow> length bs < 2 ^ 32 \<Longrightarrow> unat off + length bs \<le> sz m \<Longrightarrow>
      \<exists>m'. wr bs off m = (Ok (), m') \<and> ok m' \<and> sz m' = sz m \<and>
        byte m' = (\<lambda>i. if unat off \<le> i \<and> i < unat off + length bs then bs ! (i - unat off) else byte m i)"
    and wr_out: "ok m \<Longrightarrow> length bs < 2 ^ 32 \<Longrightarrow> sz m < unat off + length bs \<Longrightarrow>
      wr bs off m = (Err MemorySizeExceeded, m)"
begin

lemma read_after_write:
  assumes "ok m" "length bs < 2 ^ 32" "unat off + length bs \<le> sz m"
  shows "\<exists>m'. seqM (wr bs off) (rd off (of_nat (length bs))) m = (Ok bs, m') \<and> ok m'"
proof -
  from wr_in [OF assms] obtain m1 where m1: "wr bs off m = (Ok (), m1)" "ok m1" "sz m1 = sz m"
    "byte m1 = (\<lambda>i. if unat off \<le> i \<and> i < unat off + length bs then bs ! (i - unat off) else byte m i)"
    by blast
  have n: "unat (of_nat (length bs) :: u32) = length bs"
    using assms(2) by (simp add: unat_of_nat_less)
  have "map (byte m1) [unat off..<unat off + length bs] = bs"
    by (rule nth_equalityI) (simp_all add: m1(4))
  with rd_in [OF m1(2), of off "of_nat (length bs)"] n m1 assms(3)
  show ?thesis by (auto simp: seqM_simps)
qed

lemma read_frame:
  assumes "ok m" "length bs < 2 ^ 32" "unat off + length bs \<le> sz m"
    and "unat off' + unat len \<le> sz m"
    and "unat off' + unat len \<le> unat off \<or> unat off + length bs \<le> unat off'"
  shows "fst (seqM (wr bs off) (rd off' len) m) = fst (rd off' len m)"
proof -
  from wr_in [OF assms(1-3)] obtain m1 where m1: "wr bs off m = (Ok (), m1)" "ok m1" "sz m1 = sz m"
    "byte m1 = (\<lambda>i. if unat off \<le> i \<and> i < unat off + length bs then bs ! (i - unat off) else byte m i)"
    by blast
  have "map (byte m1) [unat off'..<unat off' + unat len] = map (byte m) [unat off'..<unat off' + unat len]"
    using assms(5) by (auto simp: m1(4))
  with rd_in [OF m1(2), of off' len] rd_in [OF assms(1,4)] m1 assms(4)
  show ?thesis by (auto simp: seqM_simps)
qed

lemma access_defined:
  assumes "ok m"
  shows "defined (fst (rd off len m))" and "length bs < 2 ^ 32 \<Longrightarrow> defined (fst (wr bs off m))"
proof -
  show "defined (fst (rd off len m))"
    using rd_in [OF assms, of off len] rd_out [OF assms, of off len] by (cases "sz m < unat off + unat len") auto
  show "length bs < 2 ^ 32 \<Longrightarrow> defined (fst (wr bs off m))"
    using wr_in [OF assms, of bs off] wr_out [OF assms, of bs off] by (cases "sz m < unat off + length bs") auto
qed

end

lemma sliceM_in:
  assumes "mem_ok m'" "same_mem m m'" "off + n \<le> length (Data m')"
  shows "sliceM off n m' = (Ok (map (mbyte m) [off..<off + n]), m')"
  using sliceM_bytes [OF assms(3)] assms(2) by (simp add: same_mem_def)

lemma copyM_in:
  assumes "mem_ok m'" "same_mem m m'" "off + length bs \<le> length (Data m')"
  shows "\<exists>m2. copyM off bs m' = (Ok (), m2) \<and> mem_ok m2 \<and> msize m2 = msize m \<and> CurrPage m2 = CurrPage m \<and>
    mbyte m2 = (\<lambda>i. if off \<le> i \<and> i < off + length bs then bs ! (i - off) else mbyte m i)"
  using assms by (auto simp: copyM_def mem_ok_def msize_def mbyte_overwrite same_mem_def)

lemma word_pos_iff: "(0 :: 'a::len word) < w \<longleftrightarrow> 0 < unat w"
  by (simp add: unat_gt_0 word_gt_0)

lemma getBytes_in:
  assumes "mem_ok m" "unat off + unat len \<le> msize m"
  shows "\<exists>m'. getBytes off len m = (Ok (map (mbyte m) [unat off..<unat off + unat len]), m') \<and>
     mem_ok m' \<and> msize m' = msize m \<and> mbyte m' = mbyte m"
  unfolding getBytes_def using assms
  by (cases rule: guarded_spec [OF assms(1), of off len
        "if len > 0 then sliceM (unat off) (unat len) else retM []"])
    (auto simp: sliceM_in word_pos_iff retM_def same_mem_def msize_def)

lemma getBytes_out:
  "mem_ok m \<Longrightarrow> msize m < unat off + unat len \<Longrightarrow> getBytes off len m = (Err MemorySizeExceeded, m)"
  unfolding getBytes_def
  by (rule guarded_spec [of m off len "if len > 0 then sliceM (unat off) (unat len) else retM []"]) auto

abbreviation (input) write_all :: "Bytes \<Rightarrow> u32 \<Rightarrow> unit memop" where
  "write_all bs off \<equiv> setBytes bs off 0 (of_nat (length bs))"

lemma setBytes_out:
  "mem_ok m \<Longrightarrow> msize m < unat off + unat len \<Longrightarrow> setBytes src off start len m = (Err MemorySizeExceeded, m)"
  unfolding setBytes_def by (rule guarded_spec [of m off len]) auto

lemma write_all_in:
  assumes "mem_ok m" "length bs < 2 ^ 32" "unat off + length bs \<le> msize m"
  shows "\<exists>m'. write_all bs off m = (Ok (), m') \<and> mem_ok m' \<and> msize m' = msize m \<and>
    mbyte m' = (\<lambda>i. if unat off \<le> i \<and> i < unat off + length bs then bs ! (i - unat off) else mbyte m i)"
proof -
  have n: "unat (of_nat (length bs) :: u32) = length bs" using assms(2) by (simp add: unat_of_nat_less)
  let ?body = "if length bs > 0 \<and> length bs \<le> unat (0 :: u32) \<or> length bs < unat ((0 :: u32) + of_nat (length bs))
      then errM AccessForbidMemory
      else if of_nat (length bs) > (0 :: u32) then
        if length bs < unat (0 :: u32) + unat (of_nat (length bs) :: u32) then undefM
        else copyM (unat off) (take (unat (of_nat (length bs) :: u32)) (drop (unat (0 :: u32)) bs))
      else retM ()"
  show ?thesis
    unfolding setBytes_def
  proof (rule guarded_spec [OF assms(1), of off "of_nat (length bs)" ?body], goal_cases)
    case 1
    then show ?case using assms(3) n by simp
  next
    case ok: (2 m')
    from copyM_in [OF ok(2,3), of "unat off" bs] ok(4) n
    obtain m2 where m2: "copyM (unat off) bs m' = (Ok (), m2)" "mem_ok m2" "msize m2 = msize m"
      "mbyte m2 = (\<lambda>i. if unat off \<le> i \<and> i < unat off + length bs then bs ! (i - unat off) else mbyte m i)"
      by auto
    then show ?case
      using ok n by (cases "bs = []") (auto simp: word_pos_iff retM_def same_mem_def msize_def fun_eq_iff)
  qed
qed

interpretation bytes_mem: linear_memory mem_ok msize mbyte getBytes write_all
proof
  show "setBytes bs off 0 (of_nat (length bs)) m = (Err MemorySizeExceeded, m)"
    if "mem_ok m" "length bs < 2 ^ 32" "msize m < unat off + length bs" for m bs off
    using that setBytes_out [of m off "of_nat (length bs)"] by (simp add: unat_of_nat_less)
qed (use getBytes_in getBytes_out write_all_in in blast)+

section \<open>Values in memory\<close>

lemma fold_ff:
  "fold (\<lambda>i (v :: u64). v OR push_bit (i * 8) 0xFF) [n..<n + k] w = w OR push_bit (n * 8) (mask (k * 8))"
proof (induction k)
  case (Suc k)
  have ff: "(0xFF :: u64) = mask 8" by (simp add: mask_eq_exp_minus_1)
  have "push_bit (n * 8) (mask (Suc k * 8)) = push_bit (n * 8) (mask (k * 8)) OR push_bit ((n + k) * 8) (mask 8 :: u64)"
    by (rule bit_word_eqI) (auto simp: bit_simps)
  with Suc show ?case by (simp add: ff or.assoc)
qed simp

lemma signExtend_bit:
  fixes w :: u64
  assumes "0 < unat len" "unat len \<le> 8" and "take_bit (unat len * 8) w = w"
  shows "(if drop_bit (unat len * 8 - 1) w \<noteq> 0 then signExtend len w else w)
    = signed_take_bit (unat len * 8 - 1) w"
proof -
  obtain n where n: "unat len * 8 = Suc n" using assms(1) by (cases "unat len * 8") auto
  have low: "i \<le> n" if "bit w i" for i
    using that assms(3) n by (metis bit_take_bit_iff less_Suc_eq_le)
  have top: "drop_bit n w \<noteq> 0 \<longleftrightarrow> bit w n"
  proof
    assume "drop_bit n w \<noteq> 0"
    then obtain i where "bit w (n + i)" by (auto simp: bit_eq_iff bit_simps)
    with low [of "n + i"] show "bit w n" by simp
  next
    assume "bit w n"
    then have "bit (drop_bit n w) 0" by (simp add: bit_simps)
    then show "drop_bit n w \<noteq> 0" by auto
  qed
  have se: "signExtend len w = w OR push_bit (Suc n) (mask (64 - Suc n))"
    using fold_ff [of "unat len" "8 - unat len" w] assms(2) n
    by (simp add: signExtend_def diff_mult_distrib)
  have "signExtend len w = signed_take_bit n w" if "bit w n"
    unfolding se
  proof (rule bit_word_eqI)
    fix i assume i: "i < LENGTH(64)"
    show "bit (w OR push_bit (Suc n) (mask (64 - Suc n))) i = bit (signed_take_bit n w) i"
      using that i low [of i] by (cases "i \<le> n") (auto simp: bit_simps min_def simp del: push_bit_Suc)
  qed
  moreover have "w = signed_take_bit n w" if "\<not> bit w n"
  proof (rule bit_word_eqI)
    fix i assume i: "i < LENGTH(64)"
    show "bit w i = bit (signed_take_bit n w) i"
      using that i low [of i] by (cases "i \<le> n") (auto simp: bit_simps min_def)
  qed
  ultimately show ?thesis using n top by simp
qed

lemma le_word_take: "take_bit (8 * length bs) (le_word bs :: u64) = le_word bs"
proof (induction bs)
  case (Cons b bs)
  show ?case
  proof (rule bit_word_eqI)
    fix i assume "i < LENGTH(64)"
    have "bit (le_word bs :: u64) (i - 8) \<Longrightarrow> i - 8 < 8 * length bs"
      using Cons by (metis bit_take_bit_iff)
    then show "bit (take_bit (8 * length (b # bs)) (le_word (b # bs)) :: u64) i = bit (le_word (b # bs) :: u64) i"
      by (cases "i < 8") (auto simp: bit_simps dest: bit_imp_le_length)
  qed
qed simp

text \<open>The bits that \<open>loadValue\<close> delivers from a byte sequence.\<close>

definition load_bits :: "numT \<Rightarrow> nat \<Rightarrow> u64 \<Rightarrow> u64" where
  "load_bits t n w = (let v = (if isSigned t then signed_take_bit (8 * n - 1) w else take_bit (8 * n) w)
     in if sizeof t = 4 then take_bit 32 v else v)"

lemma sizeof_cases: "sizeof t = 4 \<or> sizeof t = 8"
  by (simp add: sizeof_def)

lemma sizeof_le: "len \<le> sizeof t \<Longrightarrow> unat len \<le> 8"
  using sizeof_cases [of t] by (auto simp: word_le_nat_alt)

lemma signed_take_bit_take_bit_same:
  "0 < n \<Longrightarrow> signed_take_bit (n - 1) (take_bit n w) = signed_take_bit (n - 1) (w :: u64)"
  by (rule bit_word_eqI) (auto simp: bit_simps min_def)

lemma loadValue_in:
  assumes "mem_ok m" "\<not> isFloat t" "0 < len" "len \<le> sizeof t" "unat off + unat len \<le> msize m"
  shows "\<exists>m'. loadValue t old off len m =
      (Ok (load_bits t (unat len) (le_word (map (mbyte m) [unat off..<unat off + unat len]))), m') \<and>
      mem_ok m' \<and> same_mem m m'"
proof -
  let ?bs = "map (mbyte m) [unat off..<unat off + unat len]"
  have len: "0 < unat len" "unat len \<le> 8" using assms(3,4) sizeof_le by (auto simp: word_pos_iff)
  have tk: "take_bit (unat len * 8) (le_word ?bs :: u64) = le_word ?bs"
    using le_word_take [of ?bs] by (simp add: mult.commute)
  note se = signExtend_bit [OF len tk]
  have bits: "(if sizeof t = 4 then take_bit 32 (if isSigned t \<and> drop_bit (unat len * 8 - 1) (le_word ?bs :: u64) \<noteq> 0
        then signExtend len (le_word ?bs) else le_word ?bs)
      else (if isSigned t \<and> drop_bit (unat len * 8 - 1) (le_word ?bs :: u64) \<noteq> 0
        then signExtend len (le_word ?bs) else le_word ?bs)) = load_bits t (unat len) (le_word ?bs)"
    using se tk by (cases "isSigned t") (simp_all add: load_bits_def Let_def mult.commute)
  have body: "bindM (sliceM (unat off) (unat len)) (\<lambda>bs.
             let w = le_word bs;
                 v = (if isSigned t \<and> drop_bit (unat len * 8 - 1) w \<noteq> 0 then signExtend len w else w)
             in retM (if sizeof t = 4 then take_bit 32 v else v)) m'
     = (Ok (load_bits t (unat len) (le_word ?bs)), m')"
    if "unat off + unat len \<le> length (Data m')" "mem_ok m'" "same_mem m m'" for m'
    unfolding bindM_simps(1) [where m = "sliceM (unat off) (unat len)", OF sliceM_in [OF that(2,3,1)]] Let_def bits
    by (simp add: retM_def)
  have "\<not> sizeof t < len" using assms(4) by simp
  moreover obtain m' where "unat off + unat len \<le> length (Data m')" "mem_ok m'" "same_mem m m'"
    "guarded off len body m = body m'" for body :: "u64 memop"
  proof -
    obtain b m' where c: "checkDataSize off len m = (b, m')" by fastforce
    from checkDataSize_spec [OF assms(1) c] assms(5) c show thesis
      by (intro that [of m']) (simp_all add: guarded_def)
  qed
  ultimately show ?thesis
    unfolding loadValue_def using assms(2,3) body by (simp del: One_nat_def)
qed


lemma guarded_out:
  "mem_ok m \<Longrightarrow> msize m < unat off + unat len \<Longrightarrow>
     guarded off len body m = (Err MemorySizeExceeded, m)"
  by (rule guarded_spec [of m off len body]) auto

lemma loadValue_out:
  "mem_ok m \<Longrightarrow> len \<le> sizeof t \<Longrightarrow> msize m < unat off + unat len \<Longrightarrow>
     loadValue t old off len m = (Err MemorySizeExceeded, m)"
  unfolding loadValue_def by (auto simp: guarded_out)

lemma storeValue_out:
  "mem_ok m \<Longrightarrow> len \<le> sizeof t \<Longrightarrow> msize m < unat off + unat len \<Longrightarrow>
     storeValue t v off len m = (Err MemorySizeExceeded, m)"
  unfolding storeValue_def by (auto simp: guarded_out)

lemma storeValue_in:
  assumes "mem_ok m" "0 < len" "len \<le> sizeof t" "unat off + unat len \<le> msize m"
  shows "\<exists>m'. storeValue t v off len m = (Ok (), m') \<and> mem_ok m' \<and> msize m' = msize m \<and>
    mbyte m' = (\<lambda>i. if unat off \<le> i \<and> i < unat off + unat len
                     then le_bytes (unat len) v ! (i - unat off) else mbyte m i)"
proof -
  have nt: "\<not> sizeof t < len" using assms(3) by simp
  obtain b m1 where c: "checkDataSize off len m = (b, m1)" by fastforce
  note S = checkDataSize_spec [OF assms(1) c]
  then have g: "guarded off len body m = body m1" "unat off + length (le_bytes (unat len) v) \<le> length (Data m1)"
    for body :: "unit memop"
    using assms(4) c by (simp_all add: guarded_def)
  from copyM_in [OF S(2,3) g(2)] show ?thesis
    unfolding storeValue_def using nt assms(2) g(1) by auto
qed

section \<open>Properties\<close>



text \<open>Bytes written by \<open>setBytes\<close> are what \<open>getBytes\<close> returns from the same place, and a
  \<open>getBytes\<close> of a range that does not meet the written one returns what it returned before.\<close>

lemma setBytes_getBytes:
  assumes "mem_ok m" and "length bs < 2 ^ 32" and "unat off + length bs \<le> msize m"
    and "unat off' + unat len \<le> msize m"
    and "unat off' + unat len \<le> unat off \<or> unat off + length bs \<le> unat off'"
  shows "fst (seqM (setBytes bs off 0 (of_nat (length bs))) (getBytes off (of_nat (length bs))) m) = Ok bs
    \<and> fst (seqM (setBytes bs off 0 (of_nat (length bs))) (getBytes off' len) m)
        = fst (getBytes off' len m)"
proof (rule conjI)
  show "fst (seqM (setBytes bs off 0 (of_nat (length bs))) (getBytes off (of_nat (length bs))) m) = Ok bs"
    using bytes_mem.read_after_write [OF assms(1-3)] by auto
  show "fst (seqM (setBytes bs off 0 (of_nat (length bs))) (getBytes off' len) m) = fst (getBytes off' len m)"
    by (rule bytes_mem.read_frame [OF assms])
qed

text \<open>C40. A memory of the maximal size of 65536 pages is unusable before its vector is allocated:
  \<open>CurrPage * 65536\<close> is zero in 32 bits, so \<open>checkDataSize\<close> allocates nothing, and every access in
  bounds reads past the end of the vector.\<close>

theorem full_memory_overrun:
  assumes "CurrPage m = 65536" and "Data m = []" and "0 < len" and "unat off + unat len \<le> 2 ^ 32"
  shows "fst (getBytes off len m) = Undef"
proof -
  have "\<exists>m'. checkDataSize off len m = (True, m') \<and> Data m' = []"
    using assms by (auto simp: checkDataSize_def Let_def vresize_def word_pos_iff word_less_nat_alt)
  then show ?thesis
    using assms(3) by (auto simp: getBytes_def guarded_def sliceM_def word_pos_iff)
qed

theorem full_memory_overrun_witness:
  "fst (getBytes 0 4 (newMemory (HasMin 65536))) = Undef"
  using full_memory_overrun [of "newMemory (HasMin 65536)" 4 0] by (simp add: newMemory_def)

text \<open>\<open>growPage\<close> adds the counts in 32 bits: a request that makes the sum wrap around to at most
  the limit is granted and removes pages, whatever the size of the memory.\<close>

lemma growPage_wraps:
  assumes "2 ^ 32 \<le> unat count + unat (CurrPage m)" and "unat (CurrPage m) \<le> 65536"
    and "HasMaxPage m \<Longrightarrow> CurrPage m \<le> MaxPage m"
  shows "fst (growPage count m) = Ok () \<and> msize (snd (growPage count m)) < msize m"
proof -
  have c: "unat count < 4294967296" and big: "4294967296 \<le> unat count + unat (CurrPage m)"
    using assms(1) by (simp_all add: unat_u32_less)
  have lt: "unat count + unat (CurrPage m) - 4294967296 < 4294967296" using c assms(2) by linarith
  have "unat (count + CurrPage m) = (unat count + unat (CurrPage m)) mod 4294967296"
    by (simp add: unat_word_ariths)
  then have sum: "unat (count + CurrPage m) = unat count + unat (CurrPage m) - 4294967296"
    by (simp only: le_mod_geq [OF big] mod_less [OF lt])
  then have less: "unat (count + CurrPage m) < unat (CurrPage m)" using c big by linarith
  then have le: "\<not> 65536 < count + CurrPage m" "\<not> (HasMaxPage m \<and> MaxPage m < count + CurrPage m)"
    using assms(2,3) by (auto simp: word_less_nat_alt word_le_nat_alt)
  then show ?thesis using less by (simp add: growPage_def msize_def add.commute)
qed

end
