(* ===== verification/Numeric.thy ===== *)
theory Numeric
  imports Memory
begin

text \<open>
  The numeric operations of \<open>include/interpreter/engine/*_numeric.ipp\<close>. Each C++ function is a
  template over the type at which the operands are read; here that type is the argument
  \<open>t :: numT\<close>. An operand is a \<open>ValVariant\<close>, and an operation returns the new value of \<open>Val1\<close> or
  \<open>Val\<close>, an error, or \<open>Undef\<close>.

  Floating-point values are bit patterns. Classification, comparison, sign operations and the
  integer part are computed from the pattern; the arithmetic that rounds is the argument
  \<open>fpu\<close>, which stands for the floating-point unit.
\<close>

section \<open>Operands\<close>

record fpu =
  fp_add :: "numT \<Rightarrow> u64 \<Rightarrow> u64 \<Rightarrow> u64"
  fp_sub :: "numT \<Rightarrow> u64 \<Rightarrow> u64 \<Rightarrow> u64"
  fp_mul :: "numT \<Rightarrow> u64 \<Rightarrow> u64 \<Rightarrow> u64"
  fp_div :: "numT \<Rightarrow> u64 \<Rightarrow> u64 \<Rightarrow> u64"
  fp_ceil :: "numT \<Rightarrow> u64 \<Rightarrow> u64"
  fp_floor :: "numT \<Rightarrow> u64 \<Rightarrow> u64"
  fp_trunc :: "numT \<Rightarrow> u64 \<Rightarrow> u64"
  fp_nearbyint :: "numT \<Rightarrow> u64 \<Rightarrow> u64"
  fp_sqrt :: "numT \<Rightarrow> u64 \<Rightarrow> u64"
  fp_of_int :: "numT \<Rightarrow> int \<Rightarrow> u64"
  fp_cast :: "numT \<Rightarrow> numT \<Rightarrow> u64 \<Rightarrow> u64"

text \<open>Number of bits, and reading and writing a variant at a type.\<close>

definition bits :: "numT \<Rightarrow> nat" where
  "bits t = (if t \<in> {TU32, TS32, TF32} then 32 else 64)"

definition getT :: "numT \<Rightarrow> ValVariant \<Rightarrow> u64 Expect" where
  "getT t v = (if bits t = 32 then Ok (ucast (get32 v)) else get64 v)"

definition setT :: "numT \<Rightarrow> ValVariant \<Rightarrow> u64 \<Rightarrow> ValVariant" where
  "setT t v w = (if bits t = 32 then set32 v (ucast w) else set64 v w)"

text \<open>\<open>Val = static_cast<T>(...)\<close> replaces the whole variant.\<close>

definition mkT :: "numT \<Rightarrow> u64 \<Rightarrow> ValVariant" where
  "mkT t w = (if bits t = 32 then V32 (ucast w) else V64 w)"

text \<open>The integer that a pattern denotes at an integer type, and the pattern of an integer.\<close>

definition toI :: "numT \<Rightarrow> u64 \<Rightarrow> int" where
  "toI t w = (if t = TS32 then sint (ucast w :: u32) else if t = TS64 then sint w else uint w)"

definition ofI :: "numT \<Rightarrow> int \<Rightarrow> u64" where
  "ofI t i = take_bit (bits t) (of_int i)"

definition get2 :: "numT \<Rightarrow> ValVariant \<Rightarrow> ValVariant \<Rightarrow> (u64 \<Rightarrow> u64 \<Rightarrow> 'a Expect) \<Rightarrow> 'a Expect" where
  "get2 t v1 v2 f = obind (getT t v1) (\<lambda>a. obind (getT t v2) (f a))"

section \<open>Floating-point patterns\<close>

definition fracbits :: "numT \<Rightarrow> nat" where
  "fracbits t = (if t = TF32 then 23 else 52)"

definition expbits :: "numT \<Rightarrow> nat" where
  "expbits t = (if t = TF32 then 8 else 11)"

definition signbit :: "numT \<Rightarrow> u64 \<Rightarrow> bool" where
  "signbit t w = bit w (bits t - 1)"

definition fexp :: "numT \<Rightarrow> u64 \<Rightarrow> nat" where
  "fexp t w = unat (take_bit (expbits t) (drop_bit (fracbits t) w))"

definition ffrac :: "numT \<Rightarrow> u64 \<Rightarrow> nat" where
  "ffrac t w = unat (take_bit (fracbits t) w)"

definition isnan :: "numT \<Rightarrow> u64 \<Rightarrow> bool" where
  "isnan t w \<longleftrightarrow> fexp t w = 2 ^ expbits t - 1 \<and> ffrac t w \<noteq> 0"

definition isinf :: "numT \<Rightarrow> u64 \<Rightarrow> bool" where
  "isinf t w \<longleftrightarrow> fexp t w = 2 ^ expbits t - 1 \<and> ffrac t w = 0"

text \<open>The order of the numbers: sign and magnitude. Both zeros have the key 0.\<close>

definition fkey :: "numT \<Rightarrow> u64 \<Rightarrow> int" where
  "fkey t w = (let m = uint (take_bit (bits t - 1) w) in if signbit t w then - m else m)"

definition float_eq :: "numT \<Rightarrow> u64 \<Rightarrow> u64 \<Rightarrow> bool" where
  "float_eq t a b \<longleftrightarrow> \<not> isnan t a \<and> \<not> isnan t b \<and> fkey t a = fkey t b"

definition float_lt :: "numT \<Rightarrow> u64 \<Rightarrow> u64 \<Rightarrow> bool" where
  "float_lt t a b \<longleftrightarrow> \<not> isnan t a \<and> \<not> isnan t b \<and> fkey t a < fkey t b"

text \<open>\<open>trunc\<close> of a finite number as an integer.\<close>

definition ftruncI :: "numT \<Rightarrow> u64 \<Rightarrow> int" where
  "ftruncI t w =
     (let e = fexp t w;
          m = ffrac t w + (if e = 0 then 0 else 2 ^ fracbits t);
          p = max e 1;
          b = 2 ^ (expbits t - 1) - 1 + fracbits t;
          i = int (if b \<le> p then m * 2 ^ (p - b) else m div 2 ^ (b - p))
      in if signbit t w then - i else i)"

section \<open>Comparisons\<close>

definition boolV :: "bool \<Rightarrow> ValVariant" where
  "boolV b = V32 (if b then 1 else 0)"

definition runEqzOp :: "numT \<Rightarrow> ValVariant \<Rightarrow> ValVariant Expect" where
  "runEqzOp t v = obind (getT t v) (\<lambda>a. Ok (boolV (a = 0)))"

definition runEqOp :: "numT \<Rightarrow> ValVariant \<Rightarrow> ValVariant \<Rightarrow> ValVariant Expect" where
  "runEqOp t v1 v2 = get2 t v1 v2 (\<lambda>a b.
     Ok (boolV (if isFloat t then float_eq t a b else toI t a = toI t b)))"

definition runNeOp :: "numT \<Rightarrow> ValVariant \<Rightarrow> ValVariant \<Rightarrow> ValVariant Expect" where
  "runNeOp t v1 v2 = get2 t v1 v2 (\<lambda>a b.
     Ok (boolV (if isFloat t then \<not> float_eq t a b else toI t a \<noteq> toI t b)))"

definition runLtOp :: "numT \<Rightarrow> ValVariant \<Rightarrow> ValVariant \<Rightarrow> ValVariant Expect" where
  "runLtOp t v1 v2 = get2 t v1 v2 (\<lambda>a b.
     Ok (boolV (if isFloat t then float_lt t a b else toI t a < toI t b)))"

definition runGtOp :: "numT \<Rightarrow> ValVariant \<Rightarrow> ValVariant \<Rightarrow> ValVariant Expect" where
  "runGtOp t v1 v2 = get2 t v1 v2 (\<lambda>a b.
     Ok (boolV (if isFloat t then float_lt t b a else toI t a > toI t b)))"

definition runLeOp :: "numT \<Rightarrow> ValVariant \<Rightarrow> ValVariant \<Rightarrow> ValVariant Expect" where
  "runLeOp t v1 v2 = get2 t v1 v2 (\<lambda>a b.
     Ok (boolV (if isFloat t then float_lt t a b \<or> float_eq t a b else toI t a \<le> toI t b)))"

definition runGeOp :: "numT \<Rightarrow> ValVariant \<Rightarrow> ValVariant \<Rightarrow> ValVariant Expect" where
  "runGeOp t v1 v2 = get2 t v1 v2 (\<lambda>a b.
     Ok (boolV (if isFloat t then float_lt t b a \<or> float_eq t a b else toI t a \<ge> toI t b)))"

section \<open>Unary operations\<close>

text \<open>
  The counting loops, on a pattern of \<open>n\<close> bits. The first argument is fuel; \<open>n\<close> rounds are enough
  (\<open>clz_loop_spec\<close>, \<open>ctz_loop_spec\<close>, \<open>popcnt_loop_spec\<close>).
\<close>

fun clz_loop :: "nat \<Rightarrow> nat \<Rightarrow> u64 \<Rightarrow> u64 \<Rightarrow> u64 Expect" where
  "clz_loop 0 n i cnt = Timeout"
| "clz_loop (Suc k) n i cnt =
     (if i AND push_bit (n - 1) 1 = 0 then clz_loop k n (take_bit n (push_bit 1 i)) (cnt + 1)
      else Ok cnt)"

fun ctz_loop :: "nat \<Rightarrow> u64 \<Rightarrow> u64 \<Rightarrow> u64 Expect" where
  "ctz_loop 0 i cnt = Timeout"
| "ctz_loop (Suc k) i cnt =
     (if i AND 1 = 0 then ctz_loop k (drop_bit 1 i) (cnt + 1) else Ok cnt)"

fun popcnt_loop :: "nat \<Rightarrow> u64 \<Rightarrow> u64 \<Rightarrow> u64 Expect" where
  "popcnt_loop 0 i cnt = (if i = 0 then Ok cnt else Timeout)"
| "popcnt_loop (Suc k) i cnt =
     (if i = 0 then Ok cnt
      else popcnt_loop k (drop_bit 1 i) (if i AND 1 \<noteq> 0 then cnt + 1 else cnt))"

definition runClzOp :: "numT \<Rightarrow> ValVariant \<Rightarrow> ValVariant Expect" where
  "runClzOp t v = obind (getT t v) (\<lambda>i.
     if i \<noteq> 0 then obind (clz_loop (bits t) (bits t) i 0) (\<lambda>c. Ok (mkT t c)) else Ok v)"

definition runCtzOp :: "numT \<Rightarrow> ValVariant \<Rightarrow> ValVariant Expect" where
  "runCtzOp t v = obind (getT t v) (\<lambda>i.
     if i \<noteq> 0 then obind (ctz_loop (bits t) i 0) (\<lambda>c. Ok (mkT t c))
     else Ok (mkT t (of_nat (bits t))))"

definition runPopcntOp :: "numT \<Rightarrow> ValVariant \<Rightarrow> ValVariant Expect" where
  "runPopcntOp t v = obind (getT t v) (\<lambda>i.
     if i \<noteq> 0 then obind (popcnt_loop (bits t) i 0) (\<lambda>c. Ok (mkT t c)) else Ok v)"

definition runAbsOp :: "numT \<Rightarrow> ValVariant \<Rightarrow> ValVariant Expect" where
  "runAbsOp t v = obind (getT t v) (\<lambda>w. Ok (mkT t (unset_bit (bits t - 1) w)))"

definition runNegOp :: "numT \<Rightarrow> ValVariant \<Rightarrow> ValVariant Expect" where
  "runNegOp t v = obind (getT t v) (\<lambda>w. Ok (mkT t (flip_bit (bits t - 1) w)))"

definition runCeilOp :: "fpu \<Rightarrow> numT \<Rightarrow> ValVariant \<Rightarrow> ValVariant Expect" where
  "runCeilOp F t v = obind (getT t v) (\<lambda>w. Ok (mkT t (fp_ceil F t w)))"

definition runFloorOp :: "fpu \<Rightarrow> numT \<Rightarrow> ValVariant \<Rightarrow> ValVariant Expect" where
  "runFloorOp F t v = obind (getT t v) (\<lambda>w. Ok (mkT t (fp_floor F t w)))"

definition runTruncOp :: "fpu \<Rightarrow> numT \<Rightarrow> ValVariant \<Rightarrow> ValVariant Expect" where
  "runTruncOp F t v = obind (getT t v) (\<lambda>w. Ok (mkT t (fp_trunc F t w)))"

definition runNearestOp :: "fpu \<Rightarrow> numT \<Rightarrow> ValVariant \<Rightarrow> ValVariant Expect" where
  "runNearestOp F t v = obind (getT t v) (\<lambda>w. Ok (mkT t (fp_nearbyint F t w)))"

definition runSqrtOp :: "fpu \<Rightarrow> numT \<Rightarrow> ValVariant \<Rightarrow> ValVariant Expect" where
  "runSqrtOp F t v = obind (getT t v) (\<lambda>w. Ok (mkT t (fp_sqrt F t w)))"

section \<open>Binary operations\<close>

text \<open>Assignment to \<open>retrieveValue<T>(Val1)\<close>, for an integer or a floating-point result.\<close>

definition arith :: "numT \<Rightarrow> (int \<Rightarrow> int \<Rightarrow> int) \<Rightarrow> (u64 \<Rightarrow> u64 \<Rightarrow> u64) \<Rightarrow>
    ValVariant \<Rightarrow> ValVariant \<Rightarrow> ValVariant Expect" where
  "arith t f g v1 v2 = get2 t v1 v2 (\<lambda>a b.
     Ok (setT t v1 (if isFloat t then g a b else ofI t (f (toI t a) (toI t b)))))"

definition runAddOp :: "fpu \<Rightarrow> numT \<Rightarrow> ValVariant \<Rightarrow> ValVariant \<Rightarrow> ValVariant Expect" where
  "runAddOp F t = arith t (+) (fp_add F t)"

definition runSubOp :: "fpu \<Rightarrow> numT \<Rightarrow> ValVariant \<Rightarrow> ValVariant \<Rightarrow> ValVariant Expect" where
  "runSubOp F t = arith t (-) (fp_sub F t)"

definition runMulOp :: "fpu \<Rightarrow> numT \<Rightarrow> ValVariant \<Rightarrow> ValVariant \<Rightarrow> ValVariant Expect" where
  "runMulOp F t = arith t (*) (fp_mul F t)"

text \<open>
  Division truncates toward zero. \<open>std::numeric_limits<T>::min()\<close> is the least integer for an
  integer type, but the least positive normal number for a floating-point type.
\<close>

definition quotI :: "int \<Rightarrow> int \<Rightarrow> int" where
  "quotI a b = sgn a * sgn b * (\<bar>a\<bar> div \<bar>b\<bar>)"

definition remI :: "int \<Rightarrow> int \<Rightarrow> int" where
  "remI a b = a - quotI a b * b"

definition limits_min :: "numT \<Rightarrow> u64" where
  "limits_min t = (case t of TS32 \<Rightarrow> 0x80000000 | TS64 \<Rightarrow> 0x8000000000000000
     | TF32 \<Rightarrow> 0x00800000 | TF64 \<Rightarrow> 0x0010000000000000 | _ \<Rightarrow> 0)"

definition minus_one :: "numT \<Rightarrow> u64" where
  "minus_one t = (case t of TF32 \<Rightarrow> 0xBF800000 | TF64 \<Rightarrow> 0xBFF0000000000000 | _ \<Rightarrow> ofI t (- 1))"

definition eqT :: "numT \<Rightarrow> u64 \<Rightarrow> u64 \<Rightarrow> bool" where
  "eqT t a b = (if isFloat t then float_eq t a b else a = b)"

definition runDivOp :: "fpu \<Rightarrow> numT \<Rightarrow> ValVariant \<Rightarrow> ValVariant \<Rightarrow> ValVariant Expect" where
  "runDivOp F t v1 v2 = get2 t v1 v2 (\<lambda>a b.
     if \<not> isFloat t \<and> b = 0 then Err DivideByZero
     else if isSigned t \<and> eqT t a (limits_min t) \<and> eqT t b (minus_one t)
     then Err FloatPointException
     else Ok (setT t v1 (if isFloat t then fp_div F t a b
                         else ofI t (quotI (toI t a) (toI t b)))))"

definition runRemOp :: "numT \<Rightarrow> ValVariant \<Rightarrow> ValVariant \<Rightarrow> ValVariant Expect" where
  "runRemOp t v1 v2 = get2 t v1 v2 (\<lambda>a b.
     if b = 0 then Err DivideByZero
     else if isSigned t \<and> b = minus_one t then Ok (setT t v1 0)
     else Ok (setT t v1 (ofI t (remI (toI t a) (toI t b)))))"

definition runAndOp :: "numT \<Rightarrow> ValVariant \<Rightarrow> ValVariant \<Rightarrow> ValVariant Expect" where
  "runAndOp t v1 v2 = get2 t v1 v2 (\<lambda>a b. Ok (setT t v1 (a AND b)))"

definition runOrOp :: "numT \<Rightarrow> ValVariant \<Rightarrow> ValVariant \<Rightarrow> ValVariant Expect" where
  "runOrOp t v1 v2 = get2 t v1 v2 (\<lambda>a b. Ok (setT t v1 (a OR b)))"

definition runXorOp :: "numT \<Rightarrow> ValVariant \<Rightarrow> ValVariant \<Rightarrow> ValVariant Expect" where
  "runXorOp t v1 v2 = get2 t v1 v2 (\<lambda>a b. Ok (setT t v1 (a XOR b)))"

definition runShlOp :: "numT \<Rightarrow> ValVariant \<Rightarrow> ValVariant \<Rightarrow> ValVariant Expect" where
  "runShlOp t v1 v2 = get2 t v1 v2 (\<lambda>a b.
     Ok (setT t v1 (take_bit (bits t) (push_bit (unat b mod bits t) a))))"

text \<open>The shift of a signed operand is arithmetic.\<close>

definition runShrOp :: "numT \<Rightarrow> ValVariant \<Rightarrow> ValVariant \<Rightarrow> ValVariant Expect" where
  "runShrOp t v1 v2 = get2 t v1 v2 (\<lambda>a b.
     Ok (setT t v1 (ofI t (drop_bit (unat b mod bits t) (toI t a)))))"

text \<open>The rotations shift by the whole width when the count is zero, which is undefined.\<close>

definition runRotlOp :: "numT \<Rightarrow> ValVariant \<Rightarrow> ValVariant \<Rightarrow> ValVariant Expect" where
  "runRotlOp t v1 v2 = get2 t v1 v2 (\<lambda>a b.
     let k = unat b mod bits t in
     if bits t - k = bits t then Undef
     else Ok (setT t v1 (take_bit (bits t) (push_bit k a) OR drop_bit (bits t - k) a)))"

definition runRotrOp :: "numT \<Rightarrow> ValVariant \<Rightarrow> ValVariant \<Rightarrow> ValVariant Expect" where
  "runRotrOp t v1 v2 = get2 t v1 v2 (\<lambda>a b.
     let k = unat b mod bits t in
     if bits t - k = bits t then Undef
     else Ok (setT t v1 (drop_bit k a OR take_bit (bits t) (push_bit (bits t - k) a))))"

text \<open>\<open>std::min(a, b)\<close> is \<open>b < a ? b : a\<close> and \<open>std::max(a, b)\<close> is \<open>a < b ? b : a\<close>.\<close>

definition runMinOp :: "numT \<Rightarrow> ValVariant \<Rightarrow> ValVariant \<Rightarrow> ValVariant Expect" where
  "runMinOp t v1 v2 = get2 t v1 v2 (\<lambda>a b.
     if float_eq t a 0 \<and> float_eq t b 0 \<and> signbit t a \<noteq> signbit t b
     then Ok (setT t v1 (push_bit (bits t - 1) 1))
     else Ok (setT t v1 (if float_lt t b a then b else a)))"

definition runMaxOp :: "numT \<Rightarrow> ValVariant \<Rightarrow> ValVariant \<Rightarrow> ValVariant Expect" where
  "runMaxOp t v1 v2 = get2 t v1 v2 (\<lambda>a b. Ok (setT t v1 (if float_lt t a b then b else a)))"

definition runCopysignOp :: "numT \<Rightarrow> ValVariant \<Rightarrow> ValVariant \<Rightarrow> ValVariant Expect" where
  "runCopysignOp t v1 v2 = get2 t v1 v2 (\<lambda>a b.
     Ok (setT t v1 (if signbit t b then set_bit (bits t - 1) a else unset_bit (bits t - 1) a)))"

section \<open>Conversions\<close>

definition runWrapOp :: "numT \<Rightarrow> numT \<Rightarrow> ValVariant \<Rightarrow> ValVariant Expect" where
  "runWrapOp ti to v = obind (getT ti v) (\<lambda>w. Ok (mkT to w))"

text \<open>
  The bounds of \<open>runTruncateOp\<close>: \<open>ValTOutMin - 1.0\<close> and \<open>ValTOutMax + 1.0\<close> are computed in
  \<open>double\<close> from the limits rounded to the source type, so some of them are off by one. A conversion
  of a value that does not fit the target is undefined.
\<close>

definition truncMin :: "numT \<Rightarrow> int" where
  "truncMin to = (case to of TS32 \<Rightarrow> - (2 ^ 31) - 1 | TS64 \<Rightarrow> - (2 ^ 63) | _ \<Rightarrow> - 1)"

definition truncMax :: "numT \<Rightarrow> numT \<Rightarrow> int" where
  "truncMax ti to = (case to of TS32 \<Rightarrow> (if ti = TF32 then 2 ^ 31 + 1 else 2 ^ 31)
     | TU32 \<Rightarrow> (if ti = TF32 then 2 ^ 32 + 1 else 2 ^ 32)
     | TS64 \<Rightarrow> 2 ^ 63 | _ \<Rightarrow> 2 ^ 64)"

definition fitsI :: "numT \<Rightarrow> int \<Rightarrow> bool" where
  "fitsI t i = (case t of TS32 \<Rightarrow> - (2 ^ 31) \<le> i \<and> i < 2 ^ 31 | TU32 \<Rightarrow> 0 \<le> i \<and> i < 2 ^ 32
     | TS64 \<Rightarrow> - (2 ^ 63) \<le> i \<and> i < 2 ^ 63 | _ \<Rightarrow> 0 \<le> i \<and> i < 2 ^ 64)"

definition runTruncateOp :: "numT \<Rightarrow> numT \<Rightarrow> ValVariant \<Rightarrow> ValVariant Expect" where
  "runTruncateOp ti to v = obind (getT ti v) (\<lambda>w.
     if isnan ti w \<or> isinf ti w then Err CastingError
     else let z = ftruncI ti w in
       if z \<le> truncMin to \<or> truncMax ti to \<le> z then Err CastingError
       else if fitsI to z then Ok (setT to v (ofI to z)) else Undef)"

definition runExtendOp :: "numT \<Rightarrow> numT \<Rightarrow> ValVariant \<Rightarrow> ValVariant Expect" where
  "runExtendOp ti to v = obind (getT ti v) (\<lambda>w. Ok (setT to v (ofI to (toI ti w))))"

definition runConvertOp :: "fpu \<Rightarrow> numT \<Rightarrow> numT \<Rightarrow> ValVariant \<Rightarrow> ValVariant Expect" where
  "runConvertOp F ti to v = obind (getT ti v) (\<lambda>w. Ok (setT to v (fp_of_int F to (toI ti w))))"

definition runDemoteOp :: "fpu \<Rightarrow> numT \<Rightarrow> numT \<Rightarrow> ValVariant \<Rightarrow> ValVariant Expect" where
  "runDemoteOp F ti to v = obind (getT ti v) (\<lambda>w. Ok (setT to v (fp_cast F ti to w)))"

definition runPromoteOp :: "fpu \<Rightarrow> numT \<Rightarrow> numT \<Rightarrow> ValVariant \<Rightarrow> ValVariant Expect" where
  "runPromoteOp F ti to v = obind (getT ti v) (\<lambda>w. Ok (setT to v (fp_cast F ti to w)))"

definition runReinterpretOp :: "numT \<Rightarrow> numT \<Rightarrow> ValVariant \<Rightarrow> ValVariant Expect" where
  "runReinterpretOp ti to v = obind (getT ti v) (\<lambda>w. Ok (setT to v w))"

section \<open>Reading and writing at a type\<close>

lemma bits_cases: "bits t = 32 \<or> bits t = 64"
  by (simp add: bits_def)

lemma take_bit_32_ucast: "take_bit 32 (ucast (x :: u32) :: u64) = ucast x"
  by (rule bit_word_eqI) (auto simp: bit_simps dest: bit_imp_le_length)

lemma ucast_ucast_32: "take_bit 32 w = w \<Longrightarrow> ucast (ucast (w :: u64) :: u32) = w"
proof -
  assume w: "take_bit 32 w = w"
  have "ucast (ucast w :: u32) = take_bit 32 w"
    by (rule bit_word_eqI) (auto simp: bit_simps)
  with w show ?thesis by simp
qed

lemma take_bit_64 [simp]: "take_bit 64 (w :: u64) = w"
  by (rule take_bit_word_eq_self) simp

lemma getT_bound: "getT t v = Ok w \<Longrightarrow> take_bit (bits t) w = w"
  using bits_cases [of t] by (auto simp: getT_def take_bit_32_ucast split: if_splits)

lemma getT_setT: "take_bit (bits t) w = w \<Longrightarrow> getT t (setT t v w) = Ok w"
  using bits_cases [of t] by (auto simp: getT_def setT_def ucast_ucast_32)

lemma getT_mkT: "take_bit (bits t) w = w \<Longrightarrow> getT t (mkT t w) = Ok w"
  using bits_cases [of t] by (auto simp: getT_def mkT_def ucast_ucast_32)

lemma ofI_bound [simp]: "take_bit (bits t) (ofI t i) = ofI t i"
  by (simp add: ofI_def)

text \<open>An integer that fits the type survives the round trip through its pattern.\<close>

lemma toI_ofI:
  assumes "\<not> isFloat t" "fitsI t i"
  shows "toI t (ofI t i) = i"
proof (cases t)
  case TS32
  have "ucast (take_bit 32 (of_int i :: u64)) = (of_int i :: u32)"
    by (rule bit_word_eqI) (auto simp: bit_simps)
  with TS32 assms(2) show ?thesis
    by (simp add: toI_def ofI_def bits_def fitsI_def signed_of_int signed_take_bit_int_eq_self)
next
  case TU32
  with assms(2) show ?thesis
    by (simp add: toI_def ofI_def bits_def fitsI_def unsigned_take_bit_eq unsigned_of_int take_bit_int_eq_self)
next
  case TS64
  with assms(2) show ?thesis
    by (simp add: toI_def ofI_def bits_def fitsI_def signed_of_int signed_take_bit_int_eq_self)
next
  case TU64
  with assms(2) show ?thesis
    by (simp add: toI_def ofI_def bits_def fitsI_def unsigned_of_int take_bit_int_eq_self)
qed (use assms(1) in \<open>simp_all add: isFloat_def\<close>)

lemma toI_fits:
  assumes "\<not> isFloat t" "take_bit (bits t) w = w"
  shows "fitsI t (toI t w)"
proof (cases t)
  case TS32
  then show ?thesis
    using sint_ge [of "ucast w :: u32"] sint_lt [of "ucast w :: u32"] by (simp add: toI_def fitsI_def)
next
  case TU32
  then have "uint w = take_bit 32 (uint w)" using assms(2) by (simp add: bits_def) (metis unsigned_take_bit_eq)
  then have "uint w < 2 ^ 32" by (metis take_bit_int_less_exp)
  then show ?thesis using TU32 by (simp add: toI_def fitsI_def)
next
  case TS64
  then show ?thesis
    using sint_ge [of w] sint_lt [of w] by (simp add: toI_def fitsI_def)
next
  case TU64
  then show ?thesis using uint_lt2p [of w] by (simp add: toI_def fitsI_def)
qed (use assms(1) in \<open>simp_all add: isFloat_def\<close>)

lemma ofI_toI:
  assumes "\<not> isFloat t" "take_bit (bits t) w = w"
  shows "ofI t (toI t w) = w"
proof (cases t)
  case TS32
  have "take_bit 32 (of_int (sint (ucast w :: u32)) :: u64) = take_bit 32 w"
  proof (rule bit_word_eqI)
    fix n show "bit (take_bit 32 (of_int (sint (ucast w :: u32)) :: u64)) n = bit (take_bit 32 w) n"
      by (cases "n = 31") (auto simp: bit_simps min_def)
  qed
  with TS32 assms(2) show ?thesis by (simp add: toI_def ofI_def bits_def)
qed (use assms in \<open>simp_all add: toI_def ofI_def bits_def isFloat_def\<close>)


lemma get2_Ok: "getT t v1 = Ok a \<Longrightarrow> getT t v2 = Ok b \<Longrightarrow> get2 t v1 v2 f = f a b"
  by (simp add: get2_def obind_def)

section \<open>Division\<close>

lemma quotI_bounds:
  fixes a b :: int
  assumes "b \<noteq> 0" "\<not> (a < 0 \<and> b = - 1)"
  shows "\<bar>quotI a b\<bar> \<le> \<bar>a\<bar>" and "b \<noteq> - 1 \<Longrightarrow> \<bar>b\<bar> \<noteq> 1 \<Longrightarrow> a \<noteq> 0 \<Longrightarrow> \<bar>quotI a b\<bar> < \<bar>a\<bar>"
proof -
  have q: "\<bar>quotI a b\<bar> \<le> \<bar>a\<bar> div \<bar>b\<bar>"
    by (auto simp: quotI_def abs_mult abs_sgn_eq pos_imp_zdiv_nonneg_iff)
  have "\<bar>a\<bar> div \<bar>b\<bar> \<le> \<bar>a\<bar>" using assms(1) zdiv_mono2 [of "\<bar>a\<bar>" 1 "\<bar>b\<bar>"] by simp
  with q show "\<bar>quotI a b\<bar> \<le> \<bar>a\<bar>" by linarith
  assume "b \<noteq> - 1" "\<bar>b\<bar> \<noteq> 1" "a \<noteq> 0"
  then have "\<bar>a\<bar> div \<bar>b\<bar> < \<bar>a\<bar>" using assms(1) by (intro int_div_less_self) auto
  with q show "\<bar>quotI a b\<bar> < \<bar>a\<bar>" by linarith
qed

lemma quotI_m1: "quotI a (- 1) = - a"
  by (simp add: quotI_def sgn_if)

lemma quotI_1: "quotI a 1 = a"
  by (simp add: quotI_def sgn_if)

lemma quotI_nonneg: "0 \<le> a \<Longrightarrow> 0 < b \<Longrightarrow> 0 \<le> quotI a b \<and> quotI a b \<le> a"
  using zdiv_mono2 [of a 1 b] by (auto simp: quotI_def sgn_if pos_imp_zdiv_nonneg_iff)

text \<open>The quotient of two representable integers is representable, the least integer by -1 apart.\<close>

lemma fitsI_quotI:
  assumes "\<not> isFloat t" "fitsI t a" "fitsI t b" "b \<noteq> 0"
  shows "fitsI t (quotI a b) \<longleftrightarrow> \<not> (isSigned t \<and> a = toI t (limits_min t) \<and> b = - 1)"
proof (cases "isSigned t")
  case False
  then have "0 \<le> a" "0 < b" using assms by (auto simp: isSigned_def fitsI_def split: numT.splits)
  with quotI_nonneg [of a b] assms(2) False show ?thesis
    by (auto simp: isSigned_def fitsI_def split: numT.splits)
next
  case True
  then have t: "t = TS32 \<or> t = TS64" using assms(1) by (cases t) (auto simp: isSigned_def isFloat_def)
  show ?thesis
  proof (cases "b = - 1")
    case True
    then show ?thesis using t assms(2)
      by (auto simp: quotI_m1 fitsI_def isSigned_def limits_min_def toI_def)
  next
    case False
    show ?thesis
    proof (cases "b = 1 \<or> a = 0")
      case True
      then have "quotI a b = a" using quotI_1 by (auto simp: quotI_def)
      then show ?thesis using False assms(2) by simp
    next
      case F: False
      then have "\<bar>quotI a b\<bar> < \<bar>a\<bar>" using False assms(4) by (intro quotI_bounds(2)) auto
      then show ?thesis using t assms(2) False by (auto simp: fitsI_def)
    qed
  qed
qed

lemma eq_iff_toI:
  assumes "\<not> isFloat t" "take_bit (bits t) a = a" "take_bit (bits t) b = b"
  shows "a = b \<longleftrightarrow> toI t a = toI t b"
  using ofI_toI [OF assms(1,2)] ofI_toI [OF assms(1,3)] by metis

lemma limits_min_bound: "\<not> isFloat t \<Longrightarrow> take_bit (bits t) (limits_min t) = limits_min t"
  by (cases t) (simp_all add: limits_min_def bits_def isFloat_def)

lemma minus_one_toI: "\<not> isFloat t \<Longrightarrow> isSigned t \<Longrightarrow> toI t (minus_one t) = - 1"
  by (cases t) (simp_all add: minus_one_def isFloat_def isSigned_def toI_ofI fitsI_def)

lemma minus_one_bound: "\<not> isFloat t \<Longrightarrow> take_bit (bits t) (minus_one t) = minus_one t"
  by (cases t) (simp_all add: minus_one_def isFloat_def)



section \<open>Counting bits\<close>

lemma and_1_iff: "(i :: u64) AND 1 = 0 \<longleftrightarrow> \<not> bit i 0"
  using and_exp_eq_0_iff_not_bit [of i 0] by simp

lemma ctz_loop_spec:
  "bit i p \<Longrightarrow> (\<forall>j < p. \<not> bit i j) \<Longrightarrow> p < k \<Longrightarrow> ctz_loop k i cnt = Ok (cnt + of_nat p)"
proof (induction k arbitrary: i p cnt)
  case (Suc k)
  show ?case
  proof (cases p)
    case 0
    then show ?thesis using Suc.prems by (simp add: and_1_iff)
  next
    case (Suc q)
    have "\<not> bit i 0" using Suc.prems(2) \<open>p = Suc q\<close> by simp
    moreover have "ctz_loop k (drop_bit 1 i) (cnt + 1) = Ok (cnt + 1 + of_nat q)"
      by (rule Suc.IH) (use Suc.prems \<open>p = Suc q\<close> in \<open>auto simp: bit_simps\<close>)
    ultimately show ?thesis using \<open>p = Suc q\<close> by (simp add: and_1_iff add.assoc)
  qed
qed simp

lemma clz_loop_spec:
  "bit i h \<Longrightarrow> (\<forall>j > h. \<not> bit i j) \<Longrightarrow> h < n \<Longrightarrow> n \<le> 64 \<Longrightarrow> n - h \<le> k \<Longrightarrow>
     clz_loop k n i cnt = Ok (cnt + of_nat (n - 1 - h))"
proof (induction k arbitrary: i h cnt)
  case (Suc k)
  show ?case
  proof (cases "h = n - 1")
    case True
    then show ?thesis using Suc.prems by (simp add: and_exp_eq_0_iff_not_bit del: One_nat_def)
  next
    case False
    have top: "\<not> bit i (n - 1)" using Suc.prems(2,3) False by auto
    have "clz_loop k n (take_bit n (push_bit 1 i)) (cnt + 1) = Ok (cnt + 1 + of_nat (n - 1 - Suc h))"
    proof (rule Suc.IH)
      show "bit (take_bit n (push_bit 1 i)) (Suc h)"
        using Suc.prems False by (auto simp: bit_simps simp del: push_bit_Suc)
      show "\<forall>j > Suc h. \<not> bit (take_bit n (push_bit 1 i)) j"
        using Suc.prems(2) by (auto simp: bit_simps simp del: push_bit_Suc)
    qed (use Suc.prems False in auto)
    moreover have "cnt + 1 + of_nat (n - 1 - Suc h) = cnt + of_nat (n - 1 - h)"
    proof -
      have "n - 1 - h = Suc (n - 1 - Suc h)" using Suc.prems(3) False by simp
      then show ?thesis by (simp only: of_nat_Suc add.assoc)
    qed
    ultimately show ?thesis using top by (simp add: and_exp_eq_0_iff_not_bit del: One_nat_def)
  qed
qed simp

lemma bits_drop1: "{j. bit (i :: u64) j} = (if bit i 0 then {0} else {}) \<union> Suc ` {j. bit (drop_bit 1 i) j}"
proof (intro set_eqI)
  fix j show "j \<in> {j. bit i j} \<longleftrightarrow> j \<in> (if bit i 0 then {0} else {}) \<union> Suc ` {j. bit (drop_bit 1 i) j}"
    by (cases j) (auto simp: bit_simps image_iff)
qed

lemma finite_bits: "finite {j. bit (i :: u64) j}"
  by (rule finite_subset [of _ "{..<64}"]) (auto dest: bit_imp_le_length)

lemma popcnt_loop_spec:
  "take_bit k i = i \<Longrightarrow> popcnt_loop k i cnt = Ok (cnt + of_nat (card {j. bit i j}))"
proof (induction k arbitrary: i cnt)
  case 0
  then show ?case by simp
next
  case (Suc k)
  have IH: "popcnt_loop k (drop_bit 1 i) c = Ok (c + of_nat (card {j. bit (drop_bit 1 i) j}))" for c
  proof (rule Suc.IH)
    show "take_bit k (drop_bit 1 i) = drop_bit 1 i"
      using Suc.prems by (metis One_nat_def drop_bit_take_bit diff_Suc_1)
  qed
  have "card {j. bit i j} = (if bit i 0 then 1 else 0) + card {j. bit (drop_bit 1 i) j}"
    unfolding bits_drop1 [of i] using finite_bits [of "drop_bit 1 i"]
    by (subst card_Un_disjoint) (auto simp: card_image)
  with IH show ?case by (cases "i = 0") (simp_all add: and_1_iff add.assoc)
qed

text \<open>\<open>popcnt\<close> returns the number of one bits and \<open>ctz\<close> the position of the lowest one bit (the
  width for zero), at both integer widths.\<close>

lemma runCtzOp_runPopcntOp:
  assumes "getT t v = Ok w"
  shows "(w = 0 \<longrightarrow> runCtzOp t v = Ok (mkT t (of_nat (bits t))) \<and> runPopcntOp t v = Ok v) \<and>
    (w \<noteq> 0 \<longrightarrow> runPopcntOp t v = Ok (mkT t (of_nat (card {j. bit w j}))) \<and>
       runCtzOp t v = Ok (mkT t (of_nat (LEAST j. bit w j))))"
proof -
  note W = getT_bound [OF assms]
  have "runCtzOp t v = Ok (mkT t (of_nat (LEAST j. bit w j)))" if "w \<noteq> 0"
  proof -
    obtain p where p: "bit w p" using \<open>w \<noteq> 0\<close> by (auto simp: bit_eq_iff)
    let ?l = "LEAST j. bit w j"
    have l: "bit w ?l" using p by (rule LeastI)
    moreover have "\<forall>j < ?l. \<not> bit w j" by (auto dest: not_less_Least)
    moreover have "?l < bits t" using l by (subst (asm) W [symmetric]) (simp only: bit_take_bit_iff)
    ultimately have "ctz_loop (bits t) w 0 = Ok (0 + of_nat ?l)" by (rule ctz_loop_spec)
    then show ?thesis using that by (simp add: runCtzOp_def obind_def assms)
  qed
  moreover have "runPopcntOp t v = Ok (mkT t (of_nat (card {j. bit w j})))" if "w \<noteq> 0"
    using that popcnt_loop_spec [OF W, of 0] by (simp add: runPopcntOp_def obind_def assms)
  ultimately show ?thesis by (simp add: runCtzOp_def runPopcntOp_def obind_def assms)
qed


text \<open>\<open>clz\<close> counts the zero bits above the highest one bit of a nonzero operand; on zero it leaves
  the operand, so the result is 0 where WebAssembly has the width.\<close>

lemma runClzOp_spec:
  assumes "getT t v = Ok w"
  shows "(w = 0 \<longrightarrow> runClzOp t v = Ok v) \<and>
    (\<forall>h. bit w h \<and> (\<forall>j > h. \<not> bit w j) \<longrightarrow> runClzOp t v = Ok (mkT t (of_nat (bits t - 1 - h))))"
proof (intro conjI impI allI)
  show "w = 0 \<Longrightarrow> runClzOp t v = Ok v" by (simp add: runClzOp_def obind_def assms)
  fix h assume h: "bit w h \<and> (\<forall>j > h. \<not> bit w j)"
  then have hb: "h < bits t"
    by (subst (asm) getT_bound [OF assms, symmetric]) (simp only: bit_take_bit_iff)
  have "clz_loop (bits t) (bits t) w 0 = Ok (0 + of_nat (bits t - 1 - h))"
    by (rule clz_loop_spec) (use h hb bits_cases [of t] in auto)
  moreover have "w \<noteq> 0" using h by auto
  ultimately show "runClzOp t v = Ok (mkT t (of_nat (bits t - 1 - h)))"
    by (simp add: runClzOp_def obind_def assms)
qed

section \<open>Rotations\<close>

text \<open>A left rotation by a count that is not a multiple of the width moves bit \<open>j - k\<close> (modulo
  the width) to bit \<open>j\<close>; a count that is a multiple of the width shifts by the full width, which is
  undefined in C++.\<close>

lemma runRotlOp_spec:
  assumes "getT t v1 = Ok a" and "getT t v2 = Ok b"
  shows "if unat b mod bits t = 0 then runRotlOp t v1 v2 = Undef
    else \<exists>w. runRotlOp t v1 v2 = Ok (setT t v1 w) \<and> take_bit (bits t) w = w \<and>
      (\<forall>j < bits t. bit w j = bit a ((j + (bits t - unat b mod bits t)) mod bits t))"
proof (cases "unat b mod bits t = 0")
  case True
  then show ?thesis by (simp add: runRotlOp_def get2_Ok [OF assms])
next
  case False
  let ?n = "bits t" and ?k = "unat b mod bits t"
  let ?w = "take_bit ?n (push_bit ?k a) OR drop_bit (?n - ?k) a"
  have n: "0 < ?n" "?n \<le> 64" using bits_cases [of t] by auto
  have k: "0 < ?k" "?k < ?n" using False n by simp_all
  have ab: "bit a i \<Longrightarrow> i < ?n" for i
    by (subst (asm) getT_bound [OF assms(1), symmetric]) (simp only: bit_take_bit_iff)
  have run: "runRotlOp t v1 v2 = Ok (setT t v1 ?w)"
    using k by (simp add: runRotlOp_def get2_Ok [OF assms] Let_def)
  have tb: "take_bit ?n ?w = ?w"
    by (rule bit_word_eqI) (auto simp: bit_simps dest: ab)
  have bt: "bit ?w j = bit a ((j + (?n - ?k)) mod ?n)" if "j < ?n" for j
  proof (cases "j < ?k")
    case True
    then have "j + (?n - ?k) < ?n" using k by linarith
    then have "(j + (?n - ?k)) mod ?n = ?n - ?k + j" by (simp only: mod_less add.commute)
    then show ?thesis using True that n by (auto simp: bit_simps)
  next
    case F: False
    then have "j + (?n - ?k) = ?n + (j - ?k)" using k by simp
    moreover have "(?n + (j - ?k)) mod ?n = j - ?k" using that by (simp del: diff_is_0_eq)
    ultimately have "(j + (?n - ?k)) mod ?n = j - ?k" by (simp only:)
    moreover have "\<not> bit a (?n - ?k + j)" using ab [of "?n - ?k + j"] F k by auto
    ultimately show ?thesis using F that n by (auto simp: bit_simps)
  qed
  show ?thesis using False run tb bt by auto
qed

section \<open>Floating-point cases\<close>

text \<open>The overflow guard of \<open>runDivOp\<close> also applies to floating-point operands, where
  \<open>std::numeric_limits<T>::min()\<close> is the least positive normal number: dividing that number by
  minus one fails with \<open>FloatPointException\<close> instead of returning a quotient.\<close>

lemma runDivOp_float_trap:
  assumes "isFloat t"
  shows "runDivOp F t (mkT t (limits_min t)) (mkT t (minus_one t)) = Err FloatPointException"
proof -
  have "take_bit (bits t) (limits_min t) = limits_min t" "take_bit (bits t) (minus_one t) = minus_one t"
    using assms by (cases t; simp add: limits_min_def minus_one_def bits_def isFloat_def)+
  then have g: "getT t (mkT t (limits_min t)) = Ok (limits_min t)"
    "getT t (mkT t (minus_one t)) = Ok (minus_one t)" by (simp_all add: getT_mkT)
  have "float_eq t w w \<longleftrightarrow> \<not> isnan t w" for w by (auto simp: float_eq_def)
  moreover have "\<not> isnan t (limits_min t)" "\<not> isnan t (minus_one t)"
    using assms by (cases t; simp add: limits_min_def minus_one_def isnan_def fexp_def ffrac_def
        expbits_def fracbits_def isFloat_def)+
  moreover have "isSigned t" using assms by (auto simp: isSigned_def isFloat_def)
  ultimately show ?thesis
    using assms by (simp add: runDivOp_def get2_Ok [OF g] eqT_def)
qed

text \<open>\<open>min\<close> and \<open>max\<close> return their first operand when the second is a NaN (WebAssembly requires
  a NaN), because every comparison with a NaN is false.\<close>

lemma runMinMax_nan:
  assumes "getT t v1 = Ok a" and "getT t v2 = Ok b" and "isnan t b"
  shows "runMinOp t v1 v2 = Ok (setT t v1 a) \<and> runMaxOp t v1 v2 = Ok (setT t v1 a)"
  using assms(3) by (simp add: runMinOp_def runMaxOp_def get2_Ok [OF assms(1,2)] float_lt_def float_eq_def)

text \<open>Converting a \<open>double\<close> to an integer is always defined: a NaN, an infinity or a truncated
  value outside the range fails with \<open>CastingError\<close>, and any other value is converted exactly. From
  a \<open>float\<close> to a 32-bit integer the upper bound is off by one, and the value right above the range
  reaches the conversion, which is undefined.\<close>

lemma runTruncateOp_range:
  assumes "getT ti v = Ok w" and "isFloat ti" and "\<not> isFloat to"
  shows "runTruncateOp ti to v =
    (let z = ftruncI ti w in
     if isnan ti w \<or> isinf ti w \<or> z \<le> truncMin to then Err CastingError
     else if fitsI to z then Ok (setT to v (ofI to z))
     else if ti = TF32 \<and> bits to = 32 \<and> z + 1 = truncMax ti to then Undef
     else Err CastingError)"
  using assms
  by (cases to; cases ti)
    (auto simp: runTruncateOp_def obind_def Let_def isFloat_def truncMin_def truncMax_def fitsI_def bits_def)

end
