(* ===== verification/Measure.thy ===== *)
theory Measure
  imports Instruction
begin

text \<open>
  \<open>include/support/measure.h\<close>: the instruction counter and the gas meter. The time recorder it
  also holds does not influence execution and is not modelled.
\<close>

section \<open>The measurement\<close>

record Measurement =
  CostTab :: "u64 list"
  InstrCnt :: u64
  CostLimit :: u64
  CostSum :: u64

definition newMeasurement :: "u64 list \<Rightarrow> u64 \<Rightarrow> Measurement" where
  "newMeasurement tab lim = \<lparr>CostTab = (if length tab < 256 then vresize 256 0 tab else tab),
     InstrCnt = 0, CostLimit = lim, CostSum = 0\<rparr>"

definition incInstrCnt :: "Measurement \<Rightarrow> Measurement" where
  "incInstrCnt m = m\<lparr>InstrCnt := InstrCnt m + 1\<rparr>"

definition setCostTable :: "u64 list \<Rightarrow> Measurement \<Rightarrow> Measurement" where
  "setCostTable tab m = m\<lparr>CostTab := (if length tab < 256 then vresize 256 0 tab else tab)\<rparr>"

text \<open>The sum is a 64-bit sum.\<close>

definition addCost :: "u64 \<Rightarrow> Measurement \<Rightarrow> bool \<times> Measurement" where
  "addCost c m =
     (let s = CostSum m + c in
      if CostLimit m < s then (False, m\<lparr>CostSum := CostLimit m\<rparr>)
      else (True, m\<lparr>CostSum := s\<rparr>))"

definition addInstrCost :: "OpCode \<Rightarrow> Measurement \<Rightarrow> bool \<times> Measurement" where
  "addInstrCost c m = addCost (CostTab m ! unat (byte_of c)) m"

definition subCost :: "u64 \<Rightarrow> Measurement \<Rightarrow> bool \<times> Measurement" where
  "subCost c m =
     (if c < CostSum m then (True, m\<lparr>CostSum := CostSum m - c\<rparr>)
      else (False, m\<lparr>CostSum := 0\<rparr>))"

definition clear :: "Measurement \<Rightarrow> Measurement" where
  "clear m = m\<lparr>InstrCnt := 0\<rparr>"

section \<open>The contract of a gas meter\<close>

text \<open>
  A meter never shows more than its limit, a charge does not change the limit, and a charge whose
  sum fits the counter succeeds exactly when the sum is within the limit.
\<close>

locale gas_meter =
  fixes used :: "'m \<Rightarrow> nat" and lim :: "'m \<Rightarrow> nat" and charge :: "u64 \<Rightarrow> 'm \<Rightarrow> bool \<times> 'm"
  assumes charge_lim: "lim (snd (charge c m)) = lim m"
    and charge_ok: "used m \<le> lim m \<Longrightarrow> used m + unat c < 2 ^ 64 \<Longrightarrow>
      fst (charge c m) \<longleftrightarrow> used m + unat c \<le> lim m"
    and charge_used: "used m \<le> lim m \<Longrightarrow> used m + unat c < 2 ^ 64 \<Longrightarrow>
      used (snd (charge c m)) = min (used m + unat c) (lim m)"
begin

text \<open>Charging a sequence of costs, stopping at the first refusal.\<close>

fun charges :: "u64 list \<Rightarrow> 'm \<Rightarrow> bool \<times> 'm" where
  "charges [] m = (True, m)"
| "charges (c # cs) m = (case charge c m of (b, m') \<Rightarrow> if b then charges cs m' else (False, m'))"

lemma charges_spec:
  assumes "used m \<le> lim m" and "lim m + sum_list (map unat cs) < 2 ^ 64"
  shows "(fst (charges cs m) \<longleftrightarrow> used m + sum_list (map unat cs) \<le> lim m) \<and>
    lim (snd (charges cs m)) = lim m \<and> used (snd (charges cs m)) \<le> lim m \<and>
    (fst (charges cs m) \<longrightarrow> used (snd (charges cs m)) = used m + sum_list (map unat cs))"
  using assms
proof (induction cs arbitrary: m)
  case (Cons c cs)
  obtain b m' where m': "charge c m = (b, m')" by fastforce
  have fit: "used m + unat c < 2 ^ 64" using Cons.prems by simp
  note L = charge_lim [of c m] charge_ok [OF Cons.prems(1) fit] charge_used [OF Cons.prems(1) fit]
  have pre: "used m' \<le> lim m'" "lim m' + sum_list (map unat cs) < 2 ^ 64" using L m' Cons.prems by simp_all
  show ?case using Cons.IH [OF pre] L m' by (cases b) auto
qed simp

end

lemma u64_le_iff: "(v :: u64) \<le> w \<longleftrightarrow> unat v \<le> unat w"
  by (rule word_le_nat_alt)

interpretation measure_gas: gas_meter "\<lambda>m. unat (CostSum m)" "\<lambda>m. unat (CostLimit m)" addCost
  by unfold_locales
    (auto simp: addCost_def Let_def word_less_nat_alt unat_add_no_wrap min_def)

section \<open>Properties\<close>



text \<open>The sum is taken modulo \<open>2\<^sup>64\<close> before it is compared with the limit, so a cost that carries
  it past the top of the counter is accepted and leaves a smaller sum: with the default limit
  \<open>UINT64_MAX\<close> every charge is accepted and the meter never stops anything.\<close>

lemma addCost_wraps:
  assumes "2 ^ 64 \<le> unat (CostSum m) + unat c" and "CostLimit m = - 1"
  shows "fst (addCost c m) \<and> CostSum (snd (addCost c m)) < CostSum m"
proof -
  have "\<not> CostLimit m < CostSum m + c" using assms(2) by (simp add: not_less)
  moreover have "CostSum m + c < CostSum m"
    using assms(1) unat_u64_less [of c] unat_u64_less [of "CostSum m"]
    by (simp add: word_less_nat_alt unat_word_ariths le_mod_geq)
  ultimately show ?thesis by (simp add: addCost_def)
qed

end
