(* ===== verification/Instances.thy ===== *)
theory Instances
  imports Memory Measure
begin

text \<open>
  The other instances of the store: \<open>include/runtime/instance/type.h\<close>, \<open>table.h\<close>, \<open>global.h\<close>,
  \<open>module.h\<close>, \<open>function.h\<close>, and the import objects of \<open>include/runtime/importobj.h\<close>.

  A function instance holds its type by value here; in the code it is a reference into the type
  vector of its module instance, which is complete before the first function instance is made. A
  host function is a value with its type, its cost and its body; the body works on the memory of the
  caller, on the measurement (the Ethereum environment holds references to the gas counters) and
  on the state \<open>'h\<close> of the host.
\<close>

section \<open>Function types, tables and globals\<close>

record FType =
  Params :: "ValType list"
  Returns :: "ValType list"

record TableInstance =
  TElem :: ElemType
  HasMaxSize :: bool
  MinSize :: u32
  MaxSize :: u32
  FuncElem :: "u32 list"

definition newTable :: "ElemType \<Rightarrow> Limit \<Rightarrow> TableInstance" where
  "newTable e lim = \<lparr>TElem = e, HasMaxSize = hasMax lim, MinSize = getMin lim, MaxSize = limMax lim,
     FuncElem = (if 0 < getMin lim then vresize (unat (getMin lim)) 0 [] else [])\<rparr>"

text \<open>\<open>Offset + Addrs.size()\<close> is a 64-bit sum.\<close>

definition setInitList :: "u32 \<Rightarrow> u32 list \<Rightarrow> (TableInstance, unit) exec" where
  "setInitList off addrs t =
     (let n = unat off + length addrs in
      if HasMaxSize t \<and> unat (MaxSize t) < n then (Err TableSizeExceeded, t)
      else let el = (if length (FuncElem t) < n then vresize n 0 (FuncElem t) else FuncElem t)
           in (Ok (), t\<lparr>FuncElem := overwrite (unat off) addrs el\<rparr>))"

definition getElemAddr :: "TableInstance \<Rightarrow> u32 \<Rightarrow> u32 Expect" where
  "getElemAddr t i =
     (if length (FuncElem t) \<le> unat i then Err AccessForbidMemory else Ok (FuncElem t ! unat i))"

record GlobalInstance =
  GType :: ValType
  GMut :: ValMut
  GValue :: ValVariant

text \<open>
  The constructor initialises the value at the four number types. At another type the storage stays
  uninitialised; only its low half can be read without notice, which is what \<open>V32\<close> says.
\<close>

definition newGlobal :: "ValType \<Rightarrow> ValMut \<Rightarrow> GlobalInstance" where
  "newGlobal t m = \<lparr>GType = t, GMut = m, GValue = (if t \<in> {I64, F64} then V64 0 else V32 0)\<rparr>"

section \<open>Module instances\<close>

record ModuleInstance =
  ModName :: Bytes
  Addr :: u32
  FuncTypes :: "FType list"
  FuncAddrs :: "u32 list"
  TableAddrs :: "u32 list"
  MemAddrs :: "u32 list"
  GlobalAddrs :: "u32 list"
  ExpFuncs :: "Bytes \<rightharpoonup> u32"
  ExpTables :: "Bytes \<rightharpoonup> u32"
  ExpMems :: "Bytes \<rightharpoonup> u32"
  ExpGlobals :: "Bytes \<rightharpoonup> u32"
  StartAddr :: "u32 option"

definition newModuleInstance :: "Bytes \<Rightarrow> ModuleInstance" where
  "newModuleInstance name = \<lparr>ModName = name, Addr = 0, FuncTypes = [], FuncAddrs = [],
     TableAddrs = [], MemAddrs = [], GlobalAddrs = [], ExpFuncs = Map.empty,
     ExpTables = Map.empty, ExpMems = Map.empty, ExpGlobals = Map.empty, StartAddr = None\<rparr>"

definition addFuncType :: "ValType list \<Rightarrow> ValType list \<Rightarrow> ModuleInstance \<Rightarrow> ModuleInstance" where
  "addFuncType ps rs m = m\<lparr>FuncTypes := FuncTypes m @ [\<lparr>Params = ps, Returns = rs\<rparr>]\<rparr>"

definition addFuncAddr :: "u32 \<Rightarrow> ModuleInstance \<Rightarrow> ModuleInstance" where
  "addFuncAddr a m = m\<lparr>FuncAddrs := FuncAddrs m @ [a]\<rparr>"

definition addTableAddr :: "u32 \<Rightarrow> ModuleInstance \<Rightarrow> ModuleInstance" where
  "addTableAddr a m = m\<lparr>TableAddrs := TableAddrs m @ [a]\<rparr>"

definition addMemAddr :: "u32 \<Rightarrow> ModuleInstance \<Rightarrow> ModuleInstance" where
  "addMemAddr a m = m\<lparr>MemAddrs := MemAddrs m @ [a]\<rparr>"

definition addGlobalAddr :: "u32 \<Rightarrow> ModuleInstance \<Rightarrow> ModuleInstance" where
  "addGlobalAddr a m = m\<lparr>GlobalAddrs := GlobalAddrs m @ [a]\<rparr>"

text \<open>An unchecked index into a vector.\<close>

definition at :: "'a list \<Rightarrow> u32 \<Rightarrow> 'a Expect" where
  "at xs i = (if unat i < length xs then Ok (xs ! unat i) else Undef)"

definition exportFuncion :: "Bytes \<Rightarrow> u32 \<Rightarrow> ModuleInstance \<Rightarrow> ModuleInstance Expect" where
  "exportFuncion name i m = obind (at (FuncAddrs m) i) (\<lambda>a. Ok (m\<lparr>ExpFuncs := (ExpFuncs m)(name \<mapsto> a)\<rparr>))"

definition exportTable :: "Bytes \<Rightarrow> u32 \<Rightarrow> ModuleInstance \<Rightarrow> ModuleInstance Expect" where
  "exportTable name i m = obind (at (TableAddrs m) i) (\<lambda>a. Ok (m\<lparr>ExpTables := (ExpTables m)(name \<mapsto> a)\<rparr>))"

definition exportMemory :: "Bytes \<Rightarrow> u32 \<Rightarrow> ModuleInstance \<Rightarrow> ModuleInstance Expect" where
  "exportMemory name i m = obind (at (MemAddrs m) i) (\<lambda>a. Ok (m\<lparr>ExpMems := (ExpMems m)(name \<mapsto> a)\<rparr>))"

definition exportGlobal :: "Bytes \<Rightarrow> u32 \<Rightarrow> ModuleInstance \<Rightarrow> ModuleInstance Expect" where
  "exportGlobal name i m = obind (at (GlobalAddrs m) i) (\<lambda>a. Ok (m\<lparr>ExpGlobals := (ExpGlobals m)(name \<mapsto> a)\<rparr>))"

text \<open>A checked index, the body of the five getters and of \<open>StoreManager::getInstance\<close>.\<close>

definition lookup :: "'a list \<Rightarrow> u32 \<Rightarrow> 'a Expect" where
  "lookup xs i = (if length xs \<le> unat i then Err WrongInstanceAddress else Ok (xs ! unat i))"

definition getFuncType :: "ModuleInstance \<Rightarrow> u32 \<Rightarrow> FType Expect" where
  "getFuncType m i = lookup (FuncTypes m) i"

definition getFuncAddr :: "ModuleInstance \<Rightarrow> u32 \<Rightarrow> u32 Expect" where
  "getFuncAddr m i = lookup (FuncAddrs m) i"

definition getTableAddr :: "ModuleInstance \<Rightarrow> u32 \<Rightarrow> u32 Expect" where
  "getTableAddr m i = lookup (TableAddrs m) i"

definition getMemAddr :: "ModuleInstance \<Rightarrow> u32 \<Rightarrow> u32 Expect" where
  "getMemAddr m i = lookup (MemAddrs m) i"

definition getGlobalAddr :: "ModuleInstance \<Rightarrow> u32 \<Rightarrow> u32 Expect" where
  "getGlobalAddr m i = lookup (GlobalAddrs m) i"

definition getFuncNum :: "ModuleInstance \<Rightarrow> u32" where
  "getFuncNum m = of_nat (length (FuncAddrs m))"

definition getTableNum :: "ModuleInstance \<Rightarrow> u32" where
  "getTableNum m = of_nat (length (TableAddrs m))"

definition getMemNum :: "ModuleInstance \<Rightarrow> u32" where
  "getMemNum m = of_nat (length (MemAddrs m))"

definition getGlobalNum :: "ModuleInstance \<Rightarrow> u32" where
  "getGlobalNum m = of_nat (length (GlobalAddrs m))"

definition setStartIdx :: "u32 \<Rightarrow> ModuleInstance \<Rightarrow> ModuleInstance Expect" where
  "setStartIdx i m = obind (at (FuncAddrs m) i) (\<lambda>a. Ok (m\<lparr>StartAddr := Some a\<rparr>))"

section \<open>Functions\<close>

record 'h HostWorld =
  HMem :: MemoryInstance
  HMeasure :: "Measurement option"
  HState :: 'h

text \<open>The body yields the status and the value of its \<open>Ret\<close> parameter, if it has one.\<close>

record 'h HostFunction =
  HostType :: FType
  HostCost :: u64
  HostBody :: "ValVariant list \<Rightarrow> ('h HostWorld, ErrCode \<times> ValVariant) exec"

datatype 'h FunctionInstance =
    Native (FuncType: FType) (FModuleAddr: u32) (Locals: "(u32 \<times> ValType) list") (Instrs: "Instr list")
  | HostFunc "'h HostFunction"

definition newFunction ::
  "u32 \<Rightarrow> FType \<Rightarrow> (u32 \<times> ValType) list \<Rightarrow> Instr list \<Rightarrow> 'h FunctionInstance" where
  "newFunction ma ft locs body = Native ft ma locs (copy_instrs body)"

fun getType :: "'h FunctionInstance \<Rightarrow> FType" where
  "getType (Native ft _ _ _) = ft"
| "getType (HostFunc h) = HostType h"

section \<open>Import objects\<close>

text \<open>
  A \<open>std::map\<close> with string keys, as the list of its entries in the order of its iteration, which is
  the order in which the entries get their addresses. \<open>emplace\<close> does not replace an entry.
\<close>

fun str_less :: "Bytes \<Rightarrow> Bytes \<Rightarrow> bool" where
  "str_less _ [] = False"
| "str_less [] (_ # _) = True"
| "str_less (a # as) (b # bs) = (a < b \<or> a = b \<and> str_less as bs)"

fun emplace :: "Bytes \<Rightarrow> 'a \<Rightarrow> (Bytes \<times> 'a) list \<Rightarrow> (Bytes \<times> 'a) list" where
  "emplace k v [] = [(k, v)]"
| "emplace k v ((k', v') # m) =
     (if k = k' then (k', v') # m
      else if str_less k k' then (k, v) # (k', v') # m
      else (k', v') # emplace k v m)"

record 'h ImportObject =
  IModName :: Bytes
  IFuncs :: "(Bytes \<times> 'h FunctionInstance) list"
  ITabs :: "(Bytes \<times> TableInstance) list"
  IMems :: "(Bytes \<times> MemoryInstance) list"
  IGlobs :: "(Bytes \<times> GlobalInstance) list"

definition newImportObject :: "Bytes \<Rightarrow> 'h ImportObject" where
  "newImportObject name = \<lparr>IModName = name, IFuncs = [], ITabs = [], IMems = [], IGlobs = []\<rparr>"

definition addHostFunc :: "Bytes \<Rightarrow> 'h HostFunction \<Rightarrow> 'h ImportObject \<Rightarrow> 'h ImportObject" where
  "addHostFunc name f ob = ob\<lparr>IFuncs := emplace name (HostFunc f) (IFuncs ob)\<rparr>"

definition addHostTable :: "Bytes \<Rightarrow> TableInstance \<Rightarrow> 'h ImportObject \<Rightarrow> 'h ImportObject" where
  "addHostTable name t ob = ob\<lparr>ITabs := emplace name t (ITabs ob)\<rparr>"

definition addHostMemory :: "Bytes \<Rightarrow> MemoryInstance \<Rightarrow> 'h ImportObject \<Rightarrow> 'h ImportObject" where
  "addHostMemory name m ob = ob\<lparr>IMems := emplace name m (IMems ob)\<rparr>"

definition addHostGlobal :: "Bytes \<Rightarrow> GlobalInstance \<Rightarrow> 'h ImportObject \<Rightarrow> 'h ImportObject" where
  "addHostGlobal name g ob = ob\<lparr>IGlobs := emplace name g (IGlobs ob)\<rparr>"

section \<open>Lemmas\<close>

lemma lookup_Ok_iff: "lookup xs i = Ok x \<longleftrightarrow> unat i < length xs \<and> xs ! unat i = x"
  by (auto simp: lookup_def)

lemma at_Ok_iff: "at xs i = Ok x \<longleftrightarrow> unat i < length xs \<and> xs ! unat i = x"
  by (auto simp: at_def)

lemma lookup_defined [simp]: "lookup xs i \<noteq> Undef" "lookup xs i \<noteq> Timeout"
  by (simp_all add: lookup_def)

lemma lookup_append:
  "unat i < length xs \<Longrightarrow> lookup (xs @ ys) i = lookup xs i"
  "length xs < 2 ^ 32 \<Longrightarrow> lookup (xs @ x # ys) (of_nat (length xs)) = Ok x"
  by (simp_all add: lookup_def nth_append unat_of_nat_less)

lemma str_less_irrefl [simp]: "\<not> str_less a a"
  by (induction a) auto

lemma str_less_trans: "str_less a b \<Longrightarrow> str_less b c \<Longrightarrow> str_less a c"
proof (induction a b arbitrary: c rule: str_less.induct)
  case (3 x xs y ys)
  then show ?case by (cases c) auto
qed (auto elim: str_less.elims)

lemma str_less_linear: "str_less a b \<or> a = b \<or> str_less b a"
proof (induction a b rule: str_less.induct)
  case (1 a)
  then show ?case by (cases a) auto
qed auto

lemma emplace_keys: "fst ` set (emplace k v m) = insert k (fst ` set m)"
  by (induction m rule: emplace.induct [of _ k v]) auto

lemma emplace_sorted:
  "sorted_wrt str_less (map fst m) \<Longrightarrow> sorted_wrt str_less (map fst (emplace k v m))"
proof (induction k v m rule: emplace.induct)
  case (2 k v k' v' m)
  have "fst ` set (emplace k v m) = insert k (fst ` set m)" by (rule emplace_keys)
  moreover have "k \<noteq> k' \<Longrightarrow> \<not> str_less k k' \<Longrightarrow> str_less k' k" using str_less_linear by blast
  ultimately show ?case using 2 by (auto intro: str_less_trans)
qed simp

lemma emplace_lookup:
  "map_of (emplace k v m) k' = (if k' = k \<and> k \<notin> fst ` set m then Some v else map_of m k')"
  if "sorted_wrt str_less (map fst m)"
  using that
proof (induction k v m rule: emplace.induct)
  case (2 k v k0 v0 m)
  then have "str_less k k0 \<Longrightarrow> k \<notin> fst ` set m"
    by (auto dest: str_less_trans)
  with 2 show ?case by (auto simp: map_of_eq_None_iff)
qed simp

text \<open>Initialising a segment of a table writes exactly the given addresses at the given offset and
  leaves every other entry as it was, new entries in between being zero; the table never grows past a
  declared maximum, and beyond it nothing is written.\<close>

lemma setInitList_spec:
  assumes "HasMaxSize t \<longrightarrow> length (FuncElem t) \<le> unat (MaxSize t)"
  shows "case setInitList off addrs t of
     (Ok _, t') \<Rightarrow>
       length (FuncElem t') = max (length (FuncElem t)) (unat off + length addrs) \<and>
       (HasMaxSize t \<longrightarrow> length (FuncElem t') \<le> unat (MaxSize t')) \<and>
       (\<forall>i < length (FuncElem t'). FuncElem t' ! i =
          (if unat off \<le> i \<and> i < unat off + length addrs then addrs ! (i - unat off)
           else if i < length (FuncElem t) then FuncElem t ! i else 0))
   | (r, t') \<Rightarrow> r = Err TableSizeExceeded \<and> t' = t \<and> HasMaxSize t \<and>
       unat (MaxSize t) < unat off + length addrs"
  using assms
  by (auto simp: setInitList_def Let_def overwrite_def nth_append vresize_def min_def max_def)

end
