(* ===== verification/StackMgr.thy ===== *)
theory StackMgr
  imports Instances
begin

text \<open>
  \<open>include/runtime/stackmgr.h\<close>, the stack manager, and \<open>include/interpreter/engine/provider.h\<close> with
  \<open>lib/interpreter/engine/provider.cpp\<close>, the instruction provider.

  A stack is the list of its entries with the bottom first, as the vector has them. The sizes that a
  label and a frame record are \<open>uint32_t\<close>; \<open>size()\<close> is truncated to that width when it is stored.
  An operation on an entry that is not there is undefined.
\<close>

section \<open>The stack manager\<close>

record Label =
  LStack :: u32
  LCoarity :: u32
  Target :: "Instr option"

record Frame =
  ModAddr :: u32
  VStackSize :: u32
  LStackSize :: u32
  FCoarity :: u32

record StackManager =
  ValueStack :: "ValVariant list"
  LabelStack :: "Label list"
  FrameStack :: "Frame list"

type_synonym 'a stackop = "(StackManager, 'a) exec"

definition newStackManager :: StackManager where
  "newStackManager = \<lparr>ValueStack = [], LabelStack = [], FrameStack = []\<rparr>"

definition getTop :: "ValVariant stackop" where
  "getTop s = (if ValueStack s = [] then (Undef, s) else (Ok (last (ValueStack s)), s))"

text \<open>Assignment through the reference that \<open>getTop\<close> or \<open>getBottomN\<close> returns.\<close>

definition setTop :: "ValVariant \<Rightarrow> unit stackop" where
  "setTop v s = (if ValueStack s = [] then (Undef, s)
     else (Ok (), s\<lparr>ValueStack := butlast (ValueStack s) @ [v]\<rparr>))"

definition getBottomN :: "u32 \<Rightarrow> ValVariant stackop" where
  "getBottomN n s = (if unat n < length (ValueStack s) then (Ok (ValueStack s ! unat n), s) else (Undef, s))"

definition setBottomN :: "u32 \<Rightarrow> ValVariant \<Rightarrow> unit stackop" where
  "setBottomN n v s = (if unat n < length (ValueStack s)
     then (Ok (), s\<lparr>ValueStack := (ValueStack s)[unat n := v]\<rparr>) else (Undef, s))"

definition push :: "ValVariant \<Rightarrow> unit stackop" where
  "push v s = (Ok (), s\<lparr>ValueStack := ValueStack s @ [v]\<rparr>)"

definition pop :: "ValVariant stackop" where
  "pop s = (if ValueStack s = [] then (Undef, s)
     else (Ok (last (ValueStack s)), s\<lparr>ValueStack := butlast (ValueStack s)\<rparr>))"

definition pushFrame :: "u32 \<Rightarrow> u32 \<Rightarrow> u32 \<Rightarrow> unit stackop" where
  "pushFrame addr arity coarity s =
     (Ok (), s\<lparr>FrameStack := FrameStack s @ [\<lparr>ModAddr = addr,
        VStackSize = of_nat (length (ValueStack s)) - arity,
        LStackSize = of_nat (length (LabelStack s)), FCoarity = coarity\<rparr>]\<rparr>)"

text \<open>
  \<open>ValueStack.erase(begin + a, end - c)\<close> needs \<open>a\<close> and \<open>c\<close> entries, and the range it erases must
  not be inverted.
\<close>

definition eraseValues :: "u32 \<Rightarrow> u32 \<Rightarrow> unit stackop" where
  "eraseValues a c s = (if length (ValueStack s) < unat a + unat c then (Undef, s)
     else (Ok (), s\<lparr>ValueStack := erase_range (unat a) (unat c) (ValueStack s)\<rparr>))"

definition popFrame :: "u32 stackop" where
  "popFrame s =
     (if FrameStack s = [] then (Undef, s)
      else let f = last (FrameStack s); n = unat (LStackSize f) in
        if length (LabelStack s) < n then (Undef, s)
        else bindM (eraseValues (VStackSize f) (FCoarity f)) (\<lambda>_ t.
          (Ok (of_nat (length (LabelStack s)) - LStackSize f),
           t\<lparr>LabelStack := take n (LabelStack s), FrameStack := butlast (FrameStack s)\<rparr>)) s)"

definition pushLabel :: "u32 \<Rightarrow> Instr option \<Rightarrow> unit stackop" where
  "pushLabel coarity instr s =
     (Ok (), s\<lparr>LabelStack := LabelStack s @ [\<lparr>LStack = of_nat (length (ValueStack s)),
        LCoarity = coarity, Target = instr\<rparr>]\<rparr>)"

definition getLabelWithCount :: "u32 \<Rightarrow> Label stackop" where
  "getLabelWithCount n s =
     (if unat n < length (LabelStack s) then (Ok (LabelStack s ! (length (LabelStack s) - unat n - 1)), s)
      else (Undef, s))"

definition popLabel :: "u32 \<Rightarrow> unit stackop" where
  "popLabel cnt =
     bindM (getLabelWithCount (cnt - 1)) (\<lambda>l.
     bindM (eraseValues (LStack l) (LCoarity l)) (\<lambda>_ s.
       if length (LabelStack s) < unat cnt then (Undef, s)
       else (Ok (), s\<lparr>LabelStack := take (length (LabelStack s) - unat cnt) (LabelStack s)\<rparr>)))"

definition getModuleAddr :: "u32 stackop" where
  "getModuleAddr s = (if FrameStack s = [] then (Undef, s) else (Ok (ModAddr (last (FrameStack s))), s))"

definition getOffset :: "u32 \<Rightarrow> u32 stackop" where
  "getOffset i s = (if FrameStack s = [] then (Undef, s)
     else (Ok (VStackSize (last (FrameStack s)) + i), s))"

definition resetStack :: "StackManager \<Rightarrow> StackManager" where
  "resetStack s = s\<lparr>ValueStack := [], LabelStack := [], FrameStack := []\<rparr>"

section \<open>The instruction provider\<close>

text \<open>A scope is its type and the instructions from \<open>Curr\<close> to \<open>End\<close>.\<close>

datatype SeqType = SeqExpression | SeqBlock | SeqFunctionCall

record InstrProvider =
  Iters :: "(SeqType \<times> Instr list) list"

definition newInstrProvider :: InstrProvider where
  "newInstrProvider = \<lparr>Iters = []\<rparr>"

definition getNextInstr :: "InstrProvider \<Rightarrow> Instr option \<times> InstrProvider" where
  "getNextInstr p =
     (if Iters p = [] then (None, p)
      else case last (Iters p) of
          (_, []) \<Rightarrow> (None, p)
        | (t, i # is) \<Rightarrow> (Some i, p\<lparr>Iters := butlast (Iters p) @ [(t, is)]\<rparr>))"

definition getTopScopeType :: "InstrProvider \<Rightarrow> SeqType" where
  "getTopScopeType p = (if 0 < length (Iters p) then fst (last (Iters p)) else SeqExpression)"

definition getScopeSize :: "InstrProvider \<Rightarrow> u32" where
  "getScopeSize p = of_nat (length (Iters p))"

definition pushInstrs :: "SeqType \<Rightarrow> Instr list \<Rightarrow> InstrProvider \<Rightarrow> InstrProvider" where
  "pushInstrs t is p = p\<lparr>Iters := Iters p @ [(t, is)]\<rparr>"

definition popInstrs :: "(InstrProvider, unit) exec" where
  "popInstrs p = (if Iters p = [] then (Err WrongInstructionCounter, p)
     else (Ok (), p\<lparr>Iters := butlast (Iters p)\<rparr>))"

definition resetInstrs :: "InstrProvider \<Rightarrow> InstrProvider" where
  "resetInstrs p = p\<lparr>Iters := []\<rparr>"

section \<open>The contract of an operand stack\<close>

text \<open>
  What the interpreter relies on: the stack is last in, first out, a pop of an empty stack is never
  executed by a correct program, and the other stacks of the manager are not touched.
\<close>

locale lifo =
  fixes vals :: "'s \<Rightarrow> 'v list"
    and rest :: "'s \<Rightarrow> 'r"
    and pu :: "'v \<Rightarrow> ('s, unit) exec"
    and po :: "('s, 'v) exec"
  assumes push_ok: "\<exists>t. pu v s = (Ok (), t) \<and> vals t = vals s @ [v] \<and> rest t = rest s"
    and pop_ok: "vals s = vs @ [v] \<Longrightarrow> \<exists>t. po s = (Ok v, t) \<and> vals t = vs \<and> rest t = rest s"
begin

lemma pushes_ok:
  "\<exists>t. forM pu vs s = (Ok (), t) \<and> vals t = vals s @ vs \<and> rest t = rest s"
proof (induction vs arbitrary: s)
  case Nil
  then show ?case by (simp add: retM_def)
next
  case (Cons v vs)
  obtain s1 where s1: "pu v s = (Ok (), s1)" "vals s1 = vals s @ [v]" "rest s1 = rest s"
    using push_ok by blast
  obtain t where "forM pu vs s1 = (Ok (), t)" "vals t = vals s1 @ vs" "rest t = rest s1"
    using Cons.IH by blast
  with s1 show ?case by (simp add: seqM_simps)
qed

text \<open>Popping \<open>n\<close> values yields the topmost \<open>n\<close>, last first.\<close>

lemma pops_ok:
  "vals s = us @ vs \<Longrightarrow>
   \<exists>t. repeatM (length vs) po s = (Ok (rev vs), t) \<and> vals t = us \<and> rest t = rest s"
proof (induction "length vs" arbitrary: vs s)
  case 0
  then show ?case by (simp add: retM_def)
next
  case (Suc n)
  then obtain ws v where vs: "vs = ws @ [v]" by (metis length_Suc_conv_rev)
  then have n: "length ws = n" using Suc.hyps by simp
  obtain s1 where s1: "po s = (Ok v, s1)" "vals s1 = us @ ws" "rest s1 = rest s"
    using pop_ok [of s "us @ ws" v] Suc.prems vs by auto
  obtain t where "repeatM (length ws) po s1 = (Ok (rev ws), t)" "vals t = us" "rest t = rest s1"
    using Suc.hyps(1) [of ws s1] n s1 by blast
  with s1 vs n show ?case by (simp add: bindM_simps retM_def)
qed

end

interpretation value_stack: lifo ValueStack "\<lambda>s. (LabelStack s, FrameStack s)" push pop
  by unfold_locales (auto simp: push_def pop_def)

lemmas stack_defs = getTop_def setTop_def getBottomN_def setBottomN_def push_def pop_def
  pushFrame_def popFrame_def pushLabel_def popLabel_def getLabelWithCount_def getModuleAddr_def
  getOffset_def eraseValues_def

section \<open>Lemmas\<close>

lemma eraseValues_ok:
  assumes "ValueStack s = base @ mid @ res" and "unat a = length base" and "unat c = length res"
  shows "eraseValues a c s = (Ok (), s\<lparr>ValueStack := base @ res\<rparr>)"
  using assms by (simp add: eraseValues_def erase_range_def)

text \<open>The result of a block: whatever was pushed above the label, leaving the label restores the
  operands below it and keeps on top of them the topmost values, as many as the label has results.\<close>

lemma pushLabel_popLabel:
  assumes "pushLabel ar tgt s = (Ok (), s1)"
    and "ValueStack s2 = ValueStack s @ mid @ res" and "LabelStack s2 = LabelStack s1"
    and "unat ar = length res" and "length (ValueStack s) < 2 ^ 32" and "length (LabelStack s) < 2 ^ 32"
  shows "popLabel 1 s2 = (Ok (), s2\<lparr>ValueStack := ValueStack s @ res, LabelStack := LabelStack s\<rparr>)"
  using assms eraseValues_ok [of s2 "ValueStack s" mid res "of_nat (length (ValueStack s))" ar]
  by (auto simp: pushLabel_def popLabel_def getLabelWithCount_def bindM_simps unat_of_nat_less)

text \<open>C26. The result of a call: a frame pushed over the arguments and popped after the body removes
  the arguments, the locals, whatever the body left and every label opened since, and keeps exactly
  the results; it reports the number of labels it removed.\<close>

theorem pushFrame_popFrame:
  assumes "pushFrame addr ar co s = (Ok (), s1)"
    and "ValueStack s = base @ args" and "unat ar = length args" and "unat co = length res"
    and "ValueStack s2 = base @ mid @ res" and "LabelStack s2 = LabelStack s @ ls"
    and "FrameStack s2 = FrameStack s1"
    and "length (ValueStack s) < 2 ^ 32" and "length (LabelStack s2) < 2 ^ 32"
  shows "popFrame s2 = (Ok (of_nat (length ls)),
    s2\<lparr>ValueStack := base @ res, LabelStack := LabelStack s, FrameStack := FrameStack s\<rparr>)"
proof -
  have "ar = of_nat (length args)" by (simp flip: assms(3))
  then have "of_nat (length (ValueStack s)) - ar = (of_nat (length base) :: u32)"
    using assms(2) by simp
  moreover have "length base < 2 ^ 32" using assms(2,8) by simp
  ultimately show ?thesis
    using assms eraseValues_ok [of s2 base mid res "of_nat (length base)" co]
    by (auto simp: pushFrame_def popFrame_def bindM_simps unat_of_nat_less Let_def)
qed

theorem pushFrame_popFrame_witness:
  "fst (popFrame \<lparr>ValueStack = [V32 1, V32 2, V32 3],
      LabelStack = [\<lparr>LStack = 1, LCoarity = 1, Target = None\<rparr>],
      FrameStack = [\<lparr>ModAddr = 0, VStackSize = 0, LStackSize = 0, FCoarity = 1\<rparr>]\<rparr>) = Ok 1"
  using pushFrame_popFrame [of 0 1 1 "\<lparr>ValueStack = [V32 1], LabelStack = [], FrameStack = []\<rparr>"
      "\<lparr>ValueStack = [V32 1], LabelStack = [],
        FrameStack = [\<lparr>ModAddr = 0, VStackSize = 0, LStackSize = 0, FCoarity = 1\<rparr>]\<rparr>"
      "[]" "[V32 1]" "[V32 3]"
      "\<lparr>ValueStack = [V32 1, V32 2, V32 3],
        LabelStack = [\<lparr>LStack = 1, LCoarity = 1, Target = None\<rparr>],
        FrameStack = [\<lparr>ModAddr = 0, VStackSize = 0, LStackSize = 0, FCoarity = 1\<rparr>]\<rparr>"
      "[V32 1, V32 2]" "[\<lparr>LStack = 1, LCoarity = 1, Target = None\<rparr>]"]
  by (simp add: pushFrame_def)

end
