(* ===== verification/StoreMgr.thy ===== *)
theory StoreMgr
  imports StackMgr
begin

text \<open>
  \<open>include/runtime/storemgr.h\<close>, the store manager. For each kind of instance the code keeps a vector
  of pointers to all instances (the address of an instance is its index there), a vector of the
  instances it owns, and the number of instances that belong to the module instantiated last. The
  three are one record here, with an owned instance as the address it was stored under; the helpers
  that the code writes as templates are polymorphic definitions.
\<close>

section \<open>Vectors of instances\<close>

record 'a InstVec =
  Insts :: "'a list"
  ImpInsts :: "nat list"
  Num :: u32

definition emptyVec :: "'a InstVec" where
  "emptyVec = \<lparr>Insts = [], ImpInsts = [], Num = 0\<rparr>"

definition importInstance :: "'a \<Rightarrow> 'a InstVec \<Rightarrow> u32 \<times> 'a InstVec" where
  "importInstance x v = (of_nat (length (Insts v)),
     v\<lparr>Insts := Insts v @ [x], ImpInsts := ImpInsts v @ [length (Insts v)]\<rparr>)"

definition importHostInstance :: "'a \<Rightarrow> 'a InstVec \<Rightarrow> u32 \<times> 'a InstVec" where
  "importHostInstance x v = (of_nat (length (Insts v)), v\<lparr>Insts := Insts v @ [x]\<rparr>)"

definition pushInstance :: "'a \<Rightarrow> 'a InstVec \<Rightarrow> u32 \<times> 'a InstVec" where
  "pushInstance x v = importInstance x (v\<lparr>Num := Num v + 1\<rparr>)"

text \<open>One round of the loops of \<open>reset\<close>: \<open>pop_back\<close> of an empty vector is undefined.\<close>

definition popInstance :: "('a InstVec, unit) exec" where
  "popInstance v = (if ImpInsts v = [] \<or> Insts v = [] then (Undef, v\<lparr>Num := Num v - 1\<rparr>)
     else (Ok (), v\<lparr>Insts := butlast (Insts v), ImpInsts := butlast (ImpInsts v), Num := Num v - 1\<rparr>))"

definition clearInstances :: "'a InstVec \<Rightarrow> 'a InstVec" where
  "clearInstances v = v\<lparr>Insts := [], ImpInsts := [], Num := 0\<rparr>"

text \<open>\<open>while (Num > 0)\<close>: every round decreases \<open>Num\<close>.\<close>

function popInstances :: "('a InstVec, unit) exec" where
  "popInstances v = (if 0 < Num v
     then case popInstance v of (Ok _, w) \<Rightarrow> popInstances w | (r, w) \<Rightarrow> (r, w) else (Ok (), v))"
  by pat_completeness auto

termination
  by (relation "measure (\<lambda>v. unat (Num v))")
    (auto simp: popInstance_def word_gt_0 unat_minus_one unat_gt_0 split: if_splits)

section \<open>The store manager\<close>

record 'h StoreManager =
  Mods :: "ModuleInstance InstVec"
  Funcs :: "'h FunctionInstance InstVec"
  Tabs :: "TableInstance InstVec"
  Mems :: "MemoryInstance InstVec"
  Globs :: "GlobalInstance InstVec"

definition newStoreManager :: "'h StoreManager" where
  "newStoreManager = \<lparr>Mods = emptyVec, Funcs = emptyVec, Tabs = emptyVec, Mems = emptyVec, Globs = emptyVec\<rparr>"

definition importModule :: "ModuleInstance \<Rightarrow> 'h StoreManager \<Rightarrow> u32 \<times> 'h StoreManager" where
  "importModule x s = (let (a, v) = importInstance (x\<lparr>Addr := of_nat (length (Insts (Mods s)))\<rparr>) (Mods s) in (a, s\<lparr>Mods := v\<rparr>))"

definition importFunction :: "'h FunctionInstance \<Rightarrow> 'h StoreManager \<Rightarrow> u32 \<times> 'h StoreManager" where
  "importFunction x s = (let (a, v) = importInstance x (Funcs s) in (a, s\<lparr>Funcs := v\<rparr>))"

definition importTable :: "TableInstance \<Rightarrow> 'h StoreManager \<Rightarrow> u32 \<times> 'h StoreManager" where
  "importTable x s = (let (a, v) = importInstance x (Tabs s) in (a, s\<lparr>Tabs := v\<rparr>))"

definition importMemory :: "MemoryInstance \<Rightarrow> 'h StoreManager \<Rightarrow> u32 \<times> 'h StoreManager" where
  "importMemory x s = (let (a, v) = importInstance x (Mems s) in (a, s\<lparr>Mems := v\<rparr>))"

definition importGlobal :: "GlobalInstance \<Rightarrow> 'h StoreManager \<Rightarrow> u32 \<times> 'h StoreManager" where
  "importGlobal x s = (let (a, v) = importInstance x (Globs s) in (a, s\<lparr>Globs := v\<rparr>))"

definition importHostFunction :: "'h FunctionInstance \<Rightarrow> 'h StoreManager \<Rightarrow> u32 \<times> 'h StoreManager" where
  "importHostFunction x s = (let (a, v) = importHostInstance x (Funcs s) in (a, s\<lparr>Funcs := v\<rparr>))"

definition importHostTable :: "TableInstance \<Rightarrow> 'h StoreManager \<Rightarrow> u32 \<times> 'h StoreManager" where
  "importHostTable x s = (let (a, v) = importHostInstance x (Tabs s) in (a, s\<lparr>Tabs := v\<rparr>))"

definition importHostMemory :: "MemoryInstance \<Rightarrow> 'h StoreManager \<Rightarrow> u32 \<times> 'h StoreManager" where
  "importHostMemory x s = (let (a, v) = importHostInstance x (Mems s) in (a, s\<lparr>Mems := v\<rparr>))"

definition importHostGlobal :: "GlobalInstance \<Rightarrow> 'h StoreManager \<Rightarrow> u32 \<times> 'h StoreManager" where
  "importHostGlobal x s = (let (a, v) = importHostInstance x (Globs s) in (a, s\<lparr>Globs := v\<rparr>))"

definition pushModule :: "ModuleInstance \<Rightarrow> 'h StoreManager \<Rightarrow> u32 \<times> 'h StoreManager" where
  "pushModule x s = (let (a, v) = pushInstance (x\<lparr>Addr := of_nat (length (Insts (Mods s)))\<rparr>) (Mods s) in (a, s\<lparr>Mods := v\<rparr>))"

definition pushFunction :: "'h FunctionInstance \<Rightarrow> 'h StoreManager \<Rightarrow> u32 \<times> 'h StoreManager" where
  "pushFunction x s = (let (a, v) = pushInstance x (Funcs s) in (a, s\<lparr>Funcs := v\<rparr>))"

definition pushTable :: "TableInstance \<Rightarrow> 'h StoreManager \<Rightarrow> u32 \<times> 'h StoreManager" where
  "pushTable x s = (let (a, v) = pushInstance x (Tabs s) in (a, s\<lparr>Tabs := v\<rparr>))"

definition pushMemory :: "MemoryInstance \<Rightarrow> 'h StoreManager \<Rightarrow> u32 \<times> 'h StoreManager" where
  "pushMemory x s = (let (a, v) = pushInstance x (Mems s) in (a, s\<lparr>Mems := v\<rparr>))"

definition pushGlobal :: "GlobalInstance \<Rightarrow> 'h StoreManager \<Rightarrow> u32 \<times> 'h StoreManager" where
  "pushGlobal x s = (let (a, v) = pushInstance x (Globs s) in (a, s\<lparr>Globs := v\<rparr>))"

definition popModule :: "('h StoreManager, unit) exec" where
  "popModule s = (if 0 < Num (Mods s)
     then let (r, v) = popInstance (Mods s) in (r, s\<lparr>Mods := v\<rparr>) else (Ok (), s))"

definition getModule :: "'h StoreManager \<Rightarrow> u32 \<Rightarrow> ModuleInstance Expect" where
  "getModule s a = lookup (Insts (Mods s)) a"

definition getFunction :: "'h StoreManager \<Rightarrow> u32 \<Rightarrow> 'h FunctionInstance Expect" where
  "getFunction s a = lookup (Insts (Funcs s)) a"

definition getTable :: "'h StoreManager \<Rightarrow> u32 \<Rightarrow> TableInstance Expect" where
  "getTable s a = lookup (Insts (Tabs s)) a"

definition getMemory :: "'h StoreManager \<Rightarrow> u32 \<Rightarrow> MemoryInstance Expect" where
  "getMemory s a = lookup (Insts (Mems s)) a"

definition getGlobal :: "'h StoreManager \<Rightarrow> u32 \<Rightarrow> GlobalInstance Expect" where
  "getGlobal s a = lookup (Insts (Globs s)) a"

definition getFuncExports :: "'h StoreManager \<Rightarrow> Bytes \<rightharpoonup> u32" where
  "getFuncExports s = (if 0 < Num (Mods s) then ExpFuncs (last (Insts (Mods s))) else Map.empty)"

definition getTableExports :: "'h StoreManager \<Rightarrow> Bytes \<rightharpoonup> u32" where
  "getTableExports s = (if 0 < Num (Mods s) then ExpTables (last (Insts (Mods s))) else Map.empty)"

definition getMemExports :: "'h StoreManager \<Rightarrow> Bytes \<rightharpoonup> u32" where
  "getMemExports s = (if 0 < Num (Mods s) then ExpMems (last (Insts (Mods s))) else Map.empty)"

definition getGlobalExports :: "'h StoreManager \<Rightarrow> Bytes \<rightharpoonup> u32" where
  "getGlobalExports s = (if 0 < Num (Mods s) then ExpGlobals (last (Insts (Mods s))) else Map.empty)"

definition getActiveModule :: "'h StoreManager \<Rightarrow> ModuleInstance Expect" where
  "getActiveModule s = (if 0 < Num (Mods s) then Ok (last (Insts (Mods s))) else Err WrongInstanceAddress)"

text \<open>\<open>findModule\<close> returns the first module of that name; the address identifies it.\<close>

fun findIn :: "Bytes \<Rightarrow> ModuleInstance list \<Rightarrow> ModuleInstance Expect" where
  "findIn name [] = Err WrongInstanceAddress"
| "findIn name (m # ms) = (if ModName m = name then Ok m else findIn name ms)"

definition findModule :: "'h StoreManager \<Rightarrow> Bytes \<Rightarrow> ModuleInstance Expect" where
  "findModule s name = findIn name (Insts (Mods s))"

text \<open>A loop of \<open>reset\<close> on one of the vectors of the store.\<close>

definition resetVec :: "('s \<Rightarrow> 'a InstVec) \<Rightarrow> (('a InstVec \<Rightarrow> 'a InstVec) \<Rightarrow> 's \<Rightarrow> 's) \<Rightarrow> ('s, unit) exec" where
  "resetVec get upd s = (let (r, v) = popInstances (get s) in (r, upd (\<lambda>_. v) s))"

definition resetStore :: "bool \<Rightarrow> ('h StoreManager, unit) exec" where
  "resetStore isResetRegistered =
     (if isResetRegistered then
        modifyM (\<lambda>s. s\<lparr>Mods := clearInstances (Mods s), Funcs := clearInstances (Funcs s),
          Tabs := clearInstances (Tabs s), Mems := clearInstances (Mems s), Globs := clearInstances (Globs s)\<rparr>)
      else
        seqM (resetVec Mods Mods_update)
       (seqM (resetVec Funcs Funcs_update)
       (seqM (resetVec Tabs Tabs_update)
       (seqM (resetVec Mems Mems_update)
             (resetVec Globs Globs_update)))))"

declare popInstances.simps [simp del]

section \<open>Well-formed vectors\<close>

text \<open>
  The instances of the current module are the last ones of the vector and the last ones that are
  owned. This is what makes \<open>reset\<close> remove exactly them.
\<close>

definition vec_ok :: "'a InstVec \<Rightarrow> bool" where
  "vec_ok v \<longleftrightarrow> (let n = unat (Num v); l = length (Insts v) in
     n \<le> l \<and> (\<exists>os. ImpInsts v = os @ [l - n..<l] \<and> (\<forall>i \<in> set os. i < l - n)))"

definition registered :: "'a InstVec \<Rightarrow> 'a InstVec" where
  "registered v = v\<lparr>Insts := take (length (Insts v) - unat (Num v)) (Insts v),
     ImpInsts := take (length (ImpInsts v) - unat (Num v)) (ImpInsts v), Num := 0\<rparr>"

lemma vec_ok_empty [simp]: "vec_ok emptyVec" "vec_ok (clearInstances v)"
  by (simp_all add: vec_ok_def emptyVec_def clearInstances_def)

lemma vec_ok_import:
  "vec_ok v \<Longrightarrow> Num v = 0 \<Longrightarrow> vec_ok (snd (importInstance x v))"
  "vec_ok v \<Longrightarrow> Num v = 0 \<Longrightarrow> vec_ok (snd (importHostInstance x v))"
  by (auto simp: vec_ok_def importInstance_def importHostInstance_def less_Suc_eq)

lemma vec_ok_push:
  assumes "vec_ok v" and "length (Insts v) < 2 ^ 32 - 1"
  shows "vec_ok (snd (pushInstance x v))"
proof -
  let ?n = "unat (Num v)" and ?l = "length (Insts v)"
  obtain os where os: "?n \<le> ?l" "ImpInsts v = os @ [?l - ?n..<?l]" "\<forall>i \<in> set os. i < ?l - ?n"
    using assms(1) by (auto simp: vec_ok_def Let_def)
  have n: "unat (Num v + 1) = Suc ?n" using os(1) assms(2) by (intro unat_Suc_no_wrap) simp
  have "[?l - ?n..<?l] @ [?l] = [Suc ?l - Suc ?n..<Suc ?l]" using os(1) by simp
  then show ?thesis using os n
    by (auto simp: vec_ok_def pushInstance_def importInstance_def Let_def)
qed

lemma registered_push:
  assumes "vec_ok v" and "length (Insts v) < 2 ^ 32 - 1"
  shows "registered (snd (pushInstance x v)) = registered v"
proof -
  have "unat (Num v) \<le> length (Insts v)" using assms(1) by (simp add: vec_ok_def Let_def)
  then have "unat (Num v + 1) = Suc (unat (Num v))"
    using assms(2) by (intro unat_Suc_no_wrap) simp
  moreover have "unat (Num v) \<le> length (ImpInsts v)"
    using assms(1) by (auto simp: vec_ok_def Let_def)
  ultimately show ?thesis
    using \<open>unat (Num v) \<le> length (Insts v)\<close>
    by (simp add: registered_def pushInstance_def importInstance_def Suc_diff_le)
qed

lemma popInstance_ok:
  assumes "vec_ok v" and "0 < Num v"
  shows "\<exists>w. popInstance v = (Ok (), w) \<and> vec_ok w \<and> registered w = registered v \<and> unat (Num w) < unat (Num v)"
proof -
  let ?n = "unat (Num v)" and ?l = "length (Insts v)"
  obtain os where os: "?n \<le> ?l" "ImpInsts v = os @ [?l - ?n..<?l]" "\<forall>i \<in> set os. i < ?l - ?n"
    using assms(1) by (auto simp: vec_ok_def Let_def)
  have n: "0 < ?n" "unat (Num v - 1) = ?n - 1"
    using assms(2) by (auto simp: word_gt_0 unat_minus_one unat_gt_0)
  have u: "[?l - ?n..<?l] = [?l - ?n..<?l - 1] @ [?l - 1]"
    using n os(1) by (cases ?l) auto
  have "ImpInsts v \<noteq> []" "Insts v \<noteq> []" using os n u by auto
  then show ?thesis using os n u
    by (auto simp: popInstance_def vec_ok_def registered_def Let_def butlast_append take_butlast
        intro!: exI [of _ os])
qed

lemma popInstances_ok:
  "vec_ok v \<Longrightarrow> popInstances v = (Ok (), registered v)"
proof (induction "unat (Num v)" arbitrary: v rule: less_induct)
  case less
  show ?case
  proof (cases "0 < Num v")
    case True
    with less.prems obtain w where "popInstance v = (Ok (), w)" "vec_ok w"
      "registered w = registered v" "unat (Num w) < unat (Num v)" using popInstance_ok by blast
    with True less.hyps show ?thesis by (simp add: popInstances.simps [of v])
  next
    case False
    then have "Num v = 0" by (simp add: word_gt_0)
    then show ?thesis by (simp add: popInstances.simps [of v] registered_def)
  qed
qed

lemma vec_ok_registered: "vec_ok v \<Longrightarrow> vec_ok (registered v)"
  by (auto simp: vec_ok_def registered_def Let_def)

lemma registered_clean: "Num v = 0 \<Longrightarrow> registered v = v"
  by (simp add: registered_def)

section \<open>The contract of an instance table\<close>

text \<open>
  What instantiation and execution rely on: a new instance is found under the address that storing it
  returned, and no address that was valid before changes its meaning.
\<close>

locale instance_table =
  fixes insts :: "'s \<Rightarrow> 'a list"
    and put :: "'a \<Rightarrow> 's \<Rightarrow> u32 \<times> 's"
    and fetch :: "'s \<Rightarrow> u32 \<Rightarrow> 'a Expect"
  assumes insts_put: "insts (snd (put x s)) = insts s @ [x]"
    and put_addr: "fst (put x s) = of_nat (length (insts s))"
    and fetch_eq: "fetch s a = lookup (insts s) a"
begin

lemma fetch_put: "length (insts s) < 2 ^ 32 \<Longrightarrow> fetch (snd (put x s)) (fst (put x s)) = Ok x"
  by (simp add: fetch_eq insts_put put_addr lookup_append)

lemma fetch_old: "fetch s a = Ok y \<Longrightarrow> fetch (snd (put x s)) a = Ok y"
  by (simp add: fetch_eq insts_put lookup_append lookup_Ok_iff)

text \<open>Storing a sequence, as the section loops do.\<close>

fun puts :: "'a list \<Rightarrow> 's \<Rightarrow> u32 list \<times> 's" where
  "puts [] s = ([], s)"
| "puts (x # xs) s = (let (a, s1) = put x s; (as, s2) = puts xs s1 in (a # as, s2))"

lemma puts_insts: "insts (snd (puts xs s)) = insts s @ xs"
  by (induction xs arbitrary: s) (simp_all add: insts_put split_beta)

lemma puts_old: "fetch s a = Ok y \<Longrightarrow> fetch (snd (puts xs s)) a = Ok y"
  by (simp add: fetch_eq puts_insts lookup_append lookup_Ok_iff)

lemma puts_fetch:
  assumes "length (insts s) + length xs < 2 ^ 32" and "i < length xs"
  shows "fetch (snd (puts xs s)) (fst (puts xs s) ! i) = Ok (xs ! i)"
  using assms
proof (induction xs arbitrary: s i)
  case (Cons x xs)
  let ?t = "snd (put x s)"
  show ?case
  proof (cases i)
    case 0
    have "fetch ?t (fst (put x s)) = Ok x" using Cons.prems by (intro fetch_put) simp
    then show ?thesis using 0 puts_old by (simp add: split_beta)
  next
    case (Suc j)
    then show ?thesis using Cons.IH [of ?t j] Cons.prems by (simp add: split_beta insts_put)
  qed
qed simp

end

interpretation push_function: instance_table "\<lambda>s. Insts (Funcs s)" pushFunction getFunction
  by unfold_locales (simp_all add: pushFunction_def getFunction_def pushInstance_def importInstance_def)

interpretation import_function: instance_table "\<lambda>s. Insts (Funcs s)" importFunction getFunction
  by unfold_locales (simp_all add: importFunction_def getFunction_def importInstance_def)

interpretation importHost_function: instance_table "\<lambda>s. Insts (Funcs s)" importHostFunction getFunction
  by unfold_locales (simp_all add: importHostFunction_def getFunction_def importHostInstance_def)

interpretation push_table: instance_table "\<lambda>s. Insts (Tabs s)" pushTable getTable
  by unfold_locales (simp_all add: pushTable_def getTable_def pushInstance_def importInstance_def)

interpretation import_table: instance_table "\<lambda>s. Insts (Tabs s)" importTable getTable
  by unfold_locales (simp_all add: importTable_def getTable_def importInstance_def)

interpretation importHost_table: instance_table "\<lambda>s. Insts (Tabs s)" importHostTable getTable
  by unfold_locales (simp_all add: importHostTable_def getTable_def importHostInstance_def)

interpretation push_memory: instance_table "\<lambda>s. Insts (Mems s)" pushMemory getMemory
  by unfold_locales (simp_all add: pushMemory_def getMemory_def pushInstance_def importInstance_def)

interpretation import_memory: instance_table "\<lambda>s. Insts (Mems s)" importMemory getMemory
  by unfold_locales (simp_all add: importMemory_def getMemory_def importInstance_def)

interpretation importHost_memory: instance_table "\<lambda>s. Insts (Mems s)" importHostMemory getMemory
  by unfold_locales (simp_all add: importHostMemory_def getMemory_def importHostInstance_def)

interpretation push_global: instance_table "\<lambda>s. Insts (Globs s)" pushGlobal getGlobal
  by unfold_locales (simp_all add: pushGlobal_def getGlobal_def pushInstance_def importInstance_def)

interpretation import_global: instance_table "\<lambda>s. Insts (Globs s)" importGlobal getGlobal
  by unfold_locales (simp_all add: importGlobal_def getGlobal_def importInstance_def)

interpretation importHost_global: instance_table "\<lambda>s. Insts (Globs s)" importHostGlobal getGlobal
  by unfold_locales (simp_all add: importHostGlobal_def getGlobal_def importHostInstance_def)

section \<open>The store invariant\<close>

definition store_ok :: "'h StoreManager \<Rightarrow> bool" where
  "store_ok s \<longleftrightarrow> vec_ok (Mods s) \<and> vec_ok (Funcs s) \<and> vec_ok (Tabs s) \<and> vec_ok (Mems s) \<and> vec_ok (Globs s)"

text \<open>No module is instantiated: every instance belongs to a registered module.\<close>

definition clean :: "'h StoreManager \<Rightarrow> bool" where
  "clean s \<longleftrightarrow> Num (Mods s) = 0 \<and> Num (Funcs s) = 0 \<and> Num (Tabs s) = 0 \<and> Num (Mems s) = 0 \<and> Num (Globs s) = 0"

definition registeredStore :: "'h StoreManager \<Rightarrow> 'h StoreManager" where
  "registeredStore s = s\<lparr>Mods := registered (Mods s), Funcs := registered (Funcs s),
     Tabs := registered (Tabs s), Mems := registered (Mems s), Globs := registered (Globs s)\<rparr>"

lemma store_ok_new: "store_ok newStoreManager" "clean newStoreManager"
proof -
  show "store_ok newStoreManager" by (simp add: store_ok_def newStoreManager_def)
  show "clean newStoreManager" by (simp add: clean_def newStoreManager_def emptyVec_def)
qed

text \<open>The steps of an instantiation: a new instance of any kind, and the temporary module.\<close>

inductive pushStep :: "'h StoreManager \<Rightarrow> 'h StoreManager \<Rightarrow> bool" where
  "length (Insts (Mods s)) < 2 ^ 32 - 1 \<Longrightarrow> pushStep s (snd (pushModule m s))"
| "length (Insts (Funcs s)) < 2 ^ 32 - 1 \<Longrightarrow> pushStep s (snd (pushFunction f s))"
| "length (Insts (Tabs s)) < 2 ^ 32 - 1 \<Longrightarrow> pushStep s (snd (pushTable t s))"
| "length (Insts (Mems s)) < 2 ^ 32 - 1 \<Longrightarrow> pushStep s (snd (pushMemory me s))"
| "length (Insts (Globs s)) < 2 ^ 32 - 1 \<Longrightarrow> pushStep s (snd (pushGlobal g s))"
| "0 < Num (Mods s) \<Longrightarrow> pushStep s (snd (popModule s))"

lemmas push_defs = pushModule_def pushFunction_def pushTable_def pushMemory_def pushGlobal_def

lemma pushStep_ok:
  assumes "pushStep s t" and "store_ok s"
  shows "store_ok t \<and> registeredStore t = registeredStore s"
  using assms
proof (induction rule: pushStep.induct)
  case (6 s)
  then obtain w where "popInstance (Mods s) = (Ok (), w)" "vec_ok w" "registered w = registered (Mods s)"
    using popInstance_ok by (auto simp: store_ok_def)
  with 6 show ?case by (simp add: popModule_def store_ok_def registeredStore_def)
qed (simp_all add: push_defs store_ok_def registeredStore_def split_beta vec_ok_push registered_push)

lemma pushSteps_ok:
  "pushStep\<^sup>*\<^sup>* s t \<Longrightarrow> store_ok s \<Longrightarrow> store_ok t \<and> registeredStore t = registeredStore s"
  by (induction rule: rtranclp_induct) (auto dest: pushStep_ok)

lemma resetStore_ok:
  assumes "store_ok s"
  shows "resetStore False s = (Ok (), registeredStore s)"
  using assms
  by (simp add: resetStore_def resetVec_def store_ok_def seqM_def bindM_def popInstances_ok registeredStore_def)

lemma registeredStore_clean: "clean s \<Longrightarrow> registeredStore s = s"
  by (simp add: registeredStore_def clean_def registered_clean)

lemma clean_registeredStore: "clean (registeredStore s)"
  by (simp add: clean_def registeredStore_def registered_def)

section \<open>Properties\<close>



end
