(* ===== verification/Interp.thy ===== *)
theory Interp
  imports StoreMgr Numeric
begin

text \<open>
  The interpreter engine: \<open>lib/interpreter/engine/engine.cpp\<close>, \<open>control.cpp\<close>, \<open>variable.cpp\<close>,
  \<open>memory.cpp\<close>, \<open>include/interpreter/engine/memory.ipp\<close>, the call of a host function from
  \<open>include/runtime/hostfunc.h\<close>, and \<open>invoke\<close> and the registration of host modules from
  \<open>lib/interpreter/interpreter.cpp\<close>.

  The state is the members of \<open>Interpreter\<close>, the store that its methods take by reference and the
  state of the host functions. An instance that the code holds by pointer is its address in the
  store. The run loop takes fuel, one unit for each round; \<open>metered_execute_ends\<close> gives an amount
  that is enough when the gas meter charges for every instruction.

  Dereferencing an \<open>Expect\<close> that holds an error (\<open>*StoreMgr.getModule(...)\<close>) is undefined.
\<close>

section \<open>State\<close>

datatype InstantiateMode = ModeInstantiate | ModeImportWasm

record 'h Interp =
  Stack :: StackManager
  InstrPdr :: InstrProvider
  Meter :: "Measurement option"
  Store :: "'h StoreManager"
  Host :: 'h
  InsMode :: InstantiateMode

type_synonym ('h, 'a) interp = "('h Interp, 'a) exec"

definition onStack :: "'a stackop \<Rightarrow> ('h, 'a) interp" where
  "onStack m st = (let (r, s) = m (Stack st) in (r, st\<lparr>Stack := s\<rparr>))"

definition onPdr :: "(InstrProvider, 'a) exec \<Rightarrow> ('h, 'a) interp" where
  "onPdr m st = (let (r, p) = m (InstrPdr st) in (r, st\<lparr>InstrPdr := p\<rparr>))"

definition deref :: "'a Expect \<Rightarrow> 'a Expect" where
  "deref r = (case r of Err _ \<Rightarrow> Undef | _ \<Rightarrow> r)"

definition getsM :: "('s \<Rightarrow> 'a Expect) \<Rightarrow> ('s, 'a) exec" where
  "getsM f s = (f s, s)"

section \<open>Instances of the current module\<close>

definition currentModule :: "('h, ModuleInstance) interp" where
  "currentModule = bindM (onStack getModuleAddr) (\<lambda>a. getsM (\<lambda>st. deref (getModule (Store st) a)))"

definition getTabInstByIdx :: "u32 \<Rightarrow> ('h, TableInstance) interp" where
  "getTabInstByIdx idx = bindM currentModule (\<lambda>m.
     getsM (\<lambda>st. obind (deref (getTableAddr m idx)) (\<lambda>a. deref (getTable (Store st) a))))"

text \<open>The pointer to a memory or a global, which the caller writes through, is its valid address.\<close>

definition getMemInstByIdx :: "u32 \<Rightarrow> ('h, u32) interp" where
  "getMemInstByIdx idx = bindM currentModule (\<lambda>m.
     getsM (\<lambda>st. obind (deref (getMemAddr m idx)) (\<lambda>a. obind (deref (getMemory (Store st) a)) (\<lambda>_. Ok a))))"

definition getGlobInstByIdx :: "u32 \<Rightarrow> ('h, u32) interp" where
  "getGlobInstByIdx idx = bindM currentModule (\<lambda>m.
     getsM (\<lambda>st. obind (deref (getGlobalAddr m idx)) (\<lambda>a. obind (deref (getGlobal (Store st) a)) (\<lambda>_. Ok a))))"

text \<open>Reading and writing through such a pointer.\<close>

definition memAt :: "'h StoreManager \<Rightarrow> u32 \<Rightarrow> MemoryInstance" where
  "memAt s a = Insts (Mems s) ! unat a"

definition setMem :: "u32 \<Rightarrow> MemoryInstance \<Rightarrow> 'h StoreManager \<Rightarrow> 'h StoreManager" where
  "setMem a m s = s\<lparr>Mems := (Mems s)\<lparr>Insts := (Insts (Mems s))[unat a := m]\<rparr>\<rparr>"

definition globAt :: "'h StoreManager \<Rightarrow> u32 \<Rightarrow> GlobalInstance" where
  "globAt s a = Insts (Globs s) ! unat a"

definition setGlob :: "u32 \<Rightarrow> GlobalInstance \<Rightarrow> 'h StoreManager \<Rightarrow> 'h StoreManager" where
  "setGlob a g s = s\<lparr>Globs := (Globs s)\<lparr>Insts := (Insts (Globs s))[unat a := g]\<rparr>\<rparr>"

definition onMem :: "u32 \<Rightarrow> 'a memop \<Rightarrow> ('h, 'a) interp" where
  "onMem a m st = (let (r, mi) = m (memAt (Store st) a) in (r, st\<lparr>Store := setMem a mi (Store st)\<rparr>))"

section \<open>Gas\<close>

text \<open>\<open>if (Measure) { ... if (!Measure->addX(...)) return Unexpect(CostLimitExceeded); }\<close>\<close>

definition charge :: "(Measurement \<Rightarrow> bool \<times> Measurement) \<Rightarrow> ('h, unit) interp" where
  "charge f st = (case Meter st of
       None \<Rightarrow> (Ok (), st)
     | Some m \<Rightarrow> let (ok, m') = f m in
         (if ok then Ok () else Err CostLimitExceeded, st\<lparr>Meter := Some m'\<rparr>))"

text \<open>The same without the test of the pointer.\<close>

definition chargeUnchecked :: "(Measurement \<Rightarrow> bool \<times> Measurement) \<Rightarrow> ('h, unit) interp" where
  "chargeUnchecked f st = (if Meter st = None then (Undef, st) else charge f st)"

section \<open>Blocks and functions\<close>

definition enterBlock :: "u32 \<Rightarrow> Instr option \<Rightarrow> Instr list \<Rightarrow> ('h, unit) interp" where
  "enterBlock arity instr body =
     seqM (onStack (pushLabel arity instr)) (onPdr (modifyM (pushInstrs SeqBlock body)))"

definition leaveBlock :: "('h, unit) interp" where
  "leaveBlock = seqM (onStack (popLabel 1)) (onPdr popInstrs)"

text \<open>\<open>HostFunction::invoke\<close>: the arguments are read at the types of the parameters and popped.\<close>

fun readable :: "ValVariant \<Rightarrow> ValType \<Rightarrow> bool" where
  "readable (V32 _) t = (t \<notin> {I64, F64})"
| "readable (V64 _) t = True"

definition invokeHost :: "'h HostFunction \<Rightarrow> u32 \<Rightarrow> ('h, ErrCode) interp" where
  "invokeHost h mem st =
     (let vs = ValueStack (Stack st); k = length (Params (HostType h)); n = length vs - k in
      if length vs < k then (Ok CallFunctionError, st)
      else if \<not> list_all2 readable (drop n vs) (Params (HostType h)) then (Undef, st)
      else let (r, w) = HostBody h (drop n vs)
                  \<lparr>HMem = memAt (Store st) mem, HMeasure = Meter st, HState = Host st\<rparr>;
               st' = st\<lparr>Stack := (Stack st)\<lparr>ValueStack := take n vs\<rparr>,
                        Meter := HMeasure w, Store := setMem mem (HMem w) (Store st), Host := HState w\<rparr>;
               finish = (\<lambda>e v. if Returns (HostType h) = [] then (Ok e, st')
                               else seqM (onStack (push v)) (retM e) st')
           in case r of Ok (e, v) \<Rightarrow> finish e v | Err e \<Rightarrow> finish e (V32 0)
                | Undef \<Rightarrow> (Undef, st') | Timeout \<Rightarrow> (Timeout, st'))"

definition enterFunction :: "'h FunctionInstance \<Rightarrow> ('h, unit) interp" where
  "enterFunction f = (case f of
       HostFunc h \<Rightarrow>
         bindM (getMemInstByIdx 0) (\<lambda>mem.
         seqM (charge (addCost (HostCost h)))
        (bindM (invokeHost h mem) (\<lambda>status.
         if status \<noteq> Success then errM status else retM ())))
     | Native ft ma locs body \<Rightarrow>
         seqM (onStack (pushFrame ma (of_nat (length (Params ft))) (of_nat (length (Returns ft)))))
        (seqM (onStack (forM push (concat (map (\<lambda>(n, t). replicate (unat n) (ValueFromType t)) locs))))
        (seqM (onPdr (modifyM (pushInstrs SeqFunctionCall [])))
              (enterBlock (of_nat (length (Returns ft))) None body))))"

text \<open>\<open>popInstrs\<close> repeated, its result discarded.\<close>

definition popScopes :: "u32 \<Rightarrow> InstrProvider \<Rightarrow> InstrProvider" where
  "popScopes n p = ((\<lambda>p. snd (popInstrs p)) ^^ unat n) p"

definition leaveFunction :: "('h, unit) interp" where
  "leaveFunction = bindM (onStack popFrame) (\<lambda>n.
     seqM (onPdr (modifyM (popScopes n))) (onPdr (modifyM (\<lambda>p. snd (popInstrs p)))))"

fun runLoopOp :: "Instr \<Rightarrow> ('h, unit) interp" where
  "runLoopOp (BlockInstr c t body) = enterBlock 0 (Some (BlockInstr c t body)) body"
| "runLoopOp _ = undefM"

definition branchToLabel :: "u32 \<Rightarrow> ('h, unit) interp" where
  "branchToLabel cnt =
     bindM (onStack (getLabelWithCount cnt)) (\<lambda>l.
     seqM (onStack (popLabel (cnt + 1)))
    (seqM (onPdr (modifyM (popScopes (cnt + 1))))
     (case Target l of None \<Rightarrow> retM () | Some i \<Rightarrow> runLoopOp i)))"

section \<open>Control instructions\<close>

definition blockArity :: "ValType \<Rightarrow> u32" where
  "blockArity t = (if t = VNone then 0 else 1)"

fun runBlockOp :: "Instr \<Rightarrow> ('h, unit) interp" where
  "runBlockOp (BlockInstr c t body) = enterBlock (blockArity t) None body"
| "runBlockOp _ = undefM"

definition runIfElseOp :: "ValType \<Rightarrow> Instr list \<Rightarrow> Instr list \<Rightarrow> ('h, unit) interp" where
  "runIfElseOp t ifs els =
     bindM (onStack pop) (\<lambda>cond.
       let body = (if get32 cond \<noteq> 0 then ifs else els) in
       if body \<noteq> [] then
         seqM (chargeUnchecked (addInstrCost OpElse)) (enterBlock (blockArity t) None body)
       else retM ())"

definition runBrOp :: "u32 \<Rightarrow> ('h, unit) interp" where
  "runBrOp l = branchToLabel l"

definition runBrIfOp :: "u32 \<Rightarrow> ('h, unit) interp" where
  "runBrIfOp l = bindM (onStack pop) (\<lambda>cond. if get32 cond \<noteq> 0 then runBrOp l else retM ())"

definition runBrTableOp :: "u32 list \<Rightarrow> u32 \<Rightarrow> ('h, unit) interp" where
  "runBrTableOp tab l = bindM (onStack pop) (\<lambda>v.
     if unat (get32 v) < length tab then branchToLabel (tab ! unat (get32 v)) else branchToLabel l)"

definition runReturnOp :: "('h, unit) interp" where
  "runReturnOp = leaveFunction"

definition runCallOp :: "u32 \<Rightarrow> ('h, unit) interp" where
  "runCallOp idx = bindM currentModule (\<lambda>m.
     bindM (getsM (\<lambda>st. obind (deref (getFuncAddr m idx)) (\<lambda>a. deref (getFunction (Store st) a))))
       enterFunction)"

definition runCallIndirectOp :: "u32 \<Rightarrow> ('h, unit) interp" where
  "runCallIndirectOp idx =
     bindM (getTabInstByIdx 0) (\<lambda>tab.
     bindM currentModule (\<lambda>m.
     bindM (liftM (deref (getFuncType m idx))) (\<lambda>target.
     bindM (onStack pop) (\<lambda>i.
     bindM (liftM (getElemAddr tab (get32 i))) (\<lambda>addr.
     bindM (getsM (\<lambda>st. deref (getFunction (Store st) addr))) (\<lambda>f.
       if Params target \<noteq> Params (getType f) \<or> Returns target \<noteq> Returns (getType f)
       then errM TypeNotMatch else enterFunction f))))))"

section \<open>Variable instructions\<close>

definition runLocalGetOp :: "u32 \<Rightarrow> ('h, unit) interp" where
  "runLocalGetOp idx = onStack (bindM (getOffset idx) (\<lambda>off. bindM (getBottomN off) push))"

text \<open>The right operand of the assignment, the \<open>pop\<close>, is evaluated first.\<close>

definition runLocalSetOp :: "u32 \<Rightarrow> ('h, unit) interp" where
  "runLocalSetOp idx = onStack (bindM (getOffset idx) (\<lambda>off. bindM pop (setBottomN off)))"

definition runLocalTeeOp :: "u32 \<Rightarrow> ('h, unit) interp" where
  "runLocalTeeOp idx = onStack (bindM getTop (\<lambda>v. bindM (getOffset idx) (\<lambda>off. setBottomN off v)))"

definition runGlobalGetOp :: "u32 \<Rightarrow> ('h, unit) interp" where
  "runGlobalGetOp idx = bindM (getGlobInstByIdx idx) (\<lambda>a st. onStack (push (GValue (globAt (Store st) a))) st)"

definition runGlobalSetOp :: "u32 \<Rightarrow> ('h, unit) interp" where
  "runGlobalSetOp idx = bindM (getGlobInstByIdx idx) (\<lambda>a. bindM (onStack pop) (\<lambda>v.
     modifyM (\<lambda>st. st\<lparr>Store := setGlob a ((globAt (Store st) a)\<lparr>GValue := v\<rparr>) (Store st)\<rparr>)))"

section \<open>Memory instructions\<close>

text \<open>The storage behind a reference of type \<open>T\<close>; bytes that were not initialised are zero here.\<close>

fun storage :: "ValVariant \<Rightarrow> u64" where
  "storage (V32 w) = ucast w"
| "storage (V64 w) = w"

definition runLoadOp :: "numT \<Rightarrow> u32 \<Rightarrow> u32 \<Rightarrow> u32 \<Rightarrow> ('h, unit) interp" where
  "runLoadOp t mem off bitwidth =
     bindM (onStack getTop) (\<lambda>v.
     bindM (onMem mem (loadValue t (storage v) (get32 v + off) (bitwidth div 8))) (\<lambda>w.
     onStack (setTop (setT t v w))))"

text \<open>
  \<open>storeValue\<close> copies the low \<open>BitWidth / 8\<close> bytes of the value. Copying bytes that were never
  initialised is undefined.
\<close>

definition runStoreOp :: "numT \<Rightarrow> u32 \<Rightarrow> u32 \<Rightarrow> u32 \<Rightarrow> ('h, unit) interp" where
  "runStoreOp t mem off bitwidth =
     bindM (onStack pop) (\<lambda>c.
     bindM (onStack pop) (\<lambda>i.
     bindM (onMem mem (storeValue t (storage c) (get32 i + off) (bitwidth div 8))) (\<lambda>_.
       if bitwidth = 64 \<and> \<not> readable c I64 then undefM else retM ())))"

definition runMemorySizeOp :: "u32 \<Rightarrow> ('h, unit) interp" where
  "runMemorySizeOp mem st = onStack (push (V32 (CurrPage (memAt (Store st) mem)))) st"

definition runMemoryGrowOp :: "u32 \<Rightarrow> ('h, unit) interp" where
  "runMemoryGrowOp mem =
     bindM (onStack getTop) (\<lambda>v st.
       let curr = CurrPage (memAt (Store st) mem);
           (r, st') = onMem mem (growPage (get32 v)) st
       in onStack (setTop (set32 v (if r = Ok () then curr else - 1))) st')"

fun memoryOp :: "MemoryOp \<Rightarrow> u32 \<Rightarrow> u32 \<Rightarrow> ('h, unit) interp" where
  "memoryOp I32__load mem off = runLoadOp TU32 mem off 32"
| "memoryOp I64__load mem off = runLoadOp TU64 mem off 64"
| "memoryOp F32__load mem off = runLoadOp TF32 mem off 32"
| "memoryOp F64__load mem off = runLoadOp TF64 mem off 64"
| "memoryOp I32__load8_s mem off = runLoadOp TS32 mem off 8"
| "memoryOp I32__load8_u mem off = runLoadOp TU32 mem off 8"
| "memoryOp I32__load16_s mem off = runLoadOp TS32 mem off 16"
| "memoryOp I32__load16_u mem off = runLoadOp TU32 mem off 16"
| "memoryOp I64__load8_s mem off = runLoadOp TS64 mem off 8"
| "memoryOp I64__load8_u mem off = runLoadOp TU64 mem off 8"
| "memoryOp I64__load16_s mem off = runLoadOp TS64 mem off 16"
| "memoryOp I64__load16_u mem off = runLoadOp TU64 mem off 16"
| "memoryOp I64__load32_s mem off = runLoadOp TS64 mem off 32"
| "memoryOp I64__load32_u mem off = runLoadOp TU64 mem off 32"
| "memoryOp I32__store mem off = runStoreOp TU32 mem off 32"
| "memoryOp I64__store mem off = runStoreOp TU64 mem off 64"
| "memoryOp F32__store mem off = runStoreOp TF32 mem off 32"
| "memoryOp F64__store mem off = runStoreOp TF64 mem off 64"
| "memoryOp I32__store8 mem off = runStoreOp TU32 mem off 8"
| "memoryOp I32__store16 mem off = runStoreOp TU32 mem off 16"
| "memoryOp I64__store8 mem off = runStoreOp TU64 mem off 8"
| "memoryOp I64__store16 mem off = runStoreOp TU64 mem off 16"
| "memoryOp I64__store32 mem off = runStoreOp TU64 mem off 32"
| "memoryOp Memory__grow mem off = runMemoryGrowOp mem"
| "memoryOp Memory__size mem off = runMemorySizeOp mem"

section \<open>Execution of one instruction\<close>

text \<open>One overload of \<open>execute\<close> for each class of nodes.\<close>

fun executeControl :: "ControlOp \<Rightarrow> ('h, unit) interp" where
  "executeControl ControlOp.Unreachable = errM ErrCode.Unreachable"
| "executeControl Nop = retM ()"
| "executeControl Return = runReturnOp"

fun executeBlock :: "BlockOp \<Rightarrow> ValType \<Rightarrow> Instr list \<Rightarrow> ('h, unit) interp" where
  "executeBlock Block t body = runBlockOp (BlockInstr Block t body)"
| "executeBlock Loop t body = runLoopOp (BlockInstr Loop t body)"

fun executeBr :: "BrOp \<Rightarrow> u32 \<Rightarrow> ('h, unit) interp" where
  "executeBr Br l = runBrOp l"
| "executeBr Br_if l = runBrIfOp l"

fun executeCall :: "CallOp \<Rightarrow> u32 \<Rightarrow> ('h, unit) interp" where
  "executeCall Call i = runCallOp i"
| "executeCall Call_indirect i = runCallIndirectOp i"

fun executeParametric :: "ParametricOp \<Rightarrow> ('h, unit) interp" where
  "executeParametric Drop = bindM (onStack pop) (\<lambda>_. retM ())"
| "executeParametric Select =
     bindM (onStack pop) (\<lambda>cond. bindM (onStack pop) (\<lambda>v2. bindM (onStack pop) (\<lambda>v1.
       onStack (push (if get32 cond = 0 then v2 else v1)))))"

fun executeVariable :: "VariableOp \<Rightarrow> u32 \<Rightarrow> ('h, unit) interp" where
  "executeVariable Local__get i = runLocalGetOp i"
| "executeVariable Local__set i = runLocalSetOp i"
| "executeVariable Local__tee i = runLocalTeeOp i"
| "executeVariable Global__get i = runGlobalGetOp i"
| "executeVariable Global__set i = runGlobalSetOp i"

definition executeMemory :: "MemoryOp \<Rightarrow> u32 \<Rightarrow> ('h, unit) interp" where
  "executeMemory c off = bindM (getMemInstByIdx 0) (\<lambda>mem. memoryOp c mem off)"

definition executeConst :: "ValVariant \<Rightarrow> ('h, unit) interp" where
  "executeConst v = onStack (push v)"

text \<open>The template argument of an operation at a width.\<close>

fun tU :: "width \<Rightarrow> numT" where "tU N32 = TU32" | "tU N64 = TU64"
fun tS :: "width \<Rightarrow> numT" where "tS N32 = TS32" | "tS N64 = TS64"
fun tF :: "width \<Rightarrow> numT" where "tF N32 = TF32" | "tF N64 = TF64"
fun tX :: "sx \<Rightarrow> width \<Rightarrow> numT" where "tX Sx w = tS w" | "tX Ux w = tU w"

text \<open>\<open>F32__trunc\<close> and \<open>F64__trunc\<close> are not cases of the switch.\<close>

fun unaryOp :: "fpu \<Rightarrow> UnaryOp \<Rightarrow> ValVariant \<Rightarrow> ValVariant Expect" where
  "unaryOp F (IEqz w) v = runEqzOp (tU w) v"
| "unaryOp F (IUn w iclz) v = runClzOp (tU w) v"
| "unaryOp F (IUn w ictz) v = runCtzOp (tU w) v"
| "unaryOp F (IUn w ipopcnt) v = runPopcntOp (tU w) v"
| "unaryOp F (FUn w fabs) v = runAbsOp (tF w) v"
| "unaryOp F (FUn w fneg) v = runNegOp (tF w) v"
| "unaryOp F (FUn w fceil) v = runCeilOp F (tF w) v"
| "unaryOp F (FUn w ffloor) v = runFloorOp F (tF w) v"
| "unaryOp F (FUn w ftrunc) v = Err ExecutionFailed"
| "unaryOp F (FUn w fnearest) v = runNearestOp F (tF w) v"
| "unaryOp F (FUn w fsqrt) v = runSqrtOp F (tF w) v"
| "unaryOp F IWrap v = runWrapOp TU64 TU32 v"
| "unaryOp F (ITrunc wo wi x) v = runTruncateOp (tF wi) (tX x wo) v"
| "unaryOp F (IExtend x) v = runExtendOp (tX x N32) TU64 v"
| "unaryOp F (FConvert wo wi x) v = runConvertOp F (tX x wi) (tF wo) v"
| "unaryOp F FDemote v = runDemoteOp F TF64 TF32 v"
| "unaryOp F FPromote v = runPromoteOp F TF32 TF64 v"
| "unaryOp F (IReinterpret w) v = runReinterpretOp (tF w) (tU w) v"
| "unaryOp F (FReinterpret w) v = runReinterpretOp (tU w) (tF w) v"

fun irelOp :: "irel \<Rightarrow> width \<Rightarrow> ValVariant \<Rightarrow> ValVariant \<Rightarrow> ValVariant Expect" where
  "irelOp ieq w = runEqOp (tU w)"
| "irelOp ine w = runNeOp (tU w)"
| "irelOp ilt_s w = runLtOp (tS w)"
| "irelOp ilt_u w = runLtOp (tU w)"
| "irelOp igt_s w = runGtOp (tS w)"
| "irelOp igt_u w = runGtOp (tU w)"
| "irelOp ile_s w = runLeOp (tS w)"
| "irelOp ile_u w = runLeOp (tU w)"
| "irelOp ige_s w = runGeOp (tS w)"
| "irelOp ige_u w = runGeOp (tU w)"

fun frelOp :: "frel \<Rightarrow> width \<Rightarrow> ValVariant \<Rightarrow> ValVariant \<Rightarrow> ValVariant Expect" where
  "frelOp feq w = runEqOp (tF w)"
| "frelOp fne w = runNeOp (tF w)"
| "frelOp flt w = runLtOp (tF w)"
| "frelOp fgt w = runGtOp (tF w)"
| "frelOp fle w = runLeOp (tF w)"
| "frelOp fge w = runGeOp (tF w)"

fun ibinOp :: "fpu \<Rightarrow> ibin \<Rightarrow> width \<Rightarrow> ValVariant \<Rightarrow> ValVariant \<Rightarrow> ValVariant Expect" where
  "ibinOp F iadd w = runAddOp F (tU w)"
| "ibinOp F isub w = runSubOp F (tU w)"
| "ibinOp F imul w = runMulOp F (tU w)"
| "ibinOp F idiv_s w = runDivOp F (tS w)"
| "ibinOp F idiv_u w = runDivOp F (tU w)"
| "ibinOp F irem_s w = runRemOp (tS w)"
| "ibinOp F irem_u w = runRemOp (tU w)"
| "ibinOp F iand w = runAndOp (tU w)"
| "ibinOp F ior w = runOrOp (tU w)"
| "ibinOp F ixor w = runXorOp (tU w)"
| "ibinOp F ishl w = runShlOp (tU w)"
| "ibinOp F ishr_s w = runShrOp (tS w)"
| "ibinOp F ishr_u w = runShrOp (tU w)"
| "ibinOp F irotl w = runRotlOp (tU w)"
| "ibinOp F irotr w = runRotrOp (tU w)"

fun fbinOp :: "fpu \<Rightarrow> fbin \<Rightarrow> width \<Rightarrow> ValVariant \<Rightarrow> ValVariant \<Rightarrow> ValVariant Expect" where
  "fbinOp F fadd w = runAddOp F (tF w)"
| "fbinOp F fsub w = runSubOp F (tF w)"
| "fbinOp F fmul w = runMulOp F (tF w)"
| "fbinOp F fdiv w = runDivOp F (tF w)"
| "fbinOp F fmin w = runMinOp (tF w)"
| "fbinOp F fmax w = runMaxOp (tF w)"
| "fbinOp F fcopysign w = runCopysignOp (tF w)"

fun binaryOp :: "fpu \<Rightarrow> BinaryOp \<Rightarrow> ValVariant \<Rightarrow> ValVariant \<Rightarrow> ValVariant Expect" where
  "binaryOp F (IRel w r) = irelOp r w"
| "binaryOp F (FRel w r) = frelOp r w"
| "binaryOp F (IBin w b) = ibinOp F b w"
| "binaryOp F (FBin w b) = fbinOp F b w"

definition executeUnary :: "fpu \<Rightarrow> UnaryOp \<Rightarrow> ('h, unit) interp" where
  "executeUnary F c = bindM (onStack getTop) (\<lambda>v.
     bindM (liftM (unaryOp F c v)) (\<lambda>r. onStack (setTop r)))"

definition executeBinary :: "fpu \<Rightarrow> BinaryOp \<Rightarrow> ('h, unit) interp" where
  "executeBinary F c = bindM (onStack pop) (\<lambda>v2. bindM (onStack getTop) (\<lambda>v1.
     bindM (liftM (binaryOp F c v1 v2)) (\<lambda>r. onStack (setTop r))))"

fun executeInstr :: "fpu \<Rightarrow> Instr \<Rightarrow> ('h, unit) interp" where
  "executeInstr F (ControlInstr c) = executeControl c"
| "executeInstr F (BlockInstr c t body) = executeBlock c t body"
| "executeInstr F (IfElseInstr t ifs els) = runIfElseOp t ifs els"
| "executeInstr F (BrInstr c l) = executeBr c l"
| "executeInstr F (BrTableInstr tab l) = runBrTableOp tab l"
| "executeInstr F (CallInstr c i) = executeCall c i"
| "executeInstr F (ParametricInstr c) = executeParametric c"
| "executeInstr F (VariableInstr c i) = executeVariable c i"
| "executeInstr F (MemoryInstr c align off) = executeMemory c off"
| "executeInstr F (ConstInstr c v) = executeConst v"
| "executeInstr F (UnaryInstr c) = executeUnary F c"
| "executeInstr F (BinaryInstr c) = executeBinary F c"

section \<open>The run loop\<close>

definition step :: "fpu \<Rightarrow> ('h, unit) interp" where
  "step F st = (case getNextInstr (InstrPdr st) of
       (None, p) \<Rightarrow>
         (case getTopScopeType p of
            SeqFunctionCall \<Rightarrow> leaveFunction (st\<lparr>InstrPdr := p\<rparr>)
          | SeqBlock \<Rightarrow> leaveBlock (st\<lparr>InstrPdr := p\<rparr>)
          | SeqExpression \<Rightarrow> onPdr popInstrs (st\<lparr>InstrPdr := p\<rparr>))
     | (Some i, p) \<Rightarrow>
         seqM (charge (\<lambda>m. addInstrCost (getOpCode i) (incInstrCnt m))) (executeInstr F i)
           (st\<lparr>InstrPdr := p\<rparr>))"

fun execute :: "fpu \<Rightarrow> nat \<Rightarrow> ('h, unit) interp" where
  "execute F 0 st = (Timeout, st)"
| "execute F (Suc n) st =
     (if 0 < getScopeSize (InstrPdr st) then seqM (step F) (execute F n) st else (Ok (), st))"

definition runExpression :: "fpu \<Rightarrow> nat \<Rightarrow> Instr list \<Rightarrow> ('h, unit) interp" where
  "runExpression F n is = seqM (onPdr (modifyM (pushInstrs SeqExpression is))) (execute F n)"

text \<open>A run that a host function ended with \<open>Terminated\<close> has succeeded.\<close>

definition runFunction :: "fpu \<Rightarrow> nat \<Rightarrow> 'h FunctionInstance \<Rightarrow> ('h, unit) interp" where
  "runFunction F n f = seqM (enterFunction f) (\<lambda>st.
     case execute F n st of (r, st') \<Rightarrow> (if r = Err Terminated then Ok () else r, st'))"

definition invoke :: "fpu \<Rightarrow> nat \<Rightarrow> Bytes \<Rightarrow> ValVariant list \<Rightarrow> ('h, ValVariant list) interp" where
  "invoke F n name params st =
     (case getFuncExports (Store st) name of
        None \<Rightarrow> (Err CallFunctionError, st)
      | Some a \<Rightarrow>
          bindM (liftM (deref (getFunction (Store st) a))) (\<lambda>f.
          if length (Params (getType f)) \<noteq> length params then errM TypeNotMatch
          else
            seqM (onPdr (modifyM resetInstrs))
           (seqM (onStack (modifyM resetStack))
           (seqM (onStack (forM push params))
           (seqM (runFunction F n f)
           (bindM (onStack (repeatM (length (Returns (getType f))) pop)) (\<lambda>vs. retM (rev vs))))))) st)"

section \<open>Registration of a host module\<close>

text \<open>\<open>ModInst->...\<close> writes to the module instance at its address in the store.\<close>

definition setMod :: "u32 \<Rightarrow> ModuleInstance \<Rightarrow> 'h StoreManager \<Rightarrow> 'h StoreManager" where
  "setMod a m s = s\<lparr>Mods := (Mods s)\<lparr>Insts := (Insts (Mods s))[unat a := m]\<rparr>\<rparr>"

definition onMod :: "u32 \<Rightarrow> (ModuleInstance \<Rightarrow> ModuleInstance Expect) \<Rightarrow> ('h StoreManager, unit) exec" where
  "onMod a f s = (case obind (deref (getModule s a)) f of
       Ok m \<Rightarrow> (Ok (), setMod a m s)
     | Err e \<Rightarrow> (Err e, s) | Undef \<Rightarrow> (Undef, s) | Timeout \<Rightarrow> (Timeout, s))"

text \<open>One loop of the function: store the instance, add its address, export the last index.\<close>

definition registerAll ::
  "('a \<Rightarrow> 'h StoreManager \<Rightarrow> u32 \<times> 'h StoreManager) \<Rightarrow> (u32 \<Rightarrow> ModuleInstance \<Rightarrow> ModuleInstance) \<Rightarrow>
   (ModuleInstance \<Rightarrow> u32) \<Rightarrow> (Bytes \<Rightarrow> u32 \<Rightarrow> ModuleInstance \<Rightarrow> ModuleInstance Expect) \<Rightarrow>
   u32 \<Rightarrow> (Bytes \<times> 'a) list \<Rightarrow> ('h StoreManager, unit) exec" where
  "registerAll put add num exp modaddr = forM (\<lambda>(name, x) s.
     let (a, s1) = put x s in
     onMod modaddr (\<lambda>m. let m1 = add a m in exp name (num m1 - 1) m1) s1)"

definition registerHostModule :: "'h ImportObject \<Rightarrow> ('h StoreManager, unit) exec" where
  "registerHostModule ob = seqM (resetStore False) (\<lambda>s.
     case findModule s (IModName ob) of
       Ok _ \<Rightarrow> (Err ModuleNameConflict, s)
     | _ \<Rightarrow>
       (let (ma, s1) = importModule (newModuleInstance (IModName ob)) s in
        seqM (registerAll importHostFunction addFuncAddr getFuncNum exportFuncion ma (IFuncs ob))
       (seqM (registerAll importHostTable addTableAddr getTableNum exportTable ma (ITabs ob))
       (seqM (registerAll importHostMemory addMemAddr getMemNum exportMemory ma (IMems ob))
             (registerAll importHostGlobal addGlobalAddr getGlobalNum exportGlobal ma (IGlobs ob)))) s1))"

end
