(* ===== verification/EngineGas.thy ===== *)
theory EngineGas
  imports Interp
begin

text \<open>
  Gas in the run loop. Every operation of the engine keeps the gas meter within its limit and never
  lowers it, adds at most two instruction scopes and is never cut off by fuel; a round of the loop
  either executes an instruction and pays for it, or removes a scope. With a cost for every
  instruction the loop therefore ends.
\<close>

section \<open>Calls that are never cut off\<close>

definition ends :: "('s, 'a) exec \<Rightarrow> bool" where
  "ends m \<longleftrightarrow> (\<forall>s. fst (m s) \<noteq> Timeout)"

named_theorems ends_intros "calls that are never cut off"

lemma ends_bindM [ends_intros]: "ends m \<Longrightarrow> (\<And>x. ends (f x)) \<Longrightarrow> ends (bindM m f)"
  by (auto simp: ends_def bindM_def split: prod.splits outcome.splits) (metis fst_conv)

lemma ends_basic [ends_intros]:
  "ends (retM x)" "ends (errM e)" "ends undefM" "ends (modifyM f)" "r \<noteq> Timeout \<Longrightarrow> ends (liftM r)"
  by (auto simp: ends_def monad_simps)

lemma ends_repeatM [ends_intros]: "ends m \<Longrightarrow> ends (repeatM n m)"
  by (induction n) (auto intro: ends_intros)

lemma ends_if: "ends m \<Longrightarrow> ends n \<Longrightarrow> ends (if b then m else n)"
  by simp

lemma ends_stack [ends_intros]:
  "ends getTop" "ends (setTop v)" "ends (getBottomN n)" "ends (setBottomN n v)" "ends (push v)"
  "ends pop" "ends (pushFrame a b c)" "ends (eraseValues a c)" "ends (pushLabel c i)"
  "ends (getLabelWithCount n)" "ends getModuleAddr" "ends (getOffset j)"
  by (simp_all add: ends_def stack_defs)

lemma ends_popFrame [ends_intros]: "ends popFrame"
  by (auto simp: ends_def popFrame_def eraseValues_def Let_def bindM_def)

lemma ends_popLabel [ends_intros]: "ends (popLabel n)"
  unfolding popLabel_def by (intro ends_intros) (simp add: ends_def)

lemma ends_pushes [ends_intros]: "ends (forM push vs)"
  unfolding ends_def using value_stack.pushes_ok [of vs] by (metis fst_conv outcome.distinct(5))

lemma ends_guarded [ends_intros]: "ends m \<Longrightarrow> ends (guarded off len m)"
  by (auto simp: ends_def guarded_def split: prod.splits bool.splits)

lemma ends_memory [ends_intros]:
  "ends (sliceM a n)" "ends (copyM a bs)" "ends (growPage c)"
  by (simp_all add: ends_def sliceM_def copyM_def growPage_def)

lemma ends_loadValue [ends_intros]: "ends (loadValue t v off len)"
  unfolding loadValue_def by (auto intro!: ends_intros simp: Let_def)

lemma ends_storeValue [ends_intros]: "ends (storeValue t v off len)"
  unfolding storeValue_def by (auto intro!: ends_intros)

lemma getT_ends [simp]: "getT t v \<noteq> Timeout"
  by (cases v) (simp_all add: getT_def)

lemma obind_ends [simp]: "r \<noteq> Timeout \<Longrightarrow> (\<And>x. r = Ok x \<Longrightarrow> f x \<noteq> Timeout) \<Longrightarrow> obind r f \<noteq> Timeout"
  by (cases r) (simp_all add: obind_def)

lemma get2_ends: "(\<And>a b. f a b \<noteq> Timeout) \<Longrightarrow> get2 t v1 v2 f \<noteq> Timeout"
  by (simp add: get2_def obind_ends)

lemma highest_bit:
  assumes "(w :: u64) \<noteq> 0"
  obtains h where "bit w h" "\<forall>j > h. \<not> bit w j"
proof -
  have "finite {j. bit w j}" by (rule finite_bits)
  moreover have "{j. bit w j} \<noteq> {}" using assms by (auto simp: bit_eq_iff)
  ultimately show ?thesis using that [of "Max {j. bit w j}"] Max_in Max_ge
    by (metis leD mem_Collect_eq)
qed

lemma bit_bound: "take_bit n w = w \<Longrightarrow> bit w h \<Longrightarrow> h < n"
  by (metis bit_take_bit_iff)

lemma runClzOp_ends: "runClzOp t v \<noteq> Timeout"
  unfolding runClzOp_def
proof (rule obind_ends)
  fix i assume i: "getT t v = Ok i"
  show "(if i \<noteq> 0 then obind (clz_loop (bits t) (bits t) i 0) (\<lambda>c. Ok (mkT t c)) else Ok v) \<noteq> Timeout"
  proof (cases "i = 0")
    case False
    then obtain h where h: "bit i h" "\<forall>j > h. \<not> bit i j" using highest_bit by blast
    then have "h < bits t" using bit_bound getT_bound [OF i] by blast
    then have "clz_loop (bits t) (bits t) i 0 = Ok (0 + of_nat (bits t - 1 - h))"
      using bits_cases [of t] by (intro clz_loop_spec [OF h]) auto
    then show ?thesis by (simp add: obind_def)
  qed simp
qed simp

lemma runCtzOp_ends: "runCtzOp t v \<noteq> Timeout"
  unfolding runCtzOp_def
proof (rule obind_ends)
  fix i assume i: "getT t v = Ok i"
  show "(if i \<noteq> 0 then obind (ctz_loop (bits t) i 0) (\<lambda>c. Ok (mkT t c))
      else Ok (mkT t (of_nat (bits t)))) \<noteq> Timeout"
  proof (cases "i = 0")
    case False
    then obtain h where h: "bit i h" using highest_bit by blast
    define p where "p = (LEAST j. bit i j)"
    have "bit i p" "\<forall>j < p. \<not> bit i j" using h LeastI not_less_Least unfolding p_def by metis+
    moreover have "p < bits t" using bit_bound getT_bound [OF i] \<open>bit i p\<close> by blast
    ultimately have "ctz_loop (bits t) i 0 = Ok (0 + of_nat p)" by (rule ctz_loop_spec)
    then show ?thesis by (simp add: obind_def)
  qed simp
qed simp

lemma runPopcntOp_ends: "runPopcntOp t v \<noteq> Timeout"
  unfolding runPopcntOp_def
  by (rule obind_ends) (auto simp: obind_def popcnt_loop_spec [OF getT_bound])

lemma runTruncateOp_ends: "runTruncateOp ti to v \<noteq> Timeout"
  unfolding runTruncateOp_def by (rule obind_ends) (auto simp: Let_def)

lemmas unary_defs = runEqzOp_def runAbsOp_def runNegOp_def runCeilOp_def runFloorOp_def
  runNearestOp_def runSqrtOp_def runWrapOp_def runExtendOp_def runConvertOp_def runDemoteOp_def
  runPromoteOp_def runReinterpretOp_def

lemmas binary_defs = runEqOp_def runNeOp_def runLtOp_def runGtOp_def runLeOp_def runGeOp_def
  arith_def runAddOp_def runSubOp_def runMulOp_def runDivOp_def runRemOp_def runAndOp_def
  runOrOp_def runXorOp_def runShlOp_def runShrOp_def runRotlOp_def runRotrOp_def runMinOp_def
  runMaxOp_def runCopysignOp_def

lemma unaryOp_ends: "unaryOp F c v \<noteq> Timeout"
  by (cases "(F, c, v)" rule: unaryOp.cases)
    (simp_all add: unary_defs obind_ends runClzOp_ends runCtzOp_ends runPopcntOp_ends runTruncateOp_ends)

lemma binaryOp_ends: "binaryOp F c v1 v2 \<noteq> Timeout"
proof (cases c)
  case (IRel w r)
  then show ?thesis by (cases r) (simp_all add: binary_defs get2_ends)
next
  case (FRel w r)
  then show ?thesis by (cases r) (simp_all add: binary_defs get2_ends)
next
  case (IBin w b)
  then show ?thesis by (cases b) (simp_all add: binary_defs get2_ends Let_def)
next
  case (FBin w b)
  then show ?thesis by (cases b) (simp_all add: binary_defs get2_ends)
qed

section \<open>The gas invariant\<close>

definition scopes :: "'h Interp \<Rightarrow> nat" where
  "scopes st = length (Iters (InstrPdr st))"

definition used :: "'h Interp \<Rightarrow> nat" where
  "used st = (case Meter st of None \<Rightarrow> 0 | Some m \<Rightarrow> unat (CostSum m))"

text \<open>The machine is metered with cost table \<open>T\<close> and limit \<open>L\<close>, and its functions are \<open>fs\<close>.\<close>

definition metered :: "u64 list \<Rightarrow> u64 \<Rightarrow> 'h FunctionInstance list \<Rightarrow> 'h Interp \<Rightarrow> bool" where
  "metered T L fs st \<longleftrightarrow> Insts (Funcs (Store st)) = fs \<and>
     (\<exists>m. Meter st = Some m \<and> CostTab m = T \<and> CostLimit m = L \<and> CostSum m \<le> L)"

text \<open>
  What is asked of a host function: it returns, and it may consume gas but neither gives any back nor
  touches the table and the limit; its own cost does not overflow the counter.
\<close>

definition host_gas :: "u64 \<Rightarrow> 'h HostFunction \<Rightarrow> bool" where
  "host_gas L h \<longleftrightarrow> unat L + unat (HostCost h) < 2 ^ 64 \<and>
     (\<forall>args w m. HMeasure w = Some m \<longrightarrow> CostSum m \<le> CostLimit m \<longrightarrow>
        fst (HostBody h args w) \<noteq> Timeout \<and>
        (\<exists>m'. HMeasure (snd (HostBody h args w)) = Some m' \<and> CostTab m' = CostTab m \<and>
           CostLimit m' = CostLimit m \<and> CostSum m \<le> CostSum m' \<and> CostSum m' \<le> CostLimit m))"

definition hosts_gas :: "u64 \<Rightarrow> 'h FunctionInstance list \<Rightarrow> bool" where
  "hosts_gas L fs \<longleftrightarrow> (\<forall>h. HostFunc h \<in> set fs \<longrightarrow> host_gas L h)"

text \<open>\<open>gas_step T L fs k m\<close>: the contract of an engine operation that adds at most \<open>k\<close> scopes.\<close>

definition gas_step :: "u64 list \<Rightarrow> u64 \<Rightarrow> 'h FunctionInstance list \<Rightarrow> nat \<Rightarrow> ('h, 'a) interp \<Rightarrow> bool" where
  "gas_step T L fs k m \<longleftrightarrow> (\<forall>st r st'. metered T L fs st \<longrightarrow> m st = (r, st') \<longrightarrow>
     r \<noteq> Timeout \<and> metered T L fs st' \<and> scopes st' \<le> scopes st + k \<and> used st \<le> used st')"

named_theorems gas_intros "engine operations that keep the gas contract"

lemma gas_stepD:
  "gas_step T L fs k m \<Longrightarrow> metered T L fs st \<Longrightarrow> m st = (r, st') \<Longrightarrow>
     r \<noteq> Timeout \<and> metered T L fs st' \<and> scopes st' \<le> scopes st + k \<and> used st \<le> used st'"
  by (auto simp: gas_step_def)

lemma gas_step_mono: "gas_step T L fs j m \<Longrightarrow> j \<le> k \<Longrightarrow> gas_step T L fs k m"
  unfolding gas_step_def by fastforce

lemma gas_bindM:
  assumes "gas_step T L fs j m" and "\<And>x. gas_step T L fs k (f x)"
  shows "gas_step T L fs (j + k) (bindM m f)"
  unfolding gas_step_def
proof (intro allI impI)
  fix st r st'
  assume st: "metered T L fs st" and run: "bindM m f st = (r, st')"
  obtain r1 s1 where m: "m st = (r1, s1)" by fastforce
  note 1 = gas_stepD [OF assms(1) st m]
  show "r \<noteq> Timeout \<and> metered T L fs st' \<and> scopes st' \<le> scopes st + (j + k) \<and> used st \<le> used st'"
  proof (cases r1)
    case (Ok x)
    then have "f x s1 = (r, st')" using run m by (simp add: bindM_simps)
    from gas_stepD [OF assms(2) _ this] 1 show ?thesis by force
  qed (use run m 1 in \<open>auto simp: bindM_simps\<close>)
qed

lemma gas_bindM0 [gas_intros]:
  "gas_step T L fs 0 m \<Longrightarrow> (\<And>x. gas_step T L fs k (f x)) \<Longrightarrow> gas_step T L fs k (bindM m f)"
  using gas_bindM [of T L fs 0 m k f] by simp

lemma gas_seqM0 [gas_intros]:
  "gas_step T L fs 0 m \<Longrightarrow> gas_step T L fs k n \<Longrightarrow> gas_step T L fs k (seqM m n)"
  unfolding seqM_def by (rule gas_bindM0)

lemma gas_seqM:
  "gas_step T L fs j m \<Longrightarrow> gas_step T L fs k n \<Longrightarrow> gas_step T L fs (j + k) (seqM m n)"
  unfolding seqM_def by (rule gas_bindM)

lemma gas_basic [gas_intros]:
  "gas_step T L fs k (retM x)" "gas_step T L fs k (errM e)" "gas_step T L fs k undefM"
  "r \<noteq> Timeout \<Longrightarrow> gas_step T L fs k (liftM r)"
  by (auto simp: gas_step_def monad_simps)

lemma gas_if [gas_intros]:
  "gas_step T L fs k m \<Longrightarrow> gas_step T L fs k n \<Longrightarrow> gas_step T L fs k (if b then m else n)"
  by simp

lemma gas_onStack [gas_intros]: "ends m \<Longrightarrow> gas_step T L fs k (onStack m)"
  by (auto simp: gas_step_def onStack_def ends_def metered_def scopes_def used_def split: prod.splits)
    (metis fst_conv)

lemma gas_getsM [gas_intros]: "(\<And>st. f st \<noteq> Timeout) \<Longrightarrow> gas_step T L fs k (getsM f)"
  by (auto simp: gas_step_def getsM_def)

lemma gas_onMem [gas_intros]: "ends m \<Longrightarrow> gas_step T L fs k (onMem a m)"
  by (auto simp: gas_step_def onMem_def ends_def metered_def scopes_def used_def setMem_def split: prod.splits)
    (metis fst_conv)

lemma deref_ends [simp]: "r \<noteq> Timeout \<Longrightarrow> deref r \<noteq> Timeout"
  by (cases r) (simp_all add: deref_def)

lemma gets_ends [simp]:
  "getModule s a \<noteq> Timeout" "getFunction s a \<noteq> Timeout" "getTable s a \<noteq> Timeout"
  "getMemory s a \<noteq> Timeout" "getGlobal s a \<noteq> Timeout" "getFuncType m i \<noteq> Timeout"
  "getFuncAddr m i \<noteq> Timeout" "getTableAddr m i \<noteq> Timeout" "getMemAddr m i \<noteq> Timeout"
  "getGlobalAddr m i \<noteq> Timeout" "getElemAddr t i \<noteq> Timeout"
  by (simp_all add: getModule_def getFunction_def getTable_def getMemory_def getGlobal_def
      getFuncType_def getFuncAddr_def getTableAddr_def getMemAddr_def getGlobalAddr_def getElemAddr_def)

lemma gas_instances [gas_intros]:
  "gas_step T L fs k currentModule" "gas_step T L fs k (getTabInstByIdx i)"
  "gas_step T L fs k (getMemInstByIdx i)" "gas_step T L fs k (getGlobInstByIdx i)"
  by (auto simp: currentModule_def getTabInstByIdx_def getMemInstByIdx_def getGlobInstByIdx_def
      intro!: gas_intros ends_intros)

text \<open>A charge that fits the counter; it raises the sum by the cost or fails.\<close>

lemma addCost_cases:
  assumes "CostSum m \<le> CostLimit m" and "unat (CostLimit m) + unat c < 2 ^ 64"
  shows "addCost c m = (True, m\<lparr>CostSum := CostSum m + c\<rparr>) \<and> CostSum m + c \<le> CostLimit m \<and>
      unat (CostSum m + c) = unat (CostSum m) + unat c \<or>
    addCost c m = (False, m\<lparr>CostSum := CostLimit m\<rparr>)"
proof -
  have "unat (CostSum m) + unat c < 2 ^ 64" using assms by (simp add: word_le_nat_alt)
  then have "unat (CostSum m + c) = unat (CostSum m) + unat c" by (intro unat_add_no_wrap) simp
  then show ?thesis by (auto simp: addCost_def Let_def not_less)
qed

lemma gas_charge [gas_intros]:
  assumes "\<And>m. CostTab m = T \<Longrightarrow> CostLimit m = L \<Longrightarrow> CostSum m \<le> L \<Longrightarrow>
    CostTab (snd (f m)) = T \<and> CostLimit (snd (f m)) = L \<and> CostSum m \<le> CostSum (snd (f m)) \<and> CostSum (snd (f m)) \<le> L"
  shows "gas_step T L fs k (charge f)"
  using assms
  by (auto simp: gas_step_def charge_def metered_def scopes_def used_def Let_def word_le_nat_alt
      split: prod.splits if_splits) (metis snd_conv)+

lemma addCost_monotone:
  assumes "CostSum m \<le> CostLimit m" and "unat (CostLimit m) + unat c < 2 ^ 64"
  shows "CostTab (snd (addCost c m)) = CostTab m \<and> CostLimit (snd (addCost c m)) = CostLimit m \<and>
    CostSum m \<le> CostSum (snd (addCost c m)) \<and> CostSum (snd (addCost c m)) \<le> CostLimit m"
  using addCost_cases [OF assms] assms(1) by (auto simp: word_le_nat_alt)

section \<open>Every instruction keeps the contract\<close>

lemma gas_pushScope: "gas_step T L fs (Suc k) (onPdr (modifyM (pushInstrs t is)))"
  by (auto simp: gas_step_def onPdr_def modifyM_def pushInstrs_def metered_def scopes_def used_def)

lemma gas_enterBlock [gas_intros]: "gas_step T L fs (Suc k) (enterBlock a i body)"
  unfolding enterBlock_def by (intro gas_intros ends_intros gas_pushScope)

lemma length_popInstrs: "length (Iters (snd (popInstrs p))) = length (Iters p) - 1"
  by (simp add: popInstrs_def)

lemma length_popScopes: "length (Iters (popScopes n p)) = length (Iters p) - unat n"
proof -
  have "length (Iters (((\<lambda>p. snd (popInstrs p)) ^^ k) p)) = length (Iters p) - k" for k
    by (induction k) (simp_all add: length_popInstrs)
  then show ?thesis by (simp add: popScopes_def)
qed

lemma gas_onPdr [gas_intros]:
  "(\<And>p. length (Iters (f p)) \<le> length (Iters p)) \<Longrightarrow> gas_step T L fs k (onPdr (modifyM f))"
  by (auto simp: gas_step_def onPdr_def modifyM_def metered_def scopes_def used_def trans_le_add1)

lemma gas_leaveFunction [gas_intros]: "gas_step T L fs k leaveFunction"
  unfolding leaveFunction_def
  by (intro gas_intros ends_intros) (simp_all add: length_popScopes length_popInstrs)

lemma gas_runLoopOp [gas_intros]: "gas_step T L fs (Suc k) (runLoopOp i)"
  by (cases i rule: runLoopOp.cases) (auto intro: gas_intros)

lemma gas_branchToLabel [gas_intros]: "gas_step T L fs (Suc k) (branchToLabel n)"
  unfolding branchToLabel_def
  by (intro gas_intros ends_intros) (auto simp: length_popScopes intro: gas_intros split: option.split)

lemma gas_invokeHost:
  assumes "host_gas L h"
  shows "gas_step T L fs k (invokeHost h mem)"
  unfolding gas_step_def
proof (intro allI impI)
  fix st r st'
  assume st: "metered T L fs st" and run: "invokeHost h mem st = (r, st')"
  let ?vs = "ValueStack (Stack st)" and ?ps = "Params (HostType h)"
  let ?args = "drop (length ?vs - length ?ps) ?vs"
  let ?w = "\<lparr>HMem = memAt (Store st) mem, HMeasure = Meter st, HState = Host st\<rparr>"
  obtain br w where b: "HostBody h ?args ?w = (br, w)" by fastforce
  obtain m where m: "Meter st = Some m" "CostTab m = T" "CostLimit m = L" "CostSum m \<le> L"
    using st by (auto simp: metered_def)
  then have "fst (HostBody h ?args ?w) \<noteq> Timeout \<and>
      (\<exists>m'. HMeasure (snd (HostBody h ?args ?w)) = Some m' \<and> CostTab m' = CostTab m \<and>
         CostLimit m' = CostLimit m \<and> CostSum m \<le> CostSum m' \<and> CostSum m' \<le> CostLimit m)"
    using assms unfolding host_gas_def by force
  then obtain m' where m': "br \<noteq> Timeout" "HMeasure w = Some m'" "CostTab m' = T" "CostLimit m' = L"
      "CostSum m \<le> CostSum m'" "CostSum m' \<le> L" using b m by auto
  show "r \<noteq> Timeout \<and> metered T L fs st' \<and> scopes st' \<le> scopes st + k \<and> used st \<le> used st'"
    using run st b m m'
    by (auto simp: invokeHost_def Let_def metered_def scopes_def used_def setMem_def onStack_def
        push_def seqM_def bindM_def retM_def word_le_nat_alt split: outcome.splits prod.splits if_splits)
qed

lemma gas_enterFunction:
  assumes "hosts_gas L fs" and "f \<in> set fs"
  shows "gas_step T L fs 2 (enterFunction f)"
proof (cases f)
  case (Native ft ma locs body)
  have "gas_step T L fs (Suc 0 + Suc 0)
    (seqM (onPdr (modifyM (pushInstrs SeqFunctionCall []))) (enterBlock (of_nat (length (Returns ft))) None body))"
    by (intro gas_seqM gas_pushScope gas_enterBlock)
  then have "gas_step T L fs 2
    (seqM (onPdr (modifyM (pushInstrs SeqFunctionCall []))) (enterBlock (of_nat (length (Returns ft))) None body))"
    by (simp add: numeral_2_eq_2)
  with Native show ?thesis
    unfolding enterFunction_def by (auto intro!: gas_intros ends_intros)
next
  case (HostFunc h)
  with assms have h: "host_gas L h" by (simp add: hosts_gas_def)
  then have "unat L + unat (HostCost h) < 2 ^ 64" by (simp add: host_gas_def)
  then have "gas_step T L fs 0 (charge (addCost (HostCost h)))"
    using addCost_monotone by (intro gas_charge) auto
  with h HostFunc show ?thesis
    unfolding enterFunction_def by (auto intro!: gas_intros gas_invokeHost)
qed

text \<open>A function that the code calls is in the store.\<close>

lemma gas_bind_function:
  assumes "\<And>st f. Insts (Funcs (Store st)) = fs \<Longrightarrow> g st = Ok f \<Longrightarrow> f \<in> set fs" and "\<And>st. g st \<noteq> Timeout"
    and "\<And>f. f \<in> set fs \<Longrightarrow> gas_step T L fs k (m f)"
  shows "gas_step T L fs k (bindM (getsM g) m)"
  unfolding gas_step_def
proof (intro allI impI)
  fix st r st'
  assume st: "metered T L fs st" and run: "bindM (getsM g) m st = (r, st')"
  show "r \<noteq> Timeout \<and> metered T L fs st' \<and> scopes st' \<le> scopes st + k \<and> used st \<le> used st'"
  proof (cases "g st")
    case (Ok f)
    then have "f \<in> set fs" using assms(1) st by (auto simp: metered_def)
    moreover have "m f st = (r, st')" using run Ok by (simp add: bindM_def getsM_def)
    ultimately show ?thesis using gas_stepD [OF assms(3) st] by blast
  qed (use run st assms(2) in \<open>auto simp: bindM_def getsM_def\<close>)
qed

lemma getFunction_in: "deref (getFunction s a) = Ok f \<Longrightarrow> f \<in> set (Insts (Funcs s))"
  by (auto simp: deref_def getFunction_def lookup_def split: outcome.splits if_splits)

lemma obind_Ok_iff: "obind r f = Ok y \<longleftrightarrow> (\<exists>x. r = Ok x \<and> f x = Ok y)"
  by (cases r) (simp_all add: obind_def)

lemma gas_calls:
  assumes "hosts_gas L fs"
  shows "gas_step T L fs 2 (runCallOp i)" and "gas_step T L fs 2 (runCallIndirectOp i)"
proof -
  show "gas_step T L fs 2 (runCallOp i)"
    unfolding runCallOp_def
    by (intro gas_intros gas_bind_function gas_enterFunction [OF assms])
      (auto simp: obind_Ok_iff dest: getFunction_in)
  have *: "gas_step T L fs 2 (bindM (getsM (\<lambda>st. deref (getFunction (Store st) addr))) (\<lambda>f.
     if Params target \<noteq> Params (getType f) \<or> Returns target \<noteq> Returns (getType f)
     then errM TypeNotMatch else enterFunction f))" for addr target
    by (intro gas_bind_function gas_if gas_basic gas_enterFunction [OF assms])
      (auto dest: getFunction_in)
  show "gas_step T L fs 2 (runCallIndirectOp i)"
    unfolding runCallIndirectOp_def
    by (rule * gas_bindM0 gas_instances gas_onStack ends_stack gas_basic(4) deref_ends gets_ends)+
qed

text \<open>The costs fit the counter: no instruction cost can carry the sum past 64 bits.\<close>

definition costs_fit :: "u64 list \<Rightarrow> u64 \<Rightarrow> bool" where
  "costs_fit T L \<longleftrightarrow> (\<forall>i < 256. unat L + unat (T ! i) < 2 ^ 64)"

lemma costs_fitD: "costs_fit T L \<Longrightarrow> unat L + unat (T ! unat (byte_of c)) < 2 ^ 64"
  using unat_u8_less [of "byte_of c"] by (simp add: costs_fit_def)

lemma gas_instrCost:
  assumes "costs_fit T L"
  shows "gas_step T L fs k (charge (addInstrCost c))"
    and "gas_step T L fs k (charge (\<lambda>m. addInstrCost c (incInstrCnt m)))"
proof -
  have *: "CostTab (snd (addInstrCost c m)) = T \<and> CostLimit (snd (addInstrCost c m)) = L \<and>
      CostSum m \<le> CostSum (snd (addInstrCost c m)) \<and> CostSum (snd (addInstrCost c m)) \<le> L"
    if "CostTab m = T" "CostLimit m = L" "CostSum m \<le> L" for m
    using addCost_monotone [of m "T ! unat (byte_of c)"] costs_fitD [OF assms, of c] that
    by (simp add: addInstrCost_def)
  show "gas_step T L fs k (charge (addInstrCost c))" using * by (intro gas_charge) blast
  show "gas_step T L fs k (charge (\<lambda>m. addInstrCost c (incInstrCnt m)))"
  proof (rule gas_charge)
    fix m :: Measurement assume m: "CostTab m = T" "CostLimit m = L" "CostSum m \<le> L"
    then show "CostTab (snd (addInstrCost c (incInstrCnt m))) = T \<and>
      CostLimit (snd (addInstrCost c (incInstrCnt m))) = L \<and>
      CostSum m \<le> CostSum (snd (addInstrCost c (incInstrCnt m))) \<and>
      CostSum (snd (addInstrCost c (incInstrCnt m))) \<le> L"
      using * [of "incInstrCnt m"] by (simp add: incInstrCnt_def)
  qed
qed

lemma gas_chargeUnchecked [gas_intros]:
  "gas_step T L fs k (charge f) \<Longrightarrow> gas_step T L fs k (chargeUnchecked f)"
  by (auto simp: gas_step_def chargeUnchecked_def)

lemma gas_modify_store:
  "(\<And>s. Funcs (f s) = Funcs s) \<Longrightarrow> gas_step T L fs k (modifyM (\<lambda>st. st\<lparr>Store := f (Store st)\<rparr>))"
  by (auto simp: gas_step_def modifyM_def metered_def scopes_def used_def)

lemma gas_variables [gas_intros]:
  "gas_step T L fs k (executeVariable c i)"
proof -
  have "gas_step T L fs k (\<lambda>st. onStack (push (GValue (globAt (Store st) a))) st)" for a
    by (auto simp: gas_step_def onStack_def push_def metered_def scopes_def used_def)
  then have "gas_step T L fs k (runGlobalGetOp i)"
    unfolding runGlobalGetOp_def by (intro gas_intros)
  moreover have "gas_step T L fs k (runGlobalSetOp i)"
    unfolding runGlobalSetOp_def
    by (intro gas_intros ends_intros) (auto simp: gas_step_def modifyM_def metered_def scopes_def used_def setGlob_def)
  ultimately show ?thesis
    by (cases c) (auto simp: runLocalGetOp_def runLocalSetOp_def runLocalTeeOp_def intro!: gas_intros ends_intros)
qed

lemma gas_memory [gas_intros]: "gas_step T L fs k (executeMemory c off)"
proof -
  have "gas_step T L fs k (runMemorySizeOp mem)" for mem
    by (auto simp: gas_step_def runMemorySizeOp_def onStack_def push_def metered_def scopes_def used_def)
  moreover have "gas_step T L fs k (runMemoryGrowOp mem)" for mem
    unfolding runMemoryGrowOp_def
    by (intro gas_intros ends_intros)
      (auto simp: gas_step_def onMem_def onStack_def setTop_def growPage_def metered_def scopes_def used_def
        setMem_def Let_def split: prod.splits if_splits)
  moreover have "gas_step T L fs k (runLoadOp t mem off b)" "gas_step T L fs k (runStoreOp t mem off b)" for t mem b
    unfolding runLoadOp_def runStoreOp_def by (intro gas_intros ends_intros)+
  ultimately have "gas_step T L fs k (memoryOp c mem off)" for mem
    by (cases c) simp_all
  then show ?thesis unfolding executeMemory_def by (intro gas_intros)
qed

lemma gas_numeric [gas_intros]:
  "gas_step T L fs k (executeUnary F u)" "gas_step T L fs k (executeBinary F b)"
  unfolding executeUnary_def executeBinary_def
  by (intro gas_intros ends_intros unaryOp_ends binaryOp_ends)+

lemma gas_parametric [gas_intros]: "gas_step T L fs k (executeParametric c)"
  by (cases c) (auto intro!: gas_intros ends_intros)

lemma gas_executeInstr:
  assumes "costs_fit T L" and "hosts_gas L fs"
  shows "gas_step T L fs 2 (executeInstr F i)"
proof -
  have two: "(2 :: nat) = Suc 1" by simp
  show ?thesis
  proof (cases i)
    case (ControlInstr c)
    then show ?thesis by (cases c) (auto simp: runReturnOp_def intro: gas_intros)
  next
    case (BlockInstr c t body)
    then show ?thesis unfolding two by (cases c) (auto intro: gas_intros)
  next
    case (IfElseInstr t a b)
    then show ?thesis unfolding two
      by (auto simp: runIfElseOp_def Let_def intro!: gas_intros ends_intros gas_instrCost assms)
  next
    case (BrInstr c l)
    then show ?thesis unfolding two
      by (cases c) (auto simp: runBrOp_def runBrIfOp_def intro!: gas_intros ends_intros)
  next
    case (BrTableInstr tab l)
    then show ?thesis unfolding two by (auto simp: runBrTableOp_def intro!: gas_intros ends_intros)
  next
    case (CallInstr c l)
    then show ?thesis using gas_calls [OF assms(2)] by (cases c) auto
  qed (auto simp: executeConst_def intro!: gas_intros ends_intros)
qed

section \<open>Progress of the run loop\<close>

definition costs_positive :: "u64 list \<Rightarrow> bool" where
  "costs_positive T \<longleftrightarrow> (\<forall>i < 256. 0 < T ! i)"

lemma charge_instr_raises:
  assumes "metered T L fs st" and "costs_fit T L" and "costs_positive T"
    and "charge (\<lambda>m. addInstrCost c (incInstrCnt m)) st = (Ok (), st')"
  shows "used st < used st' \<and> used st' \<le> unat L"
proof -
  obtain m where m: "Meter st = Some m" "CostTab m = T" "CostLimit m = L" "CostSum m \<le> L"
    using assms(1) by (auto simp: metered_def)
  let ?c = "T ! unat (byte_of c)" and ?m = "incInstrCnt m"
  have i: "CostSum ?m \<le> CostLimit ?m" "unat (CostLimit ?m) + unat ?c < 2 ^ 64"
    using m costs_fitD [OF assms(2)] by (simp_all add: incInstrCnt_def)
  have "0 < ?c" using assms(3) unat_u8_less [of "byte_of c"] by (simp add: costs_positive_def)
  then have "0 < unat ?c" by (simp add: unat_gt_0 word_gt_0)
  with addCost_cases [OF i] assms(4) m show ?thesis
    by (auto simp: charge_def addInstrCost_def used_def incInstrCnt_def word_le_nat_alt split: if_splits)
qed

lemma leaves_scope:
  assumes "step F st = (Ok (), st')" and "getNextInstr (InstrPdr st) = (None, p)" and "0 < scopes st"
  shows "scopes st' < scopes st"
proof -
  have p: "p = InstrPdr st" using assms(2) by (auto simp: getNextInstr_def split: if_splits prod.splits list.splits)
  have ne: "Iters (InstrPdr st) \<noteq> []" using assms(3) by (simp add: scopes_def)
  show ?thesis
  proof (cases "getTopScopeType p")
    case SeqExpression
    then show ?thesis using assms p ne by (auto simp: step_def onPdr_def popInstrs_def scopes_def)
  next
    case SeqBlock
    then have "leaveBlock st = (Ok (), st')" using assms p by (simp add: step_def)
    then show ?thesis using ne
      by (auto simp: leaveBlock_def seqM_Ok_iff onStack_def onPdr_def popInstrs_def scopes_def split: prod.splits)
  next
    case SeqFunctionCall
    then have "leaveFunction st = (Ok (), st')" using assms p by (simp add: step_def)
    then show ?thesis using ne
      by (auto simp: leaveFunction_def bindM_Ok_iff seqM_Ok_iff onStack_def onPdr_def modifyM_def scopes_def
          length_popScopes length_popInstrs split: prod.splits)
  qed
qed

text \<open>Three units for every unit of gas left and one for every scope.\<close>

definition potential :: "u64 \<Rightarrow> 'h Interp \<Rightarrow> nat" where
  "potential L st = 3 * (unat L - used st) + scopes st"

lemma used_bound: "metered T L fs st \<Longrightarrow> used st \<le> unat L"
  by (auto simp: metered_def used_def word_le_nat_alt)

lemma gas_step_step:
  assumes "costs_fit T L" and "hosts_gas L fs"
  shows "gas_step T L fs 2 (step F)"
  unfolding gas_step_def
proof (intro allI impI)
  fix st r st'
  assume st: "metered T L fs st" and run: "step F st = (r, st')"
  obtain i p where n: "getNextInstr (InstrPdr st) = (i, p)" by fastforce
  let ?st = "st\<lparr>InstrPdr := p\<rparr>"
  have len: "length (Iters p) = length (Iters (InstrPdr st))"
    using n by (auto simp: getNextInstr_def split: if_splits prod.splits list.splits)
  have st1: "metered T L fs ?st" "scopes ?st = scopes st" "used ?st = used st"
    using st len by (simp_all add: metered_def scopes_def used_def)
  have "gas_step T L fs 2 (onPdr popInstrs)"
    by (auto simp: gas_step_def onPdr_def popInstrs_def metered_def scopes_def used_def)
  moreover have "gas_step T L fs 2 leaveBlock"
    unfolding leaveBlock_def by (intro gas_seqM0 gas_onStack ends_popLabel \<open>gas_step T L fs 2 (onPdr popInstrs)\<close>)
  moreover have "gas_step T L fs 2 leaveFunction" by (rule gas_leaveFunction)
  moreover have "gas_step T L fs 2
      (seqM (charge (\<lambda>m. addInstrCost (getOpCode j) (incInstrCnt m))) (executeInstr F j))" for j
    by (intro gas_seqM0 gas_instrCost gas_executeInstr assms)
  ultimately obtain m where "gas_step T L fs 2 m" "step F st = m ?st"
    using n by (cases i; cases "getTopScopeType p") (auto simp: step_def)
  then show "r \<noteq> Timeout \<and> metered T L fs st' \<and> scopes st' \<le> scopes st + 2 \<and> used st \<le> used st'"
    using gas_stepD [of T L fs 2 m ?st r st'] run st1 by simp
qed

lemma step_progress:
  assumes "metered T L fs st" and "costs_fit T L" and "costs_positive T" and "hosts_gas L fs"
    and "0 < scopes st" and "step F st = (Ok (), st')"
  shows "potential L st' < potential L st"
proof (cases "getNextInstr (InstrPdr st)")
  case (Pair i p)
  show ?thesis
  proof (cases i)
    case None
    with Pair have "scopes st' < scopes st" using leaves_scope assms by blast
    moreover have "used st \<le> used st'"
      using gas_stepD [OF gas_step_step assms(1,6)] assms by blast
    ultimately show ?thesis by (simp add: potential_def)
  next
    case (Some j)
    let ?st = "st\<lparr>InstrPdr := p\<rparr>"
    have len: "length (Iters p) = length (Iters (InstrPdr st))"
      using Pair by (auto simp: getNextInstr_def split: if_splits prod.splits list.splits)
    have st1: "metered T L fs ?st" "scopes ?st = scopes st" "used ?st = used st"
      using assms(1) len by (simp_all add: metered_def scopes_def used_def)
    obtain s2 where c: "charge (\<lambda>m. addInstrCost (getOpCode j) (incInstrCnt m)) ?st = (Ok (), s2)"
      and e: "executeInstr F j s2 = (Ok (), st')"
      using assms(6) Pair Some by (auto simp: step_def seqM_Ok_iff)
    have 1: "used ?st < used s2" "used s2 \<le> unat L" using charge_instr_raises [OF st1(1) assms(2,3) c] by auto
    have 2: "metered T L fs s2" "scopes s2 \<le> scopes ?st"
      using gas_stepD [OF gas_instrCost(2) [OF assms(2), where k = 0] st1(1) c] by auto
    have "scopes st' \<le> scopes s2 + 2" "used s2 \<le> used st'" "metered T L fs st'"
      using gas_stepD [OF gas_executeInstr [OF assms(2,4)] 2(1) e] by auto
    with 1 2 st1 show ?thesis using used_bound by (fastforce simp: potential_def)
  qed
qed

lemma execute_ends:
  assumes "metered T L fs st" and "costs_fit T L" and "costs_positive T" and "hosts_gas L fs"
    and "potential L st < n"
  shows "fst (execute F n st) \<noteq> Timeout \<and> metered T L fs (snd (execute F n st))"
  using assms(1,5)
proof (induction n arbitrary: st)
  case (Suc n)
  show ?case
  proof (cases "0 < getScopeSize (InstrPdr st)")
    case True
    then have sc: "0 < scopes st" by (auto simp: getScopeSize_def scopes_def)
    obtain r s1 where r: "step F st = (r, s1)" by fastforce
    note g = gas_stepD [OF gas_step_step [OF assms(2,4)] Suc.prems(1) r]
    show ?thesis
    proof (cases r)
      case (Ok u)
      then have "potential L s1 < n"
        using step_progress [OF Suc.prems(1) assms(2-4) sc, of F s1] r Suc.prems(2) by simp
      then show ?thesis using Suc.IH [of s1] g True r Ok by (simp add: seqM_simps)
    qed (use g True r in \<open>auto simp: seqM_simps\<close>)
  qed (use Suc.prems in simp)
qed simp

section \<open>Properties\<close>

text \<open>C4. A metered run ends. When every opcode has a positive cost and neither an instruction nor a
  host function can carry the 64-bit sum past its end, the run loop stops after at most three rounds
  for every unit of gas that was left and one for every open scope, whatever the code does; and the
  gas shown never exceeds the limit.\<close>

theorem metered_execute_ends:
  assumes "metered T L fs st" and "costs_fit T L" and "costs_positive T" and "hosts_gas L fs"
    and "3 * (unat L - used st) + length (Iters (InstrPdr st)) < n"
  shows "fst (execute F n st) \<noteq> Timeout \<and> used (snd (execute F n st)) \<le> unat L"
  using execute_ends [OF assms(1-4)] assms(5) used_bound by (metis potential_def scopes_def)

text \<open>A machine with nothing but a metered instruction sequence.\<close>

definition bare :: "Measurement \<Rightarrow> Instr list \<Rightarrow> unit Interp" where
  "bare m is = \<lparr>Stack = newStackManager, InstrPdr = \<lparr>Iters = [(SeqExpression, is)]\<rparr>,
     Meter = Some m, Store = newStoreManager, Host = (), InsMode = ModeInstantiate\<rparr>"

theorem metered_execute_ends_witness:
  "\<forall>F. fst (execute F 32 (bare (newMeasurement (replicate 256 1) 10)
      [BlockInstr Loop VNone [BrInstr Br 0]])) \<noteq> Timeout"
proof -
  let ?T = "replicate 256 1 :: u64 list"
  let ?st = "bare (newMeasurement ?T 10) [BlockInstr Loop VNone [BrInstr Br 0]]"
  have "metered ?T 10 [] ?st" "3 * (unat (10 :: u64) - used ?st) + length (Iters (InstrPdr ?st)) < 32"
    by (simp_all add: metered_def bare_def newStoreManager_def emptyVec_def newMeasurement_def used_def)
  moreover have "costs_fit ?T 10" "costs_positive ?T" "hosts_gas 10 ([] :: unit FunctionInstance list)"
    by (simp_all add: costs_fit_def costs_positive_def hosts_gas_def)
  ultimately show ?thesis using metered_execute_ends [of ?T 10 "[]" ?st 32] by blast
qed

end
