(* ===== verification/EngineSync.thy ===== *)
theory EngineSync
  imports EngineGas
begin

text \<open>
  The control state of the engine. The labels and frames of the stack manager and the scopes of the
  instruction provider are three stacks that the code keeps in step by hand: a block pushes a label
  and a scope, a call pushes a frame, an empty scope, a label and a scope, and a branch or return pops
  a computed number of each. This theory states how the three belong together and proves that every
  round of the run loop keeps it so, for code whose branches stay inside their function.
\<close>

section \<open>Branches inside their function\<close>

text \<open>
  \<open>br_ok r d i\<close>: with \<open>d\<close> labels around the instruction, every branch in it has a target among
  them, and \<open>return\<close> occurs only where \<open>r\<close> holds, that is, in a function.
\<close>

fun br_ok :: "bool \<Rightarrow> nat \<Rightarrow> Instr \<Rightarrow> bool" where
  "br_ok r d (ControlInstr c) = (c = Return \<longrightarrow> r)"
| "br_ok r d (BlockInstr c t body) = list_all (br_ok r (Suc d)) body"
| "br_ok r d (IfElseInstr t a b) = (list_all (br_ok r (Suc d)) a \<and> list_all (br_ok r (Suc d)) b)"
| "br_ok r d (BrInstr c l) = (unat l < d)"
| "br_ok r d (BrTableInstr tab l) = (unat l < d \<and> list_all (\<lambda>x. unat x < d) tab)"
| "br_ok r d _ = True"

definition bodies_ok :: "'h FunctionInstance list \<Rightarrow> bool" where
  "bodies_ok fs \<longleftrightarrow> (\<forall>ft ma locs body. Native ft ma locs body \<in> set fs \<longrightarrow> list_all (br_ok True 1) body)"

section \<open>Labels, frames and scopes in step\<close>

type_synonym scope = "SeqType \<times> Instr list"

text \<open>Number of blocks open in the current function, and whether there is one.\<close>

definition depth :: "scope list \<Rightarrow> nat" where
  "depth its = length (takeWhile (\<lambda>(t, _). t = SeqBlock) (rev its))"

definition inCall :: "scope list \<Rightarrow> bool" where
  "inCall its \<longleftrightarrow> SeqFunctionCall \<in> fst ` set its"

text \<open>
  The frames \<open>base\<close> were there before the run (instantiation pushes one for its initialisers). A
  block scope has a label, and if the label's target is a loop, its body is code for that place. A
  call scope has no instructions, and its frame knows the number of labels below it.
\<close>

inductive sync :: "Frame list \<Rightarrow> Label list \<Rightarrow> Frame list \<Rightarrow> scope list \<Rightarrow> bool" for base where
  sync_base: "sync base [] base []"
| sync_expr: "list_all (br_ok False 0) is \<Longrightarrow> sync base [] base [(SeqExpression, is)]"
| sync_block: "sync base ls fs its \<Longrightarrow> list_all (br_ok (inCall its) (Suc (depth its))) is \<Longrightarrow>
    (\<And>i. Target l = Some i \<Longrightarrow> br_ok (inCall its) (depth its) i) \<Longrightarrow>
    sync base (ls @ [l]) fs (its @ [(SeqBlock, is)])"
| sync_call: "sync base ls fs its \<Longrightarrow> LStackSize f = of_nat (length ls) \<Longrightarrow>
    sync base ls (fs @ [f]) (its @ [(SeqFunctionCall, [])])"

lemma depth_simps [simp]:
  "depth [] = 0" "depth (its @ [(SeqBlock, is)]) = Suc (depth its)"
  "t \<noteq> SeqBlock \<Longrightarrow> depth (its @ [(t, is)]) = 0"
  by (simp_all add: depth_def)

lemma inCall_simps [simp]:
  "\<not> inCall []" "inCall (its @ [(t, is)]) \<longleftrightarrow> t = SeqFunctionCall \<or> inCall its"
  by (auto simp: inCall_def)

lemma depth_expr [simp]: "depth [(SeqExpression, is)] = 0" "\<not> inCall [(SeqExpression, is)]"
  using depth_simps(3) [of SeqExpression "[]"] by (auto simp: inCall_def)

lemma sync_snocE:
  assumes "sync base ls fs (its @ [(t, is)])"
  obtains (expr) "t = SeqExpression" "its = []" "ls = []" "fs = base" "list_all (br_ok False 0) is"
  | (block) ls' l where "t = SeqBlock" "ls = ls' @ [l]" "sync base ls' fs its"
      "list_all (br_ok (inCall its) (Suc (depth its))) is"
      "\<And>i. Target l = Some i \<Longrightarrow> br_ok (inCall its) (depth its) i"
  | (call) fs' f where "t = SeqFunctionCall" "is = []" "fs = fs' @ [f]" "sync base ls fs' its"
      "LStackSize f = of_nat (length ls)"
  using assms by cases auto

lemma sync_depth_labels: "sync base ls fs its \<Longrightarrow> depth its \<le> length ls \<and> depth its \<le> length its"
  by (induction rule: sync.induct) auto

text \<open>Leaving \<open>k\<close> of the open blocks.\<close>

lemma sync_drop_blocks:
  "sync base ls fs its \<Longrightarrow> k \<le> depth its \<Longrightarrow>
   sync base (take (length ls - k) ls) fs (take (length its - k) its)"
proof (induction arbitrary: k rule: sync.induct)
  case (sync_block ls fs its "is" l)
  then show ?case by (cases k) (auto intro: sync.sync_block)
next
  case (sync_call ls fs its f)
  then show ?case by (auto intro: sync.sync_call)
qed (auto intro: sync.intros)

lemma depth_drop_blocks:
  "k \<le> depth its \<Longrightarrow> depth (take (length its - k) its) = depth its - k"
  "k \<le> depth its \<Longrightarrow> inCall (take (length its - k) its) = inCall its"
proof (induction its arbitrary: k rule: rev_induct)
  case (snoc x its)
  obtain t "is" where x: "x = (t, is)" by fastforce
  { case 1 with snoc(1) x show ?case by (cases k; cases t) auto }
  { case 2 with snoc(2) x show ?case by (cases k; cases t) auto }
qed auto

text \<open>The label that a branch finds.\<close>

lemma sync_label:
  "sync base ls fs its \<Longrightarrow> n < depth its \<Longrightarrow> Target (ls ! (length ls - n - 1)) = Some i \<Longrightarrow>
   br_ok (inCall its) (depth its - Suc n) i"
proof (induction arbitrary: n rule: sync.induct)
  case (sync_block ls fs its "is" l)
  show ?case
  proof (cases n)
    case 0
    then show ?thesis using sync_block by (simp add: nth_append)
  next
    case (Suc m)
    then have m: "m < depth its" using sync_block.prems by simp
    then have "length ls - m - 1 < length ls"
      using sync_depth_labels [OF sync_block.hyps(1)] by linarith
    then have "Target (ls ! (length ls - m - 1)) = Some i"
      using sync_block.prems Suc by (simp add: nth_append)
    then show ?thesis using sync_block.IH [OF m] Suc by simp
  qed
qed auto

text \<open>Returning from the current function.\<close>

lemma sync_return:
  "sync base ls fs its \<Longrightarrow> inCall its \<Longrightarrow>
   \<exists>fs0 f its0. fs = fs0 @ [f] \<and> LStackSize f = of_nat (length ls - depth its) \<and>
     its0 = take (length its - Suc (depth its)) its \<and>
     sync base (take (length ls - depth its) ls) fs0 its0"
proof (induction rule: sync.induct)
  case (sync_block ls fs its "is" l)
  then obtain fs0 f where "fs = fs0 @ [f]" "LStackSize f = of_nat (length ls - depth its)"
    "sync base (take (length ls - depth its) ls) fs0 (take (length its - Suc (depth its)) its)" by auto
  then show ?case by auto
qed auto

section \<open>Instructions without control effect\<close>

definition ctl :: "'h Interp \<Rightarrow> Label list \<times> Frame list \<times> scope list \<times> 'h FunctionInstance list" where
  "ctl st = (LabelStack (Stack st), FrameStack (Stack st), Iters (InstrPdr st), Insts (Funcs (Store st)))"

definition same_ctl :: "('h, 'a) interp \<Rightarrow> bool" where
  "same_ctl m \<longleftrightarrow> (\<forall>st. ctl (snd (m st)) = ctl st)"

named_theorems ctl_intros "operations without control effect"

lemma same_ctlD: "same_ctl m \<Longrightarrow> m st = (r, st') \<Longrightarrow> ctl st' = ctl st"
  by (metis same_ctl_def snd_conv)

lemma same_ctl_bindM [ctl_intros]: "same_ctl m \<Longrightarrow> (\<And>x. same_ctl (f x)) \<Longrightarrow> same_ctl (bindM m f)"
  unfolding same_ctl_def bindM_def by (auto split: prod.split outcome.split) (metis snd_conv)+

lemma same_ctl_seqM [ctl_intros]: "same_ctl m \<Longrightarrow> same_ctl n \<Longrightarrow> same_ctl (seqM m n)"
  unfolding seqM_def by (rule same_ctl_bindM)

lemma same_ctl_basic [ctl_intros]:
  "same_ctl (retM x)" "same_ctl (errM e)" "same_ctl undefM" "same_ctl (liftM r)" "same_ctl (getsM f)"
  "same_ctl (charge g)" "same_ctl (chargeUnchecked g)" "same_ctl (onMem a mo)"
  by (auto simp: same_ctl_def monad_simps getsM_def charge_def chargeUnchecked_def onMem_def setMem_def
      ctl_def Let_def split: option.split prod.split)

lemma same_ctl_if [ctl_intros]: "same_ctl m \<Longrightarrow> same_ctl n \<Longrightarrow> same_ctl (if b then m else n)"
  by simp

text \<open>Stack operations that touch only values.\<close>

definition only_values :: "'a stackop \<Rightarrow> bool" where
  "only_values m \<longleftrightarrow> (\<forall>s. LabelStack (snd (m s)) = LabelStack s \<and> FrameStack (snd (m s)) = FrameStack s)"

lemma only_values_stack [ctl_intros]:
  "only_values getTop" "only_values (setTop v)" "only_values (getBottomN n)" "only_values (setBottomN n v)"
  "only_values (push v)" "only_values pop" "only_values getModuleAddr" "only_values (getOffset n)"
  by (simp_all add: only_values_def stack_defs)

lemma only_values_bindM [ctl_intros]:
  "only_values m \<Longrightarrow> (\<And>x. only_values (f x)) \<Longrightarrow> only_values (bindM m f)"
  unfolding only_values_def bindM_def by (auto split: prod.split outcome.split) (metis snd_conv)+

lemma same_ctl_onStack [ctl_intros]: "only_values m \<Longrightarrow> same_ctl (onStack m)"
  by (auto simp: only_values_def same_ctl_def onStack_def ctl_def split_beta)

lemma same_ctl_instances [ctl_intros]:
  "same_ctl currentModule" "same_ctl (getTabInstByIdx i)" "same_ctl (getMemInstByIdx i)"
  "same_ctl (getGlobInstByIdx i)"
  unfolding getTabInstByIdx_def getMemInstByIdx_def getGlobInstByIdx_def currentModule_def
  by (intro ctl_intros)+

lemma same_ctl_invokeHost [ctl_intros]: "same_ctl (invokeHost h mem)"
  by (auto simp: same_ctl_def invokeHost_def Let_def ctl_def setMem_def onStack_def push_def seqM_def
      bindM_def retM_def split: prod.split outcome.split)

lemma same_ctl_variable [ctl_intros]: "same_ctl (executeVariable c i)"
proof (cases c)
  case Global__get
  have "same_ctl (\<lambda>st. onStack (push (GValue (globAt (Store st) a))) st)" for a
    by (simp add: same_ctl_def onStack_def push_def ctl_def)
  with Global__get show ?thesis by (auto simp: runGlobalGetOp_def intro!: ctl_intros)
next
  case Global__set
  have "same_ctl (modifyM (\<lambda>st. st\<lparr>Store := setGlob a ((globAt (Store st) a)\<lparr>GValue := v\<rparr>) (Store st)\<rparr>))" for a v
    by (simp add: same_ctl_def modifyM_def setGlob_def ctl_def)
  with Global__set show ?thesis by (auto simp: runGlobalSetOp_def intro!: ctl_intros)
qed (auto simp: runLocalGetOp_def runLocalSetOp_def runLocalTeeOp_def intro!: ctl_intros)

lemma same_ctl_memory [ctl_intros]: "same_ctl (executeMemory c off)"
proof -
  have "same_ctl (runMemorySizeOp mem)" for mem
    by (simp add: same_ctl_def runMemorySizeOp_def onStack_def push_def ctl_def)
  moreover have "same_ctl (runMemoryGrowOp mem)" for mem
    unfolding runMemoryGrowOp_def
    by (intro ctl_intros) (auto simp: same_ctl_def onMem_def onStack_def setTop_def setMem_def ctl_def Let_def split_beta)
  moreover have "same_ctl (runLoadOp t mem off b)" "same_ctl (runStoreOp t mem off b)" for t mem b
    unfolding runLoadOp_def runStoreOp_def by (intro ctl_intros)+
  ultimately have "same_ctl (memoryOp c mem off)" for mem by (cases c) simp_all
  then show ?thesis unfolding executeMemory_def by (intro ctl_intros)
qed

lemma same_ctl_numeric [ctl_intros]:
  "same_ctl (executeUnary F u)" "same_ctl (executeBinary F b)" "same_ctl (executeConst v)"
  unfolding executeUnary_def executeBinary_def executeConst_def by (intro ctl_intros)+

lemma same_ctl_parametric [ctl_intros]: "same_ctl (executeParametric c)"
  by (cases c) (auto intro!: ctl_intros)

section \<open>Control operations\<close>

definition synced :: "Frame list \<Rightarrow> 'h FunctionInstance list \<Rightarrow> 'h Interp \<Rightarrow> bool" where
  "synced base fns st \<longleftrightarrow> sync base (LabelStack (Stack st)) (FrameStack (Stack st)) (Iters (InstrPdr st)) \<and>
     Insts (Funcs (Store st)) = fns"

definition labels :: "'h Interp \<Rightarrow> nat" where
  "labels st = length (LabelStack (Stack st))"

lemma synced_ctl: "ctl st' = ctl st \<Longrightarrow> synced base fns st' = synced base fns st \<and> labels st' = labels st"
  by (simp add: synced_def ctl_def labels_def)

lemma enterBlock_ctl:
  "\<exists>l. Target l = i \<and> enterBlock a i body st = (Ok (), snd (enterBlock a i body st)) \<and>
     ctl (snd (enterBlock a i body st)) =
       (LabelStack (Stack st) @ [l], FrameStack (Stack st), Iters (InstrPdr st) @ [(SeqBlock, body)],
        Insts (Funcs (Store st)))"
  by (rule exI [of _ "\<lparr>LStack = of_nat (length (ValueStack (Stack st))), LCoarity = a, Target = i\<rparr>"])
    (simp add: enterBlock_def seqM_def bindM_def onStack_def onPdr_def pushLabel_def modifyM_def pushInstrs_def ctl_def)

text \<open>A step that adds at most one label.\<close>

definition sync_step :: "Frame list \<Rightarrow> 'h FunctionInstance list \<Rightarrow> 'h Interp \<Rightarrow> 'h Interp \<Rightarrow> bool" where
  "sync_step base fns st st' \<longleftrightarrow> synced base fns st' \<and> labels st' \<le> Suc (labels st)"

lemma sync_step_same: "synced base fns st \<Longrightarrow> ctl st' = ctl st \<Longrightarrow> sync_step base fns st st'"
  using synced_ctl [of st' st] by (simp add: sync_step_def)

lemma sync_enterBlock:
  assumes "synced base fns st" and "enterBlock a i body st = (Ok (), st')"
    and "list_all (br_ok (inCall (Iters (InstrPdr st))) (Suc (depth (Iters (InstrPdr st))))) body"
    and "\<And>j. i = Some j \<Longrightarrow> br_ok (inCall (Iters (InstrPdr st))) (depth (Iters (InstrPdr st))) j"
  shows "sync_step base fns st st'"
proof -
  obtain l where l: "Target l = i" and c: "ctl st' = (LabelStack (Stack st) @ [l], FrameStack (Stack st),
      Iters (InstrPdr st) @ [(SeqBlock, body)], Insts (Funcs (Store st)))"
    using enterBlock_ctl [of i a body st] assms(2) by auto
  with assms show ?thesis
    by (auto simp: sync_step_def synced_def ctl_def labels_def intro!: sync_block)
qed

lemma popScopes_take: "Iters (popScopes n p) = take (length (Iters p) - unat n) (Iters p)"
proof -
  have "Iters (((\<lambda>p. snd (popInstrs p)) ^^ k) p) = take (length (Iters p) - k) (Iters p)" for k
  proof (induction k)
    case (Suc k)
    then show ?case by (simp add: popInstrs_def butlast_take)
  qed simp
  then show ?thesis by (simp add: popScopes_def)
qed

lemma popLabel_ctl:
  assumes "popLabel n s = (Ok (), s')"
  shows "LabelStack s' = take (length (LabelStack s) - unat n) (LabelStack s) \<and> FrameStack s' = FrameStack s"
  using assms
  by (auto simp: popLabel_def bindM_Ok_iff getLabelWithCount_def eraseValues_def split: if_splits)

lemma popFrame_ctl:
  assumes "popFrame s = (Ok k, s')" and "FrameStack s = fs @ [f]"
  shows "LabelStack s' = take (unat (LStackSize f)) (LabelStack s) \<and> FrameStack s' = fs \<and>
    k = of_nat (length (LabelStack s)) - LStackSize f"
  using assms
  by (auto simp: popFrame_def bindM_Ok_iff eraseValues_def Let_def split: if_splits)

lemma sync_leaveFunction:
  assumes "synced base fns st" and "inCall (Iters (InstrPdr st))" and "labels st < 2 ^ 32"
    and "leaveFunction st = (Ok (), st')"
  shows "sync_step base fns st st'"
proof -
  let ?ls = "LabelStack (Stack st)" and ?its = "Iters (InstrPdr st)"
  let ?d = "depth ?its"
  have s: "sync base ?ls (FrameStack (Stack st)) ?its" using assms(1) by (simp add: synced_def)
  note d = sync_depth_labels [OF s]
  obtain fs0 f where f: "FrameStack (Stack st) = fs0 @ [f]" "LStackSize f = of_nat (length ?ls - ?d)"
    "sync base (take (length ?ls - ?d) ?ls) fs0 (take (length ?its - Suc ?d) ?its)"
    using sync_return [OF s assms(2)] by blast
  have u: "unat (LStackSize f) = length ?ls - ?d"
    using f(2) assms(3) by (simp add: labels_def unat_of_nat_less)
  obtain k s1 where k: "popFrame (Stack st) = (Ok k, s1)"
    and st': "st' = st\<lparr>Stack := s1, InstrPdr := snd (popInstrs (popScopes k (InstrPdr st)))\<rparr>"
    using assms(4) by (auto simp: leaveFunction_def bindM_Ok_iff seqM_Ok_iff onStack_def onPdr_def modifyM_def split: prod.splits)
  have s1: "LabelStack s1 = take (length ?ls - ?d) ?ls" "FrameStack s1 = fs0"
    "k = of_nat (length ?ls) - LStackSize f" using popFrame_ctl [OF k f(1)] u by auto
  have "k = of_nat ?d" using s1(3) f(2) d by (simp add: of_nat_diff)
  then have "unat k = ?d" using d assms(3) by (simp add: labels_def unat_of_nat_less)
  then have "Iters (snd (popInstrs (popScopes k (InstrPdr st)))) = take (length ?its - Suc ?d) ?its"
    using d by (auto simp: popInstrs_def popScopes_take butlast_take)
  with f(3) s1 st' assms(1) show ?thesis by (simp add: sync_step_def synced_def labels_def)
qed

lemma sync_runLoopOp:
  assumes "synced base fns st" and "runLoopOp i st = (Ok (), st')"
    and "br_ok (inCall (Iters (InstrPdr st))) (depth (Iters (InstrPdr st))) i"
  shows "sync_step base fns st st'"
proof (cases i)
  case (BlockInstr c t body)
  then show ?thesis using assms by (auto intro: sync_enterBlock)
qed (use assms(2) in \<open>simp_all add: undefM_def\<close>)

lemma sync_branchToLabel:
  assumes "synced base fns st" and "unat n < depth (Iters (InstrPdr st))" and "labels st < 2 ^ 32"
    and "branchToLabel n st = (Ok (), st')"
  shows "sync_step base fns st st'"
proof -
  let ?ls = "LabelStack (Stack st)" and ?its = "Iters (InstrPdr st)"
  let ?k = "Suc (unat n)"
  have s: "sync base ?ls (FrameStack (Stack st)) ?its" using assms(1) by (simp add: synced_def)
  note d = sync_depth_labels [OF s]
  have n1: "unat (n + 1) = ?k"
    using assms(2,3) d by (intro unat_Suc_no_wrap) (simp add: labels_def)
  obtain l s1 where l: "l = ?ls ! (length ?ls - unat n - 1)"
    and s1: "popLabel (n + 1) (Stack st) = (Ok (), s1)"
    and run: "(case Target l of None \<Rightarrow> retM () | Some i \<Rightarrow> runLoopOp i)
      (st\<lparr>Stack := s1, InstrPdr := popScopes (n + 1) (InstrPdr st)\<rparr>) = (Ok (), st')"
    using assms(4) by (auto simp: branchToLabel_def bindM_Ok_iff seqM_Ok_iff onStack_def onPdr_def modifyM_def
        getLabelWithCount_def split: prod.splits if_splits)
  let ?st1 = "st\<lparr>Stack := s1, InstrPdr := popScopes (n + 1) (InstrPdr st)\<rparr>"
  have its: "Iters (InstrPdr ?st1) = take (length ?its - ?k) ?its" by (simp add: popScopes_take n1)
  have sy: "synced base fns ?st1" "labels ?st1 < labels st"
    using sync_drop_blocks [OF s, of ?k] popLabel_ctl [OF s1] assms(1,2) d its n1
    by (auto simp: synced_def labels_def)
  show ?thesis
  proof (cases "Target l")
    case None
    with run sy show ?thesis by (simp add: retM_def sync_step_def)
  next
    case (Some i)
    then have "br_ok (inCall ?its) (depth ?its - ?k) i" using sync_label [OF s assms(2)] l by simp
    moreover have "depth (Iters (InstrPdr ?st1)) = depth ?its - ?k" "inCall (Iters (InstrPdr ?st1)) = inCall ?its"
      using depth_drop_blocks [of ?k ?its] assms(2) unfolding its by simp_all
    ultimately have "sync_step base fns ?st1 st'"
      using sync_runLoopOp [OF sy(1), of i st'] run Some by simp
    with sy(2) show ?thesis by (simp add: sync_step_def)
  qed
qed

lemma sync_enterFunction:
  assumes "synced base fns st" and "bodies_ok fns" and "f \<in> set fns" and "enterFunction f st = (Ok (), st')"
  shows "sync_step base fns st st'"
proof (cases f)
  case (HostFunc h)
  have "same_ctl (enterFunction f)"
    unfolding HostFunc enterFunction_def by (simp, intro ctl_intros)
  then show ?thesis using assms sync_step_same same_ctlD by blast
next
  case (Native ft ma locs body)
  let ?vs = "concat (map (\<lambda>(n, t). replicate (unat n) (ValueFromType t)) locs)"
  obtain s1 where s1: "pushFrame ma (of_nat (length (Params ft))) (of_nat (length (Returns ft))) (Stack st) = (Ok (), s1)"
    by (simp add: pushFrame_def)
  obtain s2 where s2: "forM push ?vs s1 = (Ok (), s2)" "LabelStack s2 = LabelStack s1" "FrameStack s2 = FrameStack s1"
    using value_stack.pushes_ok [of ?vs s1] by auto
  let ?st2 = "st\<lparr>Stack := s2, InstrPdr := pushInstrs SeqFunctionCall [] (InstrPdr st)\<rparr>"
  have run: "enterBlock (of_nat (length (Returns ft))) None body ?st2 = (Ok (), st')"
    using assms(4) Native s1 s2(1)
    by (simp add: enterFunction_def seqM_def bindM_def onStack_def onPdr_def modifyM_def)
  obtain fr where fr: "FrameStack s1 = FrameStack (Stack st) @ [fr]" "LStackSize fr = of_nat (labels st)"
    "LabelStack s1 = LabelStack (Stack st)" using s1 by (auto simp: pushFrame_def labels_def)
  have "synced base fns ?st2" "labels ?st2 = labels st"
    using assms(1) fr s2 by (auto simp: synced_def labels_def pushInstrs_def intro: sync_call)
  moreover have "list_all (br_ok True 1) body"
    using assms(2,3) Native by (auto simp: bodies_ok_def)
  ultimately show ?thesis
    using sync_enterBlock [of base fns ?st2 "of_nat (length (Returns ft))" None body st'] run
    by (simp add: pushInstrs_def sync_step_def)
qed

lemma sync_calls:
  assumes "synced base fns st" and "bodies_ok fns" and "executeCall c i st = (Ok (), st')"
  shows "sync_step base fns st st'"
proof -
  have "\<exists>f st1. f \<in> set fns \<and> ctl st1 = ctl st \<and> enterFunction f st1 = (Ok (), st')"
  proof (cases c)
    case Call
    then obtain m st1 f where m: "currentModule st = (Ok m, st1)"
      and g: "obind (deref (getFuncAddr m i)) (\<lambda>a. deref (getFunction (Store st1) a)) = Ok f"
      and e: "enterFunction f st1 = (Ok (), st')"
      using assms(3) by (auto simp: runCallOp_def bindM_Ok_iff getsM_def)
    have c: "ctl st1 = ctl st" using m same_ctl_instances(1) same_ctlD by blast
    have "f \<in> set (Insts (Funcs (Store st1)))" using g by (auto simp: obind_Ok_iff dest: getFunction_in)
    then have "f \<in> set fns" using c assms(1) by (simp add: ctl_def synced_def)
    then show ?thesis using c e by blast
  next
    case Call_indirect
    then obtain tab st1 m st2 target st3 j st4 addr st5 f where
      t: "getTabInstByIdx 0 st = (Ok tab, st1)" and m: "currentModule st1 = (Ok m, st2)"
      and l: "liftM (deref (getFuncType m i)) st2 = (Ok target, st3)"
      and p: "onStack pop st3 = (Ok j, st4)" and a: "liftM (getElemAddr tab (get32 j)) st4 = (Ok addr, st5)"
      and g: "deref (getFunction (Store st5) addr) = Ok f" and e: "enterFunction f st5 = (Ok (), st')"
      using assms(3) by (auto simp: runCallIndirectOp_def bindM_Ok_iff getsM_def errM_def split: if_splits)
    have "ctl st1 = ctl st" by (rule same_ctlD [OF same_ctl_instances(2) t])
    moreover have "ctl st2 = ctl st1" by (rule same_ctlD [OF same_ctl_instances(1) m])
    moreover have "ctl st4 = ctl st3" by (rule same_ctlD [OF same_ctl_onStack [OF only_values_stack(6)] p])
    moreover have "st3 = st2" "st5 = st4" using l a by (simp_all add: liftM_def)
    ultimately have "ctl st5 = ctl st" by simp
    moreover have "f \<in> set (Insts (Funcs (Store st5)))" using g getFunction_in by blast
    ultimately show ?thesis using e assms(1) by (auto simp: ctl_def synced_def)
  qed
  then obtain f st1 where f: "f \<in> set fns" "ctl st1 = ctl st" "enterFunction f st1 = (Ok (), st')" by blast
  then have "sync_step base fns st1 st'" using assms(1,2) synced_ctl sync_enterFunction by metis
  then show ?thesis using f(2) synced_ctl by (metis sync_step_def)
qed

lemma sync_executeInstr:
  fixes st :: "'h Interp"
  assumes "synced base fns st" and "bodies_ok fns" and "labels st < 2 ^ 32"
    and "br_ok (inCall (Iters (InstrPdr st))) (depth (Iters (InstrPdr st))) i"
    and "executeInstr F i st = (Ok (), st')"
  shows "sync_step base fns st st'"
proof -
  have same: "same_ctl (executeInstr F i :: ('h, unit) interp) \<Longrightarrow> sync_step base fns st st'"
    by (rule sync_step_same [OF assms(1)], rule same_ctlD [where m = "executeInstr F i"]) (assumption, rule assms(5))
  note pop1 = same_ctlD [OF same_ctl_onStack [OF only_values_stack(6)]]
  have branch: "sync_step base fns st st'"
    if "branchToLabel n st1 = (Ok (), st')" "ctl st1 = ctl st" "unat n < depth (Iters (InstrPdr st))" for n st1
  proof -
    have "synced base fns st1" "labels st1 = labels st" "Iters (InstrPdr st1) = Iters (InstrPdr st)"
      using that(2) synced_ctl [of st1 st] assms(1) by (auto simp: ctl_def)
    with that assms(3) sync_branchToLabel [of base fns st1 n st'] show ?thesis by (simp add: sync_step_def)
  qed
  show ?thesis
  proof (cases i)
    case (ControlInstr c)
    then show ?thesis using assms same
      by (cases c) (auto simp: errM_def runReturnOp_def intro: sync_leaveFunction ctl_intros)
  next
    case (BlockInstr c t body)
    then show ?thesis using assms
      by (cases c) (auto intro: sync_enterBlock)
  next
    case (IfElseInstr t a b)
    then obtain v st1 where p: "onStack pop st = (Ok v, st1)"
      and r: "(let body = (if get32 v \<noteq> 0 then a else b) in if body \<noteq> [] then
         seqM (chargeUnchecked (addInstrCost OpElse)) (enterBlock (blockArity t) None body) else retM ()) st1 = (Ok (), st')"
      using assms(5) by (auto simp: runIfElseOp_def bindM_Ok_iff)
    define body where "body = (if get32 v \<noteq> 0 then a else b)"
    show ?thesis
    proof (cases "body = []")
      case True
      then show ?thesis using r pop1 [OF p] sync_step_same [OF assms(1)] by (simp add: body_def Let_def retM_def)
    next
      case False
      then obtain st2 where c: "chargeUnchecked (addInstrCost OpElse) st1 = (Ok (), st2)"
        and e: "enterBlock (blockArity t) None body st2 = (Ok (), st')"
        using r by (auto simp: body_def Let_def seqM_Ok_iff)
      have ctl: "ctl st2 = ctl st" using same_ctlD [OF same_ctl_basic(7) c] pop1 [OF p] by simp
      have "list_all (br_ok (inCall (Iters (InstrPdr st))) (Suc (depth (Iters (InstrPdr st))))) body"
        using assms(4) IfElseInstr by (simp add: body_def)
      then have "sync_step base fns st2 st'"
        using sync_enterBlock [OF _ e] synced_ctl [OF ctl] assms(1) ctl by (simp add: ctl_def)
      then show ?thesis using synced_ctl [OF ctl] by (simp add: sync_step_def)
    qed
  next
    case (BrInstr c l)
    show ?thesis
    proof (cases c)
      case Br
      then show ?thesis using BrInstr assms branch [of l st] by (simp add: runBrOp_def)
    next
      case Br_if
      then obtain v st1 where p: "onStack pop st = (Ok v, st1)"
        and r: "(if get32 v \<noteq> 0 then runBrOp l else retM ()) st1 = (Ok (), st')"
        using assms(5) BrInstr by (auto simp: runBrIfOp_def bindM_Ok_iff)
      then show ?thesis using branch [of l st1] pop1 [OF p] BrInstr assms(1,4) sync_step_same
        by (auto simp: runBrOp_def retM_def split: if_splits)
    qed
  next
    case (BrTableInstr tab l)
    then obtain v st1 where p: "onStack pop st = (Ok v, st1)"
      and r: "(if unat (get32 v) < length tab then branchToLabel (tab ! unat (get32 v)) else branchToLabel l) st1 = (Ok (), st')"
      using assms(5) by (auto simp: runBrTableOp_def bindM_Ok_iff)
    then show ?thesis using branch pop1 [OF p] BrTableInstr assms(4)
      by (auto simp: list_all_length split: if_splits)
  next
    case (CallInstr c l)
    then show ?thesis using sync_calls [OF assms(1,2)] assms(5) by simp
  qed (use same in \<open>auto intro: ctl_intros\<close>)
qed

lemma sync_next:
  assumes "sync base ls fs its" and "its \<noteq> []"
  shows "case last its of
      (t, []) \<Rightarrow> True
    | (t, i # is) \<Rightarrow> sync base ls fs (butlast its @ [(t, is)]) \<and>
        br_ok (inCall (butlast its @ [(t, is)])) (depth (butlast its @ [(t, is)])) i"
proof -
  obtain its' t "is" where its: "its = its' @ [(t, is)]" using assms(2) by (metis rev_exhaust surj_pair)
  show ?thesis
  proof (cases "is")
    case (Cons i js)
    from assms(1) [unfolded its] show ?thesis unfolding its Cons
      by (cases rule: sync_snocE) (auto intro: sync.intros)
  qed (simp add: its)
qed

lemma sync_step_step:
  assumes "synced base fns st" and "bodies_ok fns" and "labels st < 2 ^ 32" and "0 < scopes st"
    and "step F st = (Ok (), st')"
  shows "sync_step base fns st st'"
proof -
  let ?its = "Iters (InstrPdr st)"
  have s: "sync base (LabelStack (Stack st)) (FrameStack (Stack st)) ?its" and ne: "?its \<noteq> []"
    using assms(1,4) by (simp_all add: synced_def scopes_def)
  obtain its' t "is" where its: "?its = its' @ [(t, is)]" using ne by (metis rev_exhaust surj_pair)
  show ?thesis
  proof (cases "is")
    case (Cons i js)
    let ?st = "st\<lparr>InstrPdr := (InstrPdr st)\<lparr>Iters := its' @ [(t, js)]\<rparr>\<rparr>"
    obtain st1 where c: "charge (\<lambda>m. addInstrCost (getOpCode i) (incInstrCnt m)) ?st = (Ok (), st1)"
      and e: "executeInstr F i st1 = (Ok (), st')"
      using assms(5) its Cons by (auto simp: step_def getNextInstr_def seqM_Ok_iff)
    have n: "synced base fns ?st" "br_ok (inCall (its' @ [(t, js)])) (depth (its' @ [(t, js)])) i"
      using sync_next [OF s ne] its Cons assms(1) by (simp_all add: synced_def)
    have ctl: "ctl st1 = ctl ?st" by (rule same_ctlD [OF same_ctl_basic(6) c])
    then have "synced base fns st1" "labels st1 = labels st" "Iters (InstrPdr st1) = its' @ [(t, js)]"
      using n synced_ctl [OF ctl] by (auto simp: ctl_def labels_def)
    then show ?thesis using sync_executeInstr [OF _ assms(2) _ _ e] n(2) assms(3) by (simp add: sync_step_def)
  next
    case Nil
    have st: "st\<lparr>InstrPdr := InstrPdr st\<rparr> = st" by simp
    from s [unfolded its] show ?thesis
    proof (cases rule: sync_snocE)
      case expr
      then have "st' = st\<lparr>InstrPdr := (InstrPdr st)\<lparr>Iters := []\<rparr>\<rparr>"
        using assms(5) its Nil by (simp add: step_def getNextInstr_def getTopScopeType_def onPdr_def popInstrs_def)
      then show ?thesis using expr assms(1) by (simp add: sync_step_def synced_def labels_def sync_base)
    next
      case (block ls' l)
      then have "leaveBlock st = (Ok (), st')"
        using assms(5) its Nil by (simp add: step_def getNextInstr_def getTopScopeType_def)
      then obtain s1 where "popLabel 1 (Stack st) = (Ok (), s1)"
        "st' = st\<lparr>Stack := s1, InstrPdr := (InstrPdr st)\<lparr>Iters := its'\<rparr>\<rparr>"
        using its by (auto simp: leaveBlock_def seqM_Ok_iff onStack_def onPdr_def popInstrs_def split: prod.splits)
      then show ?thesis using popLabel_ctl [of 1 "Stack st" s1] block assms(1)
        by (simp add: sync_step_def synced_def labels_def)
    next
      case (call fs' f)
      then have "leaveFunction st = (Ok (), st')" "inCall ?its"
        using assms(5) its Nil by (simp_all add: step_def getNextInstr_def getTopScopeType_def)
      then show ?thesis using sync_leaveFunction assms(1,3) by blast
    qed
  qed
qed

text \<open>Machines without a meter that run one sequence, for the examples.\<close>

definition unmetered :: "StackManager \<Rightarrow> Instr list \<Rightarrow> unit Interp" where
  "unmetered s is = \<lparr>Stack = s, InstrPdr = \<lparr>Iters = [(SeqExpression, is)]\<rparr>,
     Meter = None, Store = newStoreManager, Host = (), InsMode = ModeInstantiate\<rparr>"

definition finished :: "StackManager \<Rightarrow> unit Interp" where
  "finished s = (unmetered s [])\<lparr>InstrPdr := \<lparr>Iters = []\<rparr>\<rparr>"

lemmas run_defs = step_def getNextInstr_def seqM_def bindM_def retM_def errM_def modifyM_def liftM_def
  charge_def getScopeSize_def getTopScopeType_def onStack_def onPdr_def enterBlock_def leaveBlock_def
  pushLabel_def popLabel_def getLabelWithCount_def eraseValues_def erase_range_def pushInstrs_def
  popInstrs_def popScopes_def blockArity_def executeConst_def push_def runBrOp_def branchToLabel_def

lemma sync_execute:
  assumes "synced base fns st" and "bodies_ok fns" and "labels st + n < 2 ^ 32"
    and "execute F n st = (Ok (), st')"
  shows "synced base fns st' \<and> getScopeSize (InstrPdr st') = 0"
  using assms(1,3,4)
proof (induction n arbitrary: st)
  case (Suc n)
  show ?case
  proof (cases "0 < getScopeSize (InstrPdr st)")
    case True
    then have "0 < scopes st" by (auto simp: getScopeSize_def scopes_def)
    moreover obtain s1 where s1: "step F st = (Ok (), s1)" "execute F n s1 = (Ok (), st')"
      using Suc.prems(3) True by (auto simp: seqM_Ok_iff)
    ultimately have "sync_step base fns st s1"
      using sync_step_step [OF Suc.prems(1) assms(2)] Suc.prems(2) by simp
    then show ?thesis using Suc.IH [of s1] s1 Suc.prems(2) by (simp add: sync_step_def)
  next
    case False
    then show ?thesis using Suc.prems by (auto simp: word_gt_0)
  qed
qed simp

lemma execute_balanced':
  assumes "synced base fns st" and "bodies_ok fns" and "labels st + n < 2 ^ 32"
    and "execute F n st = (Ok (), st')" and "scopes st' < 2 ^ 32"
  shows "LabelStack (Stack st') = [] \<and> FrameStack (Stack st') = base \<and> Iters (InstrPdr st') = []"
proof -
  have s: "sync base (LabelStack (Stack st')) (FrameStack (Stack st')) (Iters (InstrPdr st'))"
    and z: "getScopeSize (InstrPdr st') = 0"
    using sync_execute [OF assms(1-4)] by (simp_all add: synced_def)
  have "of_nat (scopes st') = (0 :: u32)" using z by (simp add: getScopeSize_def scopes_def)
  then have "scopes st' = 0" using unat_of_nat_less [of "scopes st'", where ?'a = 32] assms(5) by simp
  then have "Iters (InstrPdr st') = []" by (simp add: scopes_def)
  with s show ?thesis by (auto elim: sync.cases)
qed

section \<open>Properties\<close>

text \<open>C12. A run that ends normally has closed everything it opened: started with its three control
  stacks in step, on code whose branches stay inside their functions, the run loop never pops a label,
  a frame or an instruction scope that is not the matching one, and at the end no label and no scope
  is left and the frames are those that were there before the run.\<close>

theorem execute_balanced:
  assumes "synced base fns st" and "bodies_ok fns" and "labels st + n < 2 ^ 32"
    and "execute F n st = (Ok (), st')" and "scopes st' < 2 ^ 32"
  shows "LabelStack (Stack st') = [] \<and> FrameStack (Stack st') = base \<and> Iters (InstrPdr st') = []"
  by (rule execute_balanced' [OF assms])

theorem execute_balanced_witness:
  "\<forall>F. Iters (InstrPdr (snd (execute F 6 (unmetered newStackManager [BlockInstr Block VNone [BrInstr Br 0]])))) = []"
proof
  fix F
  let ?st = "unmetered newStackManager [BlockInstr Block VNone [BrInstr Br 0]]"
  have run: "execute F 6 ?st = (Ok (), finished newStackManager)"
    by (simp add: unmetered_def finished_def newStackManager_def run_defs eval_nat_numeral)
  have "synced [] [] ?st" "labels ?st = 0"
    by (auto simp: synced_def labels_def unmetered_def newStackManager_def newStoreManager_def emptyVec_def
        intro!: sync_expr)
  then show "Iters (InstrPdr (snd (execute F 6 ?st))) = []"
    using execute_balanced [of "[]" "[]" ?st 6 F "finished newStackManager"] run
    by (simp add: bodies_ok_def finished_def scopes_def)
qed

end
