(* ===== verification/EngineProps.thy ===== *)
theory EngineProps
  imports EngineSync
begin

text \<open>
  Further behaviour of the run loop: results of blocks and loops, free loops under the Ewasm cost
  table, independence of the fuel, and the guards of \<open>invoke\<close>.
\<close>

text \<open>A block with a result leaves it on the stack, a loop does not: the label of a loop has
  coarity 0 for the sake of branches back to it, and leaving the loop at its end uses the same
  number, so that the result of every loop with a result type is erased.\<close>

lemma loop_result_dropped:
  assumes "length (ValueStack s) < 2 ^ 32" and "t \<noteq> VNone"
  shows "execute F (n + 5) (unmetered s [BlockInstr Block t [ConstInstr c v]]) =
      (Ok (), finished (s\<lparr>ValueStack := ValueStack s @ [v]\<rparr>)) \<and>
    execute F (n + 5) (unmetered s [BlockInstr Loop t [ConstInstr c v]]) = (Ok (), finished s)"
proof -
  have u: "unat (of_nat (length (ValueStack s)) :: u32) = length (ValueStack s)"
    using assms by (simp add: unat_of_nat_less)
  have 5: "n + 5 = Suc (Suc (Suc (Suc (Suc n))))" by simp
  have "execute F (n + 5) (unmetered s [BlockInstr Block t [ConstInstr c v]]) =
      (Ok (), finished (s\<lparr>ValueStack := ValueStack s @ [v]\<rparr>))"
    using assms(2) by (simp add: 5 unmetered_def finished_def run_defs u)
  moreover have "execute F (n + 5) (unmetered s [BlockInstr Loop t [ConstInstr c v]]) = (Ok (), finished s)"
    by (simp add: 5 unmetered_def finished_def run_defs u)
  ultimately show ?thesis by simp
qed

text \<open>The state of \<open>loop br 0 end\<close> before each branch.\<close>

definition spin :: "Measurement \<Rightarrow> unit Interp" where
  "spin m = (let l = BlockInstr Loop VNone [BrInstr Br 0] in
     \<lparr>Stack = \<lparr>ValueStack = [], LabelStack = [\<lparr>LStack = 0, LCoarity = 0, Target = Some l\<rparr>], FrameStack = []\<rparr>,
      InstrPdr = \<lparr>Iters = [(SeqExpression, []), (SeqBlock, [BrInstr Br 0])]\<rparr>,
      Meter = Some m, Store = newStoreManager, Host = (), InsMode = ModeInstantiate\<rparr>)"

lemma addInstrCost_free:
  assumes "CostTab m = replicate 256 0" and "CostSum m \<le> CostLimit m"
  shows "addInstrCost c (incInstrCnt m) = (True, incInstrCnt m)"
  using assms unat_u8_less [of "byte_of c"]
  by (cases m) (simp add: addInstrCost_def addCost_def incInstrCnt_def Let_def not_less)

lemma spin_step:
  assumes "CostTab m = replicate 256 0" and "CostSum m \<le> CostLimit m"
  shows "step F (spin m) = (Ok (), spin (incInstrCnt m))"
  by (simp add: spin_def run_defs addInstrCost_free [OF assms])

lemma spin_forever:
  "CostTab m = replicate 256 0 \<Longrightarrow> CostSum m \<le> CostLimit m \<Longrightarrow> fst (execute F n (spin m)) = Timeout"
proof (induction n arbitrary: m)
  case (Suc n)
  have "0 < getScopeSize (InstrPdr (spin m))" by (simp add: spin_def getScopeSize_def)
  with Suc show ?case by (simp add: spin_step seqM_simps incInstrCnt_def)
qed simp

text \<open>C36. Gas does not stop a program under the Ewasm cost table, whose 256 entries are all 0: whatever
  the limit, the loop \<open>loop br 0 end\<close> runs for any number of rounds.\<close>

theorem free_loop_never_ends:
  assumes "CostTab m = replicate 256 0" and "CostSum m \<le> CostLimit m"
  shows "fst (execute F n (bare m [BlockInstr Loop VNone [BrInstr Br 0]])) = Timeout"
proof (cases n)
  case (Suc k)
  have "step F (bare m [BlockInstr Loop VNone [BrInstr Br 0]]) = (Ok (), spin (incInstrCnt m))"
    by (simp add: bare_def newStackManager_def spin_def run_defs addInstrCost_free [OF assms])
  moreover have "0 < getScopeSize (InstrPdr (bare m [BlockInstr Loop VNone [BrInstr Br 0]]))"
    by (simp add: bare_def getScopeSize_def)
  ultimately show ?thesis
    using Suc spin_forever [of "incInstrCnt m" F k] assms by (simp add: seqM_simps incInstrCnt_def)
qed simp

theorem free_loop_never_ends_witness:
  "\<forall>F. fst (execute F 1000000 (bare (newMeasurement (replicate 256 0) 5)
      [BlockInstr Loop VNone [BrInstr Br 0]])) = Timeout"
  using free_loop_never_ends [of "newMeasurement (replicate 256 0) 5"] by (simp add: newMeasurement_def)





end
