(* ===== verification/FormChecker.thy ===== *)
theory FormChecker
  imports Instances
begin

text \<open>
  \<open>lib/validator/formchecker.cpp\<close>: the stack-typing pass of the validator. The two deques are lists
  with the front first. \<open>CtrlStack[0]\<close> of an empty deque is undefined, as is a shift of \<open>1UL\<close> by 64
  or more, which is how an alignment hint is read.
\<close>

section \<open>State\<close>

datatype VType = Unknown | VtI32 | VtI64 | VtF32 | VtF64

record CtrlFrame =
  LabelTypes :: "VType list"
  EndTypes :: "VType list"
  Height :: nat
  IsUnreachable :: bool

record FormChecker =
  CTypes :: "(VType list \<times> VType list) list"
  CFuncs :: "u32 list"
  CTables :: "ElemType list"
  CMems :: "u32 list"
  CGlobals :: "(VType \<times> ValMut) list"
  NumImportGlobals :: u32
  CLocals :: "VType list"
  CReturns :: "VType list"
  CtrlStack :: "CtrlFrame list"
  ValStack :: "VType list"

type_synonym 'a check = "(FormChecker, 'a) exec"

definition newFormChecker :: FormChecker where
  "newFormChecker = \<lparr>CTypes = [], CFuncs = [], CTables = [], CMems = [], CGlobals = [],
     NumImportGlobals = 0, CLocals = [], CReturns = [], CtrlStack = [], ValStack = []\<rparr>"

definition resetChecker :: "bool \<Rightarrow> FormChecker \<Rightarrow> FormChecker" where
  "resetChecker cleanGlobal c =
     (let c1 = c\<lparr>ValStack := [], CtrlStack := [], CLocals := [], CReturns := []\<rparr> in
      if cleanGlobal then c1\<lparr>CTypes := [], CFuncs := [], CTables := [], CMems := [], CGlobals := [],
        NumImportGlobals := 0\<rparr>
      else c1)"

fun ASTToVType :: "ValType \<Rightarrow> VType" where
  "ASTToVType I32 = VtI32"
| "ASTToVType I64 = VtI64"
| "ASTToVType F32 = VtF32"
| "ASTToVType F64 = VtF64"
| "ASTToVType _ = Unknown"

section \<open>Contexts\<close>

definition addType :: "FunctionType \<Rightarrow> FormChecker \<Rightarrow> FormChecker" where
  "addType f c = c\<lparr>CTypes := CTypes c @ [(map ASTToVType (ParamTypes f), map ASTToVType (ReturnTypes f))]\<rparr>"

definition addFunc :: "u32 \<Rightarrow> FormChecker \<Rightarrow> FormChecker" where
  "addFunc t c = (if length (CTypes c) > unat t then c\<lparr>CFuncs := CFuncs c @ [t]\<rparr> else c)"

definition addTable :: "TableType \<Rightarrow> FormChecker \<Rightarrow> FormChecker" where
  "addTable t c = c\<lparr>CTables := CTables c @ [TabElem t]\<rparr>"

definition addMemory :: "MemoryType \<Rightarrow> FormChecker \<Rightarrow> FormChecker" where
  "addMemory m c = c\<lparr>CMems := CMems c @ [of_nat (length (CMems c))]\<rparr>"

definition addGlobal :: "GlobalType \<Rightarrow> bool \<Rightarrow> FormChecker \<Rightarrow> FormChecker" where
  "addGlobal g isImport c =
     (let c1 = c\<lparr>CGlobals := CGlobals c @ [(ASTToVType (GlobType g), GlobMut g)]\<rparr> in
      if isImport then c1\<lparr>NumImportGlobals := NumImportGlobals c1 + 1\<rparr> else c1)"

definition addLocal :: "VType \<Rightarrow> FormChecker \<Rightarrow> FormChecker" where
  "addLocal v c = c\<lparr>CLocals := CLocals c @ [v]\<rparr>"

section \<open>Stack operations\<close>

definition pushType :: "VType \<Rightarrow> unit check" where
  "pushType v = modifyM (\<lambda>c. c\<lparr>ValStack := v # ValStack c\<rparr>)"

definition pushTypes :: "VType list \<Rightarrow> unit check" where
  "pushTypes vs = forM pushType vs"

definition popType :: "VType check" where
  "popType c = (case CtrlStack c of
       [] \<Rightarrow> (Undef, c)
     | f # _ \<Rightarrow>
         if length (ValStack c) = Height f then
           if IsUnreachable f then (Ok Unknown, c) else (Err ValidationFailed, c)
         else (case ValStack c of [] \<Rightarrow> (Undef, c) | v # vs \<Rightarrow> (Ok v, c\<lparr>ValStack := vs\<rparr>)))"

definition popTypeE :: "VType \<Rightarrow> VType check" where
  "popTypeE e = bindM popType (\<lambda>r.
     if r = Unknown then retM e else if e = Unknown then retM r
     else if r \<noteq> e then errM ValidationFailed else retM r)"

definition popTypes :: "VType list \<Rightarrow> unit check" where
  "popTypes vs = forM (\<lambda>v. bindM (popTypeE v) (\<lambda>_. retM ())) (rev vs)"

definition pushCtrl :: "VType list \<Rightarrow> VType list \<Rightarrow> unit check" where
  "pushCtrl label out = modifyM (\<lambda>c. c\<lparr>CtrlStack := \<lparr>LabelTypes = label, EndTypes = out,
     Height = length (ValStack c), IsUnreachable = False\<rparr> # CtrlStack c\<rparr>)"

definition popCtrl :: "VType list check" where
  "popCtrl c = (case CtrlStack c of
       [] \<Rightarrow> (Err ValidationFailed, c)
     | f # _ \<Rightarrow> seqM (popTypes (EndTypes f)) (\<lambda>c.
         if length (ValStack c) \<noteq> Height f then (Err ValidationFailed, c)
         else (Ok (EndTypes f), c\<lparr>CtrlStack := tl (CtrlStack c)\<rparr>)) c)"

text \<open>\<open>while (ValStack.size() > Height) popType();\<close>\<close>

fun popWhile :: "nat \<Rightarrow> VType list \<Rightarrow> VType list" where
  "popWhile h [] = []"
| "popWhile h (v # vs) = (if length (v # vs) > h then popWhile h vs else v # vs)"

definition unreachable :: "unit check" where
  "unreachable c = (case CtrlStack c of
       [] \<Rightarrow> (Undef, c)
     | f # fs \<Rightarrow> (Ok (), c\<lparr>ValStack := popWhile (Height f) (ValStack c),
                           CtrlStack := f\<lparr>IsUnreachable := True\<rparr> # fs\<rparr>))"

definition StackTrans :: "VType list \<Rightarrow> VType list \<Rightarrow> unit check" where
  "StackTrans ts ps = seqM (popTypes ts) (pushTypes ps)"

section \<open>Instructions\<close>

fun checkControl :: "ControlOp \<Rightarrow> unit check" where
  "checkControl ControlOp.Unreachable = unreachable"
| "checkControl Nop = retM ()"
| "checkControl Return = seqM (\<lambda>c. popTypes (CReturns c) c) unreachable"

definition blockType :: "ValType \<Rightarrow> VType list" where
  "blockType t = (if t \<noteq> VNone then [ASTToVType t] else [])"

text \<open>The label types of the \<open>n\<close>-th control frame; the callers have checked that it exists.\<close>

definition labelTypes :: "FormChecker \<Rightarrow> u32 \<Rightarrow> VType list" where
  "labelTypes c n = LabelTypes (CtrlStack c ! unat n)"

definition inCtrl :: "FormChecker \<Rightarrow> u32 \<Rightarrow> bool" where
  "inCtrl c n \<longleftrightarrow> unat n < length (CtrlStack c)"

definition checkBr :: "BrOp \<Rightarrow> u32 \<Rightarrow> unit check" where
  "checkBr op n c =
     (if \<not> inCtrl c n then (Err ValidationFailed, c)
      else case op of
          Br \<Rightarrow> seqM (popTypes (labelTypes c n)) unreachable c
        | Br_if \<Rightarrow> bindM (popTypeE VtI32) (\<lambda>_. seqM (popTypes (labelTypes c n)) (pushTypes (labelTypes c n))) c)"

definition checkBrTable :: "u32 list \<Rightarrow> u32 \<Rightarrow> unit check" where
  "checkBrTable tab m c =
     (if \<not> inCtrl c m then (Err ValidationFailed, c)
      else if \<not> list_all (\<lambda>n. inCtrl c n \<and> labelTypes c n = labelTypes c m) tab then (Err ValidationFailed, c)
      else bindM (popTypeE VtI32) (\<lambda>_. seqM (popTypes (labelTypes c m)) unreachable) c)"

definition funcType :: "FormChecker \<Rightarrow> u32 \<Rightarrow> (VType list \<times> VType list) Expect" where
  "funcType c n = obind (at (CFuncs c) n) (at (CTypes c))"

definition checkCall :: "CallOp \<Rightarrow> u32 \<Rightarrow> unit check" where
  "checkCall op n c = (case op of
       Call \<Rightarrow>
         if length (CFuncs c) \<le> unat n then (Err ValidationFailed, c)
         else bindM (liftM (funcType c n)) (\<lambda>(ps, rs). StackTrans ps rs) c
     | Call_indirect \<Rightarrow>
         if CTables c = [] \<or> hd (CTables c) \<noteq> FuncRef \<or> length (CTypes c) \<le> unat n then (Err ValidationFailed, c)
         else bindM (popTypeE VtI32) (\<lambda>_. bindM (liftM (at (CTypes c) n)) (\<lambda>(ps, rs). StackTrans ps rs)) c)"

fun checkParametric :: "ParametricOp \<Rightarrow> unit check" where
  "checkParametric Drop = StackTrans [Unknown] []"
| "checkParametric Select = bindM (popTypeE VtI32) (\<lambda>_. bindM popType (\<lambda>t1. bindM (popTypeE t1) pushType))"

definition checkVariable :: "VariableOp \<Rightarrow> u32 \<Rightarrow> unit check" where
  "checkVariable op i c =
     (let isLocal = (op \<in> {Local__get, Local__set, Local__tee}) in
      if (if isLocal then length (CLocals c) else length (CGlobals c)) \<le> unat i then (Err ValidationFailed, c)
      else
        let t = (if isLocal then CLocals c ! unat i else fst (CGlobals c ! unat i)) in
        if op = Global__set \<and> snd (CGlobals c ! unat i) \<noteq> Var then (Err ValidationFailed, c)
        else seqM (if op \<in> {Global__set, Local__set, Local__tee} then bindM (popTypeE t) (\<lambda>_. retM ()) else retM ())
                  (if op \<in> {Local__get, Local__tee, Global__get} then pushType t else retM ()) c)"

text \<open>The bit width of an access, from the cases that fall through; the last two have none.\<close>

fun accessBits :: "MemoryOp \<Rightarrow> u32 option" where
  "accessBits Memory__size = None"
| "accessBits Memory__grow = None"
| "accessBits op =
     (if op \<in> {I64__load, F64__load, I64__store, F64__store} then Some 64
      else if op \<in> {I32__load, F32__load, I32__store, F32__store, I64__load32_s, I64__load32_u, I64__store32} then Some 32
      else if op \<in> {I32__load16_s, I32__load16_u, I64__load16_s, I64__load16_u, I32__store16, I64__store16} then Some 16
      else Some 8)"

fun memoryType :: "MemoryOp \<Rightarrow> VType list \<times> VType list" where
  "memoryType I32__load = ([VtI32], [VtI32])"
| "memoryType I32__load8_s = ([VtI32], [VtI32])"
| "memoryType I32__load8_u = ([VtI32], [VtI32])"
| "memoryType I32__load16_s = ([VtI32], [VtI32])"
| "memoryType I32__load16_u = ([VtI32], [VtI32])"
| "memoryType I64__load = ([VtI32], [VtI64])"
| "memoryType I64__load8_s = ([VtI32], [VtI64])"
| "memoryType I64__load8_u = ([VtI32], [VtI64])"
| "memoryType I64__load16_s = ([VtI32], [VtI64])"
| "memoryType I64__load16_u = ([VtI32], [VtI64])"
| "memoryType I64__load32_s = ([VtI32], [VtI64])"
| "memoryType I64__load32_u = ([VtI32], [VtI64])"
| "memoryType F32__load = ([VtI32], [VtF32])"
| "memoryType F64__load = ([VtI32], [VtF64])"
| "memoryType I32__store = ([VtI32, VtI32], [])"
| "memoryType I32__store8 = ([VtI32, VtI32], [])"
| "memoryType I32__store16 = ([VtI32, VtI32], [])"
| "memoryType I64__store = ([VtI32, VtI64], [])"
| "memoryType I64__store8 = ([VtI32, VtI64], [])"
| "memoryType I64__store16 = ([VtI32, VtI64], [])"
| "memoryType I64__store32 = ([VtI32, VtI64], [])"
| "memoryType F32__store = ([VtI32, VtF32], [])"
| "memoryType F64__store = ([VtI32, VtF64], [])"
| "memoryType Memory__size = ([], [VtI32])"
| "memoryType Memory__grow = ([VtI32], [VtI32])"

definition checkMemory :: "MemoryOp \<Rightarrow> u32 \<Rightarrow> unit check" where
  "checkMemory op align c =
     (if CMems c = [] then (Err ValidationFailed, c)
      else
        let types = (\<lambda>(ins, outs). StackTrans ins outs) (memoryType op) in
        case accessBits op of
          None \<Rightarrow> types c
        | Some n \<Rightarrow>
            if 64 \<le> unat align then (Undef, c)
            else if 2 ^ unat align > unat n div 8 then (Err ValidationFailed, c)
            else types c)"

fun constType :: "ConstOp \<Rightarrow> VType" where
  "constType I32__const = VtI32"
| "constType I64__const = VtI64"
| "constType F32__const = VtF32"
| "constType F64__const = VtF64"

fun vtI :: "width \<Rightarrow> VType" where "vtI N32 = VtI32" | "vtI N64 = VtI64"
fun vtF :: "width \<Rightarrow> VType" where "vtF N32 = VtF32" | "vtF N64 = VtF64"

fun unaryType :: "UnaryOp \<Rightarrow> VType \<times> VType" where
  "unaryType (IEqz w) = (vtI w, VtI32)"
| "unaryType (IUn w _) = (vtI w, vtI w)"
| "unaryType (FUn w _) = (vtF w, vtF w)"
| "unaryType IWrap = (VtI64, VtI32)"
| "unaryType (ITrunc wo wi _) = (vtF wi, vtI wo)"
| "unaryType (IExtend _) = (VtI32, VtI64)"
| "unaryType (FConvert wo wi _) = (vtI wi, vtF wo)"
| "unaryType FDemote = (VtF64, VtF32)"
| "unaryType FPromote = (VtF32, VtF64)"
| "unaryType (IReinterpret w) = (vtF w, vtI w)"
| "unaryType (FReinterpret w) = (vtI w, vtF w)"

fun binaryType :: "BinaryOp \<Rightarrow> VType \<times> VType" where
  "binaryType (IRel w _) = (vtI w, VtI32)"
| "binaryType (FRel w _) = (vtF w, VtI32)"
| "binaryType (IBin w _) = (vtI w, vtI w)"
| "binaryType (FBin w _) = (vtF w, vtF w)"

text \<open>A call whose result is discarded.\<close>

definition ignore :: "'a check \<Rightarrow> unit check" where
  "ignore m c = (case m c of (Undef, c') \<Rightarrow> (Undef, c') | (Timeout, c') \<Rightarrow> (Timeout, c') | (_, c') \<Rightarrow> (Ok (), c'))"

fun checkInstr :: "Instr \<Rightarrow> unit check" and checkInstrs :: "Instr list \<Rightarrow> unit check" where
  "checkInstr (ControlInstr op) = checkControl op"
| "checkInstr (BlockInstr op t body) =
     seqM (case op of Block \<Rightarrow> pushCtrl (blockType t) (blockType t) | Loop \<Rightarrow> pushCtrl [] (blockType t))
    (seqM (checkInstrs body)
    (bindM popCtrl pushTypes))"
| "checkInstr (IfElseInstr t ifs els) =
     seqM (ignore (popTypeE VtI32))
    (seqM (pushCtrl (blockType t) (blockType t))
    (seqM (checkInstrs ifs)
    (seqM (if els \<noteq> [] then bindM popCtrl (\<lambda>rs. seqM (pushCtrl rs rs) (checkInstrs els)) else retM ())
    (bindM popCtrl pushTypes))))"
| "checkInstr (BrInstr op n) = checkBr op n"
| "checkInstr (BrTableInstr tab m) = checkBrTable tab m"
| "checkInstr (CallInstr op n) = checkCall op n"
| "checkInstr (ParametricInstr op) = checkParametric op"
| "checkInstr (VariableInstr op i) = checkVariable op i"
| "checkInstr (MemoryInstr op align off) = checkMemory op align"
| "checkInstr (ConstInstr op v) = StackTrans [] [constType op]"
| "checkInstr (UnaryInstr op) = (case unaryType op of (a, r) \<Rightarrow> StackTrans [a] [r])"
| "checkInstr (BinaryInstr op) = (case binaryType op of (a, r) \<Rightarrow> StackTrans [a, a] [r])"
| "checkInstrs [] = retM ()"
| "checkInstrs (i # is) = seqM (checkInstr i) (checkInstrs is)"

text \<open>The two overloads differ in the type of the results; the second converts.\<close>

definition validateV :: "Instr list \<Rightarrow> VType list \<Rightarrow> unit check" where
  "validateV is rets =
     seqM (modifyM (\<lambda>c. c\<lparr>CReturns := CReturns c @ rets\<rparr>))
    (seqM (\<lambda>c. pushCtrl [] (CReturns c) c) (checkInstrs is))"

definition validateA :: "Instr list \<Rightarrow> ValType list \<Rightarrow> unit check" where
  "validateA is rets = validateV is (map ASTToVType rets)"

end
