(* ===== verification/CheckerProps.thy ===== *)
theory CheckerProps
  imports FormChecker EngineProps
begin

text \<open>
  What the stack-typing pass guarantees. The contract \<open>safe\<close> of a checker operation: started with a
  control frame and the operands of that frame on top, it is defined, and when it succeeds it has
  left the contexts, the outer control frames and the operands below the current frame as they were.
  Every instruction keeps it, by induction on the nesting of blocks; on the way the same induction
  shows that the branches of accepted code have targets. The last part compares the types the pass
  assigns with what the interpreter does.
\<close>

section \<open>The contract of the checker operations\<close>

definition low :: "nat \<Rightarrow> 'a list \<Rightarrow> 'a list" where
  "low h vs = drop (length vs - h) vs"

definition chk_ok :: "FormChecker \<Rightarrow> bool" where
  "chk_ok c \<longleftrightarrow> CtrlStack c \<noteq> [] \<and> Height (hd (CtrlStack c)) \<le> length (ValStack c) \<and>
     (\<forall>t \<in> set (CFuncs c). unat t < length (CTypes c))"

definition ctx :: "FormChecker \<Rightarrow> _" where
  "ctx c = (CTypes c, CFuncs c, CTables c, CMems c, CGlobals c, NumImportGlobals c, CLocals c, CReturns c)"

definition frame_rel :: "FormChecker \<Rightarrow> FormChecker \<Rightarrow> bool" where
  "frame_rel c c' \<longleftrightarrow> ctx c' = ctx c \<and>
     (\<exists>f fs b. CtrlStack c = f # fs \<and> CtrlStack c' = f\<lparr>IsUnreachable := b\<rparr> # fs \<and>
        Height f \<le> length (ValStack c') \<and> low (Height f) (ValStack c') = low (Height f) (ValStack c))"

definition safe_at :: "FormChecker \<Rightarrow> 'a check \<Rightarrow> bool" where
  "safe_at c m \<longleftrightarrow> (case m c of (r, c') \<Rightarrow> r \<noteq> Undef \<and> r \<noteq> Timeout \<and> (\<forall>x. r = Ok x \<longrightarrow> frame_rel c c'))"

definition safe :: "'a check \<Rightarrow> bool" where
  "safe m \<longleftrightarrow> (\<forall>c. chk_ok c \<longrightarrow> safe_at c m)"

named_theorems safe_intros "checker operations that keep the contract"

lemma low_Cons: "h \<le> length vs \<Longrightarrow> low h (v # vs) = low h vs"
  by (simp add: low_def Suc_diff_le)

lemma low_all: "low (length vs) vs = vs"
  by (simp add: low_def)

lemma low_append: "low (length vs) (us @ vs) = vs"
  by (simp add: low_def)

lemma popWhile_low: "h \<le> length vs \<Longrightarrow> popWhile h vs = low h vs"
  by (induction vs) (auto simp: low_def Suc_diff_le le_Suc_eq)

lemma length_low: "h \<le> length vs \<Longrightarrow> length (low h vs) = h"
  by (simp add: low_def)

lemma low_low: "h \<le> length vs \<Longrightarrow> low h (low h vs) = low h vs"
  by (simp add: low_def)

lemma frame_rel_refl: "chk_ok c \<Longrightarrow> frame_rel c c"
proof (cases "CtrlStack c")
  case (Cons f fs)
  assume "chk_ok c"
  then show ?thesis using Cons
    by (auto simp: frame_rel_def chk_ok_def intro!: exI [of _ "IsUnreachable f"])
qed (simp add: chk_ok_def)

lemma frame_rel_chk_ok: "chk_ok c \<Longrightarrow> frame_rel c c' \<Longrightarrow> chk_ok c'"
  by (auto simp: frame_rel_def chk_ok_def ctx_def)

lemma frame_rel_trans: "frame_rel a b \<Longrightarrow> frame_rel b c \<Longrightarrow> frame_rel a c"
  unfolding frame_rel_def by (clarsimp; blast)

lemma frame_rel_ctrl: "frame_rel c c' \<Longrightarrow> length (CtrlStack c') = length (CtrlStack c)"
  by (auto simp: frame_rel_def)

lemma safeI: "(\<And>c. chk_ok c \<Longrightarrow> safe_at c m) \<Longrightarrow> safe m"
  by (simp add: safe_def)

lemma safe_at_Ok: "safe_at c m \<Longrightarrow> m c = (Ok x, c') \<Longrightarrow> frame_rel c c'"
  by (auto simp: safe_at_def)

lemma safe_at_bindM:
  assumes "chk_ok c" and "safe_at c m" and "\<And>x c'. m c = (Ok x, c') \<Longrightarrow> safe_at c' (f x)"
  shows "safe_at c (bindM m f)"
proof (cases "m c")
  case (Pair r c1)
  show ?thesis
  proof (cases r)
    case (Ok x)
    then have "frame_rel c c1" "safe_at c1 (f x)" using assms Pair by (auto simp: safe_at_def)
    then show ?thesis using Pair Ok by (auto simp: safe_at_def bindM_def intro: frame_rel_trans split: prod.splits)
  qed (use assms(2) Pair in \<open>auto simp: safe_at_def bindM_def\<close>)
qed

lemma safe_bindM [safe_intros]:
  assumes "safe m" and "\<And>x. safe (f x)"
  shows "safe (bindM m f)"
proof (rule safeI)
  fix c assume c: "chk_ok c"
  then have "safe_at c m" using assms(1) by (simp add: safe_def)
  then show "safe_at c (bindM m f)"
    using assms(2) frame_rel_chk_ok [OF c] by (auto intro!: safe_at_bindM c simp: safe_def dest: safe_at_Ok)
qed

lemma safe_seqM [safe_intros]: "safe m \<Longrightarrow> safe n \<Longrightarrow> safe (seqM m n)"
  unfolding seqM_def by (rule safe_bindM)

lemma safe_basic [safe_intros]: "safe (retM x)" "safe (errM e)"
  by (auto intro!: safeI simp: safe_at_def monad_simps frame_rel_refl)

lemma safe_if [safe_intros]: "safe m \<Longrightarrow> safe n \<Longrightarrow> safe (if b then m else n)"
  by simp

lemma safe_forM [safe_intros]: "(\<And>x. safe (f x)) \<Longrightarrow> safe (forM f xs)"
  by (induction xs) (auto intro: safe_intros)

text \<open>The result of an operation that also may fail after popping a value.\<close>

lemma popType_rel: "chk_ok c \<Longrightarrow> frame_rel c (snd (popType c)) \<and> fst (popType c) \<noteq> Undef \<and> fst (popType c) \<noteq> Timeout"
proof (cases "CtrlStack c")
  case (Cons f fs)
  assume c: "chk_ok c"
  show ?thesis
  proof (cases "length (ValStack c) = Height f")
    case True
    then show ?thesis using Cons c frame_rel_refl [OF c] by (simp add: popType_def)
  next
    case False
    then obtain v vs where vs: "ValStack c = v # vs" "Height f \<le> length vs"
      using c Cons by (cases "ValStack c") (auto simp: chk_ok_def)
    then show ?thesis using Cons False
      by (auto simp: popType_def frame_rel_def ctx_def low_Cons intro!: exI [of _ "IsUnreachable f"])
  qed
qed (simp add: chk_ok_def)

lemma safe_popType [safe_intros]: "safe popType"
  using popType_rel by (auto intro!: safeI simp: safe_at_def split: prod.split) (metis fst_conv snd_conv)+

lemma safe_popTypeE [safe_intros]: "safe (popTypeE e)"
  unfolding popTypeE_def by (intro safe_intros)

lemma safe_popTypes [safe_intros]: "safe (popTypes vs)"
  unfolding popTypes_def by (intro safe_intros)

lemma safe_pushType [safe_intros]: "safe (pushType v)"
proof (rule safeI)
  fix c assume c: "chk_ok c"
  then obtain f fs where "CtrlStack c = f # fs" by (cases "CtrlStack c") (auto simp: chk_ok_def)
  with c show "safe_at c (pushType v)"
    by (auto simp: safe_at_def pushType_def modifyM_def frame_rel_def chk_ok_def ctx_def low_Cons
        intro!: exI [of _ "IsUnreachable f"])
qed

lemma safe_pushTypes [safe_intros]: "safe (pushTypes vs)"
  unfolding pushTypes_def by (intro safe_intros)

lemma safe_StackTrans [safe_intros]: "safe (StackTrans a b)"
  unfolding StackTrans_def by (intro safe_intros)

lemma safe_unreachable [safe_intros]: "safe unreachable"
proof (rule safeI)
  fix c assume "chk_ok c"
  then show "safe_at c unreachable"
    by (cases "CtrlStack c") (auto simp: safe_at_def unreachable_def frame_rel_def chk_ok_def ctx_def
        popWhile_low length_low low_low intro!: exI [of _ True])
qed

lemma safe_ignore [safe_intros]: "safe (ignore (popTypeE e))"
proof (rule safeI)
  fix c assume c: "chk_ok c"
  note p = popType_rel [OF c]
  show "safe_at c (ignore (popTypeE e))"
  proof (cases "popType c")
    case (Pair r c')
    then show ?thesis using p
      by (cases r) (auto simp: safe_at_def ignore_def popTypeE_def bindM_def retM_def errM_def)
  qed
qed

text \<open>Operations chosen by the state.\<close>

lemma safe_state: "(\<And>c. chk_ok c \<Longrightarrow> safe (m c)) \<Longrightarrow> safe (\<lambda>c. m c c)"
  by (auto simp: safe_def safe_at_def)

lemma safe_error: "(\<And>c. chk_ok c \<Longrightarrow> \<not> b c \<Longrightarrow> safe_at c m) \<Longrightarrow>
    safe (\<lambda>c. if b c then (Err e, c) else m c)"
  by (auto simp: safe_def safe_at_def)

section \<open>Every instruction keeps the contract\<close>

lemma safe_checkControl [safe_intros]: "safe (checkControl op)"
proof (cases op)
  case Return
  have "safe (\<lambda>c. popTypes (CReturns c) c)" by (rule safe_state) (rule safe_popTypes)
  with Return show ?thesis by (auto intro: safe_intros)
qed (auto intro: safe_intros)

lemma safe_checkBr [safe_intros]: "safe (checkBr op n)"
proof -
  have "safe (\<lambda>c. (case op of
          Br \<Rightarrow> seqM (popTypes (labelTypes c n)) unreachable
        | Br_if \<Rightarrow> bindM (popTypeE VtI32) (\<lambda>_. seqM (popTypes (labelTypes c n)) (pushTypes (labelTypes c n)))) c)"
    by (rule safe_state) (auto intro!: safe_intros split: BrOp.split)
  then show ?thesis
    unfolding checkBr_def safe_def safe_at_def by (auto split: BrOp.splits)
qed

lemma safe_checkBrTable [safe_intros]: "safe (checkBrTable tab m)"
proof -
  have "safe (\<lambda>c. bindM (popTypeE VtI32) (\<lambda>_. seqM (popTypes (labelTypes c m)) unreachable) c)"
    by (rule safe_state) (intro safe_intros)
  then show ?thesis unfolding checkBrTable_def safe_def safe_at_def by auto
qed

lemma safe_liftM: "r \<noteq> Undef \<Longrightarrow> r \<noteq> Timeout \<Longrightarrow> safe (liftM r)"
  by (auto intro!: safeI simp: safe_at_def liftM_def frame_rel_refl)

lemma safe_checkCall [safe_intros]: "safe (checkCall op n)"
proof (rule safeI)
  fix c assume c: "chk_ok c"
  have r: "safe (\<lambda>d. bindM (liftM (Ok t)) (\<lambda>(ps, rs). StackTrans ps rs) d)" for t
    by (cases t) (simp add: safe_intros bindM_def liftM_def)
  show "safe_at c (checkCall op n)"
  proof (cases op)
    case Call
    show ?thesis
    proof (cases "length (CFuncs c) \<le> unat n")
      case False
      then have "CFuncs c ! unat n \<in> set (CFuncs c)" by simp
      then have "funcType c n = Ok (CTypes c ! unat (CFuncs c ! unat n))"
        using False c by (simp add: funcType_def at_def obind_def chk_ok_def)
      then show ?thesis using Call False r c by (simp add: checkCall_def safe_def safe_at_def)
    qed (simp add: Call checkCall_def safe_at_def)
  next
    case Call_indirect
    have "safe (bindM (popTypeE VtI32) (\<lambda>_. bindM (liftM (Ok t)) (\<lambda>(ps, rs). StackTrans ps rs)))" for t
      by (intro safe_intros safe_liftM) (auto intro: safe_intros split: prod.split)
    then show ?thesis using Call_indirect c by (auto simp: checkCall_def safe_def safe_at_def at_def)
  qed
qed

lemma safe_checkParametric [safe_intros]: "safe (checkParametric op)"
  by (cases op) (auto intro!: safe_intros)

lemma safe_checkVariable [safe_intros]: "safe (checkVariable op i)"
proof -
  have "safe (seqM (if p then bindM (popTypeE t) (\<lambda>_. retM ()) else retM ()) (if q then pushType t else retM ()))" for p q t
    by (intro safe_intros)
  then show ?thesis by (auto simp: checkVariable_def safe_def safe_at_def Let_def)
qed

lemma safe_checkMemory: "unat align < 64 \<Longrightarrow> safe (checkMemory op align)"
proof -
  assume a: "unat align < 64"
  have "safe (case memoryType op of (ins, outs) \<Rightarrow> StackTrans ins outs)"
    by (auto intro: safe_intros split: prod.split)
  with a show ?thesis by (auto simp: checkMemory_def safe_def safe_at_def Let_def split: option.splits)
qed

text \<open>Alignment hints that can be shifted by.\<close>

fun aligned :: "Instr \<Rightarrow> bool" where
  "aligned (BlockInstr _ _ body) = list_all aligned body"
| "aligned (IfElseInstr _ a b) = (list_all aligned a \<and> list_all aligned b)"
| "aligned (MemoryInstr _ a _) = (unat a < 64)"
| "aligned _ = True"

text \<open>
  The induction carries the contract, defined only under \<open>al\<close>, and a fact \<open>P\<close> about accepted code.
\<close>

definition good :: "bool \<Rightarrow> bool \<Rightarrow> FormChecker \<Rightarrow> 'a check \<Rightarrow> bool" where
  "good al P c m \<longleftrightarrow> (case m c of (r, c') \<Rightarrow>
     (al \<longrightarrow> r \<noteq> Undef) \<and> r \<noteq> Timeout \<and> (\<forall>x. r = Ok x \<longrightarrow> frame_rel c c' \<and> P))"

lemma good_safe: "safe m \<Longrightarrow> chk_ok c \<Longrightarrow> P \<Longrightarrow> good al P c m"
  by (auto simp: safe_def safe_at_def good_def)

lemma good_seqM:
  assumes "good al P c m" and "\<And>c'. m c = (Ok (), c') \<Longrightarrow> frame_rel c c' \<Longrightarrow> good al Q c' n"
  shows "good al (P \<and> Q) c (seqM m n)"
proof (cases "m c")
  case (Pair r c1)
  show ?thesis
  proof (cases r)
    case (Ok x)
    then have "frame_rel c c1 \<and> P" "good al Q c1 n" using assms Pair by (auto simp: good_def)
    then show ?thesis using Pair Ok
      by (auto simp: good_def seqM_def bindM_def intro: frame_rel_trans split: prod.splits)
  qed (use assms(1) Pair in \<open>auto simp: good_def seqM_def bindM_def\<close>)
qed

lemma good_mono: "good al P c m \<Longrightarrow> (al' \<Longrightarrow> al) \<Longrightarrow> (P \<Longrightarrow> Q) \<Longrightarrow> good al' Q c m"
  by (auto simp: good_def)

text \<open>The body of a block is checked in a frame of its own, and closing it gives the outer state back.\<close>

definition pushed :: "VType list \<Rightarrow> VType list \<Rightarrow> FormChecker \<Rightarrow> FormChecker" where
  "pushed l e c = c\<lparr>CtrlStack := \<lparr>LabelTypes = l, EndTypes = e, Height = length (ValStack c),
     IsUnreachable = False\<rparr> # CtrlStack c\<rparr>"

lemma pushCtrl_pushed: "pushCtrl l e c = (Ok (), pushed l e c)"
  by (simp add: pushCtrl_def modifyM_def pushed_def)

lemma chk_ok_pushed: "chk_ok c \<Longrightarrow> chk_ok (pushed l e c)"
  by (simp add: chk_ok_def pushed_def)

lemma checker_eqI:
  "ctx c = ctx d \<Longrightarrow> CtrlStack c = CtrlStack d \<Longrightarrow> ValStack c = ValStack d \<Longrightarrow> (c :: FormChecker) = d"
  by (simp add: ctx_def)

lemma popCtrl_pushed:
  assumes c: "chk_ok c" and rel: "frame_rel (pushed l e c) c2"
  shows "case popCtrl c2 of (r, c3) \<Rightarrow> r \<noteq> Undef \<and> r \<noteq> Timeout \<and> (\<forall>x. r = Ok x \<longrightarrow> x = e \<and> c3 = c)"
proof -
  have c2: "chk_ok c2" by (rule frame_rel_chk_ok [OF chk_ok_pushed [OF c] rel])
  obtain g where g: "CtrlStack c2 = g # CtrlStack c" "EndTypes g = e" "Height g = length (ValStack c)"
    using rel by (auto simp: frame_rel_def pushed_def)
  have "safe_at c2 (popTypes e)" using safe_popTypes c2 by (simp add: safe_def)
  then obtain r d where d: "popTypes e c2 = (r, d)" "r \<noteq> Undef" "r \<noteq> Timeout" "\<And>x. r = Ok x \<Longrightarrow> frame_rel c2 d"
    by (auto simp: safe_at_def split: prod.splits)
  have "d\<lparr>CtrlStack := tl (CtrlStack d)\<rparr> = c" if "r = Ok x" "length (ValStack d) = length (ValStack c)" for x
  proof -
    have f: "frame_rel (pushed l e c) d" using frame_rel_trans [OF rel d(4) [OF that(1)]] .
    have "low (length (ValStack c)) (ValStack d) = low (length (ValStack c)) (ValStack c)"
      "ctx d = ctx c" "tl (CtrlStack d) = CtrlStack c"
      using f by (auto simp: frame_rel_def pushed_def ctx_def)
    moreover have "ValStack d = ValStack c" using calculation(1) that(2) by (simp add: low_def)
    moreover have "ctx (d\<lparr>CtrlStack := fs\<rparr>) = ctx d" for fs by (simp add: ctx_def)
    ultimately show ?thesis by (intro checker_eqI) simp_all
  qed
  with d g show ?thesis by (cases r) (auto simp: popCtrl_def seqM_def bindM_def)
qed

lemma good_block:
  assumes "chk_ok c" and "good al P (pushed l e c) body"
  shows "good al P c (seqM (pushCtrl l e) (seqM body (bindM popCtrl pushTypes)))"
proof (cases "body (pushed l e c)")
  case (Pair r c2)
  show ?thesis
  proof (cases r)
    case (Ok x)
    with assms(2) Pair have rel: "frame_rel (pushed l e c) c2" and P by (auto simp: good_def)
    obtain r3 c3 where c3: "popCtrl c2 = (r3, c3)" by fastforce
    note p = popCtrl_pushed [OF assms(1) rel, unfolded c3]
    show ?thesis
    proof (cases r3)
      case (Ok ts)
      then have "c3 = c" using p by simp
      then have "seqM (pushCtrl l e) (seqM body (bindM popCtrl pushTypes)) c = pushTypes ts c"
        using Pair \<open>r = Ok x\<close> c3 Ok by (simp add: seqM_def bindM_def pushCtrl_pushed)
      with good_safe [OF safe_pushTypes assms(1) \<open>P\<close>] show ?thesis by (simp add: good_def)
    qed (use Pair \<open>r = Ok x\<close> c3 p in \<open>auto simp: good_def seqM_def bindM_def pushCtrl_pushed\<close>)
  qed (use assms(2) Pair in \<open>auto simp: good_def seqM_def bindM_def pushCtrl_pushed\<close>)
qed

text \<open>Two bodies in turn, as for \<open>if\<close> and \<open>else\<close>.\<close>

lemma good_if_else:
  assumes "chk_ok c" and "good al P (pushed l e c) m1" and "good al Q (pushed e e c) m2"
  shows "good al (P \<and> Q) c (seqM (pushCtrl l e) (seqM m1
    (seqM (bindM popCtrl (\<lambda>rs. seqM (pushCtrl rs rs) m2)) (bindM popCtrl pushTypes))))"
proof (cases "m1 (pushed l e c)")
  case (Pair r c2)
  show ?thesis
  proof (cases r)
    case (Ok x)
    with assms(2) Pair have rel: "frame_rel (pushed l e c) c2" and P by (auto simp: good_def)
    obtain r3 c3 where c3: "popCtrl c2 = (r3, c3)" by fastforce
    note p = popCtrl_pushed [OF assms(1) rel, unfolded c3]
    show ?thesis
    proof (cases r3)
      case (Ok ts)
      then have "c3 = c" "ts = e" using p by auto
      then have "seqM (pushCtrl l e) (seqM m1 (seqM (bindM popCtrl (\<lambda>rs. seqM (pushCtrl rs rs) m2))
            (bindM popCtrl pushTypes))) c = seqM (pushCtrl e e) (seqM m2 (bindM popCtrl pushTypes)) c"
        using Pair \<open>r = Ok x\<close> c3 Ok by (simp add: seqM_def bindM_def pushCtrl_pushed split: prod.split outcome.split)
      with good_block [OF assms(1,3)] \<open>P\<close> show ?thesis by (simp add: good_def split_beta)
    qed (use Pair \<open>r = Ok x\<close> c3 p in \<open>auto simp: good_def seqM_def bindM_def pushCtrl_pushed\<close>)
  qed (use assms(2) Pair in \<open>auto simp: good_def seqM_def bindM_def pushCtrl_pushed\<close>)
qed

lemma good_checkMemory:
  assumes "chk_ok c"
  shows "good (unat a < 64) True c (checkMemory op a)"
proof (cases "unat a < 64")
  case True
  then show ?thesis using good_safe [OF safe_checkMemory [OF True] assms] by simp
next
  case False
  have "good al True c (case memoryType op of (ins, outs) \<Rightarrow> StackTrans ins outs)" for al
    by (cases "memoryType op") (simp add: good_safe [OF safe_StackTrans assms])
  note T = this
  show ?thesis
  proof (cases "CMems c = []")
    case True
    then show ?thesis by (simp add: checkMemory_def good_def)
  next
    case ne: False
    show ?thesis
    proof (cases "accessBits op")
      case None
      then have "checkMemory op a c = (case memoryType op of (ins, outs) \<Rightarrow> StackTrans ins outs) c"
        using ne by (simp add: checkMemory_def)
      with T show ?thesis by (simp add: good_def)
    next
      case (Some n)
      then show ?thesis using ne False by (simp add: checkMemory_def good_def)
    qed
  qed
qed

lemma good_checkBr:
  assumes "chk_ok c"
  shows "good al (unat n < length (CtrlStack c)) c (checkBr op n)"
    and "good al (unat n < length (CtrlStack c) \<and> list_all (\<lambda>x. unat x < length (CtrlStack c)) tab) c (checkBrTable tab n)"
proof -
  have "good al True c (checkBr op n)" "good al True c (checkBrTable tab n)"
    using assms by (auto intro: good_safe safe_intros)
  then show "good al (unat n < length (CtrlStack c)) c (checkBr op n)"
    "good al (unat n < length (CtrlStack c) \<and> list_all (\<lambda>x. unat x < length (CtrlStack c)) tab) c (checkBrTable tab n)"
    by (auto simp: good_def checkBr_def checkBrTable_def inCtrl_def list_all_iff)
qed

text \<open>All instructions.\<close>

lemma good_checkInstr:
  "chk_ok c \<Longrightarrow> good (aligned i) (br_ok True (length (CtrlStack c)) i) c (checkInstr i)"
  and good_checkInstrs:
  "chk_ok c \<Longrightarrow> good (list_all aligned is) (list_all (br_ok True (length (CtrlStack c))) is) c (checkInstrs is)"
proof (induction i and "is" arbitrary: c and c rule: checkInstr_checkInstrs.induct)
  case (2 op t body)
  have len: "length (CtrlStack (pushed l e c)) = Suc (length (CtrlStack c))" for l e by (simp add: pushed_def)
  have "good (list_all aligned body) (list_all (br_ok True (Suc (length (CtrlStack c)))) body) (pushed l e c) (checkInstrs body)" for l e
    using 2(1) [OF chk_ok_pushed [OF 2(2)], of l e] by (simp add: len)
  then show ?case using good_block [OF 2(2)] by (cases op) simp_all
next
  case (3 t ifs els)
  have len: "length (CtrlStack (pushed l e d)) = Suc (length (CtrlStack d))" for l e d by (simp add: pushed_def)
  let ?P = "\<lambda>is. list_all (br_ok True (Suc (length (CtrlStack c)))) is"
  let ?al = "list_all aligned ifs \<and> list_all aligned els"
  have c: "good ?al True c (ignore (popTypeE VtI32))" by (intro good_safe safe_ignore 3(3)) simp
  have rest: "good ?al (?P ifs \<and> ?P els) d
    (seqM (pushCtrl (blockType t) (blockType t)) (seqM (checkInstrs ifs)
      (seqM (if els \<noteq> [] then bindM popCtrl (\<lambda>rs. seqM (pushCtrl rs rs) (checkInstrs els)) else retM ())
        (bindM popCtrl pushTypes))))" if rel: "frame_rel c d" for d
  proof -
    have d: "chk_ok d" by (rule frame_rel_chk_ok [OF 3(3) rel])
    have l: "length (CtrlStack d) = length (CtrlStack c)" by (rule frame_rel_ctrl [OF rel])
    have i: "good ?al (?P ifs) (pushed l e d) (checkInstrs ifs)" for l e
      using 3(1) [OF chk_ok_pushed [OF d], of l e] by (auto simp: len l intro: good_mono)
    show ?thesis
    proof (cases "els = []")
      case True
      then show ?thesis using good_block [OF d i] by (simp add: seqM_def)
    next
      case False
      have "good ?al (?P els) (pushed l e d) (checkInstrs els)" for l e
        using 3(2) [OF False chk_ok_pushed [OF d], of l e] by (auto simp: len l intro: good_mono)
      then show ?thesis using good_if_else [OF d i] False by simp
    qed
  qed
  show ?case using good_seqM [OF c rest] by simp
next
  case (4 op n)
  then show ?case using good_checkBr(1) by (cases op) simp_all
next
  case (5 tab m)
  then show ?case using good_checkBr(2) by simp
next
  case (9 op a off)
  then show ?case using good_checkMemory by simp
next
  case (14 i "is")
  show ?case
  proof -
    have "good (list_all aligned (i # is)) (br_ok True (length (CtrlStack c)) i) c (checkInstr i)"
      using 14(1) [OF 14(3)] by (auto intro: good_mono)
    moreover have "good (list_all aligned (i # is)) (list_all (br_ok True (length (CtrlStack c))) is) c' (checkInstrs is)"
      if "frame_rel c c'" for c'
      using 14(2) [OF frame_rel_chk_ok [OF 14(3) that]] frame_rel_ctrl [OF that] by (auto intro: good_mono)
    ultimately have "good (list_all aligned (i # is))
        (br_ok True (length (CtrlStack c)) i \<and> list_all (br_ok True (length (CtrlStack c))) is)
        c (seqM (checkInstr i) (checkInstrs is))" by (intro good_seqM)
    then show ?thesis by simp
  qed
qed (auto intro!: good_safe safe_intros split: prod.split)

lemma validateV_checkInstrs:
  "validateV is rets c = checkInstrs is
     (pushed [] (CReturns c @ rets) (c\<lparr>CReturns := CReturns c @ rets\<rparr>))"
  by (simp add: validateV_def seqM_def bindM_def modifyM_def pushCtrl_pushed)

definition funcs_ok :: "FormChecker \<Rightarrow> bool" where
  "funcs_ok c \<longleftrightarrow> (\<forall>t \<in> set (CFuncs c). unat t < length (CTypes c))"

lemma chk_ok_start: "funcs_ok c \<Longrightarrow> chk_ok (pushed l e (c\<lparr>CReturns := r\<rparr>))"
  by (simp add: chk_ok_def funcs_ok_def pushed_def)

lemma validateV_branches:
  assumes "funcs_ok c" and "CtrlStack c = []" and "validateV is rets c = (Ok (), c')"
  shows "list_all (br_ok True 1) is"
proof -
  let ?c = "pushed [] (CReturns c @ rets) (c\<lparr>CReturns := CReturns c @ rets\<rparr>)"
  have "checkInstrs is ?c = (Ok (), c')" using assms(3) by (simp add: validateV_checkInstrs)
  moreover have "chk_ok ?c" by (rule chk_ok_start [OF assms(1)])
  ultimately have "list_all (br_ok True (length (CtrlStack ?c))) is"
    using good_checkInstrs [of ?c "is"] by (simp add: good_def)
  then show ?thesis using assms(2) by (simp add: pushed_def)
qed

section \<open>Properties\<close>

text \<open>C17. The stack-typing pass is memory-safe: on every instruction sequence whose alignment hints are
  below 64 it returns or reports an error, and never looks into an empty control stack, pops an empty
  operand stack or reads a context out of range; when it accepts, it has left the contexts and every
  operand below its frame untouched.\<close>

theorem validateV_safe:
  assumes "funcs_ok c" and "list_all aligned is"
  shows "defined (fst (validateV is rets c)) \<and>
    (\<forall>c'. validateV is rets c = (Ok (), c') \<longrightarrow> CTypes c' = CTypes c \<and> CFuncs c' = CFuncs c \<and>
       CGlobals c' = CGlobals c \<and> CLocals c' = CLocals c \<and> tl (CtrlStack c') = CtrlStack c \<and>
       low (length (ValStack c)) (ValStack c') = ValStack c)"
proof -
  let ?c = "pushed [] (CReturns c @ rets) (c\<lparr>CReturns := CReturns c @ rets\<rparr>)"
  have "good True True ?c (checkInstrs is)"
    using good_checkInstrs [OF chk_ok_start [OF assms(1)], of "is"] assms(2) by (auto intro: good_mono)
  moreover have "CTypes c' = CTypes c \<and> CFuncs c' = CFuncs c \<and> CGlobals c' = CGlobals c \<and> CLocals c' = CLocals c \<and>
      tl (CtrlStack c') = CtrlStack c \<and> low (length (ValStack c)) (ValStack c') = ValStack c"
    if "frame_rel ?c c'" for c'
    using that low_all [of "ValStack c"] by (auto simp: frame_rel_def ctx_def pushed_def)
  ultimately show ?thesis
    by (auto simp: validateV_checkInstrs good_def defined_def split: prod.splits)
qed

theorem validateV_safe_witness:
  "defined (fst (validateV [BlockInstr Loop VNone [BrInstr Br 1]] [VtI32] newFormChecker))"
  using validateV_safe [of newFormChecker "[BlockInstr Loop VNone [BrInstr Br 1]]" "[VtI32]"]
  by (simp add: funcs_ok_def newFormChecker_def)

text \<open>A machine with one function, ready to enter it.\<close>

definition oneFunction :: "unit FunctionInstance \<Rightarrow> unit Interp" where
  "oneFunction f = \<lparr>Stack = newStackManager, InstrPdr = newInstrProvider, Meter = None,
     Store = snd (pushFunction f newStoreManager), Host = (), InsMode = ModeInstantiate\<rparr>"

lemmas function_defs = oneFunction_def enterFunction_def newStackManager_def newInstrProvider_def
  pushFrame_def forM.simps run_defs

text \<open>C35. The pass never closes the outermost frame, so it does not look at what a function body leaves:
  the empty body, and a body that only branches to the function's own label, are accepted for every
  result type; running such a function with a result pops a value that is not there, which is
  undefined.\<close>

theorem missing_result_accepted:
  assumes "Params ft = []" and "Returns ft \<noteq> []" and "length (Returns ft) < 2 ^ 32"
  shows "fst (validateA [] (Returns ft) newFormChecker) = Ok () \<and>
    fst (validateA [BrInstr Br 0] (Returns ft) newFormChecker) = Ok () \<and>
    fst (runFunction F (Suc (Suc n)) (Native ft 0 [] []) (oneFunction (Native ft 0 [] []))) = Undef \<and>
    fst (runFunction F (Suc (Suc n)) (Native ft 0 [] [BrInstr Br 0]) (oneFunction (Native ft 0 [] [BrInstr Br 0]))) = Undef"
proof -
  have k: "0 < unat (of_nat (length (Returns ft)) :: u32)"
    using assms(2,3) by (simp add: unat_of_nat_less)
  have "fst (validateA [] (Returns ft) newFormChecker) = Ok ()"
    by (simp add: validateA_def validateV_checkInstrs retM_def)
  moreover have "fst (validateA [BrInstr Br 0] (Returns ft) newFormChecker) = Ok ()"
    by (simp add: validateA_def validateV_checkInstrs newFormChecker_def pushed_def checkBr_def inCtrl_def
        labelTypes_def popTypes_def unreachable_def seqM_def bindM_def retM_def)
  moreover have "fst (runFunction F (Suc (Suc n)) (Native ft 0 [] []) (oneFunction (Native ft 0 [] []))) = Undef"
    using k assms(1) by (simp add: runFunction_def function_defs)
  moreover have "fst (runFunction F (Suc (Suc n)) (Native ft 0 [] [BrInstr Br 0]) (oneFunction (Native ft 0 [] [BrInstr Br 0]))) = Undef"
    using k assms(1) by (simp add: runFunction_def function_defs)
  ultimately show ?thesis by simp
qed

theorem missing_result_accepted_witness:
  "\<forall>F. fst (runFunction F (Suc (Suc 0)) (Native \<lparr>Params = [], Returns = [I32]\<rparr> 0 [] [])
      (oneFunction (Native \<lparr>Params = [], Returns = [I32]\<rparr> 0 [] []))) = Undef"
  using missing_result_accepted [of "\<lparr>Params = [], Returns = [I32]\<rparr>" _ 0] by simp

text \<open>The operand of \<open>if\<close> is not checked: the result of popping its type is discarded, so that an
  \<open>if\<close> on an empty operand stack is accepted; the interpreter then pops an empty stack.\<close>

lemma if_condition_unchecked:
  "fst (validateA [IfElseInstr VNone [ControlInstr Nop] []] [] newFormChecker) = Ok () \<and>
   fst (execute F (Suc n) (unmetered newStackManager [IfElseInstr VNone [ControlInstr Nop] []])) = Undef"
proof -
  have "fst (validateA [IfElseInstr VNone [ControlInstr Nop] []] [] newFormChecker) = Ok ()"
    by (simp add: validateA_def validateV_checkInstrs newFormChecker_def pushed_def ignore_def popTypeE_def
        popType_def pushCtrl_def modifyM_def seqM_def bindM_def retM_def blockType_def popCtrl_def popTypes_def
        pushTypes_def)
  moreover have "fst (execute F (Suc n) (unmetered newStackManager [IfElseInstr VNone [ControlInstr Nop] []])) = Undef"
    by (simp add: unmetered_def newStackManager_def runIfElseOp_def pop_def run_defs)
  ultimately show ?thesis by simp
qed

end
