(* ===== verification/NumericTypes.thy ===== *)
theory NumericTypes
  imports FormChecker EngineProps
begin

text \<open>Soundness of the types that the validator assigns to the numeric instructions
  (\<open>unaryType\<close> and \<open>binaryType\<close>, the tables of \<open>checkUnary\<close> and \<open>checkBinary\<close> in
  \<open>lib/validator/formchecker.cpp\<close>) for the handlers of the interpreter: a value read at the operand type
  gives a value that can be read at the result type, or an error code.\<close>

section \<open>Types of the numeric instructions\<close>

fun fitsV :: "ValVariant \<Rightarrow> VType \<Rightarrow> bool" where
  "fitsV (V32 _) t = (t \<notin> {VtI64, VtF64})"
| "fitsV (V64 _) t = True"

definition typed :: "bool \<Rightarrow> VType \<Rightarrow> ValVariant Expect \<Rightarrow> bool" where
  "typed ub t r = (case r of Ok v \<Rightarrow> fitsV v t | Err _ \<Rightarrow> True | Undef \<Rightarrow> ub | Timeout \<Rightarrow> False)"

definition vt :: "numT \<Rightarrow> VType" where
  "vt t = (if bits t = 32 then VtI32 else VtI64)"

lemma fitsV_eq: "fitsV v VtF64 = fitsV v VtI64" "fitsV v VtI32" "fitsV v VtF32"
  by (cases v; simp)+

lemma getT_fits: "fitsV v (vt t) \<Longrightarrow> \<exists>w. getT t v = Ok w"
  by (cases v) (auto simp: vt_def getT_def split: if_splits)

lemma fitsV_mkT: "fitsV (mkT t w) (vt t)" "fitsV (setT t v w) (vt t)"
  by (auto simp: mkT_def setT_def vt_def fitsV_eq)

lemma typed_obind:
  assumes "fitsV v (vt t)" and "\<And>w. getT t v = Ok w \<Longrightarrow> typed ub u (f w)"
  shows "typed ub u (obind (getT t v) f)"
  using getT_fits [OF assms(1)] assms(2) by (auto simp: obind_def)

lemma typed_get2:
  assumes "fitsV v1 (vt t)" and "fitsV v2 (vt t)" and "\<And>a b. typed ub u (f a b)"
  shows "typed ub u (get2 t v1 v2 f)"
  using getT_fits [OF assms(1)] getT_fits [OF assms(2)] assms(3) by (auto simp: get2_def obind_def)

lemma typed_simps [simp]: "typed ub t (Ok v) = fitsV v t" "typed ub t (Err e)" "typed True t Undef"
  by (simp_all add: typed_def)

lemma vt_simps [simp]: "vt (tU w) = vtI w" "vt (tS w) = vtI w" "vt (tX x w) = vtI w" "vt TU32 = VtI32" "vt TU64 = VtI64" "vt TF32 = VtI32" "vt TF64 = VtI64"
  by (cases w; cases x; simp add: vt_def bits_def)+

lemma fitsV_F [simp]: "fitsV v (vtF w) = fitsV v (vt (tF w))"
  by (cases w) (simp_all add: vt_def bits_def fitsV_eq)

lemma typed_unless: "r \<noteq> Timeout \<Longrightarrow> r \<noteq> Undef \<Longrightarrow> (\<And>x. r = Ok x \<Longrightarrow> fitsV x t) \<Longrightarrow> typed ub t r"
  by (cases r) (simp_all add: typed_def)


lemma loops_defined: "clz_loop k n i c \<noteq> Undef" "clz_loop k n i c \<noteq> Err e" "ctz_loop k i c \<noteq> Undef" "ctz_loop k i c \<noteq> Err e"
  "popcnt_loop k i c \<noteq> Undef" "popcnt_loop k i c \<noteq> Err e"
  by (induction k arbitrary: i c) auto

lemma typed_count:
  assumes "fitsV v (vt t)" and "r \<noteq> Timeout" and "r = obind (getT t v) f"
    and "\<And>i. f i \<noteq> Undef \<and> (\<forall>x. f i = Ok x \<longrightarrow> fitsV x (vt t))"
  shows "typed ub (vt t) r"
proof -
  obtain w where "getT t v = Ok w" using getT_fits [OF assms(1)] by blast
  then have "r = f w" using assms(3) by (simp add: obind_def)
  then show ?thesis using assms(2,4) by (intro typed_unless) auto
qed

lemma typed_counts:
  assumes "fitsV v (vt t)"
  shows "typed ub (vt t) (runClzOp t v)" "typed ub (vt t) (runCtzOp t v)" "typed ub (vt t) (runPopcntOp t v)"
proof -
  show "typed ub (vt t) (runClzOp t v)"
    by (rule typed_count [OF assms runClzOp_ends runClzOp_def])
      (auto simp: obind_def loops_defined fitsV_mkT assms split: outcome.splits)
  show "typed ub (vt t) (runCtzOp t v)"
    by (rule typed_count [OF assms runCtzOp_ends runCtzOp_def])
      (auto simp: obind_def loops_defined fitsV_mkT assms split: outcome.splits)
  show "typed ub (vt t) (runPopcntOp t v)"
    by (rule typed_count [OF assms runPopcntOp_ends runPopcntOp_def])
      (auto simp: obind_def loops_defined fitsV_mkT assms split: outcome.splits)
qed

lemma vtI_vt: "vtI w = vt (tU w)" "fitsV v VtI64 = fitsV v (vt TU64)" "fitsV v VtF64 = fitsV v (vt TF64)" by (simp_all add: fitsV_eq)

lemma fitsV_set: "fitsV (mkT (tU w) a) (vtI w)" "fitsV (setT (tU w) u a) (vtI w)" "fitsV (setT (tS w) u a) (vtI w)"
  "fitsV (setT (tX x w) u a) (vtI w)" "fitsV (mkT TU64 a) VtI64" "fitsV (setT TU64 u a) VtI64"
  "fitsV (setT TF64 u a) VtF64" "fitsV (setT TF64 u a) VtI64"
  using fitsV_mkT [of "tU w"] fitsV_mkT [of "tS w"] fitsV_mkT [of "tX x w"] fitsV_mkT [of TU64] fitsV_mkT [of TF64] by (simp_all add: fitsV_eq)

lemma typed_F [simp]: "typed ub (vtF w) r = typed ub (vt (tF w)) r" "typed ub VtF64 r = typed ub VtI64 r" "typed ub VtF32 r = typed ub VtI32 r"
  by (cases r; simp add: typed_def fitsV_eq)+

lemma typed_truncate: "fitsV v (vt ti) \<Longrightarrow> typed True (vt to) (runTruncateOp ti to v)"
  unfolding runTruncateOp_def by (rule typed_obind) (auto simp: Let_def fitsV_mkT)

lemma typed_unary:
  "fitsV v (fst (unaryType u)) \<Longrightarrow>
      typed (\<exists>wo wi x. u = ITrunc wo wi x) (snd (unaryType u)) (unaryOp F u v)"
proof (cases u)
  case (IUn w f)
  moreover assume "fitsV v (fst (unaryType u))"
  ultimately show ?thesis using typed_counts [of v "tU w"] by (cases f) simp_all
next
  case (FUn w f)
  moreover assume "fitsV v (fst (unaryType u))"
  ultimately show ?thesis 
    by (cases f) (auto simp: unary_defs fitsV_mkT intro!: typed_obind)
next
  case (ITrunc wo wi x)
  moreover assume "fitsV v (fst (unaryType u))"
  ultimately show ?thesis using typed_truncate [of v "tF wi" "tX x wo"] by simp
qed (auto simp: unary_defs fitsV_eq boolV_def fitsV_set fitsV_mkT intro!: typed_obind)

lemma typed_binary:
  "fitsV v1 (fst (binaryType b)) \<Longrightarrow> fitsV v2 (fst (binaryType b)) \<Longrightarrow>
      typed (\<exists>w. b = IBin w irotl \<or> b = IBin w irotr) (snd (binaryType b)) (binaryOp F b v1 v2)"
  apply (cases b)
  subgoal for w r by (cases r) (auto simp: binary_defs fitsV_eq intro!: typed_get2)
  subgoal for w r by (cases r) (auto simp: binary_defs fitsV_eq intro!: typed_get2)
  subgoal for w r by (cases r) (auto simp: binary_defs fitsV_set Let_def intro!: typed_get2)
  subgoal for w r by (cases r) (auto simp: binary_defs fitsV_mkT intro!: typed_get2)
  done



end
