(* ===== verification/Validator.thy ===== *)
theory Validator
  imports FormChecker
begin

text \<open>
  \<open>lib/validator/validator.cpp\<close>: validation of a module. The state of the validator is its form
  checker, so that every overload of \<open>validate\<close> is a call on \<open>FormChecker\<close>. A section that is absent
  is \<open>None\<close>; the external type of an import is the constructor of its content, so that
  \<open>getExternalContent\<close> cannot miss. \<open>Checker.getTypes()[i]\<close> out of range is undefined.
\<close>

section \<open>Types and segments\<close>

definition LIMIT_TABLETYPE :: u32 where "LIMIT_TABLETYPE = 0xFFFFFFFF"

definition LIMIT_MEMORYTYPE :: u32 where "LIMIT_MEMORYTYPE = push_bit 16 1"

definition validateLimit :: "Limit \<Rightarrow> u32 \<Rightarrow> unit check" where
  "validateLimit lim k =
     (let cond1 = getMin lim \<le> k;
          cond2 = (if hasMax lim then limMax lim \<le> k \<and> getMin lim \<le> limMax lim else True)
      in if \<not> cond1 \<or> \<not> cond2 then errM ValidationFailed else retM ())"

definition validateFunctionType :: "FunctionType \<Rightarrow> unit check" where
  "validateFunctionType f = (if length (ReturnTypes f) > 1 then errM ValidationFailed else retM ())"

definition validateTableType :: "TableType \<Rightarrow> unit check" where
  "validateTableType t = validateLimit (TabLimit t) LIMIT_TABLETYPE"

definition validateMemoryType :: "MemoryType \<Rightarrow> unit check" where
  "validateMemoryType m = validateLimit m LIMIT_MEMORYTYPE"

text \<open>The loop of \<open>validateConstExpr\<close>; \<open>global.get\<close> falls through to the accepted cases.\<close>

fun constInstr :: "bool \<Rightarrow> FormChecker \<Rightarrow> Instr \<Rightarrow> bool" where
  "constInstr restrict c (VariableInstr op i) = (op = Global__get \<and> (restrict \<longrightarrow> i < NumImportGlobals c))"
| "constInstr restrict c (ConstInstr _ _) = True"
| "constInstr restrict c _ = False"

definition validateConstExpr :: "Instr list \<Rightarrow> ValType list \<Rightarrow> bool \<Rightarrow> unit check" where
  "validateConstExpr is rets restrict c =
     (if \<not> list_all (constInstr restrict c) is then (Err ValidationFailed, c)
      else validateA is rets (resetChecker False c))"

definition validateGlobalSegment :: "GlobalSegment \<Rightarrow> unit check" where
  "validateGlobalSegment g = validateConstExpr (GSegExpr g) [GlobType (GSegType g)] False"

definition validateElementSegment :: "ElementSegment \<Rightarrow> unit check" where
  "validateElementSegment e c =
     (if length (CTables c) \<le> unat (ESegTableIdx e) \<or> CTables c ! unat (ESegTableIdx e) \<noteq> FuncRef
      then (Err ValidationFailed, c)
      else if \<not> list_all (\<lambda>i. unat i < length (CFuncs c)) (ESegFuncIdxes e) then (Err ValidationFailed, c)
      else validateConstExpr (ESegExpr e) [I32] False c)"

definition addLocals :: "(u32 \<times> ValType) list \<Rightarrow> FormChecker \<Rightarrow> FormChecker" where
  "addLocals ls = fold (\<lambda>(n, t). fold addLocal (replicate (unat n) (ASTToVType t))) ls"

definition validateCodeSegment :: "CodeSegment \<Rightarrow> u32 \<Rightarrow> unit check" where
  "validateCodeSegment cs t =
     seqM (modifyM (resetChecker False))
    (bindM (\<lambda>c. (at (CTypes c) t, c)) (\<lambda>(ps, rs).
     seqM (modifyM (fold addLocal ps))
    (seqM (modifyM (addLocals (CSegLocals cs)))
     (validateV (CSegExpr cs) rs))))"

definition validateDataSegment :: "DataSegment \<Rightarrow> unit check" where
  "validateDataSegment d c =
     (if length (CMems c) \<le> unat (DSegMemoryIdx d) then (Err ValidationFailed, c)
      else validateConstExpr (DSegExpr d) [I32] False c)"

section \<open>Imports and exports\<close>

definition validateImportDesc :: "ImportDesc \<Rightarrow> unit check" where
  "validateImportDesc i = (case ImpContent i of
       ExtFunction t \<Rightarrow> (\<lambda>c.
         if length (CTypes c) \<le> unat t then (Err ValidationFailed, c) else (Ok (), addFunc t c))
     | ExtTable t \<Rightarrow> seqM (validateTableType t) (modifyM (addTable t))
     | ExtMemory m \<Rightarrow> seqM (validateMemoryType m) (modifyM (addMemory m))
     | ExtGlobal g \<Rightarrow> modifyM (addGlobal g True))"

definition validateExportDesc :: "ExportDesc \<Rightarrow> unit check" where
  "validateExportDesc e c =
     (let i = unat (ExpExtIdx e) in
      if (case ExpExtType e of
            Function \<Rightarrow> length (CFuncs c) \<le> i
          | Table \<Rightarrow> length (CTables c) \<le> i
          | Memory \<Rightarrow> length (CMems c) \<le> i
          | Global \<Rightarrow> length (CGlobals c) \<le> i
          | XOther _ \<Rightarrow> True)
      then (Err ValidationFailed, c) else (Ok (), c))"

section \<open>Sections\<close>

text \<open>A failed call whose error code is replaced: \<open>return Unexpect(ErrCode::ValidationFailed)\<close>.\<close>

definition orFail :: "unit check \<Rightarrow> unit check" where
  "orFail m c = (case m c of (Err _, c') \<Rightarrow> (Err ValidationFailed, c') | r \<Rightarrow> r)"

definition validateImportSection :: "ImportDesc list \<Rightarrow> unit check" where
  "validateImportSection = forM (\<lambda>i. orFail (validateImportDesc i))"

definition addFuncs :: "u32 list \<Rightarrow> unit check" where
  "addFuncs = forM (\<lambda>t c.
     if length (CTypes c) \<le> unat t then (Err ValidationFailed, c) else (Ok (), addFunc t c))"

definition validateFunctionSection :: "u32 list \<Rightarrow> CodeSegment list \<Rightarrow> unit check" where
  "validateFunctionSection fs cs =
     (if length fs \<noteq> length cs then errM ValidationFailed
      else seqM (addFuncs fs) (forM (\<lambda>(t, s). validateCodeSegment s t) (zip fs cs)))"

definition validateTableSection :: "TableType list \<Rightarrow> unit check" where
  "validateTableSection = forM (\<lambda>t. seqM (orFail (validateTableType t)) (modifyM (addTable t)))"

definition validateMemorySection :: "MemoryType list \<Rightarrow> unit check" where
  "validateMemorySection = forM (\<lambda>m. seqM (orFail (validateMemoryType m)) (modifyM (addMemory m)))"

definition validateGlobalSection :: "GlobalSegment list \<Rightarrow> unit check" where
  "validateGlobalSection = forM (\<lambda>g. seqM (validateGlobalSegment g) (modifyM (addGlobal (GSegType g) False)))"

text \<open>The argument \<open>names\<close> is the set of export names met so far.\<close>

fun validateExports :: "Bytes list \<Rightarrow> ExportDesc list \<Rightarrow> unit check" where
  "validateExports names [] = retM ()"
| "validateExports names (e # es) =
     (if ExpExtName e = [] \<or> ExpExtName e \<in> set names then errM ValidationFailed
      else seqM (validateExportDesc e) (validateExports (ExpExtName e # names) es))"

definition validateExportSection :: "ExportDesc list \<Rightarrow> unit check" where
  "validateExportSection = validateExports []"

definition validateStartSection :: "u32 \<Rightarrow> unit check" where
  "validateStartSection f c =
     (if length (CFuncs c) \<le> unat f then (Err ValidationFailed, c)
      else bindM (liftM (funcType c f)) (\<lambda>(ps, rs).
        if length ps \<noteq> 0 \<or> length rs \<noteq> 0 then errM ValidationFailed else retM ()) c)"

definition validateElementSection :: "ElementSegment list \<Rightarrow> unit check" where
  "validateElementSection = forM validateElementSegment"

definition validateDataSection :: "DataSegment list \<Rightarrow> unit check" where
  "validateDataSection = forM validateDataSegment"

section \<open>Modules\<close>

definition onSection :: "('a \<Rightarrow> unit check) \<Rightarrow> 'a option \<Rightarrow> unit check" where
  "onSection f s = (case s of None \<Rightarrow> retM () | Some x \<Rightarrow> f x)"

definition validateFunctions :: "Module \<Rightarrow> unit check" where
  "validateFunctions m = (case (FunctionSec m, CodeSec m) of
       (Some fs, Some cs) \<Rightarrow> validateFunctionSection fs cs
     | (None, None) \<Rightarrow> retM ()
     | _ \<Rightarrow> errM ValidationFailed)"

definition validateModule :: "Module \<Rightarrow> unit check" where
  "validateModule m =
     seqM (modifyM (resetChecker True))
    (seqM (onSection (\<lambda>ts. modifyM (fold addType ts)) (TypeSec m))
    (seqM (onSection validateImportSection (ImportSec m))
    (seqM (onSection validateTableSection (TableSec m))
    (seqM (onSection validateMemorySection (MemorySec m))
    (seqM (onSection validateGlobalSection (GlobalSec m))
    (seqM (validateFunctions m)
    (seqM (onSection validateElementSection (ElementSec m))
    (seqM (onSection validateDataSection (DataSec m))
    (seqM (onSection validateStartSection (StartSec m))
    (seqM (onSection validateExportSection (ExportSec m))
     (\<lambda>c. if length (CMems c) > 1 \<or> length (CTables c) > 1 then (Err ValidationFailed, c) else (Ok (), c))))))))))))"

end
