(* ===== verification/ValidatorProps.thy ===== *)
theory ValidatorProps
  imports Validator CheckerProps
begin

text \<open>
  The declarative judgement \<open>module_valid\<close>, with the context in which each part of a module is checked
  computed from the module, and the proof that the validator decides it. A call is described by
  \<open>checks m g P h\<close>: from any state with the context \<open>g\<close> it succeeds exactly if \<open>P\<close>, and then leaves the
  context \<open>h\<close>.
\<close>

section \<open>The judgement\<close>

definition sec :: "'a list option \<Rightarrow> 'a list" where
  "sec s = (case s of None \<Rightarrow> [] | Some xs \<Rightarrow> xs)"

definition limit_valid :: "nat \<Rightarrow> Limit \<Rightarrow> bool" where
  "limit_valid k lim \<longleftrightarrow> (case lim of
      HasMin n \<Rightarrow> unat n \<le> k
    | HasMinMax n m \<Rightarrow> unat n \<le> unat m \<and> unat m \<le> k)"

text \<open>A constant expression. Its result type plays no part.\<close>

fun const_valid :: "nat \<Rightarrow> Instr \<Rightarrow> bool" where
  "const_valid n (VariableInstr op i) = (op = Global__get \<and> unat i < n)"
| "const_valid n (ConstInstr _ _) = True"
| "const_valid n _ = False"

definition sig :: "FunctionType \<Rightarrow> VType list \<times> VType list" where
  "sig f = (map ASTToVType (ParamTypes f), map ASTToVType (ReturnTypes f))"

definition gsig :: "GlobalType \<Rightarrow> VType \<times> ValMut" where
  "gsig g = (ASTToVType (GlobType g), GlobMut g)"

definition impFuncs :: "ImportDesc list \<Rightarrow> u32 list" where
  "impFuncs is = concat (map (\<lambda>i. case ImpContent i of ExtFunction t \<Rightarrow> [t] | _ \<Rightarrow> []) is)"

definition impTables :: "ImportDesc list \<Rightarrow> TableType list" where
  "impTables is = concat (map (\<lambda>i. case ImpContent i of ExtTable t \<Rightarrow> [t] | _ \<Rightarrow> []) is)"

definition impMems :: "ImportDesc list \<Rightarrow> MemoryType list" where
  "impMems is = concat (map (\<lambda>i. case ImpContent i of ExtMemory t \<Rightarrow> [t] | _ \<Rightarrow> []) is)"

definition impGlobals :: "ImportDesc list \<Rightarrow> GlobalType list" where
  "impGlobals is = concat (map (\<lambda>i. case ImpContent i of ExtGlobal t \<Rightarrow> [t] | _ \<Rightarrow> []) is)"

text \<open>The context with the types \<open>ts\<close>, functions \<open>fs\<close>, tables, memories and globals given.\<close>

definition context_of ::
  "FunctionType list \<Rightarrow> u32 list \<Rightarrow> TableType list \<Rightarrow> MemoryType list \<Rightarrow> GlobalType list \<Rightarrow> nat \<Rightarrow> FormChecker" where
  "context_of ts fs tabs ms gs n = newFormChecker\<lparr>CTypes := map sig ts, CFuncs := fs, CTables := map TabElem tabs,
     CMems := map of_nat [0..<length ms], CGlobals := map gsig gs, NumImportGlobals := of_nat n\<rparr>"

definition allTables :: "Module \<Rightarrow> TableType list" where
  "allTables m = impTables (sec (ImportSec m)) @ sec (TableSec m)"

definition allMems :: "Module \<Rightarrow> MemoryType list" where
  "allMems m = impMems (sec (ImportSec m)) @ sec (MemorySec m)"

definition allFuncs :: "Module \<Rightarrow> u32 list" where
  "allFuncs m = impFuncs (sec (ImportSec m)) @ sec (FunctionSec m)"

definition allGlobals :: "Module \<Rightarrow> GlobalType list" where
  "allGlobals m = impGlobals (sec (ImportSec m)) @ map GSegType (sec (GlobalSec m))"

definition module_context :: "Module \<Rightarrow> FormChecker" where
  "module_context m = context_of (sec (TypeSec m)) (allFuncs m) (allTables m) (allMems m) (allGlobals m)
     (length (impGlobals (sec (ImportSec m))))"

definition localTypes :: "(u32 \<times> ValType) list \<Rightarrow> VType list" where
  "localTypes ls = concat (map (\<lambda>(n, t). replicate (unat n) (ASTToVType t)) ls)"

definition body_valid :: "FormChecker \<Rightarrow> u32 \<Rightarrow> CodeSegment \<Rightarrow> bool" where
  "body_valid g t cs \<longleftrightarrow> (case CTypes g ! unat t of (ps, rs) \<Rightarrow>
     fst (validateV (CSegExpr cs) rs (g\<lparr>CLocals := ps @ localTypes (CSegLocals cs)\<rparr>)) = Ok ())"

definition export_valid :: "FormChecker \<Rightarrow> ExportDesc \<Rightarrow> bool" where
  "export_valid g e \<longleftrightarrow> ExpExtName e \<noteq> [] \<and> (case ExpExtType e of
       Function \<Rightarrow> unat (ExpExtIdx e) < length (CFuncs g)
     | Table \<Rightarrow> unat (ExpExtIdx e) < length (CTables g)
     | Memory \<Rightarrow> unat (ExpExtIdx e) < length (CMems g)
     | Global \<Rightarrow> unat (ExpExtIdx e) < length (CGlobals g)
     | XOther _ \<Rightarrow> False)"

definition element_valid :: "FormChecker \<Rightarrow> ElementSegment \<Rightarrow> bool" where
  "element_valid g e \<longleftrightarrow> unat (ESegTableIdx e) < length (CTables g) \<and> CTables g ! unat (ESegTableIdx e) = FuncRef \<and>
     (\<forall>i \<in> set (ESegFuncIdxes e). unat i < length (CFuncs g)) \<and>
     (\<forall>i \<in> set (ESegExpr e). const_valid (length (CGlobals g)) i)"

definition data_valid :: "FormChecker \<Rightarrow> DataSegment \<Rightarrow> bool" where
  "data_valid g d \<longleftrightarrow> unat (DSegMemoryIdx d) < length (CMems g) \<and>
     (\<forall>i \<in> set (DSegExpr d). const_valid (length (CGlobals g)) i)"

definition start_valid :: "FormChecker \<Rightarrow> u32 \<Rightarrow> bool" where
  "start_valid g f \<longleftrightarrow> unat f < length (CFuncs g) \<and> CTypes g ! unat (CFuncs g ! unat f) = ([], [])"

definition module_valid :: "Module \<Rightarrow> bool" where
  "module_valid m \<longleftrightarrow>
     (let g = module_context m; ni = length (impGlobals (sec (ImportSec m))) in
     (\<forall>t \<in> set (allFuncs m). unat t < length (sec (TypeSec m))) \<and>
     (\<forall>t \<in> set (allTables m). limit_valid (2 ^ 32 - 1) (TabLimit t)) \<and>
     (\<forall>l \<in> set (allMems m). limit_valid (2 ^ 16) l) \<and>
     (\<forall>k < length (sec (GlobalSec m)). \<forall>i \<in> set (GSegExpr (sec (GlobalSec m) ! k)). const_valid (ni + k) i) \<and>
     (FunctionSec m = None \<longleftrightarrow> CodeSec m = None) \<and> list_all2 (body_valid g) (sec (FunctionSec m)) (sec (CodeSec m)) \<and>
     (\<forall>e \<in> set (sec (ElementSec m)). element_valid g e) \<and>
     (\<forall>d \<in> set (sec (DataSec m)). data_valid g d) \<and>
     (\<forall>f. StartSec m = Some f \<longrightarrow> start_valid g f) \<and>
     (\<forall>e \<in> set (sec (ExportSec m)). export_valid g e) \<and> distinct (map ExpExtName (sec (ExportSec m))) \<and>
     length (allMems m) \<le> 1 \<and> length (allTables m) \<le> 1)"

section \<open>Contexts and contracts\<close>

abbreviation swept :: "FormChecker \<Rightarrow> FormChecker" where
  "swept \<equiv> resetChecker False"

definition checks :: "unit check \<Rightarrow> FormChecker \<Rightarrow> bool \<Rightarrow> FormChecker \<Rightarrow> bool" where
  "checks m g P h \<longleftrightarrow> (\<forall>c. swept c = g \<longrightarrow>
     (if P then fst (m c) = Ok () \<and> swept (snd (m c)) = h else fst (m c) \<noteq> Ok ()))"

lemma clean_simps [simp]:
  "CTypes (swept c) = CTypes c" "CFuncs (swept c) = CFuncs c" "CTables (swept c) = CTables c"
  "CMems (swept c) = CMems c" "CGlobals (swept c) = CGlobals c" "NumImportGlobals (swept c) = NumImportGlobals c"
  "CLocals (swept c) = []" "CReturns (swept c) = []" "CtrlStack (swept c) = []" "ValStack (swept c) = []"
  "swept (swept c) = swept c"
  by (simp_all add: resetChecker_def Let_def)

lemma clean_eq: "swept c = swept d \<longleftrightarrow>
    CTypes c = CTypes d \<and> CFuncs c = CFuncs d \<and> CTables c = CTables d \<and> CMems c = CMems d \<and>
    CGlobals c = CGlobals d \<and> NumImportGlobals c = NumImportGlobals d"
  by (cases c; cases d) (auto simp: resetChecker_def Let_def)

lemma checks_seq:
  assumes "checks m g P h" and "P \<Longrightarrow> checks n h Q k"
  shows "checks (seqM m n) g (P \<and> Q) k"
  unfolding checks_def
proof (intro allI impI)
  fix c
  assume c: "swept c = g"
  show "if P \<and> Q then fst (seqM m n c) = Ok () \<and> swept (snd (seqM m n c)) = k else fst (seqM m n c) \<noteq> Ok ()"
  proof (cases "m c")
    case (Pair r c')
    then show ?thesis
      using c assms by (cases r; cases P) (auto simp: checks_def seqM_def bindM_def split: if_splits)
  qed
qed

lemma checksD:
  "checks m g P h \<Longrightarrow> swept c = g \<Longrightarrow> if P then fst (m c) = Ok () \<and> swept (snd (m c)) = h else fst (m c) \<noteq> Ok ()"
  by (simp add: checks_def)

lemma checks_errM: "checks (errM e) g False h"
  by (simp add: checks_def errM_def)

lemma checks_retM: "checks (retM ()) g True g"
  by (simp add: checks_def retM_def)

lemma checks_modify: "(\<And>c. swept c = g \<Longrightarrow> swept (f c) = h) \<Longrightarrow> checks (modifyM f) g True h"
  by (simp add: checks_def modifyM_def)

lemma checks_if: "checks m g P h \<Longrightarrow> checks (if b then m else errM e) g (b \<and> P) h"
  by (simp add: checks_def errM_def)

lemma checks_orFail: "checks m g P h \<Longrightarrow> checks (orFail m) g P h"
  by (auto simp: checks_def orFail_def split: prod.splits outcome.splits if_splits)

lemma checks_forM:
  assumes "\<And>i. i < length xs \<Longrightarrow> \<forall>j<i. P j \<Longrightarrow> checks (f (xs ! i)) (G i) (P i) (G (Suc i))"
  shows "checks (forM f xs) (G 0) (\<forall>i<length xs. P i) (G (length xs))"
  using assms
proof (induction xs arbitrary: G P)
  case Nil
  then show ?case by (simp add: checks_retM)
next
  case (Cons x xs)
  have "checks (f x) (G 0) (P 0) (G 1)" using Cons.prems [of 0] by simp
  moreover have "checks (forM f xs) (G 1) (\<forall>i<length xs. P (Suc i)) (G (Suc (length xs)))" if "P 0"
  proof -
    have "checks (f (xs ! i)) (G (Suc i)) (P (Suc i)) (G (Suc (Suc i)))"
      if "i < length xs" and "\<forall>j<i. P (Suc j)" for i
      using Cons.prems [of "Suc i"] that \<open>P 0\<close> by (simp add: All_less_Suc2)
    then show ?thesis using Cons.IH [of "\<lambda>i. P (Suc i)" "\<lambda>i. G (Suc i)"] by simp
  qed
  ultimately have "checks (seqM (f x) (forM f xs)) (G 0) (P 0 \<and> (\<forall>i<length xs. P (Suc i))) (G (Suc (length xs)))"
    by (rule checks_seq)
  then show ?case by (simp add: All_less_Suc2)
qed

lemma checks_same:
  assumes "\<And>x. x \<in> set xs \<Longrightarrow> checks (f x) g (P x) g"
  shows "checks (forM f xs) g (\<forall>x \<in> set xs. P x) g"
  using checks_forM [of xs "\<lambda>i. P (xs ! i)" f "\<lambda>_. g"] assms by (simp add: all_set_conv_all_nth)

section \<open>Expressions\<close>

lemma pushType_eq: "pushType v c = (Ok (), c\<lparr>ValStack := v # ValStack c\<rparr>)"
  by (simp add: pushType_def modifyM_def)

lemma checkInstr_const:
  assumes "constInstr r d i"
  shows "if const_valid (length (CGlobals c)) i then \<exists>v. checkInstr i c = (Ok (), c\<lparr>ValStack := v # ValStack c\<rparr>)
    else fst (checkInstr i c) \<noteq> Ok ()"
  using assms
  by (cases i) (auto simp: checkVariable_def pushType_eq StackTrans_def popTypes_def pushTypes_def seqM_def bindM_def retM_def)

lemma checkInstrs_const:
  assumes "list_all (constInstr r d) is"
  shows "if list_all (const_valid (length (CGlobals c))) is
     then fst (checkInstrs is c) = Ok () \<and> swept (snd (checkInstrs is c)) = swept c
     else fst (checkInstrs is c) \<noteq> Ok ()"
  using assms
proof (induction "is" arbitrary: c)
  case Nil
  then show ?case by (simp add: retM_def)
next
  case (Cons i "is")
  show ?case
  proof (cases "const_valid (length (CGlobals c)) i")
    case True
    then obtain v where v: "checkInstr i c = (Ok (), c\<lparr>ValStack := v # ValStack c\<rparr>)"
      using checkInstr_const [of r d i c] Cons.prems by auto
    have "swept (c\<lparr>ValStack := v # ValStack c\<rparr>) = swept c" by (simp add: clean_eq)
    then show ?thesis
      using Cons.IH [of "c\<lparr>ValStack := v # ValStack c\<rparr>"] Cons.prems True v by (simp add: seqM_def bindM_def)
  next
    case False
    then show ?thesis
      using checkInstr_const [of r d i c] Cons.prems
      by (cases "checkInstr i c"; cases "fst (checkInstr i c)") (auto simp: seqM_def bindM_def)
  qed
qed

lemma const_valid_constInstr: "const_valid n i \<Longrightarrow> constInstr False c i"
  by (cases i) auto

lemma checks_constExpr:
  "checks (validateConstExpr is rets False) g (\<forall>i \<in> set is. const_valid (length (CGlobals g)) i) g"
  unfolding checks_def
proof (intro allI impI)
  fix c
  assume c: "swept c = g"
  let ?d = "pushed [] (map ASTToVType rets) (g\<lparr>CReturns := map ASTToVType rets\<rparr>)"
  have d: "swept ?d = g" "CGlobals ?d = CGlobals g" unfolding c [symmetric] by (simp_all add: pushed_def resetChecker_def Let_def)
  have v: "validateConstExpr is rets False c =
      (if list_all (constInstr False c) is then checkInstrs is ?d else (Err ValidationFailed, c))"
    using c [symmetric] by (simp add: validateConstExpr_def validateA_def validateV_checkInstrs)
  have "list_all (constInstr False c) is" if "\<forall>i \<in> set is. const_valid (length (CGlobals g)) i"
    using that const_valid_constInstr by (auto simp: list_all_iff)
  then show "if \<forall>i \<in> set is. const_valid (length (CGlobals g)) i
      then fst (validateConstExpr is rets False c) = Ok () \<and> swept (snd (validateConstExpr is rets False c)) = g
      else fst (validateConstExpr is rets False c) \<noteq> Ok ()"
    using checkInstrs_const [of False c "is" ?d] d unfolding v list_all_iff by (auto split: if_splits)
qed

lemma checks_limit: "checks (validateLimit lim k) g (limit_valid (unat k) lim) g"
  by (cases lim) (auto simp: checks_def validateLimit_def limit_valid_def Let_def errM_def retM_def word_le_nat_alt)

section \<open>Sections\<close>

lemma clean_context: "swept c = context_of ts fs tabs ms gs n \<longleftrightarrow>
    CTypes c = map sig ts \<and> CFuncs c = fs \<and> CTables c = map TabElem tabs \<and> CMems c = map of_nat [0..<length ms] \<and>
    CGlobals c = map gsig gs \<and> NumImportGlobals c = of_nat n"
  by (cases c) (auto simp: resetChecker_def Let_def context_of_def newFormChecker_def)

lemma context_simps [simp]:
  "CTypes (context_of ts fs tabs ms gs n) = map sig ts" "CFuncs (context_of ts fs tabs ms gs n) = fs"
  "CTables (context_of ts fs tabs ms gs n) = map TabElem tabs"
  "CMems (context_of ts fs tabs ms gs n) = map of_nat [0..<length ms]"
  "CGlobals (context_of ts fs tabs ms gs n) = map gsig gs" "NumImportGlobals (context_of ts fs tabs ms gs n) = of_nat n"
  by (simp_all add: context_of_def newFormChecker_def)

lemma clean_adds:
  assumes "swept c = context_of ts fs tabs ms gs n"
  shows "swept (addTable t c) = context_of ts fs (tabs @ [t]) ms gs n"
    and "swept (addMemory l c) = context_of ts fs tabs (ms @ [l]) gs n"
    and "swept (addGlobal g True c) = context_of ts fs tabs ms (gs @ [g]) (Suc n)"
    and "swept (addGlobal g False c) = context_of ts fs tabs ms (gs @ [g]) n"
    and "unat i < length ts \<Longrightarrow> swept (addFunc i c) = context_of ts (fs @ [i]) tabs ms gs n"
    and "swept (addType f c) = context_of (ts @ [f]) fs tabs ms gs n"
  using assms
  by (auto simp: clean_context addTable_def addMemory_def addGlobal_def addFunc_def addType_def sig_def gsig_def Let_def)

lemma checks_addTypes:
  "checks (modifyM (fold addType us)) (context_of ts fs tabs ms gs n) True (context_of (ts @ us) fs tabs ms gs n)"
proof (rule checks_modify)
  fix c
  assume "swept c = context_of ts fs tabs ms gs n"
  then show "swept (fold addType us c) = context_of (ts @ us) fs tabs ms gs n"
  proof (induction us arbitrary: ts c)
    case (Cons u us)
    then show ?case using Cons.IH [of "addType u c" "ts @ [u]"] clean_adds(6) by simp
  qed simp
qed

lemma checks_addFunc:
  "checks (\<lambda>c. if length (CTypes c) \<le> unat t then (Err ValidationFailed, c) else (Ok (), addFunc t c))
     (context_of ts fs tabs ms gs n) (unat t < length ts) (context_of ts (fs @ [t]) tabs ms gs n)"
  using clean_adds(5) by (auto simp: checks_def clean_context)

lemma unat_limits: "unat LIMIT_TABLETYPE = 2 ^ 32 - 1" "unat LIMIT_MEMORYTYPE = 2 ^ 16"
  by (simp_all add: LIMIT_TABLETYPE_def LIMIT_MEMORYTYPE_def)

lemma checks_tableType:
  "checks (seqM (validateTableType t) (modifyM (addTable t))) (context_of ts fs tabs ms gs n)
     (limit_valid (2 ^ 32 - 1) (TabLimit t)) (context_of ts fs (tabs @ [t]) ms gs n)"
  using checks_seq [OF checks_limit [of "TabLimit t" LIMIT_TABLETYPE] checks_modify [OF clean_adds(1)]]
  unfolding validateTableType_def unat_limits by simp

lemma checks_memoryType:
  "checks (seqM (validateMemoryType l) (modifyM (addMemory l))) (context_of ts fs tabs ms gs n)
     (limit_valid (2 ^ 16) l) (context_of ts fs tabs (ms @ [l]) gs n)"
  using checks_seq [OF checks_limit [of l LIMIT_MEMORYTYPE] checks_modify [OF clean_adds(2)]]
  unfolding validateMemoryType_def unat_limits by simp

lemma orFail_seq: "orFail (seqM m (modifyM f)) = seqM (orFail m) (modifyM f)"
  by (rule ext) (auto simp: orFail_def seqM_def bindM_def modifyM_def split: prod.splits outcome.splits)

lemma checks_tableSection:
  "checks (validateTableSection us) (context_of ts fs tabs ms gs n)
     (\<forall>t \<in> set us. limit_valid (2 ^ 32 - 1) (TabLimit t)) (context_of ts fs (tabs @ us) ms gs n)"
  using checks_forM [of us "\<lambda>i. limit_valid (2 ^ 32 - 1) (TabLimit (us ! i))"
      "\<lambda>t. seqM (orFail (validateTableType t)) (modifyM (addTable t))" "\<lambda>i. context_of ts fs (tabs @ take i us) ms gs n"]
    checks_orFail [OF checks_tableType]
  unfolding validateTableSection_def orFail_seq by (simp add: take_Suc_conv_app_nth all_set_conv_all_nth flip: append_assoc)

lemma checks_memorySection:
  "checks (validateMemorySection us) (context_of ts fs tabs ms gs n)
     (\<forall>l \<in> set us. limit_valid (2 ^ 16) l) (context_of ts fs tabs (ms @ us) gs n)"
  using checks_forM [of us "\<lambda>i. limit_valid (2 ^ 16) (us ! i)"
      "\<lambda>t. seqM (orFail (validateMemoryType t)) (modifyM (addMemory t))" "\<lambda>i. context_of ts fs tabs (ms @ take i us) gs n"]
    checks_orFail [OF checks_memoryType]
  unfolding validateMemorySection_def orFail_seq by (simp add: take_Suc_conv_app_nth all_set_conv_all_nth flip: append_assoc)

lemma checks_globalSection:
  "checks (validateGlobalSection us) (context_of ts fs tabs ms gs n)
     (\<forall>k < length us. \<forall>i \<in> set (GSegExpr (us ! k)). const_valid (length gs + k) i)
     (context_of ts fs tabs ms (gs @ map GSegType us) n)"
proof -
  let ?G = "\<lambda>i. context_of ts fs tabs ms (gs @ map GSegType (take i us)) n"
  let ?f = "\<lambda>g. seqM (validateGlobalSegment g) (modifyM (addGlobal (GSegType g) False))"
  have "checks (?f (us ! k)) (?G k) (\<forall>i \<in> set (GSegExpr (us ! k)). const_valid (length gs + k) i) (?G (Suc k))"
    if "k < length us" for k
    using checks_seq [OF checks_constExpr [of "GSegExpr (us ! k)" _ "?G k"] checks_modify [OF clean_adds(4)]] that
    by (simp add: validateGlobalSegment_def take_Suc_conv_app_nth min_def flip: append_assoc)
  then show ?thesis using checks_forM [of us _ ?f ?G] by (simp add: validateGlobalSection_def)
qed

subsection \<open>Imports\<close>

lemmas imp_defs = impFuncs_def impTables_def impMems_def impGlobals_def

lemma imp_snoc:
  "impFuncs (xs @ [x]) = impFuncs xs @ impFuncs [x]" "impTables (xs @ [x]) = impTables xs @ impTables [x]"
  "impMems (xs @ [x]) = impMems xs @ impMems [x]" "impGlobals (xs @ [x]) = impGlobals xs @ impGlobals [x]"
  by (simp_all add: imp_defs)

definition import_valid :: "FunctionType list \<Rightarrow> ImportDesc \<Rightarrow> bool" where
  "import_valid ts i \<longleftrightarrow> (case ImpContent i of
       ExtFunction t \<Rightarrow> unat t < length ts
     | ExtTable t \<Rightarrow> limit_valid (2 ^ 32 - 1) (TabLimit t)
     | ExtMemory l \<Rightarrow> limit_valid (2 ^ 16) l
     | ExtGlobal _ \<Rightarrow> True)"

definition imports_context :: "FunctionType list \<Rightarrow> ImportDesc list \<Rightarrow> FormChecker" where
  "imports_context ts is =
     context_of ts (impFuncs is) (impTables is) (impMems is) (impGlobals is) (length (impGlobals is))"

lemma checks_importDesc:
  "checks (validateImportDesc i) (imports_context ts is) (import_valid ts i) (imports_context ts (is @ [i]))"
proof (cases "ImpContent i")
  case (ExtFunction t)
  then show ?thesis using checks_addFunc
    by (simp add: validateImportDesc_def imports_context_def import_valid_def imp_snoc) (simp add: imp_defs)
next
  case (ExtTable t)
  then show ?thesis using checks_tableType
    by (simp add: validateImportDesc_def imports_context_def import_valid_def imp_snoc) (simp add: imp_defs)
next
  case (ExtMemory t)
  then show ?thesis using checks_memoryType
    by (simp add: validateImportDesc_def imports_context_def import_valid_def imp_snoc) (simp add: imp_defs)
next
  case (ExtGlobal t)
  then show ?thesis using checks_modify [OF clean_adds(3)]
    by (simp add: validateImportDesc_def imports_context_def import_valid_def imp_snoc) (simp add: imp_defs)
qed

lemma checks_importSection:
  "checks (validateImportSection is) (imports_context ts []) (\<forall>i \<in> set is. import_valid ts i) (imports_context ts is)"
  using checks_forM [of "is" "\<lambda>k. import_valid ts (is ! k)" "\<lambda>i. orFail (validateImportDesc i)"
      "\<lambda>k. imports_context ts (take k is)"] checks_orFail [OF checks_importDesc]
  unfolding validateImportSection_def by (simp add: take_Suc_conv_app_nth all_set_conv_all_nth)

lemma imports_valid_iff:
  "(\<forall>i \<in> set is. import_valid ts i) \<longleftrightarrow> (\<forall>t \<in> set (impFuncs is). unat t < length ts) \<and>
     (\<forall>t \<in> set (impTables is). limit_valid (2 ^ 32 - 1) (TabLimit t)) \<and> (\<forall>l \<in> set (impMems is). limit_valid (2 ^ 16) l)"
  by (induction "is") (auto simp: imp_defs import_valid_def split: ExtContent.splits)

subsection \<open>Functions\<close>

lemma fold_addLocal: "fold addLocal vs c = c\<lparr>CLocals := CLocals c @ vs\<rparr>"
  by (induction vs arbitrary: c) (simp_all add: addLocal_def)

lemma addLocals_eq: "addLocals ls c = c\<lparr>CLocals := CLocals c @ localTypes ls\<rparr>"
  by (induction ls arbitrary: c) (auto simp: addLocals_def localTypes_def fold_addLocal simp del: fold_replicate)

lemma validateV_clean:
  assumes "funcs_ok c" and "validateV is rets c = (Ok (), c')"
  shows "swept c' = swept c"
proof -
  let ?c = "pushed [] (CReturns c @ rets) (c\<lparr>CReturns := CReturns c @ rets\<rparr>)"
  have "good (list_all aligned is) (list_all (br_ok True (length (CtrlStack ?c))) is) ?c (checkInstrs is)"
    by (rule good_checkInstrs [OF chk_ok_start [OF assms(1)]])
  then have "frame_rel ?c c'" using assms(2) by (simp add: validateV_checkInstrs good_def)
  then show ?thesis by (auto simp: frame_rel_def ctx_def clean_eq pushed_def)
qed

lemma checks_codeSegment:
  assumes "funcs_ok g" and "unat t < length (CTypes g)"
  shows "checks (validateCodeSegment cs t) g (body_valid g t cs) g"
  unfolding checks_def
proof (intro allI impI)
  fix c
  assume c: "swept c = g"
  obtain ps rs where p: "CTypes g ! unat t = (ps, rs)" by fastforce
  let ?g = "g\<lparr>CLocals := ps @ localTypes (CSegLocals cs)\<rparr>"
  have "CTypes c = CTypes g" "CLocals g = []" using c by (auto simp: clean_simps simp flip: c)
  then have v: "validateCodeSegment cs t c = validateV (CSegExpr cs) rs ?g"
    using assms(2) p c by (simp add: validateCodeSegment_def seqM_def bindM_def modifyM_def fold_addLocal addLocals_eq at_def)
  have "funcs_ok ?g" using assms(1) by (simp add: funcs_ok_def)
  moreover have "swept ?g = g" using c by (auto simp: clean_eq simp flip: c)
  ultimately show "if body_valid g t cs then fst (validateCodeSegment cs t c) = Ok () \<and> swept (snd (validateCodeSegment cs t c)) = g
      else fst (validateCodeSegment cs t c) \<noteq> Ok ()"
    using validateV_clean [of ?g "CSegExpr cs" rs] by (cases "validateV (CSegExpr cs) rs ?g") (auto simp: body_valid_def p v)
qed

lemma checks_functionSection:
  assumes "\<forall>t \<in> set fs. unat t < length ts"
  shows "checks (validateFunctionSection us cs) (context_of ts fs tabs ms gs n)
     ((\<forall>t \<in> set us. unat t < length ts) \<and> list_all2 (body_valid (context_of ts (fs @ us) tabs ms gs n)) us cs)
     (context_of ts (fs @ us) tabs ms gs n)"
proof (cases "length us = length cs")
  case False
  then show ?thesis
    by (auto simp: validateFunctionSection_def checks_def errM_def dest: list_all2_lengthD)
next
  case True
  let ?g = "context_of ts (fs @ us) tabs ms gs n"
  have "checks (addFuncs us) (context_of ts fs tabs ms gs n) (\<forall>t \<in> set us. unat t < length ts) ?g"
    using checks_forM [of us "\<lambda>i. unat (us ! i) < length ts" _ "\<lambda>i. context_of ts (fs @ take i us) tabs ms gs n"] checks_addFunc
    unfolding addFuncs_def by (simp add: take_Suc_conv_app_nth all_set_conv_all_nth flip: append_assoc)
  moreover have "checks (forM (\<lambda>(t, s). validateCodeSegment s t) (zip us cs)) ?g (\<forall>(t, s) \<in> set (zip us cs). body_valid ?g t s) ?g"
    if "\<forall>t \<in> set us. unat t < length ts"
  proof (rule checks_same)
    fix x
    assume "x \<in> set (zip us cs)"
    then have "unat (fst x) < length (CTypes ?g)" using that set_zip_leftD [of "fst x" "snd x" us cs] by simp
    moreover have "funcs_ok ?g" using that assms by (auto simp: funcs_ok_def)
    ultimately show "checks (case x of (t, s) \<Rightarrow> validateCodeSegment s t) ?g (case x of (t, s) \<Rightarrow> body_valid ?g t s) ?g"
      using checks_codeSegment by (simp add: case_prod_beta)
  qed
  ultimately have "checks (validateFunctionSection us cs) (context_of ts fs tabs ms gs n)
      ((\<forall>t \<in> set us. unat t < length ts) \<and> (\<forall>(t, s) \<in> set (zip us cs). body_valid ?g t s)) ?g"
    using checks_seq True unfolding validateFunctionSection_def by simp
  then show ?thesis using True by (simp add: list_all2_iff)
qed

subsection \<open>Segments, start and exports\<close>

lemma checks_guard:
  assumes "checks m g P h" and "\<And>c. swept c = g \<Longrightarrow> b c = B"
  shows "checks (\<lambda>c. if b c then (Err e, c) else m c) g (\<not> B \<and> P) h"
  using assms by (simp add: checks_def)

lemma checks_elementSegment: "checks (validateElementSegment e) g (element_valid g e) g"
proof -
  have "checks (validateElementSegment e) g
      (\<not> (length (CTables g) \<le> unat (ESegTableIdx e) \<or> CTables g ! unat (ESegTableIdx e) \<noteq> FuncRef) \<and>
       \<not> \<not> list_all (\<lambda>i. unat i < length (CFuncs g)) (ESegFuncIdxes e) \<and>
       (\<forall>i \<in> set (ESegExpr e). const_valid (length (CGlobals g)) i)) g"
    unfolding validateElementSegment_def
    by (intro checks_guard checks_constExpr) auto
  then show ?thesis by (simp add: element_valid_def list_all_iff not_le)
qed

lemma checks_dataSegment: "checks (validateDataSegment d) g (data_valid g d) g"
proof -
  have "checks (validateDataSegment d) g
      (\<not> length (CMems g) \<le> unat (DSegMemoryIdx d) \<and> (\<forall>i \<in> set (DSegExpr d). const_valid (length (CGlobals g)) i)) g"
    unfolding validateDataSegment_def
    by (intro checks_guard checks_constExpr) auto
  then show ?thesis by (simp add: data_valid_def not_le)
qed

lemma checks_start:
  assumes "funcs_ok g"
  shows "checks (validateStartSection f) g (start_valid g f) g"
  unfolding checks_def
proof (intro allI impI)
  fix c
  assume c: "swept c = g"
  have "unat f < length (CFuncs c) \<Longrightarrow> unat (CFuncs c ! unat f) < length (CTypes c)"
    using assms c by (auto simp: funcs_ok_def)
  then have "funcType c f = Ok (CTypes c ! unat (CFuncs c ! unat f))" if "unat f < length (CFuncs c)"
    using that by (simp add: funcType_def at_def obind_def)
  then show "if start_valid g f then fst (validateStartSection f c) = Ok () \<and> swept (snd (validateStartSection f c)) = g
     else fst (validateStartSection f c) \<noteq> Ok ()"
    unfolding start_valid_def validateStartSection_def c [symmetric]
    by (cases "CTypes c ! unat (CFuncs c ! unat f)") (auto simp: bindM_def liftM_def errM_def retM_def)
qed

lemma checks_export:
  "ExpExtName e \<noteq> [] \<Longrightarrow> checks (validateExportDesc e) g (export_valid g e) g"
  by (cases "ExpExtType e") (auto simp: checks_def validateExportDesc_def export_valid_def Let_def)

lemma checks_exports:
  "checks (validateExports names es) g
     ((\<forall>e \<in> set es. export_valid g e) \<and> distinct (map ExpExtName es) \<and> set (map ExpExtName es) \<inter> set names = {}) g"
proof (induction es arbitrary: names)
  case Nil
  then show ?case by (simp add: checks_retM)
next
  case (Cons e es)
  show ?case
  proof (cases "ExpExtName e = [] \<or> ExpExtName e \<in> set names")
    case True
    then show ?thesis by (auto simp: checks_def errM_def export_valid_def)
  next
    case False
    let ?rest = "(\<forall>e \<in> set es. export_valid g e) \<and> distinct (map ExpExtName es) \<and>
      set (map ExpExtName es) \<inter> set (ExpExtName e # names) = {}"
    have "checks (validateExports names (e # es)) g (export_valid g e \<and> ?rest) g"
      using checks_seq [OF checks_export Cons.IH [of "ExpExtName e # names"]] False by simp
    moreover have "(export_valid g e \<and> ?rest) = ((\<forall>e \<in> set (e # es). export_valid g e) \<and>
        distinct (map ExpExtName (e # es)) \<and> set (map ExpExtName (e # es)) \<inter> set names = {})"
      using False by auto
    ultimately show ?thesis by simp
  qed
qed

lemma checks_section:
  assumes "\<And>xs. checks (f xs) g (P xs) (h xs)" and "h [] = g" and "P []"
  shows "checks (onSection f s) g (P (sec s)) (h (sec s))"
  using assms(1) assms(2,3) by (cases s) (simp_all add: onSection_def sec_def checks_retM)

section \<open>The validator decides the judgement\<close>

lemma checks_functions:
  assumes "\<forall>t \<in> set fs. unat t < length ts"
  shows "checks (validateFunctions m) (context_of ts fs tabs ms gs n)
     ((FunctionSec m = None \<longleftrightarrow> CodeSec m = None) \<and> (\<forall>t \<in> set (sec (FunctionSec m)). unat t < length ts) \<and>
      list_all2 (body_valid (context_of ts (fs @ sec (FunctionSec m)) tabs ms gs n)) (sec (FunctionSec m)) (sec (CodeSec m)))
     (context_of ts (fs @ sec (FunctionSec m)) tabs ms gs n)"
proof (cases "FunctionSec m"; cases "CodeSec m")
  fix us cs
  assume "FunctionSec m = Some us" and "CodeSec m = Some cs"
  then show ?thesis using checks_functionSection [OF assms, of us cs tabs ms gs n]
    by (simp add: validateFunctions_def sec_def)
qed (simp_all add: validateFunctions_def checks_errM checks_retM sec_def)

lemma checks_final:
  "checks (\<lambda>c. if length (CMems c) > 1 \<or> length (CTables c) > 1 then (Err ValidationFailed, c) else (Ok (), c)) g
     (length (CMems g) \<le> 1 \<and> length (CTables g) \<le> 1) g"
  by (auto simp: checks_def)

lemma checks_cong: "checks m g P h \<Longrightarrow> P = Q \<Longrightarrow> checks m g Q h"
  by simp

lemma resetChecker_True: "resetChecker True c = context_of [] [] [] [] [] 0"
  by (cases c) (simp add: resetChecker_def context_of_def newFormChecker_def Let_def)

lemma checks_start_section:
  assumes "funcs_ok g"
  shows "checks (onSection validateStartSection s) g (\<forall>f. s = Some f \<longrightarrow> start_valid g f) g"
  using checks_start [OF assms] by (cases s) (simp_all add: onSection_def checks_retM)

definition declared_context :: "Module \<Rightarrow> FormChecker" where
  "declared_context m = context_of (sec (TypeSec m)) (impFuncs (sec (ImportSec m))) (allTables m) (allMems m)
     (allGlobals m) (length (impGlobals (sec (ImportSec m))))"

lemma checks_declarations:
  fixes m
  defines "is \<equiv> sec (ImportSec m)" and "ts \<equiv> sec (TypeSec m)"
  assumes rest: "(\<forall>t \<in> set (impFuncs is). unat t < length ts) \<Longrightarrow> checks rest (declared_context m) Q h"
  shows "checks
     (seqM (onSection (\<lambda>ts. modifyM (fold addType ts)) (TypeSec m))
     (seqM (onSection validateImportSection (ImportSec m))
     (seqM (onSection validateTableSection (TableSec m))
     (seqM (onSection validateMemorySection (MemorySec m))
     (seqM (onSection validateGlobalSection (GlobalSec m)) rest))))) (context_of [] [] [] [] [] 0)
     (True \<and> (\<forall>i \<in> set is. import_valid ts i) \<and> (\<forall>t \<in> set (sec (TableSec m)). limit_valid (2 ^ 32 - 1) (TabLimit t)) \<and>
      (\<forall>l \<in> set (sec (MemorySec m)). limit_valid (2 ^ 16) l) \<and>
      (\<forall>k < length (sec (GlobalSec m)). \<forall>i \<in> set (GSegExpr (sec (GlobalSec m) ! k)). const_valid (length (impGlobals is) + k) i) \<and> Q) h"
proof -
  let ?c = "\<lambda>tabs ms gs. context_of ts (impFuncs is) tabs ms gs (length (impGlobals is))"
  have types: "checks (onSection (\<lambda>ts. modifyM (fold addType ts)) (TypeSec m)) (context_of [] [] [] [] [] 0) True (imports_context ts [])"
    using checks_section [of "\<lambda>ts. modifyM (fold addType ts)" "context_of [] [] [] [] [] 0" "\<lambda>_. True"
        "\<lambda>ts. context_of ts [] [] [] [] 0"] checks_addTypes [of _ "[]"]
    by (simp add: imports_context_def imp_defs ts_def)
  have imps: "checks (onSection validateImportSection (ImportSec m)) (imports_context ts []) (\<forall>i \<in> set is. import_valid ts i)
      (imports_context ts is)"
    unfolding is_def by (rule checks_section [OF checks_importSection]) simp_all
  have tables: "checks (onSection validateTableSection (TableSec m)) (imports_context ts is)
      (\<forall>t \<in> set (sec (TableSec m)). limit_valid (2 ^ 32 - 1) (TabLimit t)) (?c (allTables m) (impMems is) (impGlobals is))"
    unfolding allTables_def imports_context_def is_def by (rule checks_section [OF checks_tableSection]) simp_all
  have mems: "checks (onSection validateMemorySection (MemorySec m)) (?c (allTables m) (impMems is) (impGlobals is))
      (\<forall>l \<in> set (sec (MemorySec m)). limit_valid (2 ^ 16) l) (?c (allTables m) (allMems m) (impGlobals is))"
    unfolding allMems_def is_def by (rule checks_section [OF checks_memorySection]) simp_all
  have globals: "checks (onSection validateGlobalSection (GlobalSec m)) (?c (allTables m) (allMems m) (impGlobals is))
      (\<forall>k < length (sec (GlobalSec m)). \<forall>i \<in> set (GSegExpr (sec (GlobalSec m) ! k)). const_valid (length (impGlobals is) + k) i)
      (declared_context m)"
    unfolding allGlobals_def is_def ts_def declared_context_def by (rule checks_section [OF checks_globalSection]) simp_all
  have "checks rest (declared_context m) Q h" if "\<forall>i \<in> set is. import_valid ts i"
    using that rest by (simp add: imports_valid_iff)
  then show ?thesis
    by (rule checks_seq [OF types checks_seq [OF imps checks_seq [OF tables checks_seq [OF mems checks_seq [OF globals]]]]])
qed

lemma checks_definitions:
  fixes m
  defines "g \<equiv> module_context m" and "ts \<equiv> sec (TypeSec m)"
  assumes imps: "\<forall>t \<in> set (impFuncs (sec (ImportSec m))). unat t < length ts"
  shows "checks
     (seqM (validateFunctions m)
     (seqM (onSection validateElementSection (ElementSec m))
     (seqM (onSection validateDataSection (DataSec m))
     (seqM (onSection validateStartSection (StartSec m))
     (seqM (onSection validateExportSection (ExportSec m))
     (\<lambda>c. if length (CMems c) > 1 \<or> length (CTables c) > 1 then (Err ValidationFailed, c) else (Ok (), c)))))))
     (declared_context m)
     (((FunctionSec m = None \<longleftrightarrow> CodeSec m = None) \<and> (\<forall>t \<in> set (sec (FunctionSec m)). unat t < length ts) \<and>
        list_all2 (body_valid g) (sec (FunctionSec m)) (sec (CodeSec m))) \<and>
      (\<forall>e \<in> set (sec (ElementSec m)). element_valid g e) \<and> (\<forall>d \<in> set (sec (DataSec m)). data_valid g d) \<and>
      (\<forall>f. StartSec m = Some f \<longrightarrow> start_valid g f) \<and>
      ((\<forall>e \<in> set (sec (ExportSec m)). export_valid g e) \<and> distinct (map ExpExtName (sec (ExportSec m)))) \<and>
      length (CMems g) \<le> 1 \<and> length (CTables g) \<le> 1) g"
proof -
  have funs: "checks (validateFunctions m) (declared_context m)
      ((FunctionSec m = None \<longleftrightarrow> CodeSec m = None) \<and> (\<forall>t \<in> set (sec (FunctionSec m)). unat t < length ts) \<and>
       list_all2 (body_valid g) (sec (FunctionSec m)) (sec (CodeSec m))) g"
    using checks_functions [OF imps] by (simp add: module_context_def allFuncs_def declared_context_def g_def ts_def)
  have elems: "checks (onSection validateElementSection (ElementSec m)) g (\<forall>e \<in> set (sec (ElementSec m)). element_valid g e) g"
    unfolding validateElementSection_def by (intro checks_section checks_same checks_elementSegment) simp_all
  have data: "checks (onSection validateDataSection (DataSec m)) g (\<forall>d \<in> set (sec (DataSec m)). data_valid g d) g"
    unfolding validateDataSection_def by (intro checks_section checks_same checks_dataSegment) simp_all
  have start: "checks (onSection validateStartSection (StartSec m)) g (\<forall>f. StartSec m = Some f \<longrightarrow> start_valid g f) g"
    if "(FunctionSec m = None \<longleftrightarrow> CodeSec m = None) \<and> (\<forall>t \<in> set (sec (FunctionSec m)). unat t < length ts) \<and>
       list_all2 (body_valid g) (sec (FunctionSec m)) (sec (CodeSec m))"
    using that imps
    by (intro checks_start_section) (auto simp: funcs_ok_def module_context_def allFuncs_def g_def ts_def)
  have exports: "checks (onSection validateExportSection (ExportSec m)) g
      ((\<forall>e \<in> set (sec (ExportSec m)). export_valid g e) \<and> distinct (map ExpExtName (sec (ExportSec m)))) g"
    unfolding validateExportSection_def using checks_exports [of "[]"] by (intro checks_section) simp_all
  show ?thesis
    by (rule checks_seq [OF funs checks_seq [OF elems checks_seq [OF data checks_seq [OF start checks_seq [OF exports checks_final]]]]])
qed

lemma seqM_modify: "seqM (modifyM f) m c = m (f c)"
  by (simp add: seqM_def bindM_def modifyM_def)

lemma validateModule_decides:
  "if module_valid m then fst (validateModule m c) = Ok () \<and> swept (snd (validateModule m c)) = module_context m
   else fst (validateModule m c) \<noteq> Ok ()"
proof -
  have "swept (resetChecker True c) = context_of [] [] [] [] [] 0" by (simp add: clean_context resetChecker_True)
  from checksD [OF checks_declarations [of m, OF checks_definitions [of m]] this] show ?thesis
    unfolding validateModule_def seqM_modify module_valid_def imports_valid_iff Let_def allFuncs_def allTables_def allMems_def
    by (simp add: ball_Un conj_ac module_context_def allTables_def allMems_def)
qed

section \<open>No undefined behaviour\<close>

text \<open>\<open>sound T m\<close>: with the types \<open>T\<close> and well-typed functions the call is defined, and keeps this.\<close>

definition typed_by :: "(VType list \<times> VType list) list \<Rightarrow> FormChecker \<Rightarrow> bool" where
  "typed_by T c \<longleftrightarrow> CTypes c = T \<and> funcs_ok c"

definition sound :: "(VType list \<times> VType list) list \<Rightarrow> unit check \<Rightarrow> bool" where
  "sound T m \<longleftrightarrow> (\<forall>c. typed_by T c \<longrightarrow> defined (fst (m c)) \<and> (fst (m c) = Ok () \<longrightarrow> typed_by T (snd (m c))))"

named_theorems sound_intros "validator calls that are sound"

lemma sound_seqM [sound_intros]: "sound T m \<Longrightarrow> sound T n \<Longrightarrow> sound T (seqM m n)"
  by (force simp: sound_def seqM_def bindM_def split: prod.splits outcome.splits)

lemma sound_basic [sound_intros]: "sound T (retM ())" "sound T (errM e)"
  by (simp_all add: sound_def retM_def errM_def)

lemma sound_forM [sound_intros]: "(\<And>x. x \<in> set xs \<Longrightarrow> sound T (f x)) \<Longrightarrow> sound T (forM f xs)"
  by (induction xs) (auto intro: sound_intros)

lemma sound_orFail [sound_intros]: "sound T m \<Longrightarrow> sound T (orFail m)"
  by (force simp: sound_def orFail_def split: prod.splits outcome.splits)

lemma sound_onSection: "(\<And>x. s = Some x \<Longrightarrow> sound T (f x)) \<Longrightarrow> sound T (onSection f s)"
  by (cases s) (simp_all add: onSection_def sound_basic)

lemma typed_by_adds:
  "typed_by T c \<Longrightarrow> typed_by T (addTable t c)" "typed_by T c \<Longrightarrow> typed_by T (addMemory l c)"
  "typed_by T c \<Longrightarrow> typed_by T (addGlobal g b c)" "typed_by T c \<Longrightarrow> typed_by T (addFunc i c)"
  "typed_by T c \<Longrightarrow> typed_by T (swept c)"
  by (auto simp: typed_by_def funcs_ok_def addTable_def addMemory_def addGlobal_def addFunc_def Let_def)

lemma sound_modifyM [sound_intros]: "(\<And>c. typed_by T c \<Longrightarrow> typed_by T (f c)) \<Longrightarrow> sound T (modifyM f)"
  by (simp add: sound_def modifyM_def)

lemma typed_by_clean: "swept c = swept d \<Longrightarrow> typed_by T d \<Longrightarrow> typed_by T c"
  by (auto simp: clean_eq funcs_ok_def typed_by_def)

lemma sound_limit [sound_intros]: "sound T (validateLimit l k)"
  by (simp add: validateLimit_def Let_def sound_intros)

lemma sound_validateV:
  assumes "list_all aligned is"
  shows "sound T (validateV is rets)"
  unfolding sound_def
proof (intro allI impI)
  fix c
  assume c: "typed_by T c"
  then have "funcs_ok c" by (simp add: typed_by_def)
  then have "good True True (pushed [] (CReturns c @ rets) (c\<lparr>CReturns := CReturns c @ rets\<rparr>)) (checkInstrs is)"
    using good_checkInstrs [OF chk_ok_start, of c "is"] assms by (auto intro: good_mono)
  then show "defined (fst (validateV is rets c)) \<and> (fst (validateV is rets c) = Ok () \<longrightarrow> typed_by T (snd (validateV is rets c)))"
    using validateV_clean [OF \<open>funcs_ok c\<close>, of "is" rets] typed_by_clean [OF _ c]
    by (cases "validateV is rets c") (auto simp: validateV_checkInstrs good_def defined_def)
qed

lemma sound_constExpr [sound_intros]: "sound T (validateConstExpr is rets r)"
proof -
  have "list_all aligned is" if "list_all (constInstr r c) is" for c
    using that by (rule list.pred_mono_strong) (metis aligned.simps constInstr.elims(2))
  then have "sound T (validateV is (map ASTToVType rets))" if "list_all (constInstr r c) is" for c
    using that sound_validateV by blast
  then show ?thesis
    unfolding sound_def validateConstExpr_def validateA_def using typed_by_adds(5) by auto
qed

lemma sound_codeSegment:
  assumes "list_all aligned (CSegExpr cs)" and "unat t < length T"
  shows "sound T (validateCodeSegment cs t)"
proof -
  have "validateCodeSegment cs t c = validateV (CSegExpr cs) (snd (T ! unat t))
      ((swept c)\<lparr>CLocals := fst (T ! unat t) @ localTypes (CSegLocals cs)\<rparr>)" if "typed_by T c" for c
    using that assms(2)
    by (simp add: validateCodeSegment_def seqM_def bindM_def modifyM_def fold_addLocal addLocals_eq at_def typed_by_def
        split: prod.splits)
  moreover have "typed_by T ((swept c)\<lparr>CLocals := ls\<rparr>)" if "typed_by T c" for c ls
    using that by (auto simp: typed_by_def funcs_ok_def)
  ultimately show ?thesis using sound_validateV [OF assms(1), of T "snd (T ! unat t)"] by (simp add: sound_def)
qed

lemma addFuncs_types: "typed_by T c \<Longrightarrow> fst (addFuncs us c) = Ok () \<Longrightarrow> \<forall>t \<in> set us. unat t < length T"
proof (induction us arbitrary: c)
  case (Cons u us)
  then show ?case using typed_by_adds(4) [of T c u] Cons.IH [of "addFunc u c"]
    by (auto simp: addFuncs_def seqM_def bindM_def typed_by_def split: if_splits)
qed simp

lemma sound_addFunc [sound_intros]:
  "sound T (\<lambda>c. if length (CTypes c) \<le> unat t then (Err ValidationFailed, c) else (Ok (), addFunc t c))"
  using typed_by_adds(4) by (auto simp: sound_def)

lemma sound_functionSection:
  assumes "\<forall>s \<in> set cs. list_all aligned (CSegExpr s)"
  shows "sound T (validateFunctionSection us cs)"
proof (cases "\<forall>t \<in> set us. unat t < length T")
  case True
  have "sound T (forM (\<lambda>(t, s). validateCodeSegment s t) (zip us cs))"
  proof (rule sound_forM)
    fix x
    assume "x \<in> set (zip us cs)"
    then have "fst x \<in> set us" "snd x \<in> set cs" using set_zip_leftD set_zip_rightD by (metis prod.collapse)+
    then show "sound T (case x of (t, s) \<Rightarrow> validateCodeSegment s t)"
      using sound_codeSegment True assms by (simp add: case_prod_beta)
  qed
  then show ?thesis by (auto simp: validateFunctionSection_def addFuncs_def intro!: sound_intros)
next
  case False
  then have "fst (addFuncs us c) \<noteq> Ok ()" if "typed_by T c" for c using addFuncs_types that by blast
  moreover have "sound T (addFuncs us)" unfolding addFuncs_def by (intro sound_intros)
  ultimately show ?thesis
    by (auto simp: validateFunctionSection_def sound_def errM_def seqM_def bindM_def split: prod.splits outcome.splits) force+
qed

lemma sound_guard:
  "sound T m \<Longrightarrow> sound T (\<lambda>c. if b c then (Err e, c) else m c)"
  by (simp add: sound_def)

lemma sound_start: "sound T (validateStartSection f)"
proof -
  have "funcType c f = Ok (T ! unat (CFuncs c ! unat f))" if "typed_by T c" and "unat f < length (CFuncs c)" for c
    using that by (auto simp: typed_by_def funcs_ok_def funcType_def at_def obind_def)
  then show ?thesis
    by (auto simp: sound_def validateStartSection_def bindM_def liftM_def errM_def retM_def not_le split: prod.splits)
qed

lemma sound_exports: "sound T (validateExports names es)"
proof (induction es arbitrary: names)
  case (Cons e es)
  have "sound T (validateExportDesc e)" by (auto simp: sound_def validateExportDesc_def Let_def)
  then show ?case using Cons.IH by (auto intro!: sound_intros)
qed (simp add: sound_basic)

lemma sound_importDesc: "sound T (validateImportDesc i)"
  unfolding validateImportDesc_def validateTableType_def validateMemoryType_def
  by (cases "ImpContent i") (auto intro!: sound_intros typed_by_adds)

lemma sound_section_list: "(\<And>x. sound T (f x)) \<Longrightarrow> sound T (onSection (forM f) s)"
  by (auto intro!: sound_onSection sound_intros)

lemma sound_sections:
  "sound T (onSection validateImportSection s1)" "sound T (onSection validateTableSection s2)"
  "sound T (onSection validateMemorySection s3)" "sound T (onSection validateGlobalSection s4)"
  "sound T (onSection validateElementSection s5)" "sound T (onSection validateDataSection s6)"
  "sound T (onSection validateStartSection s7)" "sound T (onSection validateExportSection s8)"
proof -
  have "sound T (validateElementSegment e)" for e
    unfolding validateElementSegment_def by (intro sound_guard sound_constExpr)
  moreover have "sound T (validateDataSegment e)" for e
    unfolding validateDataSegment_def by (intro sound_guard sound_constExpr)
  ultimately show "sound T (onSection validateImportSection s1)" "sound T (onSection validateTableSection s2)"
    "sound T (onSection validateMemorySection s3)" "sound T (onSection validateGlobalSection s4)"
    "sound T (onSection validateElementSection s5)" "sound T (onSection validateDataSection s6)"
    "sound T (onSection validateStartSection s7)" "sound T (onSection validateExportSection s8)"
    unfolding validateImportSection_def validateTableSection_def validateMemorySection_def validateGlobalSection_def
      validateElementSection_def validateDataSection_def validateExportSection_def
      validateTableType_def validateMemoryType_def validateGlobalSegment_def
    by (auto intro!: sound_section_list sound_onSection sound_exports sound_start sound_importDesc sound_intros typed_by_adds)
qed

lemma sound_functions:
  assumes "\<forall>s \<in> set (sec (CodeSec m)). list_all aligned (CSegExpr s)"
  shows "sound T (validateFunctions m)"
  using assms sound_functionSection [of _ T] sound_basic
  by (auto simp: validateFunctions_def sec_def split: option.splits)

section \<open>Properties\<close>

text \<open>C2. The validator decides a declarative judgement: whatever was validated before, a module is accepted
  exactly if all its type, function, table, memory and global indices are in range, its limits are
  ordered and bounded (tables by 2^32 - 1 entries, memories by 2^16 pages), its constant expressions
  are constant and refer to earlier globals only, the code section matches the function section and
  the stack-typing pass accepts every body in the context of the module, the start function takes and
  returns nothing, the export names are distinct and not empty, and there is at most one table and one memory.\<close>

theorem validateModule_correct: "fst (validateModule m c) = Ok () \<longleftrightarrow> module_valid m"
  using validateModule_decides [of m c] by (auto split: if_splits)

text \<open>C16. The validator has no undefined behaviour: on every module whose memory instructions have alignment
  hints below 64 it accepts or reports an error, whatever the indices, limits and bodies are.\<close>

theorem validateModule_defined:
  assumes "\<forall>s \<in> set (sec (CodeSec m)). list_all aligned (CSegExpr s)"
  shows "defined (fst (validateModule m c))"
proof -
  define T where "T = map sig (sec (TypeSec m))"
  let ?c = "resetChecker True c"
  have "sound T (seqM (onSection validateImportSection (ImportSec m))
      (seqM (onSection validateTableSection (TableSec m)) (seqM (onSection validateMemorySection (MemorySec m))
      (seqM (onSection validateGlobalSection (GlobalSec m)) (seqM (validateFunctions m)
      (seqM (onSection validateElementSection (ElementSec m)) (seqM (onSection validateDataSection (DataSec m))
      (seqM (onSection validateStartSection (StartSec m)) (seqM (onSection validateExportSection (ExportSec m))
      (\<lambda>c. if length (CMems c) > 1 \<or> length (CTables c) > 1 then (Err ValidationFailed, c) else (Ok (), c)))))))))))"
    (is "sound T ?rest")
    using assms by (intro sound_intros sound_sections sound_functions) (simp_all add: sound_def)
  moreover have "onSection (\<lambda>ts. modifyM (fold addType ts)) (TypeSec m) ?c =
      (Ok (), fold addType (sec (TypeSec m)) ?c)" (is "_ = (Ok (), ?d)")
    by (auto simp: onSection_def sec_def retM_def modifyM_def split: option.splits)
  moreover have "typed_by T ?d"
    using checks_addTypes [of "sec (TypeSec m)" "[]" "[]" "[]" "[]" "[]" 0]
    by (auto simp: checks_def modifyM_def clean_context resetChecker_True typed_by_def funcs_ok_def T_def)
  ultimately show ?thesis
    unfolding validateModule_def seqM_modify by (simp add: seqM_def [of "onSection _ (TypeSec m)"] bindM_def sound_def)
qed

theorem validateModule_defined_witness:
  "\<forall>c. defined (fst (validateModule (empty_Module\<lparr>CodeSec := Some [\<lparr>CSegSize = 0, CSegLocals = [],
     CSegExpr = [MemoryInstr I32__load 63 0]\<rparr>]\<rparr>) c))"
  using validateModule_defined [of "empty_Module\<lparr>CodeSec := Some [\<lparr>CSegSize = 0, CSegLocals = [],
     CSegExpr = [MemoryInstr I32__load 63 0]\<rparr>]\<rparr>"]
  by (simp add: sec_def)

end
