(* ===== verification/Instantiate.thy ===== *)
theory Instantiate
  imports Interp
begin

text \<open>
  Instantiation of a module: \<open>lib/interpreter/instantiate/*.cpp\<close>, with \<open>instantiateModule\<close> and the
  \<open>registerModule\<close> of a WebAssembly module from \<open>lib/interpreter/interpreter.cpp\<close>.

  The reference \<open>ModInst\<close> that the overloads of \<open>instantiate\<close> share is the address \<open>ma\<close> of the new
  module in the store. The constant expressions and the start function are run by the engine, with
  the same fuel for each of these runs. The external type of an import is the constructor of its
  content. \<open>getMax\<close> of a limit or instance without maximum is uninitialised; the code only compares
  it when there is a maximum.
\<close>

section \<open>Access to the store\<close>

definition onStore :: "('h StoreManager, 'a) exec \<Rightarrow> ('h, 'a) interp" where
  "onStore m st = (let (r, s) = m (Store st) in (r, st\<lparr>Store := s\<rparr>))"

text \<open>\<open>if (InsMode == Instantiate) StoreMgr.pushX(...); else StoreMgr.importX(...);\<close>\<close>

definition insertInst ::
  "('a \<Rightarrow> 'h StoreManager \<Rightarrow> u32 \<times> 'h StoreManager) \<Rightarrow> ('a \<Rightarrow> 'h StoreManager \<Rightarrow> u32 \<times> 'h StoreManager) \<Rightarrow>
   'a \<Rightarrow> ('h, u32) interp" where
  "insertInst psh imp x st =
     (let (a, s) = (if InsMode st = ModeInstantiate then psh x (Store st) else imp x (Store st)) in
      (Ok a, st\<lparr>Store := s\<rparr>))"

definition modInst :: "u32 \<Rightarrow> ('h, ModuleInstance) interp" where
  "modInst ma = getsM (\<lambda>st. deref (getModule (Store st) ma))"

definition updMod :: "u32 \<Rightarrow> (ModuleInstance \<Rightarrow> ModuleInstance) \<Rightarrow> ('h, unit) interp" where
  "updMod ma f = onStore (onMod ma (\<lambda>m. Ok (f m)))"

definition setTab :: "u32 \<Rightarrow> TableInstance \<Rightarrow> 'h StoreManager \<Rightarrow> 'h StoreManager" where
  "setTab a t s = s\<lparr>Tabs := (Tabs s)\<lparr>Insts := (Insts (Tabs s))[unat a := t]\<rparr>\<rparr>"

section \<open>Imports\<close>

definition isLimitMatched :: "bool \<Rightarrow> u32 \<Rightarrow> u32 \<Rightarrow> bool \<Rightarrow> u32 \<Rightarrow> u32 \<Rightarrow> bool" where
  "isLimitMatched hasMax1 min1 max1 hasMax2 min2 max2 =
     (if min1 < min2 \<or> \<not> hasMax1 \<and> hasMax2 then False
      else if hasMax1 \<and> hasMax2 \<and> max1 > max2 then False else True)"

text \<open>The address of an export, or the error of the three lookups that miss.\<close>

definition exportAddr :: "(Bytes \<rightharpoonup> u32) \<Rightarrow> Bytes \<Rightarrow> ('h, u32) interp" where
  "exportAddr exps name = (case exps name of None \<Rightarrow> errM WrongInstanceAddress | Some a \<Rightarrow> retM a)"

definition importFunc :: "u32 \<Rightarrow> u32 \<Rightarrow> u32 \<Rightarrow> ('h, unit) interp" where
  "importFunc ma a t =
     bindM (getsM (\<lambda>st. deref (getFunction (Store st) a))) (\<lambda>f.
     bindM (modInst ma) (\<lambda>m.
     bindM (liftM (getFuncType m t)) (\<lambda>ft.
     if Params (getType f) \<noteq> Params ft \<or> Returns (getType f) \<noteq> Returns ft then errM ImportNotMatch
     else updMod ma (addFuncAddr a))))"

definition importTab :: "u32 \<Rightarrow> u32 \<Rightarrow> TableType \<Rightarrow> ('h, unit) interp" where
  "importTab ma a t =
     bindM (getsM (\<lambda>st. deref (getTable (Store st) a))) (\<lambda>ti.
     if TElem ti \<noteq> TabElem t \<or>
        \<not> isLimitMatched (HasMaxSize ti) (MinSize ti) (MaxSize ti) (hasMax (TabLimit t)) (getMin (TabLimit t)) (limMax (TabLimit t))
     then errM ImportNotMatch else updMod ma (addTableAddr a))"

definition importMem :: "u32 \<Rightarrow> u32 \<Rightarrow> MemoryType \<Rightarrow> ('h, unit) interp" where
  "importMem ma a l =
     bindM (getsM (\<lambda>st. deref (getMemory (Store st) a))) (\<lambda>mi.
     if \<not> isLimitMatched (HasMaxPage mi) (MinPage mi) (MaxPage mi) (hasMax l) (getMin l) (limMax l)
     then errM ImportNotMatch else updMod ma (addMemAddr a))"

definition importGlob :: "u32 \<Rightarrow> u32 \<Rightarrow> GlobalType \<Rightarrow> ('h, unit) interp" where
  "importGlob ma a g =
     bindM (getsM (\<lambda>st. deref (getGlobal (Store st) a))) (\<lambda>gi.
     if GType gi \<noteq> GlobType g \<or> GMut gi \<noteq> GlobMut g
     then errM ImportNotMatch else updMod ma (addGlobalAddr a))"

definition instantiateImport :: "u32 \<Rightarrow> ImportDesc \<Rightarrow> ('h, unit) interp" where
  "instantiateImport ma d =
     bindM (getsM (\<lambda>st. findModule (Store st) (ImpModName d))) (\<lambda>tgt. case ImpContent d of
       ExtFunction t \<Rightarrow> bindM (exportAddr (ExpFuncs tgt) (ImpExtName d)) (\<lambda>a. importFunc ma a t)
     | ExtTable t \<Rightarrow> bindM (exportAddr (ExpTables tgt) (ImpExtName d)) (\<lambda>a. importTab ma a t)
     | ExtMemory l \<Rightarrow> bindM (exportAddr (ExpMems tgt) (ImpExtName d)) (\<lambda>a. importMem ma a l)
     | ExtGlobal g \<Rightarrow> bindM (exportAddr (ExpGlobals tgt) (ImpExtName d)) (\<lambda>a. importGlob ma a g))"

definition instantiateImports :: "u32 \<Rightarrow> ImportDesc list \<Rightarrow> ('h, unit) interp" where
  "instantiateImports ma = forM (instantiateImport ma)"

section \<open>Definitions of the module\<close>

definition instantiateFunction :: "u32 \<Rightarrow> u32 list \<Rightarrow> CodeSegment list \<Rightarrow> nat \<Rightarrow> ('h, unit) interp" where
  "instantiateFunction ma ts cs i =
     bindM (modInst ma) (\<lambda>m.
     bindM (liftM (if i < length ts then Ok (ts ! i) else Undef)) (\<lambda>t.
     bindM (liftM (deref (getFuncType m t))) (\<lambda>ft.
     bindM (insertInst pushFunction importFunction
       (newFunction (Addr m) ft (CSegLocals (cs ! i)) (CSegExpr (cs ! i)))) (\<lambda>a.
     updMod ma (addFuncAddr a)))))"

definition instantiateFunctions :: "u32 \<Rightarrow> u32 list \<Rightarrow> CodeSegment list \<Rightarrow> ('h, unit) interp" where
  "instantiateFunctions ma ts cs = forM (instantiateFunction ma ts cs) [0..<length cs]"

definition instantiateGlobal :: "fpu \<Rightarrow> nat \<Rightarrow> u32 \<Rightarrow> GlobalSegment \<Rightarrow> ('h, unit) interp" where
  "instantiateGlobal F n ma g =
     seqM (runExpression F n (GSegExpr g))
    (bindM (onStack pop) (\<lambda>v.
     bindM (insertInst pushGlobal importGlobal
       ((newGlobal (GlobType (GSegType g)) (GlobMut (GSegType g)))\<lparr>GValue := v\<rparr>)) (\<lambda>a.
     updMod ma (addGlobalAddr a))))"

definition instantiateGlobals :: "fpu \<Rightarrow> nat \<Rightarrow> u32 \<Rightarrow> GlobalSegment list \<Rightarrow> ('h, unit) interp" where
  "instantiateGlobals F n ma gs =
     bindM (modInst ma) (\<lambda>m.
     bindM (onStore (\<lambda>s. let (a, s') = pushModule (fold addGlobalAddr
         (take (unat (getGlobalNum m)) (GlobalAddrs m)) (newModuleInstance [])) s in (Ok a, s'))) (\<lambda>tmp.
     seqM (onStack (pushFrame tmp 0 0))
    (seqM (forM (instantiateGlobal F n ma) gs)
    (bindM (onStack popFrame) (\<lambda>_. onStore popModule)))))"

definition instantiateTable :: "u32 \<Rightarrow> TableType \<Rightarrow> ('h, unit) interp" where
  "instantiateTable ma t =
     bindM (insertInst pushTable importTable (newTable (TabElem t) (TabLimit t))) (\<lambda>a. updMod ma (addTableAddr a))"

definition instantiateMemory :: "u32 \<Rightarrow> MemoryType \<Rightarrow> ('h, unit) interp" where
  "instantiateMemory ma l =
     bindM (insertInst pushMemory importMemory (newMemory l)) (\<lambda>a. updMod ma (addMemAddr a))"

section \<open>Initialisation\<close>

text \<open>Every function index of the segment is replaced by its address.\<close>

definition funcAddrs :: "ModuleInstance \<Rightarrow> u32 list \<Rightarrow> u32 list Expect" where
  "funcAddrs m is = (if list_all (\<lambda>i. unat i < length (FuncAddrs m)) is
     then Ok (map (\<lambda>i. FuncAddrs m ! unat i) is) else Undef)"

definition instantiateElement :: "fpu \<Rightarrow> nat \<Rightarrow> u32 \<Rightarrow> ElementSegment \<Rightarrow> ('h, unit) interp" where
  "instantiateElement F n ma e =
     seqM (runExpression F n (ESegExpr e))
    (bindM (onStack pop) (\<lambda>v.
     bindM (modInst ma) (\<lambda>m.
     bindM (liftM (deref (getTableAddr m (ESegTableIdx e)))) (\<lambda>a.
     bindM (getsM (\<lambda>st. deref (getTable (Store st) a))) (\<lambda>t.
     bindM (liftM (funcAddrs m (ESegFuncIdxes e))) (\<lambda>addrs.
     onStore (\<lambda>s. let (r, t') = setInitList (get32 v) addrs t in (r, setTab a t' s))))))))"

definition instantiateData :: "fpu \<Rightarrow> nat \<Rightarrow> u32 \<Rightarrow> DataSegment \<Rightarrow> ('h, unit) interp" where
  "instantiateData F n ma d =
     seqM (runExpression F n (DSegExpr d))
    (bindM (onStack pop) (\<lambda>v.
     bindM (modInst ma) (\<lambda>m.
     bindM (liftM (deref (getMemAddr m (DSegMemoryIdx d)))) (\<lambda>a.
     bindM (getsM (\<lambda>st. deref (getMemory (Store st) a))) (\<lambda>_.
     onMem a (setBytes (DSegData d) (get32 v) 0 (of_nat (length (DSegData d)))))))))"

definition instantiateExport :: "u32 \<Rightarrow> ExportDesc \<Rightarrow> ('h, unit) interp" where
  "instantiateExport ma e = (case ExpExtType e of
       Function \<Rightarrow> onStore (onMod ma (exportFuncion (ExpExtName e) (ExpExtIdx e)))
     | Global \<Rightarrow> onStore (onMod ma (exportGlobal (ExpExtName e) (ExpExtIdx e)))
     | Memory \<Rightarrow> onStore (onMod ma (exportMemory (ExpExtName e) (ExpExtIdx e)))
     | Table \<Rightarrow> onStore (onMod ma (exportTable (ExpExtName e) (ExpExtIdx e)))
     | XOther _ \<Rightarrow> retM ())"

definition instantiateStart :: "fpu \<Rightarrow> nat \<Rightarrow> u32 \<Rightarrow> u32 \<Rightarrow> ('h, unit) interp" where
  "instantiateStart F n ma i =
     seqM (onStore (onMod ma (setStartIdx i)))
    (bindM (modInst ma) (\<lambda>m.
     bindM (liftM (case StartAddr m of None \<Rightarrow> Undef | Some a \<Rightarrow> Ok a)) (\<lambda>a.
     bindM (getsM (\<lambda>st. deref (getFunction (Store st) a))) (runFunction F n))))"

section \<open>Modules\<close>

definition onSec :: "('a \<Rightarrow> ('h, unit) interp) \<Rightarrow> 'a option \<Rightarrow> ('h, unit) interp" where
  "onSec f s = (case s of None \<Rightarrow> retM () | Some x \<Rightarrow> f x)"

definition instantiateInto :: "fpu \<Rightarrow> nat \<Rightarrow> Module \<Rightarrow> u32 \<Rightarrow> ('h, unit) interp" where
  "instantiateInto F n md ma =
     seqM (onSec (\<lambda>ts. updMod ma (fold (\<lambda>f. addFuncType (ParamTypes f) (ReturnTypes f)) ts)) (TypeSec md))
    (seqM (onSec (instantiateImports ma) (ImportSec md))
    (seqM (case (FunctionSec md, CodeSec md) of
             (Some ts, Some cs) \<Rightarrow> instantiateFunctions ma ts cs | _ \<Rightarrow> retM ())
    (seqM (onSec (instantiateGlobals F n ma) (GlobalSec md))
    (seqM (onSec (forM (instantiateTable ma)) (TableSec md))
    (seqM (onSec (forM (instantiateMemory ma)) (MemorySec md))
    (seqM (bindM (modInst ma) (\<lambda>m. onStack (pushFrame (Addr m) 0 0)))
    (seqM (onSec (forM (instantiateElement F n ma)) (ElementSec md))
    (seqM (onSec (forM (instantiateData F n ma)) (DataSec md))
    (bindM (onStack popFrame) (\<lambda>_.
     seqM (onSec (forM (instantiateExport ma)) (ExportSec md))
          (onSec (instantiateStart F n ma) (StartSec md))))))))))))"

definition instantiate :: "fpu \<Rightarrow> nat \<Rightarrow> Module \<Rightarrow> Bytes \<Rightarrow> ('h, unit) interp" where
  "instantiate F n md name st = (case findModule (Store st) name of
       Ok _ \<Rightarrow> (Err ModuleNameConflict, st)
     | _ \<Rightarrow>
         seqM (onStore (resetStore False))
        (seqM (onStack (modifyM resetStack))
        (seqM (onPdr (modifyM resetInstrs))
        (bindM (insertInst pushModule importModule (newModuleInstance name)) (instantiateInto F n md)))) st)"

definition instantiateModule :: "fpu \<Rightarrow> nat \<Rightarrow> Module \<Rightarrow> Bytes \<Rightarrow> ('h, unit) interp" where
  "instantiateModule F n md name = seqM (modifyM (\<lambda>st. st\<lparr>InsMode := ModeInstantiate\<rparr>)) (instantiate F n md name)"

definition registerModule :: "fpu \<Rightarrow> nat \<Rightarrow> Module \<Rightarrow> Bytes \<Rightarrow> ('h, unit) interp" where
  "registerModule F n md name = seqM (modifyM (\<lambda>st. st\<lparr>InsMode := ModeImportWasm\<rparr>)) (instantiate F n md name)"

end
