(* ===== verification/EngineFrame.thy ===== *)
theory EngineFrame
  imports Instantiate
begin

text \<open>
  What running code leaves alone. The \<open>layout\<close> of the store: its modules, functions and tables, and of
  its memories and globals everything but their contents. No instruction, no host function and so no
  run of the engine changes it, however the run ends.
\<close>

definition vec_layout :: "'a InstVec \<Rightarrow> nat \<times> nat list \<times> u32" where
  "vec_layout v = (length (Insts v), ImpInsts v, Num v)"

definition layout :: "'h Interp \<Rightarrow> _" where
  "layout st = (Mods (Store st), Funcs (Store st), Tabs (Store st), vec_layout (Mems (Store st)),
     vec_layout (Globs (Store st)), InsMode st)"

definition framed :: "('h, 'a) interp \<Rightarrow> bool" where
  "framed m \<longleftrightarrow> (\<forall>st. layout (snd (m st)) = layout st)"

named_theorems frame_intros "operations that keep the layout of the store"

lemma framedI: "(\<And>st. layout (snd (m st)) = layout st) \<Longrightarrow> framed m"
  by (simp add: framed_def)

lemma framedD: "framed m \<Longrightarrow> layout (snd (m st)) = layout st"
  by (simp add: framed_def)

lemma framed_bindM [frame_intros]: "framed m \<Longrightarrow> (\<And>x. framed (f x)) \<Longrightarrow> framed (bindM m f)"
  unfolding framed_def bindM_def by (auto split: prod.split outcome.split) (metis snd_conv)+

lemma framed_seqM [frame_intros]: "framed m \<Longrightarrow> framed n \<Longrightarrow> framed (seqM m n)"
  unfolding seqM_def by (rule framed_bindM)

lemma framed_basic [frame_intros]:
  "framed (retM x)" "framed (errM e)" "framed undefM" "framed (liftM r)" "framed (getsM f)"
  by (simp_all add: framed_def getsM_def monad_simps)

lemma framed_if [frame_intros]: "framed m \<Longrightarrow> framed n \<Longrightarrow> framed (if b then m else n)"
  by simp

lemma framed_machine [frame_intros]: "framed (onStack s)" "framed (onPdr p)" "framed (charge g)" "framed (chargeUnchecked g)"
  by (rule framedI; simp add: onStack_def onPdr_def charge_def chargeUnchecked_def layout_def split_beta Let_def split: option.split)+

lemma layout_setMem: "layout (st\<lparr>Store := setMem a m (Store st)\<rparr>) = layout st"
  by (simp add: layout_def setMem_def vec_layout_def)

lemma layout_setGlob: "layout (st\<lparr>Store := setGlob a g (Store st)\<rparr>) = layout st"
  by (simp add: layout_def setGlob_def vec_layout_def)

lemma framed_onMem [frame_intros]: "framed (onMem a m)"
  by (rule framedI) (simp add: onMem_def split_beta layout_setMem)

lemma framed_instances [frame_intros]:
  "framed currentModule" "framed (getTabInstByIdx i)" "framed (getMemInstByIdx i)" "framed (getGlobInstByIdx i)"
  unfolding getTabInstByIdx_def getMemInstByIdx_def getGlobInstByIdx_def currentModule_def
  by (intro frame_intros)+

lemma framed_invokeHost [frame_intros]: "framed (invokeHost h mem)"
  by (rule framedI)
    (auto simp: invokeHost_def Let_def layout_def setMem_def vec_layout_def onStack_def push_def seqM_def bindM_def
      retM_def split: prod.split outcome.split)

lemma framed_variable [frame_intros]: "framed (executeVariable c i)"
proof (cases c)
  case Global__get
  have "framed (\<lambda>st. onStack (push (GValue (globAt (Store st) a))) st)" for a
    by (rule framedI) (simp add: onStack_def push_def layout_def)
  with Global__get show ?thesis unfolding Global__get executeVariable.simps runGlobalGetOp_def by (intro frame_intros)
next
  case Global__set
  have "framed (modifyM (\<lambda>st. st\<lparr>Store := setGlob a ((globAt (Store st) a)\<lparr>GValue := v\<rparr>) (Store st)\<rparr>))" for a v
    by (rule framedI) (simp add: modifyM_def layout_setGlob)
  then show ?thesis unfolding Global__set executeVariable.simps runGlobalSetOp_def by (intro frame_intros)
qed (simp_all add: runLocalGetOp_def runLocalSetOp_def runLocalTeeOp_def framed_machine)

lemma framed_memory [frame_intros]: "framed (executeMemory c off)"
proof -
  have "framed (runMemorySizeOp mem)" for mem
    by (rule framedI) (simp add: runMemorySizeOp_def onStack_def push_def layout_def)
  moreover have "framed (runMemoryGrowOp mem)" for mem
    unfolding runMemoryGrowOp_def
  proof (intro frame_intros, rule framedI)
    fix v st
    show "layout (snd (let curr = CurrPage (memAt (Store st) mem); (r, st') = onMem mem (growPage (get32 v)) st
        in onStack (setTop (set32 v (if r = Ok () then curr else - 1))) st')) = layout st"
      by (simp add: Let_def split_beta framedD [OF framed_onMem] framedD [OF framed_machine(1)])
  qed
  moreover have "framed (runLoadOp t mem off b)" "framed (runStoreOp t mem off b)" for t mem b
    unfolding runLoadOp_def runStoreOp_def by (intro frame_intros)+
  ultimately have "framed (memoryOp c mem off)" for mem by (cases c) simp_all
  then show ?thesis unfolding executeMemory_def by (intro frame_intros)
qed

lemma framed_numeric [frame_intros]:
  "framed (executeUnary F u)" "framed (executeBinary F b)" "framed (executeConst v)" "framed (executeParametric p)"
proof -
  show "framed (executeParametric p)" by (cases p) (auto intro!: frame_intros)
qed (unfold executeUnary_def executeBinary_def executeConst_def, (intro frame_intros)+)

lemma framed_enter [frame_intros]: "framed (enterBlock k i body)" "framed (enterFunction f)" "framed leaveBlock" "framed leaveFunction"
proof -
  show e: "framed (enterBlock k i body)" for k i body unfolding enterBlock_def by (intro frame_intros)
  show "framed (enterFunction f)"
    by (cases f) (auto simp: enterFunction_def intro!: frame_intros e)
qed (unfold leaveBlock_def leaveFunction_def, (intro frame_intros)+)

lemma framed_branch [frame_intros]: "framed (runLoopOp i)" "framed (runBlockOp i)" "framed (branchToLabel n)"
proof -
  show l: "framed (runLoopOp i)" for i by (cases i) (simp_all add: frame_intros)
  show "framed (runBlockOp i)" by (cases i) (simp_all add: frame_intros)
  have "framed (case Target x of None \<Rightarrow> retM () | Some i \<Rightarrow> runLoopOp i)" for x
    using l by (cases "Target x") (simp_all add: frame_intros)
  then show "framed (branchToLabel n)" unfolding branchToLabel_def by (intro frame_intros)
qed

lemma framed_executeInstr [frame_intros]: "framed (executeInstr F i)"
proof (cases i)
  case (ControlInstr c)
  then show ?thesis by (cases c) (simp_all add: runReturnOp_def frame_intros)
next
  case (BlockInstr c t body)
  then show ?thesis by (cases c) (simp_all del: runLoopOp.simps runBlockOp.simps add: frame_intros)
next
  case (IfElseInstr t a b)
  then show ?thesis by (simp add: runIfElseOp_def Let_def frame_intros)
next
  case (BrInstr c n)
  then show ?thesis by (cases c) (simp_all add: runBrOp_def runBrIfOp_def frame_intros)
next
  case (BrTableInstr ns n)
  then show ?thesis by (simp add: runBrTableOp_def frame_intros)
next
  case (CallInstr c n)
  then show ?thesis by (cases c) (simp_all add: runCallOp_def runCallIndirectOp_def frame_intros)
qed (simp_all add: frame_intros)

lemma framed_step [frame_intros]: "framed (step F)"
proof (rule framedI)
  fix st :: "'h Interp"
  have p: "layout (st\<lparr>InstrPdr := p\<rparr>) = layout st" for p by (simp add: layout_def)
  show "layout (snd (step F st)) = layout st"
    by (auto simp: step_def p framedD [OF framed_seqM [OF framed_machine(3) framed_executeInstr]] framedD [OF framed_enter(3)] framedD [OF framed_enter(4)] framedD [OF framed_machine(2)]
        split: prod.split option.split SeqType.split)
qed

lemma framed_execute [frame_intros]: "framed (execute F n)"
proof (induction n)
  case 0
  show ?case by (rule framedI) simp
next
  case (Suc n)
  show ?case by (rule framedI) (simp add: framedD [OF framed_seqM [OF framed_step Suc.IH]])
qed

lemma framed_run [frame_intros]: "framed (runExpression F n is)" "framed (runFunction F n f)"
proof -
  show "framed (runExpression F n is)" unfolding runExpression_def by (intro frame_intros)
  have "framed (\<lambda>st. case execute F n st of (r, st') \<Rightarrow> (if r = Err Terminated then Ok () else r, st'))"
    by (rule framedI) (simp add: split_beta framedD [OF framed_execute])
  then show "framed (runFunction F n f)" unfolding runFunction_def by (intro frame_intros)
qed

end
