(* ===== verification/InstantiateProps.thy ===== *)
theory InstantiateProps
  imports EngineFrame ValidatorProps
begin

text \<open>
  Validation, instantiation and execution together. Every function body that instantiation puts into
  the store is one of the module, whatever happens on the way; so the bodies of a validated module
  have targets for their branches, and what \<open>invoke\<close> runs leaves the machine balanced. The last part
  shows where the promises of the validator are not enough for the instantiation.
\<close>

section \<open>Function bodies in the store\<close>

definition funcs_in :: "'h FunctionInstance set \<Rightarrow> 'h Interp \<Rightarrow> bool" where
  "funcs_in B st \<longleftrightarrow> set (Insts (Funcs (Store st))) \<subseteq> B"

lemma keeps_framed: "framed m \<Longrightarrow> keeps (funcs_in B) m"
  by (rule keepsI) (simp add: funcs_in_def layout_def framed_def)

lemmas funcs_keeps = framed_machine [THEN keeps_framed] framed_onMem [THEN keeps_framed] framed_run [THEN keeps_framed]

lemma keeps_onStore:
  "(\<And>s. set (Insts (Funcs (snd (m s)))) \<subseteq> set (Insts (Funcs s))) \<Longrightarrow> keeps (funcs_in B) (onStore m)"
  by (rule keepsI) (auto simp: funcs_in_def onStore_def split_beta)

lemma keeps_onMod: "keeps (funcs_in B) (onStore (onMod ma f))" "keeps (funcs_in B) (updMod ma g)"
  unfolding updMod_def
  by (rule keeps_onStore; simp add: onMod_def setMod_def split: outcome.split)+

lemma keeps_modInst: "keeps (funcs_in B) (modInst ma)"
  by (rule keepsI) (simp add: modInst_def getsM_def)

lemma keeps_insertInst:
  assumes "\<And>s. Funcs (snd (psh x s)) = Funcs s" and "\<And>s. Funcs (snd (imp x s)) = Funcs s"
  shows "keeps (funcs_in B) (insertInst psh imp x)"
  by (rule keepsI) (simp add: funcs_in_def insertInst_def split_beta assms)

lemma keeps_insertFunction:
  assumes "f \<in> B"
  shows "keeps (funcs_in B) (insertInst pushFunction importFunction f)"
  using assms
  by (auto intro!: keepsI simp: funcs_in_def insertInst_def split_beta push_function.insts_put import_function.insts_put)

lemma funcs_pushes [simp]:
  "Funcs (snd (pushModule m s)) = Funcs s" "Funcs (snd (importModule m s)) = Funcs s"
  "Funcs (snd (pushTable t s)) = Funcs s" "Funcs (snd (importTable t s)) = Funcs s"
  "Funcs (snd (pushMemory me s)) = Funcs s" "Funcs (snd (importMemory me s)) = Funcs s"
  "Funcs (snd (pushGlobal g s)) = Funcs s" "Funcs (snd (importGlobal g s)) = Funcs s"
  "Funcs (snd (popModule s)) = Funcs s"
  by (simp_all add: push_defs importModule_def importTable_def importMemory_def importGlobal_def popModule_def split_beta Let_def)

lemma popInstances_subset: "set (Insts (snd (popInstances v))) \<subseteq> set (Insts v)"
proof (induction v rule: popInstances.induct)
  case (1 v)
  have "set (Insts (snd (popInstance v))) \<subseteq> set (Insts v)"
    by (auto simp: popInstance_def dest: in_set_butlastD)
  then show ?case using 1
    by (subst popInstances.simps) (auto simp: subset_iff split: prod.split outcome.split)
qed

lemma keeps_resetStore:
  fixes B :: "'h FunctionInstance set"
  shows "keeps (funcs_in B) (onStore (resetStore False))"
proof -
  let ?I = "\<lambda>s :: 'h StoreManager. set (Insts (Funcs s)) \<subseteq> B"
  have "keeps ?I (resetVec Funcs Funcs_update :: ('h StoreManager, unit) exec)"
    by (rule keepsI) (use popInstances_subset in \<open>fastforce simp: resetVec_def split_beta\<close>)
  moreover have "keeps ?I (resetVec Mods Mods_update)" "keeps ?I (resetVec Tabs Tabs_update)"
    "keeps ?I (resetVec Mems Mems_update)" "keeps ?I (resetVec Globs Globs_update)"
    by (simp_all add: keeps_def resetVec_def split_beta)
  ultimately have "keeps ?I (resetStore False)" by (simp add: resetStore_def keeps_seqM)
  then show ?thesis by (simp add: keeps_def funcs_in_def onStore_def split_beta)
qed

lemma keeps_onSec: "(\<And>x. s = Some x \<Longrightarrow> keeps I (f x)) \<Longrightarrow> keeps I (onSec f s)"
  by (cases s) (simp_all add: onSec_def)

lemma keeps_getsM: "keeps I (getsM f)"
  by (simp add: keeps_def getsM_def)

lemma keeps_if: "keeps I m \<Longrightarrow> keeps I n \<Longrightarrow> keeps I (if b then m else n)"
  by simp

lemmas keeps_rules = keeps_bindM keeps_seqM keeps_basic keeps_getsM keeps_if keeps_onMod keeps_modInst keeps_onSec keeps_forM
  funcs_keeps

lemma keeps_import: "keeps (funcs_in B) (instantiateImport ma d)"
proof -
  have "keeps (funcs_in B) (exportAddr e n)" for e n by (cases "e n") (simp_all add: exportAddr_def)
  then show ?thesis
    unfolding instantiateImport_def importFunc_def importTab_def importMem_def importGlob_def
    by (cases "ImpContent d") (auto intro!: keeps_rules)
qed

lemma keeps_function:
  assumes "\<And>m ft. newFunction m ft (CSegLocals (cs ! i)) (CSegExpr (cs ! i)) \<in> B"
  shows "keeps (funcs_in B) (instantiateFunction ma ts cs i)"
  unfolding instantiateFunction_def using assms by (auto intro!: keeps_rules keeps_insertFunction)

lemma keeps_globals: "keeps (funcs_in B) (instantiateGlobals F n ma gs)"
  unfolding instantiateGlobals_def instantiateGlobal_def
  by (auto intro!: keeps_rules keeps_insertInst keeps_onStore simp: split_beta)

lemma keeps_allocations: "keeps (funcs_in B) (instantiateTable ma t)" "keeps (funcs_in B) (instantiateMemory ma l)"
  unfolding instantiateTable_def instantiateMemory_def by (auto intro!: keeps_rules keeps_insertInst)

lemma keeps_initialisation:
  "keeps (funcs_in B) (instantiateElement F n ma e)" "keeps (funcs_in B) (instantiateData F n ma d)"
  unfolding instantiateElement_def instantiateData_def
  by (auto intro!: keeps_rules keeps_onStore simp: split_beta setTab_def)

lemma keeps_export: "keeps (funcs_in B) (instantiateExport ma e)"
  by (cases "ExpExtType e") (simp_all add: instantiateExport_def keeps_onMod)

lemma keeps_start: "keeps (funcs_in B) (instantiateStart F n ma i)"
  unfolding instantiateStart_def by (auto intro!: keeps_rules)

lemma keeps_instantiateInto:
  assumes "\<And>m ft cs. cs \<in> set (sec (CodeSec md)) \<Longrightarrow> newFunction m ft (CSegLocals cs) (CSegExpr cs) \<in> B"
  shows "keeps (funcs_in B) (instantiateInto F n md ma)"
proof -
  have "keeps (funcs_in B) (case (FunctionSec md, CodeSec md) of
      (Some ts, Some cs) \<Rightarrow> instantiateFunctions ma ts cs | _ \<Rightarrow> retM ())"
    using assms by (auto simp: instantiateFunctions_def sec_def intro!: keeps_forM keeps_function split: option.splits)
  then show ?thesis
    unfolding instantiateInto_def instantiateImports_def
    by (intro keeps_rules keeps_import keeps_globals keeps_allocations keeps_initialisation keeps_export keeps_start)
qed

lemma keeps_instantiate:
  assumes "\<And>m ft cs. cs \<in> set (sec (CodeSec md)) \<Longrightarrow> newFunction m ft (CSegLocals cs) (CSegExpr cs) \<in> B"
  shows "keeps (funcs_in B) (instantiate F n md name)"
proof -
  have "keeps (funcs_in B) (seqM (onStore (resetStore False)) (seqM (onStack (modifyM resetStack)) (seqM (onPdr (modifyM resetInstrs))
        (bindM (insertInst pushModule importModule (newModuleInstance name)) (instantiateInto F n md)))))"
    using assms by (intro keeps_rules keeps_resetStore keeps_insertInst keeps_instantiateInto) simp_all
  then show ?thesis by (auto simp: keeps_def instantiate_def split: outcome.split)
qed

section \<open>Branches of a validated module\<close>

lemma body_valid_branches: "funcs_ok g \<Longrightarrow> CtrlStack g = [] \<Longrightarrow> body_valid g t cs \<Longrightarrow> list_all (br_ok True 1) (CSegExpr cs)"
  using validateV_branches [of "g\<lparr>CLocals := ls\<rparr>" for ls]
  by (auto simp: body_valid_def funcs_ok_def split: prod.splits) (metis prod.collapse)

lemma module_valid_branches:
  assumes "module_valid md" and "cs \<in> set (sec (CodeSec md))"
  shows "list_all (br_ok True 1) (CSegExpr cs)"
proof -
  let ?g = "module_context md"
  have "list_all2 (body_valid ?g) (sec (FunctionSec md)) (sec (CodeSec md))"
    and f: "funcs_ok ?g" using assms(1) by (auto simp: module_valid_def Let_def funcs_ok_def module_context_def)
  then obtain t where "body_valid ?g t cs"
    using assms(2) by (metis in_set_conv_nth list_all2_nthD2)
  then show ?thesis using f by (intro body_valid_branches) (simp_all add: module_context_def context_of_def newFormChecker_def)
qed

lemma validated_bodies_ok:
  fixes st :: "'h Interp"
  assumes "module_valid md" and "bodies_ok (Insts (Funcs (Store st)))" and "instantiateModule F n md name st = (r, st')"
  shows "bodies_ok (Insts (Funcs (Store st')))"
proof -
  let ?B = "{f. bodies_ok [f]} :: 'h FunctionInstance set"
  have b: "bodies_ok fs \<longleftrightarrow> set fs \<subseteq> ?B" for fs :: "'h FunctionInstance list" by (auto simp: bodies_ok_def)
  have "newFunction ma ft (CSegLocals cs) (CSegExpr cs) \<in> ?B" if "cs \<in> set (sec (CodeSec md))" for ma ft cs
    using module_valid_branches [OF assms(1) that] by (simp add: bodies_ok_def newFunction_def copy_instrs_id)
  then have "keeps (funcs_in ?B) (instantiate F n md name)" by (rule keeps_instantiate)
  moreover have "keeps (funcs_in ?B) (modifyM (\<lambda>st. st\<lparr>InsMode := ModeInstantiate\<rparr>))"
    by (simp add: keeps_def modifyM_def funcs_in_def)
  ultimately have "keeps (funcs_in ?B) (instantiateModule F n md name)"
    unfolding instantiateModule_def by (rule keeps_seqM [rotated])
  moreover have "funcs_in ?B st" unfolding funcs_in_def using assms(2) b by blast
  ultimately have "funcs_in ?B st'" using assms(3) by (rule keepsD)
  then show ?thesis unfolding funcs_in_def by (rule iffD2 [OF b])
qed

section \<open>Properties\<close>

text \<open>C3. Validation, instantiation and execution together: when a module that the validator accepts is
  instantiated, completely or not, into a store whose functions branch inside their bodies, then every
  run of a function of that store that \<open>invoke\<close> starts on cleared stacks, with any arguments, leaves no
  label, no frame and no instruction scope behind if it ends normally.\<close>

theorem validated_module_balanced:
  fixes st :: "'h Interp"
  assumes "fst (validateModule md c) = Ok ()" and "bodies_ok (Insts (Funcs (Store st)))"
    and "instantiateModule F n md name st = (r, st1)" and "f \<in> set (Insts (Funcs (Store st1)))"
    and "seqM (onStack (forM push params)) (enterFunction f)
           (st1\<lparr>Stack := resetStack (Stack st1), InstrPdr := resetInstrs (InstrPdr st1)\<rparr>) = (Ok (), st2)"
    and "execute F k st2 = (Ok (), st3)" and "k < 2 ^ 32 - 1" and "scopes st3 < 2 ^ 32"
  shows "LabelStack (Stack st3) = [] \<and> FrameStack (Stack st3) = [] \<and> Iters (InstrPdr st3) = []"
proof -
  let ?fns = "Insts (Funcs (Store st1))"
  let ?st = "st1\<lparr>Stack := resetStack (Stack st1), InstrPdr := resetInstrs (InstrPdr st1)\<rparr>"
  have "module_valid md" using assms(1) validateModule_decides [of md c] by (auto split: if_splits)
  then have b: "bodies_ok ?fns" using validated_bodies_ok assms(2,3) by blast
  obtain st' where st': "onStack (forM push params) ?st = (Ok (), st')" "enterFunction f st' = (Ok (), st2)"
    using assms(5) by (auto simp: seqM_Ok_iff)
  have "only_values (retM ())" by (simp add: only_values_def retM_def)
  then have "only_values (forM push params)"
    by (induction params) (simp_all add: seqM_def only_values_bindM only_values_stack)
  then have "ctl st' = ctl ?st" using same_ctlD [OF same_ctl_onStack st'(1)] by simp
  moreover have "synced [] ?fns ?st" "labels ?st = 0"
    by (auto simp: synced_def labels_def resetStack_def resetInstrs_def intro: sync_base)
  ultimately have s: "synced [] ?fns st'" "labels st' = 0" using synced_ctl by metis+
  then have "synced [] ?fns st2" "labels st2 \<le> 1"
    using sync_enterFunction [OF s(1) b assms(4) st'(2)] by (auto simp: sync_step_def)
  then show ?thesis using execute_balanced' [of "[]" ?fns st2 k F st3] b assms(6-8) by simp
qed

text \<open>An interpreter with an empty store, and a module with one empty function.\<close>

definition emptyMachine :: "unit Interp" where
  "emptyMachine = \<lparr>Stack = newStackManager, InstrPdr = newInstrProvider, Meter = None, Store = newStoreManager,
     Host = (), InsMode = ModeInstantiate\<rparr>"

definition emptyFunctionModule :: Module where
  "emptyFunctionModule = empty_Module\<lparr>TypeSec := Some [\<lparr>ParamTypes = [], ReturnTypes = []\<rparr>], FunctionSec := Some [0],
     CodeSec := Some [\<lparr>CSegSize = 0, CSegLocals = [], CSegExpr = []\<rparr>]\<rparr>"

lemma popInstances_zero: "Num v = 0 \<Longrightarrow> popInstances v = (Ok (), v)"
  by (simp add: popInstances.simps)

lemmas instantiate_defs = instantiateModule_def instantiate_def instantiateInto_def onSec_def onStore_def insertInst_def modInst_def
  updMod_def onMod_def setMod_def instantiateFunctions_def instantiateFunction_def instantiateGlobals_def instantiateGlobal_def
  findModule_def newStoreManager_def emptyVec_def pushModule_def pushFunction_def pushInstance_def importInstance_def
  resetStore_def resetVec_def newModuleInstance_def getModule_def lookup_def deref_def obind_def getsM_def addFuncType_def
  addFuncAddr_def getFuncType_def newFunction_def copy_instrs_id pushFrame_def popFrame_def eraseValues_def resetStack_def
  resetInstrs_def newStackManager_def newInstrProvider_def popInstances_zero emptyMachine_def empty_Module_def

text \<open>What instantiating it gives.\<close>

definition emptyFunction :: "unit FunctionInstance" where
  "emptyFunction = Native \<lparr>Params = [], Returns = []\<rparr> 0 [] []"

definition instantiatedMachine :: "unit Interp" where
  "instantiatedMachine = emptyMachine\<lparr>Store := newStoreManager\<lparr>
     Mods := \<lparr>Insts = [(newModuleInstance [])\<lparr>FuncTypes := [\<lparr>Params = [], Returns = []\<rparr>], FuncAddrs := [0]\<rparr>],
       ImpInsts = [0], Num = 1\<rparr>,
     Funcs := \<lparr>Insts = [emptyFunction], ImpInsts = [0], Num = 1\<rparr>\<rparr>\<rparr>"

lemma instantiate_emptyFunction:
  "instantiateModule F n emptyFunctionModule [] emptyMachine = (Ok (), instantiatedMachine)"
  by (simp add: emptyFunctionModule_def instantiatedMachine_def emptyFunction_def instantiate_defs run_defs)

lemma validate_emptyFunction: "fst (validateModule emptyFunctionModule c) = Ok ()"
proof -
  have "module_valid emptyFunctionModule"
    by (simp add: module_valid_def Let_def emptyFunctionModule_def empty_Module_def sec_def allFuncs_def allTables_def allMems_def
        imp_defs module_context_def body_valid_def sig_def context_of_def validateV_checkInstrs retM_def)
  then show ?thesis using validateModule_decides [of emptyFunctionModule c] by simp
qed

theorem validated_module_balanced_witness:
  "\<forall>F. let st3 = snd (execute F 3 (snd (enterFunction emptyFunction instantiatedMachine)))
       in FrameStack (Stack st3) = [] \<and> Iters (InstrPdr st3) = []"
proof
  fix F
  let ?st2 = "snd (enterFunction emptyFunction instantiatedMachine)"
  have m: "instantiatedMachine\<lparr>Stack := resetStack (Stack instantiatedMachine), InstrPdr := resetInstrs (InstrPdr instantiatedMachine)\<rparr>
      = instantiatedMachine"
    by (simp add: instantiatedMachine_def instantiate_defs)
  have e: "seqM (onStack (forM push [])) (enterFunction emptyFunction) instantiatedMachine = (Ok (), ?st2)"
    by (simp add: instantiatedMachine_def emptyFunction_def instantiate_defs function_defs)
  have x: "execute F (Suc (Suc (Suc 0))) ?st2 = (Ok (), instantiatedMachine)"
    by (simp add: instantiatedMachine_def emptyMachine_def emptyFunction_def function_defs leaveFunction_def popFrame_def)
  have b: "bodies_ok (Insts (Funcs (Store emptyMachine)))" and f: "emptyFunction \<in> set (Insts (Funcs (Store instantiatedMachine)))"
    by (simp_all add: bodies_ok_def emptyMachine_def newStoreManager_def emptyVec_def instantiatedMachine_def)
  have k: "Suc (Suc (Suc 0)) < 2 ^ 32 - 1" "scopes instantiatedMachine < 2 ^ 32"
    by (simp_all add: scopes_def instantiatedMachine_def emptyMachine_def newInstrProvider_def)
  note validated_module_balanced [OF validate_emptyFunction b instantiate_emptyFunction f _ x k, of "[]"]
  then have "FrameStack (Stack instantiatedMachine) = [] \<and> Iters (InstrPdr instantiatedMachine) = []"
    unfolding m using e by blast
  then show "let st3 = snd (execute F 3 ?st2) in FrameStack (Stack st3) = [] \<and> Iters (InstrPdr st3) = []"
    using x by (simp add: numeral_3_eq_3)
qed

text \<open>A module with globals only, all of them constants of type \<open>i32\<close>.\<close>

definition globalsModule :: "Instr list list \<Rightarrow> Module" where
  "globalsModule es = empty_Module\<lparr>GlobalSec := Some (map (\<lambda>e. \<lparr>GSegType = \<lparr>GlobType = I32, GlobMut = Const\<rparr>, GSegExpr = e\<rparr>) es)\<rparr>"

lemma validate_globalsModule:
  "fst (validateModule (globalsModule es) c) = Ok () \<longleftrightarrow> (\<forall>k < length es. \<forall>i \<in> set (es ! k). const_valid k i)"
proof -
  have "module_valid (globalsModule es) \<longleftrightarrow> (\<forall>k < length es. \<forall>i \<in> set (es ! k). const_valid k i)"
    by (simp add: module_valid_def Let_def globalsModule_def empty_Module_def sec_def allFuncs_def allTables_def allMems_def imp_defs)
  then show ?thesis using validateModule_decides [of "globalsModule es" c] by (auto split: if_splits)
qed


section \<open>Names of the modules\<close>

text \<open>
  The names in the order of the modules, and the number of modules that do not stay registered.
  \<open>sure I m\<close>: a call that succeeds keeps \<open>I\<close>.
\<close>

definition modnames :: "'h Interp \<Rightarrow> Bytes list \<times> u32" where
  "modnames st = (map ModName (Insts (Mods (Store st))), Num (Mods (Store st)))"

definition sure :: "('h Interp \<Rightarrow> bool) \<Rightarrow> ('h, 'a) interp \<Rightarrow> bool" where
  "sure I m \<longleftrightarrow> (\<forall>st x st'. I st \<longrightarrow> m st = (Ok x, st') \<longrightarrow> I st')"

lemma sure_keeps: "keeps I m \<Longrightarrow> sure I m"
  by (metis sure_def keepsD)

lemma sure_bindM: "sure I m \<Longrightarrow> (\<And>x. sure I (f x)) \<Longrightarrow> sure I (bindM m f)"
  unfolding sure_def bindM_Ok_iff by blast

lemma sure_seqM: "sure I m \<Longrightarrow> sure I n \<Longrightarrow> sure I (seqM m n)"
  by (simp add: seqM_def sure_bindM)

lemma sure_forM: "(\<And>x. sure I (f x)) \<Longrightarrow> sure I (forM f xs)"
  by (induction xs) (simp_all add: sure_seqM sure_keeps)

lemma sure_onSec: "(\<And>x. sure I (f x)) \<Longrightarrow> sure I (onSec f s)"
  by (cases s) (simp_all add: onSec_def sure_keeps)

lemma names_framed: "framed m \<Longrightarrow> keeps (\<lambda>st. modnames st = N) m"
  by (simp add: keeps_def framed_def layout_def modnames_def)

lemma names_onStore:
  "(\<And>s. map ModName (Insts (Mods (snd (m s)))) = map ModName (Insts (Mods s)) \<and> Num (Mods (snd (m s))) = Num (Mods s)) \<Longrightarrow>
   keeps (\<lambda>st. modnames st = N) (onStore m)"
  by (rule keepsI) (simp add: modnames_def onStore_def split_beta)

lemma map_ModName_update: "lookup ms a = Ok m \<Longrightarrow> ModName m' = ModName m \<Longrightarrow> map ModName (ms[unat a := m']) = map ModName ms"
  by (auto simp: lookup_Ok_iff map_update list_update_same_conv)

lemma names_onMod:
  assumes "\<And>m m'. f m = Ok m' \<Longrightarrow> ModName m' = ModName m"
  shows "keeps (\<lambda>st. modnames st = N) (onStore (onMod ma f))"
proof (rule names_onStore)
  fix s
  show "map ModName (Insts (Mods (snd (onMod ma f s)))) = map ModName (Insts (Mods s)) \<and> Num (Mods (snd (onMod ma f s))) = Num (Mods s)"
    using assms by (cases "getModule s ma") (auto simp: onMod_def setMod_def obind_def deref_def getModule_def map_ModName_update split: outcome.split)
qed

lemma names_updMod: "(\<And>m. ModName (f m) = ModName m) \<Longrightarrow> keeps (\<lambda>st. modnames st = N) (updMod ma f)"
  unfolding updMod_def by (rule names_onMod) auto

lemma names_adds [simp]:
  "ModName (addFuncAddr a m) = ModName m" "ModName (addTableAddr a m) = ModName m" "ModName (addMemAddr a m) = ModName m"
  "ModName (addGlobalAddr a m) = ModName m" "ModName (addFuncType p q m) = ModName m"
  by (simp_all add: addFuncAddr_def addTableAddr_def addMemAddr_def addGlobalAddr_def addFuncType_def)

lemma names_addTypes: "ModName (fold (\<lambda>f. addFuncType (ParamTypes f) (ReturnTypes f)) ts m) = ModName m"
  by (induction ts arbitrary: m) simp_all

lemma names_insertInst:
  assumes "\<And>s. Mods (snd (psh x s)) = Mods s" and "\<And>s. Mods (snd (imp x s)) = Mods s"
  shows "keeps (\<lambda>st. modnames st = N) (insertInst psh imp x)"
  by (rule keepsI) (simp add: modnames_def insertInst_def split_beta assms)

lemma mods_pushes [simp]:
  "Mods (snd (pushFunction f s)) = Mods s" "Mods (snd (importFunction f s)) = Mods s"
  "Mods (snd (pushTable t s)) = Mods s" "Mods (snd (importTable t s)) = Mods s"
  "Mods (snd (pushMemory me s)) = Mods s" "Mods (snd (importMemory me s)) = Mods s"
  "Mods (snd (pushGlobal g s)) = Mods s" "Mods (snd (importGlobal g s)) = Mods s"
  by (simp_all add: push_defs importFunction_def importTable_def importMemory_def importGlobal_def split_beta Let_def)

lemma names_modInst: "keeps (\<lambda>st. modnames st = N) (modInst ma)"
  by (rule keepsI) (simp add: modInst_def getsM_def)

lemmas names_rules = keeps_bindM keeps_seqM keeps_basic keeps_getsM keeps_if keeps_forM names_updMod names_insertInst
  names_modInst framed_machine [THEN names_framed] framed_onMem [THEN names_framed] framed_run [THEN names_framed]

lemma names_import: "keeps (\<lambda>st. modnames st = N) (instantiateImport ma d)"
proof -
  have "keeps (\<lambda>st. modnames st = N) (exportAddr e n)" for e n by (cases "e n") (simp_all add: exportAddr_def)
  then show ?thesis
    unfolding instantiateImport_def importFunc_def importTab_def importMem_def importGlob_def
    by (cases "ImpContent d") (auto intro!: names_rules)
qed

lemma names_definitions:
  "keeps (\<lambda>st. modnames st = N) (instantiateFunction ma ts cs i)" "keeps (\<lambda>st. modnames st = N) (instantiateGlobal F n ma g)"
  "keeps (\<lambda>st. modnames st = N) (instantiateTable ma t)" "keeps (\<lambda>st. modnames st = N) (instantiateMemory ma l)"
  unfolding instantiateFunction_def instantiateGlobal_def instantiateTable_def instantiateMemory_def
  by (auto intro!: names_rules)

lemma names_initialisation:
  "keeps (\<lambda>st. modnames st = N) (instantiateElement F n ma e)" "keeps (\<lambda>st. modnames st = N) (instantiateData F n ma d)"
  unfolding instantiateElement_def instantiateData_def
  by (auto intro!: names_rules names_onStore simp: split_beta setTab_def)

lemma names_exports:
  "exportFuncion n i m = Ok m' \<Longrightarrow> ModName m' = ModName m" "exportTable n i m = Ok m' \<Longrightarrow> ModName m' = ModName m"
  "exportMemory n i m = Ok m' \<Longrightarrow> ModName m' = ModName m" "exportGlobal n i m = Ok m' \<Longrightarrow> ModName m' = ModName m"
  "setStartIdx i m = Ok m' \<Longrightarrow> ModName m' = ModName m"
  by (auto simp: exportFuncion_def exportTable_def exportMemory_def exportGlobal_def setStartIdx_def obind_def split: outcome.splits)

lemma names_export: "keeps (\<lambda>st. modnames st = N) (instantiateExport ma e)"
  using names_exports by (cases "ExpExtType e") (auto simp: instantiateExport_def intro!: names_onMod)

lemma names_start: "keeps (\<lambda>st. modnames st = N) (instantiateStart F n ma i)"
  unfolding instantiateStart_def using names_exports(5) by (auto intro!: names_rules names_onMod)

lemma modnames_pushModule:
  "modnames st = (N, k) \<Longrightarrow> modnames (st\<lparr>Store := snd (pushModule m (Store st))\<rparr>) = (N @ [ModName m], k + 1)"
  by (simp add: modnames_def pushModule_def pushInstance_def importInstance_def)

lemma modnames_importModule:
  "modnames st = (N, k) \<Longrightarrow> modnames (st\<lparr>Store := snd (importModule m (Store st))\<rparr>) = (N @ [ModName m], k)"
  by (simp add: modnames_def importModule_def importInstance_def)

lemma modnames_popModule:
  "popModule (Store st) = (Ok x, s) \<Longrightarrow> modnames st = (N, k) \<Longrightarrow> 0 < k \<Longrightarrow> modnames (st\<lparr>Store := s\<rparr>) = (butlast N, k - 1)"
  by (auto simp: modnames_def popModule_def popInstance_def map_butlast split: if_splits prod.splits)

lemma names_fold: "ModName (fold addGlobalAddr as m) = ModName m"
  by (induction as arbitrary: m) simp_all

lemma names_globals:
  assumes "k + 1 \<noteq> 0"
  shows "sure (\<lambda>st. modnames st = (N, k)) (instantiateGlobals F n ma gs)"
  unfolding sure_def
proof (intro allI impI)
  fix st x st'
  assume st: "modnames st = (N, k)" and ok: "instantiateGlobals F n ma gs st = (Ok x, st')"
  obtain m st1 tmp where push: "onStore (\<lambda>s. let (a, s') = pushModule (fold addGlobalAddr
         (take (unat (getGlobalNum m)) (GlobalAddrs m)) (newModuleInstance [])) s in (Ok a, s')) st = (Ok tmp, st1)"
    and rest: "seqM (onStack (pushFrame tmp 0 0)) (seqM (forM (instantiateGlobal F n ma) gs)
       (bindM (onStack popFrame) (\<lambda>_. onStore popModule))) st1 = (Ok x, st')"
    using ok by (auto simp: instantiateGlobals_def modInst_def getsM_def bindM_Ok_iff)
  have st1: "modnames st1 = (N @ [[]], k + 1)"
    using push modnames_pushModule [OF st] by (auto simp: onStore_def split_beta names_fold newModuleInstance_def)
  obtain st2 r where st2: "seqM (onStack (pushFrame tmp 0 0)) (seqM (forM (instantiateGlobal F n ma) gs) (onStack popFrame)) st1 = (Ok r, st2)"
    and pop: "onStore popModule st2 = (Ok x, st')"
    using rest by (auto simp: seqM_Ok_iff bindM_Ok_iff)
  have "keeps (\<lambda>st. modnames st = (N @ [[]], k + 1)) (seqM (onStack (pushFrame tmp 0 0)) (seqM (forM (instantiateGlobal F n ma) gs) (onStack popFrame)))"
    by (intro names_rules names_definitions)
  then have st2': "modnames st2 = (N @ [[]], k + 1)" using st1 st2 keepsD by fast
  obtain s where s: "popModule (Store st2) = (Ok x, s)" "st' = st2\<lparr>Store := s\<rparr>"
    using pop by (auto simp: onStore_def split: prod.splits)
  have "0 < k + 1" using assms by (simp add: word_gt_0)
  then show "modnames st' = (N, k)" using modnames_popModule [OF s(1) st2'] s(2) by simp
qed

lemma names_instantiateInto:
  assumes "k + 1 \<noteq> 0"
  shows "sure (\<lambda>st. modnames st = (N, k)) (instantiateInto F n md ma)"
proof -
  have "keeps (\<lambda>st. modnames st = (N, k)) (case (FunctionSec md, CodeSec md) of
      (Some ts, Some cs) \<Rightarrow> instantiateFunctions ma ts cs | _ \<Rightarrow> retM ())"
    using names_definitions(1) by (auto simp: instantiateFunctions_def intro!: keeps_forM split: option.splits)
  moreover have "keeps (\<lambda>st. modnames st = (N, k)) (bindM (modInst ma) (\<lambda>m. onStack (pushFrame (Addr m) 0 0)))"
    by (intro names_rules)
  ultimately show ?thesis
    unfolding instantiateInto_def instantiateImports_def
    by (intro sure_seqM sure_bindM sure_onSec names_globals [OF assms] sure_keeps)
      (auto intro!: names_rules names_import names_definitions names_initialisation names_export names_start
        simp: names_addTypes)
qed

lemma popInstances_Num: "popInstances v = (Ok x, w) \<Longrightarrow> Num w = 0"
proof (induction v rule: popInstances.induct)
  case (1 v)
  then show ?case
    by (subst (asm) popInstances.simps) (auto simp: word_gt_0 split: if_splits prod.splits outcome.splits)
qed

lemma resetStore_Num: "resetStore False s = (Ok x, s') \<Longrightarrow> Num (Mods s') = 0"
  by (auto simp: resetStore_def resetVec_def seqM_Ok_iff split_beta dest!: prod.expand [THEN sym])
    (metis popInstances_Num prod.collapse)

lemma findIn_member: "name \<in> ModName ` set ms \<Longrightarrow> \<exists>m. findIn name ms = Ok m"
  by (induction ms) auto

lemma instantiate_finds:
  fixes st :: "'h Interp"
  assumes "instantiateModule F n md name st = (Ok (), st1)"
  shows "\<exists>m. findModule (Store st1) name = Ok m"
proof -
  let ?st = "st\<lparr>InsMode := ModeInstantiate\<rparr>"
  have "seqM (onStore (resetStore False)) (seqM (onStack (modifyM resetStack)) (seqM (onPdr (modifyM resetInstrs))
      (bindM (insertInst pushModule importModule (newModuleInstance name)) (instantiateInto F n md)))) ?st = (Ok (), st1)"
    using assms by (auto simp: instantiateModule_def instantiate_def seqM_modify split: outcome.splits)
  then obtain st2 st3 ma st4 where r: "onStore (resetStore False) ?st = (Ok (), st2)"
    and m: "seqM (onStack (modifyM resetStack)) (onPdr (modifyM resetInstrs)) st2 = (Ok (), st3)"
    and i: "insertInst pushModule importModule (newModuleInstance name) st3 = (Ok ma, st4)"
    and x: "instantiateInto F n md ma st4 = (Ok (), st1)"
    by (auto simp: seqM_Ok_iff bindM_Ok_iff)
  have "Num (Mods (Store st2)) = 0" using r resetStore_Num by (auto simp: onStore_def split: prod.splits)
  then obtain N where "modnames st2 = (N, 0)" by (simp add: modnames_def)
  moreover have "keeps (\<lambda>st. modnames st = (N, 0)) (seqM (onStack (modifyM resetStack)) (onPdr (modifyM resetInstrs)))"
    by (intro names_rules)
  ultimately have st3: "modnames st3 = (N, 0)" using m keepsD by fast
  have "\<exists>k \<in> {0, 1}. modnames st4 = (N @ [name], k)"
    using i modnames_pushModule [OF st3, of "newModuleInstance name"] modnames_importModule [OF st3, of "newModuleInstance name"]
    by (auto simp: insertInst_def split_beta newModuleInstance_def split: if_splits)
  then obtain k where k: "k \<in> {0, 1}" and st4: "modnames st4 = (N @ [name], k)" by blast
  have "k + 1 \<noteq> 0" using k by auto
  then have "modnames st1 = (N @ [name], k)" using names_instantiateInto st4 x unfolding sure_def by metis
  then have "name \<in> set (map ModName (Insts (Mods (Store st1))))" by (simp add: modnames_def)
  then show ?thesis using findIn_member by (auto simp: findModule_def)
qed

text \<open>A module cannot be instantiated twice under one name, although the first instantiation is only
  temporary: the test for a name conflict comes before the store is reset, so the second call reports
  a conflict with the instance that it is about to remove, and leaves the store as it is.\<close>

lemma second_instantiate_conflicts:
  fixes st :: "'h Interp"
  assumes "instantiateModule F n md name st = (Ok (), st1)"
  shows "instantiateModule F n' md' name st1 = (Err ModuleNameConflict, st1\<lparr>InsMode := ModeInstantiate\<rparr>)"
  using instantiate_finds [OF assms] by (auto simp: instantiateModule_def instantiate_def seqM_modify)

end
