(* ===== verification/LinearMemory.thy ===== *)
theory LinearMemory
  imports Memory
begin

text \<open>
  The linear memory as its clients see it, and the refinement by \<open>MemoryInstance\<close>. The abstract memory
  is a size and a function from indices to bytes; the implementation keeps a vector of the bytes that
  have been touched, which every access may enlarge.
\<close>

section \<open>The abstract memory\<close>

type_synonym Linear = "nat \<times> (nat \<Rightarrow> u8)"

datatype memcmd =
    MRead u32 u32
  | MWrite Bytes u32
  | MLoad numT u64 u32 u32
  | MStore numT u64 u32 u32

datatype memout = OBytes Bytes | OWord u64 | OUnit

definition patch :: "nat \<Rightarrow> Bytes \<Rightarrow> (nat \<Rightarrow> u8) \<Rightarrow> nat \<Rightarrow> u8" where
  "patch off bs f = (\<lambda>i. if off \<le> i \<and> i < off + length bs then bs ! (i - off) else f i)"

text \<open>The range that a command touches, and what it does when the range is inside the memory.\<close>

fun extent :: "memcmd \<Rightarrow> nat" where
  "extent (MRead off len) = unat off + unat len"
| "extent (MWrite bs off) = unat off + length bs"
| "extent (MLoad t old off len) = unat off + unat len"
| "extent (MStore t v off len) = unat off + unat len"

fun lin_out :: "memcmd \<Rightarrow> (nat \<Rightarrow> u8) \<Rightarrow> memout" where
  "lin_out (MRead off len) f = OBytes (map f [unat off..<unat off + unat len])"
| "lin_out (MLoad t old off len) f = OWord (load_bits t (unat len) (le_word (map f [unat off..<unat off + unat len])))"
| "lin_out _ f = OUnit"

fun lin_effect :: "memcmd \<Rightarrow> (nat \<Rightarrow> u8) \<Rightarrow> nat \<Rightarrow> u8" where
  "lin_effect (MWrite bs off) f = patch (unat off) bs f"
| "lin_effect (MStore t v off len) f = patch (unat off) (le_bytes (unat len) v) f"
| "lin_effect _ f = f"

definition lin_step :: "memcmd \<Rightarrow> Linear \<Rightarrow> memout Expect \<times> Linear" where
  "lin_step c a = (case a of (n, f) \<Rightarrow>
     if extent c \<le> n then (Ok (lin_out c f), n, lin_effect c f) else (Err MemorySizeExceeded, n, f))"

fun lin_run :: "memcmd list \<Rightarrow> Linear \<Rightarrow> memout Expect list \<times> Linear" where
  "lin_run [] a = ([], a)"
| "lin_run (c # cs) a = (let (r, b) = lin_step c a; (rs, d) = lin_run cs b in (r # rs, d))"

section \<open>The implementation\<close>

fun mem_step :: "memcmd \<Rightarrow> memout memop" where
  "mem_step (MRead off len) = bindM (getBytes off len) (\<lambda>bs. retM (OBytes bs))"
| "mem_step (MWrite bs off) = bindM (setBytes bs off 0 (of_nat (length bs))) (\<lambda>_. retM OUnit)"
| "mem_step (MLoad t old off len) = bindM (loadValue t old off len) (\<lambda>w. retM (OWord w))"
| "mem_step (MStore t v off len) = bindM (storeValue t v off len) (\<lambda>_. retM OUnit)"

fun mem_run :: "memcmd list \<Rightarrow> MemoryInstance \<Rightarrow> memout Expect list \<times> MemoryInstance" where
  "mem_run [] m = ([], m)"
| "mem_run (c # cs) m = (let (r, m1) = mem_step c m; (rs, m2) = mem_run cs m1 in (r # rs, m2))"

text \<open>What the callers respect: lengths of 32 bits, and integer accesses of at most the width of the type.\<close>

fun cmd_ok :: "memcmd \<Rightarrow> bool" where
  "cmd_ok (MRead off len) = True"
| "cmd_ok (MWrite bs off) = (length bs < 2 ^ 32)"
| "cmd_ok (MLoad t old off len) = (\<not> isFloat t \<and> 0 < len \<and> len \<le> sizeof t)"
| "cmd_ok (MStore t v off len) = (0 < len \<and> len \<le> sizeof t)"

definition mem_abs :: "MemoryInstance \<Rightarrow> Linear" where
  "mem_abs m = (msize m, mbyte m)"

section \<open>Refinement\<close>

lemma mem_step_in:
  assumes "mem_ok m" and "cmd_ok c" and "extent c \<le> msize m"
  shows "\<exists>m'. mem_step c m = (Ok (lin_out c (mbyte m)), m') \<and> mem_ok m' \<and> mem_abs m' = (msize m, lin_effect c (mbyte m))"
proof (cases c)
  case (MRead off len)
  then show ?thesis using getBytes_in [OF assms(1), of off len] assms(3)
    by (auto simp: bindM_simps retM_def mem_abs_def)
next
  case (MWrite bs off)
  then show ?thesis using write_all_in [OF assms(1), of bs off] assms(2,3)
    by (auto simp: bindM_simps retM_def mem_abs_def patch_def)
next
  case (MLoad t old off len)
  then show ?thesis using loadValue_in [OF assms(1), of t len off old] assms(2,3)
    by (auto simp: bindM_simps retM_def mem_abs_def same_mem_def msize_def)
next
  case (MStore t v off len)
  then have "length (le_bytes (unat len) v) = unat len" by simp
  then show ?thesis using storeValue_in [OF assms(1), of len t off v] assms(2,3) MStore
    by (auto simp: bindM_simps retM_def mem_abs_def patch_def)
qed

lemma mem_step_out:
  assumes "mem_ok m" and "cmd_ok c" and "msize m < extent c"
  shows "mem_step c m = (Err MemorySizeExceeded, m)"
  using assms
  by (cases c) (auto simp: getBytes_out setBytes_out loadValue_out storeValue_out unat_of_nat_less bindM_simps)

lemma mem_step_refines:
  assumes "mem_ok m" and "cmd_ok c"
  shows "\<exists>m'. mem_step c m = (fst (lin_step c (mem_abs m)), m') \<and> mem_ok m' \<and> mem_abs m' = snd (lin_step c (mem_abs m))"
  using mem_step_in [OF assms] mem_step_out [OF assms] assms(1)
  by (cases "extent c \<le> msize m") (auto simp: lin_step_def mem_abs_def)



end
