(* ===== verification/Vm.thy ===== *)
theory Vm
  imports InstantiateProps
begin

text \<open>
  The virtual machine \<open>ExpVM\<close>: \<open>lib/expvm/vm.cpp\<close>, \<open>include/expvm/vm.h\<close>, \<open>configure.h\<close> and
  \<open>costtable.h\<close>. The state is the stage, the loaded module and the engines with their states: the
  interpreter (with the store and the measurement, which the machine owns and the interpreter refers
  to), the form checker of the validator and the file manager of the loader. The identification is kept
  for the client; the UUID has no initial value.

  The overloads for a path and for a byte vector differ only in the call of the loader, which is the
  argument \<open>parse\<close>: \<open>parseModule Code\<close> for a byte vector; for a path a call that reads a file. The import
  objects of the configured host modules are arguments of \<open>initVM\<close>. The constructor with a store of
  the caller differs from the other one in the store it starts from. ONNC is compiled in by a build
  flag that is off by default.
\<close>

section \<open>Configuration and cost tables\<close>

datatype VMType = Wasm | Ewasm | Wasi | ONNC

record Configure =
  Types :: "VMType set"

definition newConfigure :: Configure where
  "newConfigure = \<lparr>Types = {Wasm}\<rparr>"

definition addVMType :: "VMType \<Rightarrow> Configure \<Rightarrow> Configure" where
  "addVMType t c = c\<lparr>Types := insert t (Types c)\<rparr>"

definition removeVMType :: "VMType \<Rightarrow> Configure \<Rightarrow> Configure" where
  "removeVMType t c = c\<lparr>Types := Types c - {t}\<rparr>"

definition hasVMType :: "Configure \<Rightarrow> VMType \<Rightarrow> bool" where
  "hasVMType c t \<longleftrightarrow> t \<in> Types c"

type_synonym CostTable = "VMType \<rightharpoonup> u64 list"

fun setDefaultTable :: "VMType \<Rightarrow> CostTable \<Rightarrow> bool \<times> CostTable" where
  "setDefaultTable Wasm costs = (True, costs(Wasm \<mapsto> replicate 256 1))"
| "setDefaultTable Ewasm costs = (True, costs(Ewasm \<mapsto> replicate 256 0))"
| "setDefaultTable Wasi costs = (True, costs(Wasi \<mapsto> replicate 256 1))"
| "setDefaultTable ONNC costs = (False, costs)"

definition setCustomTable :: "VMType \<Rightarrow> u64 list \<Rightarrow> CostTable \<Rightarrow> bool \<times> CostTable" where
  "setCustomTable t tab costs = (if length tab < 0xFF then (False, costs) else (True, costs(t \<mapsto> tab)))"

text \<open>\<open>Costs.at\<close> of a missing key throws, which is \<open>None\<close>.\<close>

definition getCostTable :: "CostTable \<Rightarrow> VMType \<Rightarrow> u64 list option" where
  "getCostTable costs t = (case costs t of Some tab \<Rightarrow> Some tab | None \<Rightarrow> costs Wasm)"

section \<open>State\<close>

datatype VMStage = Inited | Loaded | Validated | Instantiated

text \<open>The stages are compared as the numbers of the enumeration.\<close>

fun stage_nat :: "VMStage \<Rightarrow> nat" where
  "stage_nat Inited = 0"
| "stage_nat Loaded = 1"
| "stage_nat Validated = 2"
| "stage_nat Instantiated = 3"

lemma stage_nat_inj: "stage_nat a = stage_nat b \<Longrightarrow> a = b"
  by (cases a; cases b) simp_all

instantiation VMStage :: linorder
begin

definition less_eq_VMStage :: "VMStage \<Rightarrow> VMStage \<Rightarrow> bool" where
  "less_eq_VMStage a b \<longleftrightarrow> stage_nat a \<le> stage_nat b"

definition less_VMStage :: "VMStage \<Rightarrow> VMStage \<Rightarrow> bool" where
  "less_VMStage a b \<longleftrightarrow> stage_nat a < stage_nat b"

instance
  by intro_classes (auto simp: less_eq_VMStage_def less_VMStage_def intro: stage_nat_inj)

end

lemmas stage_defs = less_eq_VMStage_def less_VMStage_def

record 'h VM =
  Stage :: VMStage
  Mod :: "Module option"
  Engine :: "'h Interp"
  Checker :: FormChecker
  FVMgr :: FileMgr
  ImpObjs :: "VMType \<rightharpoonup> 'h ImportObject"
  CostTabs :: CostTable
  ServiceName :: Bytes
  UUID :: "u64 option"

type_synonym ('h, 'a) vmop = "('h VM, 'a) exec"

definition onEngine :: "('h, 'a) interp \<Rightarrow> ('h, 'a) vmop" where
  "onEngine m vm = (let (r, st) = m (Engine vm) in (r, vm\<lparr>Engine := st\<rparr>))"

definition onChecker :: "'a check \<Rightarrow> ('h, 'a) vmop" where
  "onChecker m vm = (let (r, c) = m (Checker vm) in (r, vm\<lparr>Checker := c\<rparr>))"

definition onLoader :: "(FileMgr, 'a) exec \<Rightarrow> ('h, 'a) vmop" where
  "onLoader m vm = (let (r, fm) = m (FVMgr vm) in (r, vm\<lparr>FVMgr := fm\<rparr>))"

section \<open>Construction\<close>

definition newInterp :: "Measurement \<Rightarrow> 'h StoreManager \<Rightarrow> 'h \<Rightarrow> 'h Interp" where
  "newInterp m s h = \<lparr>Stack = newStackManager, InstrPdr = newInstrProvider, Meter = Some m, Store = s, Host = h,
     InsMode = ModeInstantiate\<rparr>"

text \<open>\<open>CostTab.setCostTable(Type); Measure.setCostTable(CostTab.getCostTable(Type));\<close>\<close>

definition useTable :: "VMType \<Rightarrow> ('h, unit) vmop" where
  "useTable t vm =
     (let costs = snd (setDefaultTable t (CostTabs vm)); vm1 = vm\<lparr>CostTabs := costs\<rparr> in
      case getCostTable costs t of
        None \<Rightarrow> (Undef, vm1)
      | Some tab \<Rightarrow> (Ok (), vm1\<lparr>Engine := (Engine vm1)\<lparr>Meter := map_option (setCostTable tab) (Meter (Engine vm1))\<rparr>\<rparr>))"

text \<open>The result of the registration is discarded, and \<open>insert\<close> keeps an entry that is there.\<close>

definition addHostModule :: "VMType \<Rightarrow> 'h ImportObject \<Rightarrow> ('h, unit) vmop" where
  "addHostModule t ob vm = (case onEngine (onStore (registerHostModule ob)) vm of
       (Undef, vm1) \<Rightarrow> (Undef, vm1)
     | (Timeout, vm1) \<Rightarrow> (Timeout, vm1)
     | (_, vm1) \<Rightarrow> seqM (modifyM (\<lambda>v. v\<lparr>ImpObjs := (if ImpObjs v t = None then (ImpObjs v)(t \<mapsto> ob) else ImpObjs v)\<rparr>)) (useTable t) vm1)"

definition initVM :: "Configure \<Rightarrow> 'h ImportObject \<Rightarrow> 'h ImportObject \<Rightarrow> ('h, unit) vmop" where
  "initVM config wasi eei =
     seqM (useTable Wasm)
    (seqM (if hasVMType config Wasi then addHostModule Wasi wasi else retM ())
          (if hasVMType config Ewasm then addHostModule Ewasm eei else retM ()))"

definition newVM :: "'h StoreManager \<Rightarrow> 'h \<Rightarrow> 'h VM" where
  "newVM s h = \<lparr>Stage = Inited, Mod = None, Engine = newInterp (newMeasurement (replicate 256 0) (- 1)) s h,
     Checker = newFormChecker, FVMgr = newFileMgrVector, ImpObjs = Map.empty, CostTabs = Map.empty,
     ServiceName = [], UUID = None\<rparr>"

section \<open>Operations\<close>

definition demote :: "('h, unit) vmop" where
  "demote = modifyM (\<lambda>vm. if Stage vm = Instantiated then vm\<lparr>Stage := Validated\<rparr> else vm)"

definition registerParsed :: "fpu \<Rightarrow> nat \<Rightarrow> Bytes \<Rightarrow> Module \<Rightarrow> ('h, unit) vmop" where
  "registerParsed F n name m = seqM (onChecker (validateModule m)) (onEngine (registerModule F n m name))"

definition registerWasm :: "fpu \<Rightarrow> nat \<Rightarrow> (FileMgr, Module) exec \<Rightarrow> Bytes \<Rightarrow> ('h, unit) vmop" where
  "registerWasm F n parse name = seqM demote (bindM (onLoader parse) (registerParsed F n name))"

definition registerObject :: "'h ImportObject \<Rightarrow> ('h, unit) vmop" where
  "registerObject ob = seqM demote (onEngine (onStore (registerHostModule ob)))"

definition runParsed :: "fpu \<Rightarrow> nat \<Rightarrow> Module \<Rightarrow> Bytes \<Rightarrow> ValVariant list \<Rightarrow> ('h, ValVariant list) vmop" where
  "runParsed F n m func params =
     seqM (onChecker (validateModule m))
    (seqM (onEngine (instantiateModule F n m []))
          (onEngine (invoke F n func params)))"

definition runWasmFile :: "fpu \<Rightarrow> nat \<Rightarrow> (FileMgr, Module) exec \<Rightarrow> Bytes \<Rightarrow> ValVariant list \<Rightarrow> ('h, ValVariant list) vmop" where
  "runWasmFile F n parse func params = seqM demote (bindM (onLoader parse) (\<lambda>m. runParsed F n m func params))"

definition loadWasm :: "(FileMgr, Module) exec \<Rightarrow> ('h, unit) vmop" where
  "loadWasm parse = bindM (onLoader parse) (\<lambda>m. modifyM (\<lambda>vm. vm\<lparr>Mod := Some m, Stage := Loaded\<rparr>))"

definition loadedModule :: "('h, Module) vmop" where
  "loadedModule vm = (case Mod vm of None \<Rightarrow> (Undef, vm) | Some m \<Rightarrow> (Ok m, vm))"

definition validateVM :: "('h, unit) vmop" where
  "validateVM vm =
     (if Stage vm < Loaded then (Err WrongVMWorkflow, vm)
      else bindM loadedModule (\<lambda>m. seqM (onChecker (validateModule m)) (modifyM (\<lambda>vm. vm\<lparr>Stage := Validated\<rparr>))) vm)"

definition instantiateVM :: "fpu \<Rightarrow> nat \<Rightarrow> ('h, unit) vmop" where
  "instantiateVM F n vm =
     (if Stage vm < Validated then (Err ValidationFailed, vm)
      else bindM loadedModule (\<lambda>m.
        seqM (onEngine (instantiateModule F n m [])) (modifyM (\<lambda>vm. vm\<lparr>Stage := Instantiated\<rparr>))) vm)"

definition executeVM :: "fpu \<Rightarrow> nat \<Rightarrow> Bytes \<Rightarrow> ValVariant list \<Rightarrow> ('h, ValVariant list) vmop" where
  "executeVM F n func params = onEngine (invoke F n func params)"

definition cleanup :: "('h, unit) vmop" where
  "cleanup =
     seqM (modifyM (\<lambda>vm. vm\<lparr>Mod := None\<rparr>))
    (seqM (onEngine (onStore (resetStore False)))
          (modifyM (\<lambda>vm. vm\<lparr>Engine := (Engine vm)\<lparr>Meter := map_option clear (Meter (Engine vm))\<rparr>, Stage := Inited\<rparr>)))"

text \<open>The callable functions with their types; the list has them in the order of their names.\<close>

definition getFunctionList :: "'h VM \<Rightarrow> Bytes \<rightharpoonup> FType Expect" where
  "getFunctionList vm = (\<lambda>name. map_option (\<lambda>a. obind (deref (getFunction (Store (Engine vm)) a)) (\<lambda>f. Ok (getType f)))
     (getFuncExports (Store (Engine vm)) name))"

definition getImportModule :: "'h VM \<Rightarrow> VMType \<Rightarrow> 'h ImportObject option" where
  "getImportModule vm t = ImpObjs vm t"

end
