(* ===== verification/VmProps.thy ===== *)
theory VmProps
  imports Vm
begin

text \<open>
  The workflow of the virtual machine. The public operations are the steps of a transition system whose
  initial states are the constructed machines; an invariant ties the stage to the loaded module and to
  the store, and holds in every reachable state, after failing calls too.
\<close>

section \<open>What the engine leaves alone\<close>

lemma framed_repeatM [frame_intros]: "framed m \<Longrightarrow> framed (repeatM n m)"
  by (induction n) (auto intro!: frame_intros)

lemma framed_invoke [frame_intros]: "framed (invoke F n name params)"
proof (rule framedI)
  fix st :: "'h Interp"
  have "framed (bindM (liftM (deref (getFunction s a))) (\<lambda>f. if length (Params (getType f)) \<noteq> length params then errM TypeNotMatch
      else seqM (onPdr (modifyM resetInstrs)) (seqM (onStack (modifyM resetStack)) (seqM (onStack (forM push params))
        (seqM (runFunction F n f) (bindM (onStack (repeatM (length (Returns (getType f))) pop)) (\<lambda>vs. retM (rev vs))))))))"
    for s :: "'h StoreManager" and a by (intro frame_intros)
  then show "layout (snd (invoke F n name params st)) = layout st"
    by (auto simp: invoke_def dest: framedD split: option.split)
qed

lemma layout_parts:
  assumes "layout st = layout st'"
  shows "Funcs (Store st) = Funcs (Store st')" "findModule (Store st) name = findModule (Store st') name"
  using assms by (simp_all add: layout_def findModule_def)

section \<open>The invariant\<close>

text \<open>
  A module is there once one was loaded, it is valid once it was validated, the unnamed instance is in
  the store once it was instantiated, and every function of the store branches inside its body.
\<close>

definition vm_ok :: "'h VM \<Rightarrow> bool" where
  "vm_ok vm \<longleftrightarrow> (Loaded \<le> Stage vm \<longrightarrow> Mod vm \<noteq> None) \<and>
     (Validated \<le> Stage vm \<longrightarrow> pred_option module_valid (Mod vm)) \<and>
     (Stage vm = Instantiated \<longrightarrow> (\<exists>m. findModule (Store (Engine vm)) [] = Ok m)) \<and>
     bodies_ok (Insts (Funcs (Store (Engine vm))))"

text \<open>Between \<open>demote\<close> and the end of an operation the machine is not in the last stage.\<close>

definition vm_open :: "'h VM \<Rightarrow> bool" where
  "vm_open vm \<longleftrightarrow> vm_ok vm \<and> Stage vm \<noteq> Instantiated"

lemma keeps_onLoader: "keeps vm_ok (onLoader m)" "keeps vm_open (onLoader m)"
  by (rule keepsI, simp add: onLoader_def split_beta vm_ok_def vm_open_def)+

lemma keeps_onChecker: "keeps vm_ok (onChecker m)" "keeps vm_open (onChecker m)"
  by (rule keepsI, simp add: onChecker_def split_beta vm_ok_def vm_open_def)+

text \<open>An engine call that keeps the bodies keeps the invariant while the machine is open.\<close>

lemma keeps_onEngine:
  assumes "\<And>st. bodies_ok (Insts (Funcs (Store st))) \<Longrightarrow> bodies_ok (Insts (Funcs (Store (snd (m st)))))"
  shows "keeps vm_open (onEngine m)"
  by (rule keepsI) (simp add: onEngine_def split_beta vm_ok_def vm_open_def assms)

lemma keeps_onEngine_framed:
  assumes "framed m"
  shows "keeps vm_ok (onEngine m)"
  by (rule keepsI) (simp add: onEngine_def split_beta vm_ok_def layout_parts [OF framedD [OF assms]])

lemma bodies_ok_set: "bodies_ok fs \<longleftrightarrow> set fs \<subseteq> {f. bodies_ok [f]}"
  by (auto simp: bodies_ok_def)

lemma instantiate_bodies_ok:
  fixes st :: "'h Interp"
  assumes "module_valid md" and "bodies_ok (Insts (Funcs (Store st)))"
  shows "bodies_ok (Insts (Funcs (Store (snd (registerModule F n md name st)))))"
    and "bodies_ok (Insts (Funcs (Store (snd (instantiateModule F n md name st)))))"
proof -
  let ?I = "funcs_in {f. bodies_ok [f]} :: 'h Interp \<Rightarrow> bool"
  have "keeps ?I (instantiate F n md name)"
    using module_valid_branches [OF assms(1)] by (intro keeps_instantiate) (simp add: bodies_ok_def newFunction_def copy_instrs_id)
  moreover have "keeps ?I (modifyM (\<lambda>st. st\<lparr>InsMode := x\<rparr>))" for x
    by (simp add: keeps_def modifyM_def funcs_in_def)
  ultimately have "keeps ?I (registerModule F n md name)" "keeps ?I (instantiateModule F n md name)"
    unfolding registerModule_def instantiateModule_def by (auto intro: keeps_seqM)
  moreover have "?I st" using assms(2) by (metis bodies_ok_set funcs_in_def)
  ultimately show "bodies_ok (Insts (Funcs (Store (snd (registerModule F n md name st)))))"
    "bodies_ok (Insts (Funcs (Store (snd (instantiateModule F n md name st)))))"
    unfolding keeps_def by (metis bodies_ok_set funcs_in_def)+
qed


lemma keeps_registerAll:
  assumes "\<And>x s. x \<in> snd ` set xs \<Longrightarrow> I s \<Longrightarrow> I (snd (put x s))" and "\<And>a f. keeps I (onMod a f)"
  shows "keeps I (registerAll put add num exp ma xs)"
  unfolding registerAll_def
proof (intro keeps_forM, clarify, rule keepsI)
  fix name x s assume "(name, x) \<in> set xs" and "I s"
  then have "I (snd (put x s))" using assms(1) by force
  then show "I (snd (let (a, s1) = put x s in onMod ma (\<lambda>m. let m1 = add a m in exp name (num m1 - 1) m1) s1))"
    using assms(2) by (simp add: keeps_def split_beta)
qed

lemma keeps_registerHostModule:
  fixes B :: "'h FunctionInstance set"
  assumes "snd ` set (IFuncs ob) \<subseteq> B"
  shows "keeps (\<lambda>s. set (Insts (Funcs s)) \<subseteq> B) (registerHostModule ob)"
proof -
  let ?I = "\<lambda>s :: 'h StoreManager. set (Insts (Funcs s)) \<subseteq> B"
  have reset: "keeps ?I (resetStore False)"
    using keeps_resetStore [of B] unfolding keeps_def funcs_in_def onStore_def
    by (metis (no_types, lifting) Interp.select_convs(4) Interp.surjective Interp.update_convs(4) case_prod_beta snd_conv)
  have mods: "keeps ?I (onMod a f)" for a f by (simp add: keeps_def onMod_def setMod_def split: outcome.split)
  have "keeps ?I (\<lambda>s. case findModule s (IModName ob) of Ok _ \<Rightarrow> (Err ModuleNameConflict, s) | _ \<Rightarrow>
       (let (ma, s1) = importModule (newModuleInstance (IModName ob)) s in
        seqM (registerAll importHostFunction addFuncAddr getFuncNum exportFuncion ma (IFuncs ob))
       (seqM (registerAll importHostTable addTableAddr getTableNum exportTable ma (ITabs ob))
       (seqM (registerAll importHostMemory addMemAddr getMemNum exportMemory ma (IMems ob))
             (registerAll importHostGlobal addGlobalAddr getGlobalNum exportGlobal ma (IGlobs ob)))) s1))"
    (is "keeps ?I (\<lambda>s. case _ of Ok _ \<Rightarrow> _ | _ \<Rightarrow> (let (ma, s1) = _ in ?r ma s1))")
  proof -
    have "keeps ?I (?r ma)" for ma
      using assms by (intro keeps_seqM keeps_registerAll mods)
        (auto simp: importHost_function.insts_put importHostTable_def importHostMemory_def importHostGlobal_def split_beta)
    then show ?thesis by (auto simp: keeps_def split_beta Let_def split: outcome.split)
  qed
  then show ?thesis unfolding registerHostModule_def by (rule keeps_seqM [OF reset])
qed


section \<open>Every operation keeps it\<close>

text \<open>The functions of an import object; the interface of the class adds host functions only.\<close>

definition object_ok :: "'h ImportObject \<Rightarrow> bool" where
  "object_ok ob \<longleftrightarrow> bodies_ok (map snd (IFuncs ob))"

lemma emplace_entries: "set (emplace k v m) \<subseteq> insert (k, v) (set m)"
  by (induction m) (auto split: if_splits)

lemma object_ok_host:
  "object_ok (newImportObject name)" "object_ok ob \<Longrightarrow> object_ok (addHostFunc n h ob)"
  "object_ok ob \<Longrightarrow> object_ok (addHostTable n t ob)" "object_ok ob \<Longrightarrow> object_ok (addHostMemory n m ob)"
  "object_ok ob \<Longrightarrow> object_ok (addHostGlobal n g ob)"
  by (auto simp: object_ok_def bodies_ok_def image_iff newImportObject_def addHostFunc_def addHostTable_def addHostMemory_def
      addHostGlobal_def dest!: subsetD [OF emplace_entries]) (metis snd_conv)

lemma keeps_hostModule: "object_ok ob \<Longrightarrow> keeps vm_open (onEngine (onStore (registerHostModule ob)))"
  using keeps_registerHostModule [of ob "{f. bodies_ok [f]}"]
  by (intro keeps_onEngine) (auto simp: onStore_def split_beta object_ok_def bodies_ok_set [where fs = "map snd _"]
    bodies_ok_set [where fs = "Insts _"] keeps_def)

text \<open>\<open>demote\<close> leads from the invariant to the stronger one.\<close>

lemma demote_opens: "vm_ok vm \<Longrightarrow> vm_open (snd (demote vm))"
  by (auto simp: demote_def modifyM_def vm_ok_def vm_open_def stage_defs)

lemma demote_then:
  fixes m :: "('h, 'a) vmop"
  assumes "keeps vm_open m"
  shows "keeps vm_ok (seqM demote m)"
proof (rule keepsI)
  fix vm :: "'h VM" assume "vm_ok vm"
  then have "vm_open (snd (m (snd (demote vm))))" using assms demote_opens by (auto simp: keeps_def)
  then show "vm_ok (snd (seqM demote m vm))" by (simp add: seqM_def demote_def modifyM_def bindM_def vm_open_def)
qed

lemma seqM_fails: "fst (m s) \<noteq> Ok () \<Longrightarrow> snd (seqM m n s) = snd (m s)"
  by (cases "m s") (auto simp: seqM_def bindM_def split: outcome.split)

text \<open>What follows a successful validation may use that the module is valid.\<close>

lemma keeps_validated:
  fixes n :: "('h, 'a) vmop"
  assumes "module_valid m \<Longrightarrow> keeps I n" and "keeps I (onChecker (validateModule m))"
  shows "keeps I (seqM (onChecker (validateModule m)) n)"
proof (cases "module_valid m")
  case True
  then show ?thesis using assms(1,2) by (blast intro: keeps_seqM)
next
  case False
  have "fst (onChecker (validateModule m) vm) \<noteq> Ok ()" for vm :: "'h VM"
    using False validateModule_decides [of m "Checker vm"] by (simp add: onChecker_def split_beta)
  then have "snd (seqM (onChecker (validateModule m)) n vm) = snd (onChecker (validateModule m) vm)" for vm
    by (rule seqM_fails)
  then show ?thesis using assms(2) by (auto simp: keeps_def)
qed

lemma keeps_instantiations:
  assumes "module_valid md"
  shows "keeps vm_open (onEngine (registerModule F n md name))" "keeps vm_open (onEngine (instantiateModule F n md name))"
  by (rule keeps_onEngine, simp add: instantiate_bodies_ok assms)+

lemma keeps_registerParsed: "keeps vm_open (registerParsed F n name m)"
  unfolding registerParsed_def by (intro keeps_validated keeps_instantiations keeps_onChecker)

lemma keeps_open_framed: "framed m \<Longrightarrow> keeps vm_open (onEngine m)"
  by (rule keeps_onEngine) (simp add: layout_parts [OF framedD])

lemma keeps_runParsed: "keeps vm_open (runParsed F n m func params)"
  unfolding runParsed_def
  by (intro keeps_validated keeps_seqM keeps_instantiations keeps_onChecker keeps_open_framed framed_invoke)

lemma keeps_modules:
  "keeps vm_ok (registerWasm F n parse name)" "object_ok ob \<Longrightarrow> keeps vm_ok (registerObject ob)"
  "keeps vm_ok (runWasmFile F n parse func params)"
  unfolding registerWasm_def registerObject_def runWasmFile_def
  by (intro demote_then keeps_bindM keeps_onLoader keeps_registerParsed keeps_runParsed keeps_hostModule; assumption?)+

lemma keeps_loadWasm: "keeps vm_ok (loadWasm parse)"
  unfolding loadWasm_def
  by (intro keeps_bindM keeps_onLoader keeps_modifyM) (simp add: vm_ok_def stage_defs)

lemma ok_loaded: "vm_ok vm \<Longrightarrow> Loaded \<le> Stage vm \<Longrightarrow> \<exists>m. Mod vm = Some m"
  by (auto simp: vm_ok_def)

lemma seqM_Ok_or_fails:
  obtains t where "m s = (Ok (), t)" "seqM m n s = n t" | "fst (m s) \<noteq> Ok ()" "snd (seqM m n s) = snd (m s)"
  using seqM_fails [of m s n] by (cases "m s") (auto simp: seqM_def bindM_def)

lemma onChecker_unfold: "onChecker m vm = (fst (m (Checker vm)), vm\<lparr>Checker := snd (m (Checker vm))\<rparr>)"
  by (simp add: onChecker_def split_beta)

lemma onEngine_unfold: "onEngine m vm = (fst (m (Engine vm)), vm\<lparr>Engine := snd (m (Engine vm))\<rparr>)"
  by (simp add: onEngine_def split_beta)

lemma keeps_validateVM: "keeps vm_ok validateVM"
proof (rule keepsI)
  fix vm :: "'h VM" assume ok: "vm_ok vm"
  show "vm_ok (snd (validateVM vm))"
  proof (cases "Loaded \<le> Stage vm")
    case True
    then obtain m where m: "Mod vm = Some m" using ok ok_loaded by blast
    let ?v = "vm\<lparr>Checker := snd (validateModule m (Checker vm))\<rparr>"
    have c: "onChecker (validateModule m) vm = (fst (validateModule m (Checker vm)), ?v)" by (rule onChecker_unfold)
    have "vm_ok ?v" using ok by (simp add: vm_ok_def)
    moreover have "module_valid m \<Longrightarrow> vm_ok (?v\<lparr>Stage := Validated\<rparr>)" using ok m by (simp add: vm_ok_def stage_defs)
    ultimately show ?thesis
      using True m c validateModule_decides [of m "Checker vm"]
      by (auto simp: validateVM_def loadedModule_def bindM_def seqM_def modifyM_def split: outcome.split if_splits)
  next
    case False
    then show ?thesis using ok by (simp add: validateVM_def not_le)
  qed
qed

lemma instantiate_conflict:
  "findModule (Store st) name = Ok m \<Longrightarrow>
   instantiateModule F n md name st = (Err ModuleNameConflict, st\<lparr>InsMode := ModeInstantiate\<rparr>)"
  by (simp add: instantiateModule_def instantiate_def seqM_modify)

lemma keeps_instantiateVM: "keeps vm_ok (instantiateVM F n)"
proof (rule keepsI)
  fix vm :: "'h VM" assume ok: "vm_ok vm"
  show "vm_ok (snd (instantiateVM F n vm))"
  proof (cases "Validated \<le> Stage vm")
    case True
    then have "Loaded \<le> Stage vm" by (auto simp: stage_defs)
    then obtain m where m: "Mod vm = Some m" "module_valid m" using ok True by (auto simp: vm_ok_def)
    obtain r st where i: "instantiateModule F n m [] (Engine vm) = (r, st)" by fastforce
    let ?v = "vm\<lparr>Engine := st\<rparr>"
    have e: "onEngine (instantiateModule F n m []) vm = (r, ?v)" by (simp add: onEngine_unfold i)
    have b: "bodies_ok (Insts (Funcs (Store st)))"
      using ok instantiate_bodies_ok(2) [OF m(2), of "Engine vm" F n "[]"] i by (auto simp: vm_ok_def)
    have "vm_ok (?v\<lparr>Stage := Instantiated\<rparr>)" if "r = Ok ()"
      using i that instantiate_finds m b by (fastforce simp: vm_ok_def stage_defs)
    moreover have "vm_ok ?v"
      using ok m b i instantiate_conflict by (fastforce simp: vm_ok_def stage_defs)
    ultimately show ?thesis
      using True m e by (auto simp: instantiateVM_def loadedModule_def bindM_def seqM_def modifyM_def split: outcome.split)
  next
    case False
    then show ?thesis using ok by (simp add: instantiateVM_def not_le)
  qed
qed

lemma cleanup_ok:
  assumes "vm_ok vm" and "cleanup vm = (Ok (), vm')"
  shows "vm_ok vm'"
proof -
  let ?vm = "vm\<lparr>Mod := None\<rparr>"
  let ?st = "snd (onStore (resetStore False) (Engine vm))"
  have "funcs_in {f. bodies_ok [f]} (Engine vm)" using assms(1) unfolding vm_ok_def funcs_in_def by (metis bodies_ok_set)
  then have "funcs_in {f. bodies_ok [f]} ?st" using keeps_resetStore unfolding keeps_def by blast
  then have "bodies_ok (Insts (Funcs (Store ?st)))" unfolding funcs_in_def by (metis bodies_ok_set)
  moreover have "vm' = ?vm\<lparr>Engine := ?st\<lparr>Meter := map_option clear (Meter ?st)\<rparr>, Stage := Inited\<rparr>"
    using assms(2) by (auto simp: cleanup_def seqM_modify seqM_Ok_iff onEngine_unfold) (simp add: modifyM_def)
  ultimately show ?thesis by (simp add: vm_ok_def stage_defs)
qed

section \<open>Reachable machines\<close>

inductive vm_step :: "fpu \<Rightarrow> 'h VM \<Rightarrow> 'h VM \<Rightarrow> bool" for F where
  step_register: "registerWasm F n parse name vm = (r, vm') \<Longrightarrow> vm_step F vm vm'"
| step_object: "object_ok ob \<Longrightarrow> registerObject ob vm = (r, vm') \<Longrightarrow> vm_step F vm vm'"
| step_run: "runWasmFile F n parse func params vm = (r, vm') \<Longrightarrow> vm_step F vm vm'"
| step_load: "loadWasm parse vm = (r, vm') \<Longrightarrow> vm_step F vm vm'"
| step_validate: "validateVM vm = (r, vm') \<Longrightarrow> vm_step F vm vm'"
| step_instantiate: "instantiateVM F n vm = (r, vm') \<Longrightarrow> vm_step F vm vm'"
| step_execute: "executeVM F n func params vm = (r, vm') \<Longrightarrow> vm_step F vm vm'"
| step_cleanup: "cleanup vm = (Ok (), vm') \<Longrightarrow> vm_step F vm vm'"

inductive vm_reachable :: "fpu \<Rightarrow> 'h VM \<Rightarrow> bool" for F where
  constructed: "bodies_ok (Insts (Funcs s)) \<Longrightarrow> object_ok wasi \<Longrightarrow> object_ok eei \<Longrightarrow>
     initVM config wasi eei (newVM s h) = (Ok (), vm) \<Longrightarrow> vm_reachable F vm"
| stepped: "vm_reachable F vm \<Longrightarrow> vm_step F vm vm' \<Longrightarrow> vm_reachable F vm'"

lemma vm_step_ok: "vm_step F vm vm' \<Longrightarrow> vm_ok vm \<Longrightarrow> vm_ok vm'"
proof (induction rule: vm_step.induct)
  case (step_execute n func params vm r vm')
  then show ?case using keepsD [OF keeps_onEngine_framed [OF framed_invoke]] unfolding executeVM_def by blast
next
  case (step_cleanup vm vm')
  then show ?case by (blast intro: cleanup_ok)
qed (metis keepsD keeps_modules keeps_loadWasm keeps_validateVM keeps_instantiateVM)+

lemma keeps_useTable: "keeps vm_open (useTable t)"
  by (rule keepsI) (simp add: useTable_def Let_def vm_ok_def vm_open_def split: option.split)

lemma keeps_addHostModule:
  fixes ob :: "'h ImportObject"
  shows "object_ok ob \<Longrightarrow> keeps vm_open (addHostModule t ob)"
proof (rule keepsI)
  fix vm :: "'h VM" assume "object_ok ob" and vm: "vm_open vm"
  then have o: "vm_open (snd (onEngine (onStore (registerHostModule ob)) vm))" using keeps_hostModule by (auto simp: keeps_def)
  have "keeps vm_open (seqM (modifyM (\<lambda>v. v\<lparr>ImpObjs := (if ImpObjs v t = None then (ImpObjs v)(t \<mapsto> ob) else ImpObjs v)\<rparr>)) (useTable t))"
    by (intro keeps_seqM keeps_useTable keeps_modifyM) (simp add: vm_open_def vm_ok_def)
  then show "vm_open (snd (addHostModule t ob vm))"
    using o by (auto simp: addHostModule_def keeps_def split: prod.split outcome.split)
qed

lemma initVM_ok:
  assumes "bodies_ok (Insts (Funcs s))" and "object_ok wasi" and "object_ok eei"
  shows "vm_ok (snd (initVM config wasi eei (newVM s h)))"
proof -
  have "keeps vm_open (initVM config wasi eei)"
    using assms unfolding initVM_def by (intro keeps_seqM keeps_useTable) (simp_all add: keeps_addHostModule)
  moreover have "vm_open (newVM s h)" using assms by (simp add: vm_open_def vm_ok_def newVM_def newInterp_def stage_defs)
  ultimately show ?thesis by (simp add: keeps_def vm_open_def)
qed

section \<open>Properties\<close>

text \<open>C5. The workflow of the machine is respected in every state that is reached from a constructed machine
  by public operations in any order, whether they succeed or fail: a module is there from the stage
  \<open>Loaded\<close> on, from the stage \<open>Validated\<close> on the validator accepts it, in the stage \<open>Instantiated\<close> the
  unnamed instance is in the store, and every function in the store branches inside its body only.\<close>

theorem vm_workflow:
  fixes vm :: "'h VM"
  assumes "vm_reachable F vm"
  shows "(Loaded \<le> Stage vm \<longrightarrow> (\<exists>m. Mod vm = Some m)) \<and>
    (Validated \<le> Stage vm \<longrightarrow> (\<exists>m. Mod vm = Some m \<and> (\<forall>c. fst (validateModule m c) = Ok ()))) \<and>
    (Stage vm = Instantiated \<longrightarrow> (\<exists>m. findModule (Store (Engine vm)) [] = Ok m)) \<and>
    bodies_ok (Insts (Funcs (Store (Engine vm))))"
proof -
  from assms have ok: "vm_ok vm"
  proof (induction rule: vm_reachable.induct)
    case (constructed s wasi eei config h vm)
    then show ?case using initVM_ok [of s wasi eei config h] by simp
  qed (rule vm_step_ok)
  have accepts: "module_valid m \<Longrightarrow> fst (validateModule m c) = Ok ()" for m c
    using validateModule_decides [of m c] by (simp split: if_splits)
  have "Validated \<le> Stage vm \<Longrightarrow> Loaded \<le> Stage vm" by (simp add: stage_defs)
  with ok accepts show ?thesis by (auto simp: vm_ok_def)
qed

definition baseMachine :: "unit VM" where
  "baseMachine = snd (initVM newConfigure (newImportObject []) (newImportObject []) (newVM newStoreManager ()))"

lemma initVM_base: "initVM newConfigure (newImportObject []) (newImportObject []) (newVM newStoreManager ()) = (Ok (), baseMachine)"
  by (simp add: baseMachine_def initVM_def newConfigure_def hasVMType_def useTable_def getCostTable_def Let_def seqM_def bindM_def retM_def)

definition loadEmptyFunction :: "(FileMgr, Module) exec" where
  "loadEmptyFunction fm = (Ok emptyFunctionModule, fm)"

theorem vm_workflow_witness:
  "Stage (snd (validateVM (snd (loadWasm loadEmptyFunction baseMachine)))) = Validated \<and>
   (\<exists>m. Mod (snd (validateVM (snd (loadWasm loadEmptyFunction baseMachine)))) = Some m \<and> (\<forall>c. fst (validateModule m c) = Ok ()))"
proof -
  let ?vm1 = "snd (loadWasm loadEmptyFunction baseMachine)"
  let ?vm2 = "snd (validateVM ?vm1)"
  have "vm_reachable F baseMachine" for F
    by (rule constructed [OF _ _ _ initVM_base]) (simp_all add: object_ok_host newStoreManager_def emptyVec_def bodies_ok_def)
  then have "vm_reachable F ?vm1" for F by (metis stepped step_load prod.collapse)
  then have r: "vm_reachable F ?vm2" for F by (metis stepped step_validate prod.collapse)
  have "Stage ?vm2 = Validated"
    using validate_emptyFunction
    by (simp add: loadWasm_def loadEmptyFunction_def onLoader_def validateVM_def loadedModule_def onChecker_unfold seqM_def bindM_def
        modifyM_def stage_defs)
  then show ?thesis using vm_workflow [OF r] by simp
qed

text \<open>C13. Running the stages one by one gives what running the file at once gives: loading, validating,
  instantiating and executing in this order, in any state of the machine, ends with the same values or
  the same error as \<open>runWasmFile\<close>, and with the same interpreter, store, validator and loader. They
  differ in the stage and the kept module only.\<close>

theorem staged_run:
  fixes vm :: "'h VM"
  shows "let (r1, vm1) = seqM (loadWasm parse) (seqM validateVM (seqM (instantiateVM F n) (executeVM F n func params))) vm;
             (r2, vm2) = runWasmFile F n parse func params vm
         in r1 = r2 \<and> vm1\<lparr>Stage := Inited, Mod := None\<rparr> = vm2\<lparr>Stage := Inited, Mod := None\<rparr>"
proof -
  obtain r fm where p: "parse (FVMgr vm) = (r, fm)" by fastforce
  show ?thesis
    by (cases r) (simp_all add: p loadWasm_def runWasmFile_def runParsed_def validateVM_def instantiateVM_def executeVM_def demote_def
      loadedModule_def onLoader_def onChecker_unfold onEngine_unfold stage_defs seqM_def bindM_def modifyM_def split: outcome.split)
qed

text \<open>A module that exports one empty function, and what running it gives.\<close>

definition exportedModule :: Module where
  "exportedModule = emptyFunctionModule\<lparr>ExportSec := Some [\<lparr>ExpExtName = [102], ExpExtType = Function, ExpExtIdx = 0\<rparr>]\<rparr>"

lemma validate_exported: "fst (validateModule exportedModule c) = Ok ()"
proof -
  have "module_valid exportedModule"
    by (simp add: module_valid_def Let_def exportedModule_def emptyFunctionModule_def empty_Module_def sec_def export_valid_def allFuncs_def allTables_def allMems_def
        imp_defs module_context_def body_valid_def sig_def context_of_def validateV_checkInstrs retM_def)
  then show ?thesis using validateModule_decides [of exportedModule c] by simp
qed

lemma invoke_emptyFunction:
  fixes st :: "unit Interp"
  assumes "getFuncExports (Store st) name = Some a" and "deref (getFunction (Store st) a) = Ok emptyFunction"
    and "Stack st = newStackManager" and "InstrPdr st = newInstrProvider"
  shows "fst (invoke F (Suc (Suc (Suc 0))) name [] st) = Ok []"
proof -
  have "runFunction F (Suc (Suc (Suc 0))) emptyFunction st = (Ok (), st)"
    using assms(3,4) by (cases st) (simp add: runFunction_def emptyFunction_def enterFunction_def newStackManager_def newInstrProvider_def
      pushFrame_def leaveFunction_def popFrame_def run_defs)
  moreover have "st\<lparr>InstrPdr := resetInstrs (InstrPdr st)\<rparr> = st" "st\<lparr>Stack := resetStack (Stack st)\<rparr> = st"
    using assms(3,4) by (cases st, simp add: resetInstrs_def resetStack_def newStackManager_def newInstrProvider_def)+
  ultimately show ?thesis
    using assms(1,2) by (simp add: invoke_def seqM_def bindM_def liftM_def onPdr_def onStack_def modifyM_def retM_def)
     (simp add: emptyFunction_def retM_def)
qed

lemma run_exported:
  "\<exists>vm1. runWasmFile F (Suc (Suc (Suc 0))) (\<lambda>fm. (Ok exportedModule, fm)) [102] [] baseMachine = (Ok [], vm1)"
proof -
  let ?st = "Engine baseMachine"
  have st: "?st = newInterp (newMeasurement (replicate 256 1) (-1)) newStoreManager ()"
    by (simp add: baseMachine_def initVM_def newConfigure_def hasVMType_def useTable_def getCostTable_def Let_def seqM_def bindM_def retM_def
      newVM_def newInterp_def newMeasurement_def setCostTable_def)
  let ?m = "(newModuleInstance [])\<lparr>FuncTypes := [\<lparr>Params = [], Returns = []\<rparr>], FuncAddrs := [0], ExpFuncs := [[102] \<mapsto> 0]\<rparr>"
  let ?st1 = "?st\<lparr>Store := newStoreManager\<lparr>Mods := \<lparr>Insts = [?m], ImpInsts = [0], Num = 1\<rparr>,
      Funcs := \<lparr>Insts = [emptyFunction], ImpInsts = [0], Num = 1\<rparr>\<rparr>\<rparr>"
  have i: "instantiateModule F (Suc (Suc (Suc 0))) exportedModule [] ?st = (Ok (), ?st1)"
    by (simp add: st newInterp_def exportedModule_def emptyFunctionModule_def emptyFunction_def instantiate_defs run_defs instantiateExport_def
        exportFuncion_def at_def)
  have f: "getFuncExports (Store ?st1) [102] = Some 0" "deref (getFunction (Store ?st1) 0) = Ok emptyFunction"
     "Stack ?st1 = newStackManager" "InstrPdr ?st1 = newInstrProvider"
    by (simp_all add: getFuncExports_def getFunction_def lookup_def deref_def st newInterp_def)
  have "fst (invoke F (Suc (Suc (Suc 0))) [102] [] ?st1) = Ok []"
    by (rule invoke_emptyFunction [OF f])
  then obtain st2 where x: "invoke F (Suc (Suc (Suc 0))) [102] [] ?st1 = (Ok [], st2)"
     by (metis prod.collapse)
  have stage: "Stage baseMachine = Inited" by (simp add: baseMachine_def newVM_def initVM_def newConfigure_def hasVMType_def useTable_def getCostTable_def Let_def seqM_def bindM_def retM_def)
  show ?thesis using validate_exported i x stage
    by (simp add: runWasmFile_def demote_def onLoader_def runParsed_def onChecker_unfold onEngine_unfold modifyM_def seqM_def bindM_def)
qed
text \<open>C31. A machine that has run a file cannot run another one: the comments at \<open>runWasmFile\<close> announce that
  the instance in the store will be reset, but the second call reports a name conflict for every file
  that loads and validates, since the instantiation tests the (empty) name before it resets the store
  and nothing in between removes the first instance.\<close>

theorem runWasmFile_twice:
  fixes vm :: "'h VM"
  assumes "runWasmFile F n parse func params vm = (Ok vs, vm1)"
    and "parse' (FVMgr vm1) = (Ok m, fm)" and "fst (validateModule m (Checker vm1)) = Ok ()"
  shows "fst (runWasmFile F n' parse' func' params' vm1) = Err ModuleNameConflict"
proof -
  obtain md vm2 vm3 where i: "onEngine (instantiateModule F n md []) vm2 = (Ok (), vm3)" and x: "onEngine (invoke F n func params) vm3 = (Ok vs, vm1)"
    using assms(1) by (auto simp: runWasmFile_def runParsed_def seqM_Ok_iff bindM_Ok_iff)
  have "\<exists>m. findModule (Store (Engine vm3)) [] = Ok m"
    using i instantiate_finds [of F n md "[]" "Engine vm2"] by (auto simp: onEngine_unfold) (metis prod.collapse)
  moreover have "layout (Engine vm1) = layout (Engine vm3)"
    using x framedD [OF framed_invoke] by (auto simp: onEngine_unfold)
  ultimately obtain mi where "findModule (Store (Engine vm1)) [] = Ok mi" using layout_parts(2) by metis
  then have "instantiateModule F n' m [] (Engine vm1) = (Err ModuleNameConflict, (Engine vm1)\<lparr>InsMode := ModeInstantiate\<rparr>)"
    by (rule instantiate_conflict)
  then show ?thesis
    using assms(2,3) by (cases "Stage vm1 = Instantiated")
      (simp_all add: runWasmFile_def runParsed_def demote_def onLoader_def onChecker_unfold onEngine_unfold seqM_def bindM_def modifyM_def)
qed

theorem runWasmFile_twice_witness:
  "\<forall>F. \<exists>vm1. runWasmFile F 3 (\<lambda>fm. (Ok exportedModule, fm)) [102] [] baseMachine = (Ok [], vm1) \<and>
     fst (runWasmFile F 3 (\<lambda>fm. (Ok exportedModule, fm)) [102] [] vm1) = Err ModuleNameConflict"
proof
  fix F
  obtain vm1 where r: "runWasmFile F 3 (\<lambda>fm. (Ok exportedModule, fm)) [102] [] baseMachine = (Ok [], vm1)"
    using run_exported [of F] by (auto simp: numeral_3_eq_3)
  then show "\<exists>vm1. runWasmFile F 3 (\<lambda>fm. (Ok exportedModule, fm)) [102] [] baseMachine = (Ok [], vm1) \<and>
     fst (runWasmFile F 3 (\<lambda>fm. (Ok exportedModule, fm)) [102] [] vm1) = Err ModuleNameConflict"
    using runWasmFile_twice [OF r] validate_exported by simp
qed

end
