(* ===== verification/HostEnv.thy ===== *)
theory HostEnv
  imports Instances
begin

text \<open>
  What the host modules have in common (\<open>include/runtime/hostfunc.h\<close>): a host function runs on the
  memory of the caller and on the environment of its module, which every function of the module refers
  to, and takes its arguments from the tuple that \<open>invoke\<close> pops.
\<close>

type_synonym ('h, 'a) hostop = "('h HostWorld, 'a) exec"

definition getEnv :: "('h \<Rightarrow> 'a) \<Rightarrow> ('h, 'a) hostop" where
  "getEnv f w = (Ok (f (HState w)), w)"

definition tryEnv :: "('h \<Rightarrow> 'a Expect) \<Rightarrow> ('h, 'a) hostop" where
  "tryEnv f w = (f (HState w), w)"

definition setEnv :: "('h \<Rightarrow> 'h) \<Rightarrow> ('h, unit) hostop" where
  "setEnv f w = (Ok (), w\<lparr>HState := f (HState w)\<rparr>)"

definition onMemory :: "'a memop \<Rightarrow> ('h, 'a) hostop" where
  "onMemory m w = (let (r, mem) = m (HMem w) in (r, w\<lparr>HMem := mem\<rparr>))"

text \<open>The arguments as the tuple of the parameter types of \<open>body\<close>.\<close>

definition arg :: "ValVariant list \<Rightarrow> nat \<Rightarrow> u32" where
  "arg vs i = get32 (vs ! i)"

definition arg64 :: "ValVariant list \<Rightarrow> nat \<Rightarrow> (u64 \<Rightarrow> ('h, 'a) hostop) \<Rightarrow> ('h, 'a) hostop" where
  "arg64 vs i f = bindM (liftM (get64 (vs ! i))) f"

definition name_of :: "string \<Rightarrow> Bytes" where
  "name_of s = map of_char s"

end
