(* ===== verification/HexStr.thy ===== *)
theory HexStr
  imports Common
begin

text \<open>
  \<open>include/support/hexstr.h\<close>: conversions between byte vectors and strings of hexadecimal digits, in
  both byte orders, with padding. A string is the list of its characters as bytes.
\<close>

definition convertCharToHex :: "u8 \<Rightarrow> u8" where
  "convertCharToHex c =
     (if 0x30 \<le> c \<and> c \<le> 0x39 then c - 0x30
      else if 0x61 \<le> c \<and> c \<le> 0x66 then (c - 0x61) + 10
      else if 0x41 \<le> c \<and> c \<le> 0x46 then (c - 0x41) + 10
      else 0)"

text \<open>\<open>snprintf(Buf, 3, "%02x", b)\<close>.\<close>

definition hexDigit :: "u8 \<Rightarrow> u8" where
  "hexDigit n = (if n < 10 then 0x30 + n else 0x61 + (n - 10))"

definition hexByte :: "u8 \<Rightarrow> Bytes" where
  "hexByte b = [hexDigit (drop_bit 4 b), hexDigit (take_bit 4 b)]"

definition padZeros :: "u32 \<Rightarrow> Bytes \<Rightarrow> Bytes" where
  "padZeros padding s = (if length s < unat padding then replicate (unat padding - length s) 0x30 @ s else s)"

definition convertBytesToHexStr :: "Bytes \<Rightarrow> u32 \<Rightarrow> bool \<Rightarrow> Bytes" where
  "convertBytesToHexStr src padding isLittleEndian =
     padZeros padding (concat (map hexByte (if isLittleEndian then rev src else src)))"

definition convertValVecToHexStr :: "Bytes \<Rightarrow> u32 \<Rightarrow> Bytes" where
  "convertValVecToHexStr src padding = convertBytesToHexStr src padding True"

text \<open>The two loops: over the string from its begin, and over the string from its end.\<close>

fun hexLoop :: "Bytes \<Rightarrow> Bytes" where
  "hexLoop (ch # cl # s) = (convertCharToHex cl + push_bit 4 (convertCharToHex ch)) # hexLoop s"
| "hexLoop _ = []"

fun hexLoopRev :: "Bytes \<Rightarrow> Bytes" where
  "hexLoopRev (cl # ch # s) = (convertCharToHex cl + push_bit 4 (convertCharToHex ch)) # hexLoopRev s"
| "hexLoopRev _ = []"

definition convertHexStrToBytes :: "Bytes \<Rightarrow> u32 \<Rightarrow> bool \<Rightarrow> Bytes" where
  "convertHexStrToBytes src padding0 isLittleEndian =
     (let padding = (if padding0 AND 1 \<noteq> 0 then padding0 + 1 else padding0) in
      if length src = 0 then []
      else let s1 = padZeros padding src;
               s = (if odd (length s1) then 0x30 # s1 else s1)
           in if isLittleEndian then hexLoopRev (rev s) else hexLoop s)"

definition convertHexStrToValVec :: "Bytes \<Rightarrow> u32 \<Rightarrow> Bytes" where
  "convertHexStrToValVec src padding = convertHexStrToBytes src padding False"

section \<open>Round trips\<close>

lemma hexDigit_inverse:
  assumes "n < 16"
  shows "convertCharToHex (hexDigit n) = n"
proof -
  have "unat n \<in> set [0..<16]" using assms by (simp add: word_less_nat_alt)
  then have "n \<in> set (map of_nat [0..<16])" using imageI [of "unat n" _ "of_nat :: nat \<Rightarrow> u8"] by simp
  moreover have "list_all (\<lambda>n. convertCharToHex (hexDigit n) = n) (map of_nat [0..<16])"
    by code_simp
  ultimately show ?thesis by (simp only: list_all_iff)
qed

lemma hexByte_inverse:
  "convertCharToHex (hexDigit (take_bit 4 b)) + push_bit 4 (convertCharToHex (hexDigit (drop_bit 4 b))) = (b :: u8)"
proof -
  have "unat (take_bit 4 b) < 2 ^ 4" using take_bit_nat_less_exp [of 4 "unat b"] by (simp add: unsigned_take_bit_eq)
  moreover have "unat (drop_bit 4 b) < 2 ^ 4"
    using unsigned_less [of b, where ?'a = nat] by (simp add: drop_bit_eq_div unat_div less_mult_imp_div_less)
  ultimately have "take_bit 4 b < 16" "drop_bit 4 b < 16" by (simp_all add: word_less_nat_alt)
  then have "convertCharToHex (hexDigit (take_bit 4 b)) + push_bit 4 (convertCharToHex (hexDigit (drop_bit 4 b)))
      = take_bit 4 b + push_bit 4 (drop_bit 4 b)" by (simp add: hexDigit_inverse)
  also have "\<dots> = b" by (metis add.commute bits_ident)
  finally show ?thesis .
qed

lemma length_hex: "length (concat (map hexByte bs)) = 2 * length bs"
  by (induction bs) (simp_all add: hexByte_def)

lemma hexLoop_hex: "hexLoop (concat (map hexByte bs)) = bs"
  by (induction bs) (simp_all add: hexByte_def hexByte_inverse)

lemma rev_hex: "rev (concat (map hexByte bs)) = concat (map (\<lambda>b. rev (hexByte b)) (rev bs))"
  by (induction bs) simp_all

lemma hexLoopRev_hex: "hexLoopRev (concat (map (\<lambda>b. rev (hexByte b)) bs)) = bs"
  by (induction bs) (simp_all add: hexByte_def hexByte_inverse)

lemma padZeros_id: "unat p \<le> length s \<Longrightarrow> padZeros p s = s"
  by (simp add: padZeros_def)

text \<open>Printing a byte vector as hexadecimal digits and reading the digits back gives the vector, in either
  byte order and with any paddings that do not exceed its length.\<close>

lemma hex_round_trip:
  assumes "unat p \<le> 2 * length bs" and "unat q \<le> 2 * length bs"
  shows "convertHexStrToBytes (convertBytesToHexStr bs p le) q le = bs"
proof (cases "bs = []")
  case True
  then show ?thesis using assms by (simp add: convertHexStrToBytes_def convertBytesToHexStr_def padZeros_def)
next
  case False
  let ?q = "if q AND 1 \<noteq> 0 then q + 1 else q"
  let ?s = "\<lambda>bs. concat (map hexByte bs)"
  have "unat ?q \<le> 2 * length bs"
  proof (cases "q AND 1 = 0")
    case False
    moreover have "unat (q AND 1) = unat q mod 2" by (simp add: and_one_eq unat_mod)
    ultimately have "odd (unat q)" by (metis even_iff_mod_2_eq_zero unat_eq_zero)
    then have "unat q + 1 \<le> 2 * length bs" using assms(2) by (metis Suc_eq_plus1 Suc_leI even_mult_iff even_numeral le_neq_implies_less)
    moreover have "unat (q + 1) \<le> unat q + 1" by (simp add: unat_word_ariths)
    ultimately show ?thesis using False by simp
  qed (use assms in simp)
  then show ?thesis
    using assms(1) False
    by (simp add: convertHexStrToBytes_def convertBytesToHexStr_def padZeros_id length_hex hexLoop_hex rev_hex hexLoopRev_hex Let_def)
qed

end
