(* ===== verification/Digits.thy ===== *)
theory Digits
  imports HexStr
begin

text \<open>
  The conversions between numbers and strings of the standard library that the tools use: \<open>std::stol\<close>,
  \<open>std::stoll\<close>, \<open>std::stoul\<close>, \<open>std::stoull\<close>, \<open>std::strtoull\<close> and
  \<open>std::to_string\<close>. A string is the list of its characters as
  bytes. \<open>None\<close> stands for an exception (no digits, or a number out of range).
\<close>

definition isSpace :: "u8 \<Rightarrow> bool" where
  "isSpace c \<longleftrightarrow> c = 0x20 \<or> 0x09 \<le> c \<and> c \<le> 0x0D"

definition digitVal :: "u8 \<Rightarrow> nat" where
  "digitVal c =
     (if 0x30 \<le> c \<and> c \<le> 0x39 then unat (c - 0x30)
      else if 0x61 \<le> c \<and> c \<le> 0x7A then unat (c - 0x61) + 10
      else if 0x41 \<le> c \<and> c \<le> 0x5A then unat (c - 0x41) + 10
      else 36)"

definition isDigit :: "nat \<Rightarrow> u8 \<Rightarrow> bool" where
  "isDigit base c \<longleftrightarrow> digitVal c < base"

definition digitsValue :: "nat \<Rightarrow> Bytes \<Rightarrow> nat" where
  "digitsValue base ds = foldl (\<lambda>n c. n * base + digitVal c) 0 ds"

fun signOf :: "Bytes \<Rightarrow> bool \<times> Bytes" where
  "signOf (c # cs) = (if c = 0x2D then (True, cs) else if c = 0x2B then (False, cs) else (False, c # cs))"
| "signOf [] = (False, [])"

text \<open>The prefix \<open>0x\<close> is skipped for base 16 where a digit follows.\<close>

fun skipPrefix :: "nat \<Rightarrow> Bytes \<Rightarrow> Bytes" where
  "skipPrefix base (a # b # c # cs) =
     (if base = 16 \<and> a = 0x30 \<and> (b = 0x78 \<or> b = 0x58) \<and> isDigit 16 c then c # cs else a # b # c # cs)"
| "skipPrefix base cs = cs"

definition strToNum :: "nat \<Rightarrow> Bytes \<Rightarrow> (bool \<times> nat) option" where
  "strToNum base s =
     (let (neg, s1) = signOf (dropWhile isSpace s); ds = takeWhile (isDigit base) (skipPrefix base s1) in
      if ds = [] then None else Some (neg, digitsValue base ds))"

text \<open>\<open>long\<close> and \<open>long long\<close> have 64 bits. An unsigned conversion accepts a sign and negates modulo \<open>2 ^ 64\<close>.\<close>

definition stoll :: "nat \<Rightarrow> Bytes \<Rightarrow> u64 option" where
  "stoll base s = (case strToNum base s of
       None \<Rightarrow> None
     | Some (neg, n) \<Rightarrow>
         if neg then if n \<le> 2 ^ 63 then Some (- of_nat n) else None
         else if n < 2 ^ 63 then Some (of_nat n) else None)"

definition stoull :: "nat \<Rightarrow> Bytes \<Rightarrow> u64 option" where
  "stoull base s = (case strToNum base s of
       None \<Rightarrow> None
     | Some (neg, n) \<Rightarrow> if n < 2 ^ 64 then Some (if neg then - of_nat n else of_nat n) else None)"

text \<open>The C function reports no error: no digits give 0 and an overflow the largest number.\<close>

definition strtoull :: "nat \<Rightarrow> Bytes \<Rightarrow> u64" where
  "strtoull base s = (case strToNum base s of
       None \<Rightarrow> 0
     | Some (neg, n) \<Rightarrow> if n < 2 ^ 64 then if neg then - of_nat n else of_nat n else - 1)"

fun showNat :: "nat \<Rightarrow> Bytes" where
  "showNat n = (if n < 10 then [0x30 + of_nat n] else showNat (n div 10) @ [0x30 + of_nat (n mod 10)])"

declare showNat.simps [simp del]

definition showInt :: "int \<Rightarrow> Bytes" where
  "showInt i = (if i < 0 then 0x2D # showNat (nat (- i)) else showNat (nat i))"

section \<open>Printing and reading back\<close>

lemma digit_codes:
  "list_all (\<lambda>d. digitVal (0x30 + of_nat d) = d \<and> \<not> isSpace (0x30 + of_nat d) \<and> (0x30 + of_nat d :: u8) \<noteq> 0x2D \<and> (0x30 + of_nat d :: u8) \<noteq> 0x2B)
     [0..<10]"
  by code_simp

lemma digit_code:
  assumes "d < 10"
  shows "digitVal (0x30 + of_nat d) = d" "\<not> isSpace (0x30 + of_nat d)" "(0x30 + of_nat d :: u8) \<noteq> 0x2D" "(0x30 + of_nat d :: u8) \<noteq> 0x2B"
  using digit_codes assms by (auto simp: list_all_iff)

lemma digitsValue_append: "digitsValue base (ds @ [c]) = digitsValue base ds * base + digitVal c"
  by (simp add: digitsValue_def)

lemma showNat_digits: "\<exists>ds. showNat n = map (\<lambda>d. 0x30 + of_nat d) ds \<and> ds \<noteq> [] \<and> list_all (\<lambda>d. d < 10) ds"
proof (induction n rule: showNat.induct)
  case (1 n)
  show ?case
  proof (cases "n < 10")
    case True
    then show ?thesis by (intro exI [of _ "[n]"]) (simp add: showNat.simps)
  next
    case False
    with 1 obtain ds where "showNat (n div 10) = map (\<lambda>d. 0x30 + of_nat d) ds" "ds \<noteq> []" "list_all (\<lambda>d. d < 10) ds" by blast
    then show ?thesis using False by (intro exI [of _ "ds @ [n mod 10]"]) (simp add: showNat.simps [of n])
  qed
qed

lemma showNat_value: "digitsValue 10 (showNat n) = n"
proof (induction n rule: showNat.induct)
  case (1 n)
  show ?case
  proof (cases "n < 10")
    case True
    then show ?thesis by (subst showNat.simps) (simp add: digitsValue_def digit_code)
  next
    case False
    then show ?thesis using 1 by (subst showNat.simps) (simp add: digitsValue_append digit_code)
  qed
qed

lemma strToNum_read:
  assumes "signOf (dropWhile isSpace s) = (neg, s1)" and "skipPrefix base s1 = ds" and "takeWhile (isDigit base) ds = ds" and "ds \<noteq> []"
  shows "strToNum base s = Some (neg, digitsValue base ds)"
  unfolding strToNum_def assms(1) prod.case Let_def assms(2,3) using assms(4) by (rule if_not_P)

lemma strToNum_digits:
  assumes "list_all (\<lambda>d. d < 10) ds" and "ds \<noteq> []"
  shows "strToNum 10 (map (\<lambda>d. 0x30 + of_nat d) ds) = Some (False, digitsValue 10 (map (\<lambda>d. 0x30 + of_nat d) ds))"
    and "strToNum 10 (0x2D # map (\<lambda>d. 0x30 + of_nat d) ds) = Some (True, digitsValue 10 (map (\<lambda>d. 0x30 + of_nat d) ds))"
proof -
  let ?s = "map (\<lambda>d. 0x30 + of_nat d :: u8) ds"
  have "list_all (isDigit 10) ?s" using assms(1) by (auto simp: list_all_iff isDigit_def digit_code)
  then have t: "takeWhile (isDigit 10) ?s = ?s" by (simp only: takeWhile_eq_all_conv list_all_iff)
  have p: "skipPrefix 10 xs = xs" for xs by (cases "(10 :: nat, xs)" rule: skipPrefix.cases) auto
  obtain d ds' where d: "ds = d # ds'" "d < 10" using assms by (cases ds) auto
  have "signOf (dropWhile isSpace ?s) = (False, ?s)" using d by (simp add: digit_code)
  then show "strToNum 10 ?s = Some (False, digitsValue 10 ?s)"
    by (rule strToNum_read) (use p t assms(2) in \<open>simp_all only: map_is_Nil_conv not_False_eq_True\<close>)
  have "signOf (dropWhile isSpace (0x2D # ?s)) = (True, ?s)" by (simp add: isSpace_def)
  then show "strToNum 10 (0x2D # ?s) = Some (True, digitsValue 10 ?s)"
    by (rule strToNum_read) (use p t assms(2) in \<open>simp_all only: map_is_Nil_conv not_False_eq_True\<close>)
qed

lemma stoll_showInt:
  assumes "- (2 ^ 63) \<le> i" and "i < 2 ^ 63"
  shows "stoll 10 (showInt i) = Some (of_int i)"
proof -
  obtain ds where ds: "showNat (nat \<bar>i\<bar>) = map (\<lambda>d. 0x30 + of_nat d) ds" "ds \<noteq> []" "list_all (\<lambda>d. d < 10) ds"
    using showNat_digits by blast
  have v: "strToNum 10 (showNat (nat \<bar>i\<bar>)) = Some (False, nat \<bar>i\<bar>)" "strToNum 10 (0x2D # showNat (nat \<bar>i\<bar>)) = Some (True, nat \<bar>i\<bar>)"
    using strToNum_digits [OF ds(3,2)] showNat_value [of "nat \<bar>i\<bar>"] ds(1) by simp_all
  show ?thesis
  proof (cases "i < 0")
    case True
    then show ?thesis using v(2) assms by (simp add: showInt_def stoll_def of_nat_nat)
  next
    case False
    then show ?thesis using v(1) assms by (simp add: showInt_def stoll_def of_nat_nat)
  qed
qed

text \<open>The last digits of a number in base 16; \<open>printf("%016llx", w)\<close> prints sixteen.\<close>

fun hexDigits :: "nat \<Rightarrow> nat \<Rightarrow> Bytes" where
  "hexDigits 0 n = []"
| "hexDigits (Suc k) n = hexDigits k (n div 16) @ [hexDigit (of_nat (n mod 16))]"

lemma hex_codes: "list_all (\<lambda>d. digitVal (hexDigit (of_nat d)) = d \<and> hexDigit (of_nat d) \<noteq> 0) [0..<16]"
  by code_simp

lemma hex_code: "d < 16 \<Longrightarrow> digitVal (hexDigit (of_nat d)) = d" "d < 16 \<Longrightarrow> hexDigit (of_nat d) \<noteq> 0"
  using hex_codes by (auto simp: list_all_iff)

lemma hexDigits_value: "digitsValue 16 (hexDigits k n) = n mod 16 ^ k"
  by (induction k arbitrary: n) (simp_all add: digitsValue_append hex_code digitsValue_def [of _ "[]"] mod_mult2_eq mult.commute)

lemma hexDigits_digits: "list_all (isDigit 16) (hexDigits k n)" "list_all (\<lambda>c. c \<noteq> 0) (hexDigits k n)"
  by (induction k arbitrary: n) (simp_all add: isDigit_def hex_code)

lemma length_hexDigits: "length (hexDigits k n) = k"
  by (induction k arbitrary: n) simp_all

lemma stoull_hexDigits:
  fixes w :: u64
  shows "stoull 16 (0x30 # 0x78 # hexDigits 16 (unat w)) = Some w"
proof -
  let ?ds = "hexDigits 16 (unat w)"
  obtain c cs where c: "?ds = c # cs" using length_hexDigits [of 16 "unat w"] by (cases ?ds) auto
  have s: "skipPrefix 16 (0x30 # 0x78 # ?ds) = ?ds" using hexDigits_digits(1) [of 16 "unat w"] unfolding c by simp
  have t: "takeWhile (isDigit 16) ?ds = ?ds" using hexDigits_digits(1) by (simp only: takeWhile_eq_all_conv list_all_iff)
  have "signOf (dropWhile isSpace (0x30 # 0x78 # ?ds)) = (False, 0x30 # 0x78 # ?ds)" by (simp add: isSpace_def)
  then have "strToNum 16 (0x30 # 0x78 # ?ds) = Some (False, digitsValue 16 ?ds)" by (rule strToNum_read) (use c s t in \<open>simp_all only: list.distinct not_False_eq_True\<close>)
  moreover have "digitsValue 16 ?ds = unat w" using unat_u64_less [of w] by (simp add: hexDigits_value)
  ultimately show ?thesis using unat_u64_less [of w] by (simp add: stoull_def)
qed

end
