(* ===== verification/Eei.thy ===== *)
theory Eei
  imports HostEnv HexStr
begin

text \<open>
  The Ethereum environment interface: \<open>include/host/ethereum/eeienv.h\<close>, \<open>eeibase.h\<close>, \<open>eeifunc.h\<close>,
  \<open>eeimodule.h\<close> and \<open>lib/host/ethereum/\<close>. The environment of a module is the state \<open>HState\<close> of its host
  functions; its members \<open>GasLimit\<close> and \<open>GasUsed\<close> are references to the limit and the sum of the
  measurement, which the host functions reach through \<open>HMeasure\<close>.

  EVMC is a third-party interface. Its structures have the members the sources use, its host functions
  and the value of the flag \<open>EVMC_STATIC\<close> are the fields of \<open>evmc_host\<close>, the parameter \<open>H\<close> of the
  definitions below; the context, an opaque pointer in the code, is a value of the type \<open>'w\<close> that
  every host function may change. Arrays of fixed length are lists. The digest of the vendored Keccak
  is the parameter \<open>keccak\<close>.
\<close>

section \<open>EVMC\<close>

datatype evmc_call_kind = EVMC_CALL | EVMC_DELEGATECALL | EVMC_CALLCODE | EVMC_CREATE | OtherKind

datatype evmc_status_code = EVMC_SUCCESS | EVMC_FAILURE | EVMC_REVERT | OtherStatus

record evmc_message =
  MKind :: evmc_call_kind
  MFlags :: u32
  MDepth :: u32
  MGas :: u64
  MDestination :: Bytes
  MSender :: Bytes
  MInput :: "Bytes option"
  MValue :: Bytes

record evmc_result =
  RStatus :: evmc_status_code
  RGasLeft :: u64
  ROutput :: "Bytes option"
  RCreateAddress :: Bytes

record evmc_tx_context =
  tx_gas_price :: Bytes
  tx_origin :: Bytes
  block_coinbase :: Bytes
  block_number :: u64
  block_timestamp :: u64
  block_gas_limit :: u64
  block_difficulty :: Bytes

record 'w evmc_host =
  EVMC_STATIC :: u32
  account_exists :: "Bytes \<Rightarrow> 'w \<Rightarrow> bool \<times> 'w"
  get_storage :: "Bytes \<Rightarrow> Bytes \<Rightarrow> 'w \<Rightarrow> Bytes \<times> 'w"
  set_storage :: "Bytes \<Rightarrow> Bytes \<Rightarrow> Bytes \<Rightarrow> 'w \<Rightarrow> unit \<times> 'w"
  get_balance :: "Bytes \<Rightarrow> 'w \<Rightarrow> Bytes \<times> 'w"
  get_code_size :: "Bytes \<Rightarrow> 'w \<Rightarrow> u64 \<times> 'w"
  copy_code :: "Bytes \<Rightarrow> u32 \<Rightarrow> u32 \<Rightarrow> 'w \<Rightarrow> Bytes \<times> 'w"
  selfdestruct :: "Bytes \<Rightarrow> Bytes \<Rightarrow> 'w \<Rightarrow> unit \<times> 'w"
  host_call :: "evmc_message \<Rightarrow> 'w \<Rightarrow> evmc_result \<times> 'w"
  get_tx_context :: "'w \<Rightarrow> evmc_tx_context \<times> 'w"
  get_block_hash :: "u64 \<Rightarrow> 'w \<Rightarrow> Bytes \<times> 'w"
  emit_log :: "Bytes \<Rightarrow> Bytes \<Rightarrow> Bytes list \<Rightarrow> 'w \<Rightarrow> unit \<times> 'w"

definition is_zero :: "Bytes \<Rightarrow> bool" where
  "is_zero b \<longleftrightarrow> list_all (\<lambda>x. x = 0) b"

section \<open>The environment\<close>

text \<open>The pointer to the context is not initialised by the constructor.\<close>

record 'w EVMEnvironment =
  Caller :: Bytes
  CallValue :: Bytes
  CallData :: Bytes
  Address :: Bytes
  ReturnData :: Bytes
  EnvCode :: Bytes
  Depth :: u32
  Flag :: u32
  CallKind :: evmc_call_kind
  EVMCContext :: "'w option"

definition newEVMEnvironment :: "'w EVMEnvironment" where
  "newEVMEnvironment = \<lparr>Caller = [], CallValue = [], CallData = [], Address = [], ReturnData = [], EnvCode = [],
     Depth = 0, Flag = 0, CallKind = EVMC_CALL, EVMCContext = None\<rparr>"

type_synonym ('w, 'a) eei = "('w EVMEnvironment HostWorld, 'a) exec"

definition onHost :: "('w \<Rightarrow> 'a \<times> 'w) \<Rightarrow> ('w, 'a) eei" where
  "onHost f w = (case EVMCContext (HState w) of
       None \<Rightarrow> (Undef, w)
     | Some c \<Rightarrow> (let (x, c') = f c in (Ok x, w\<lparr>HState := (HState w)\<lparr>EVMCContext := Some c'\<rparr>\<rparr>)))"

definition onGas :: "(Measurement \<Rightarrow> 'a \<times> Measurement) \<Rightarrow> ('w, 'a) eei" where
  "onGas f w = (case HMeasure w of
       None \<Rightarrow> (Undef, w)
     | Some m \<Rightarrow> (let (x, m') = f m in (Ok x, w\<lparr>HMeasure := Some m'\<rparr>)))"

definition getGasLeft :: "Measurement \<Rightarrow> u64" where
  "getGasLeft m = CostLimit m - CostSum m"

definition consumeGas :: "u64 \<Rightarrow> Measurement \<Rightarrow> bool \<times> Measurement" where
  "consumeGas gas m =
     (if CostLimit m - CostSum m < gas then (False, m\<lparr>CostSum := CostLimit m\<rparr>)
      else (True, m\<lparr>CostSum := CostSum m + gas\<rparr>))"

definition returnGas :: "u64 \<Rightarrow> Measurement \<Rightarrow> bool \<times> Measurement" where
  "returnGas gas m =
     (if CostSum m < gas then (False, m\<lparr>CostSum := 0\<rparr>)
      else (True, m\<lparr>CostSum := CostSum m - gas\<rparr>))"

definition getCallerStr :: "'w EVMEnvironment \<Rightarrow> Bytes" where
  "getCallerStr env = convertBytesToHexStr (Caller env) 40 False"

definition getCallerEVMC :: "'w EVMEnvironment \<Rightarrow> Bytes Expect" where
  "getCallerEVMC env = (if length (Caller env) < 20 then Undef else Ok (take 20 (Caller env)))"

definition setCaller :: "Bytes \<Rightarrow> 'w EVMEnvironment \<Rightarrow> 'w EVMEnvironment" where
  "setCaller str env = env\<lparr>Caller := convertHexStrToBytes str 40 False\<rparr>"

definition getCallValueStr :: "'w EVMEnvironment \<Rightarrow> Bytes" where
  "getCallValueStr env = convertValVecToHexStr (CallValue env) 64"

definition getCallValueEVMC :: "'w EVMEnvironment \<Rightarrow> Bytes Expect" where
  "getCallValueEVMC env = (if length (CallValue env) < 32 then Undef else Ok (take 32 (CallValue env)))"

definition setCallValue :: "Bytes \<Rightarrow> 'w EVMEnvironment \<Rightarrow> 'w EVMEnvironment" where
  "setCallValue str env = env\<lparr>CallValue := convertHexStrToValVec str 64\<rparr>"

definition getAddressStr :: "'w EVMEnvironment \<Rightarrow> Bytes" where
  "getAddressStr env = convertBytesToHexStr (Address env) 40 False"

definition getAddressEVMC :: "'w EVMEnvironment \<Rightarrow> Bytes Expect" where
  "getAddressEVMC env = (if length (Address env) < 20 then Undef else Ok (take 20 (Address env)))"

definition setAddress :: "Bytes \<Rightarrow> 'w EVMEnvironment \<Rightarrow> 'w EVMEnvironment" where
  "setAddress str env = env\<lparr>Address := convertHexStrToBytes str 40 False\<rparr>"

definition setEVMCContext :: "'w \<Rightarrow> 'w EVMEnvironment \<Rightarrow> 'w EVMEnvironment" where
  "setEVMCContext cxt env = env\<lparr>EVMCContext := Some cxt\<rparr>"

definition setEVMCCode :: "Bytes \<Rightarrow> 'w EVMEnvironment \<Rightarrow> 'w EVMEnvironment" where
  "setEVMCCode buf env = env\<lparr>EnvCode := buf\<rparr>"

text \<open>The arrays of the message have 20 and 32 bytes; the amount of gas becomes the limit.\<close>

definition setEVMCMessage :: "evmc_message \<Rightarrow> ('w, unit) eei" where
  "setEVMCMessage msg =
     seqM (setEnv (\<lambda>env. env\<lparr>Depth := MDepth msg, Flag := MFlags msg, CallKind := MKind msg\<rparr>))
    (seqM (onGas (\<lambda>m. ((), m\<lparr>CostLimit := MGas msg\<rparr>)))
          (setEnv (\<lambda>env. env\<lparr>Caller := MSender msg, CallValue := rev (MValue msg),
              CallData := (case MInput msg of None \<Rightarrow> [] | Some d \<Rightarrow> d), Address := MDestination msg, ReturnData := []\<rparr>)))"

section \<open>Helpers of the host functions\<close>

definition charged :: "u64 \<Rightarrow> ('w, unit) eei" where
  "charged gas = bindM (onGas (consumeGas gas)) (\<lambda>ok. if ok then retM () else errM CostLimitExceeded)"

definition addCopyCost :: "u32 \<Rightarrow> ('w, unit) eei" where
  "addCopyCost len = charged (3 * ((ucast len + 31) div 32))"

definition getMaxCallGas :: "('w, u64) eei" where
  "getMaxCallGas = onGas (\<lambda>m. (getGasLeft m - getGasLeft m div 64, m))"

definition loadUInt :: "u32 \<Rightarrow> u32 \<Rightarrow> ('w, Bytes) eei" where
  "loadUInt off bytes0 = (let bytes = (if 32 < bytes0 then 32 else bytes0) in
     bindM (onMemory (getArray off bytes True)) (\<lambda>bs. retM (replicate (32 - unat bytes) 0 @ bs)))"

definition loadAddress :: "u32 \<Rightarrow> ('w, Bytes) eei" where
  "loadAddress off = onMemory (getArray off 20 False)"

definition loadBytes32 :: "u32 \<Rightarrow> ('w, Bytes) eei" where
  "loadBytes32 off = onMemory (getArray off 32 False)"

definition storeUInt :: "Bytes \<Rightarrow> u32 \<Rightarrow> u32 \<Rightarrow> ('w, unit) eei" where
  "storeUInt src off bytes0 = (let bytes = (if 32 < bytes0 then 32 else bytes0) in
     if \<not> is_zero (take (32 - unat bytes) src) then errM ExecutionFailed
     else onMemory (setArray (drop (32 - unat bytes) src) off bytes True))"

definition storeAddress :: "Bytes \<Rightarrow> u32 \<Rightarrow> ('w, unit) eei" where
  "storeAddress addr off = onMemory (setArray addr off 20 False)"

definition storeBytes32 :: "Bytes \<Rightarrow> u32 \<Rightarrow> ('w, unit) eei" where
  "storeBytes32 bytes off = onMemory (setArray bytes off 32 False)"

definition shiftIn :: "u8 \<Rightarrow> 'a::len word \<Rightarrow> 'a word" where
  "shiftIn b n = push_bit 8 n OR ucast b"

definition convToUInt128 :: "Bytes \<Rightarrow> 128 word Expect" where
  "convToUInt128 src = (if \<not> is_zero (take 16 src) then Err ExecutionFailed else Ok (fold shiftIn (drop 16 src) 0))"


section \<open>Calls\<close>

text \<open>\<open>callContract\<close> in the order of the code: the input data, the gas of a transfer, the balance, the stipend.\<close>

definition callInput :: "evmc_message \<Rightarrow> u32 \<Rightarrow> u32 \<Rightarrow> ('w, evmc_message) eei" where
  "callInput msg dataOffset dataLength =
     (if dataLength > 0 then bindM (onMemory (getBytes dataOffset dataLength)) (\<lambda>code. retM (msg\<lparr>MInput := Some code\<rparr>))
      else retM msg)"

definition transfers :: "evmc_message \<Rightarrow> bool" where
  "transfers msg \<longleftrightarrow> (MKind msg = EVMC_CALL \<or> MKind msg = EVMC_CALLCODE) \<and> \<not> is_zero (MValue msg)"

definition transferGas :: "'w evmc_host \<Rightarrow> evmc_message \<Rightarrow> ('w, unit) eei" where
  "transferGas H msg =
     (if transfers msg then
        seqM (charged 9000)
       (bindM (onHost (account_exists H (MDestination msg))) (\<lambda>ex. if \<not> ex then charged 25000 else retM ()))
      else retM ())"

definition enoughBalance :: "'w evmc_host \<Rightarrow> evmc_message \<Rightarrow> ('w, bool) eei" where
  "enoughBalance H msg =
     (if transfers msg \<or> MKind msg = EVMC_CREATE then
        bindM (onHost (get_balance H (MSender msg))) (\<lambda>balance.
        bindM (liftM (convToUInt128 balance)) (\<lambda>dstBalance.
        bindM (liftM (convToUInt128 (MValue msg))) (\<lambda>valBalance.
        retM (valBalance \<le> dstBalance))))
      else retM True)"

text \<open>The sum \<open>Msg.gas + 2300ULL\<close> is unsigned and is converted back to the signed type.\<close>

definition addStipend :: "evmc_message \<Rightarrow> evmc_message" where
  "addStipend msg =
     (if \<not> is_zero (MValue msg) \<and> MKind msg \<noteq> EVMC_CREATE then msg\<lparr>MGas := MGas msg + 2300\<rparr> else msg)"

definition callReturn :: "evmc_message \<Rightarrow> evmc_result \<Rightarrow> u32 \<Rightarrow> ('w, unit) eei" where
  "callReturn msg res createResOffset =
     (if MKind msg = EVMC_CREATE \<and> RStatus res = EVMC_SUCCESS then
        seqM (storeAddress (RCreateAddress res) createResOffset) (setEnv (\<lambda>env. env\<lparr>ReturnData := []\<rparr>))
      else setEnv (\<lambda>env. env\<lparr>ReturnData := (case ROutput res of None \<Rightarrow> [] | Some d \<Rightarrow> d)\<rparr>))"

definition callStatus :: "evmc_result \<Rightarrow> u32" where
  "callStatus res = (case RStatus res of EVMC_SUCCESS \<Rightarrow> 0 | EVMC_REVERT \<Rightarrow> 2 | _ \<Rightarrow> 1)"

definition refused :: "'w evmc_host \<Rightarrow> evmc_message \<Rightarrow> u32 \<Rightarrow> bool" where
  "refused H msg flag \<longleftrightarrow>
     (MKind msg = EVMC_CREATE \<or> MKind msg = EVMC_CALL \<and> \<not> is_zero (MValue msg)) \<and> flag AND EVMC_STATIC H \<noteq> 0"

text \<open>From the assignment of gas to the callee on.\<close>

definition callHost :: "'w evmc_host \<Rightarrow> evmc_message \<Rightarrow> u32 \<Rightarrow> ('w, u32) eei" where
  "callHost H msg0 createResOffset =
     bindM (onGas (consumeGas (MGas msg0))) (\<lambda>_.
     let msg = addStipend msg0 in
     bindM (onHost (host_call H msg)) (\<lambda>res.
     if sint (RGasLeft res) < 0 then errM ExecutionFailed
     else bindM (onGas (returnGas (RGasLeft res))) (\<lambda>_.
     seqM (callReturn msg res createResOffset)
    (retM (callStatus res)))))"

definition callContract :: "'w evmc_host \<Rightarrow> evmc_message \<Rightarrow> u32 \<Rightarrow> u32 \<Rightarrow> u32 \<Rightarrow> ('w, u32) eei" where
  "callContract H msg0 dataOffset dataLength createResOffset =
     bindM (getEnv Depth) (\<lambda>depth.
     if 1024 \<le> depth then retM 1
     else bindM (callInput msg0 dataOffset dataLength) (\<lambda>msg.
     bindM (getEnv Flag) (\<lambda>flag.
     if refused H msg flag then errM ExecutionFailed
     else seqM (transferGas H msg)
    (bindM (enoughBalance H msg) (\<lambda>enough.
     if \<not> enough then retM 1 else callHost H msg createResOffset)))))"

definition callMessage :: "evmc_call_kind \<Rightarrow> u32 \<Rightarrow> u64 \<Rightarrow> Bytes \<Rightarrow> Bytes \<Rightarrow> ('w, evmc_message) eei" where
  "callMessage knd flags gas destination val =
     bindM (getEnv Depth) (\<lambda>depth.
     bindM getMaxCallGas (\<lambda>maxGas.
     bindM (tryEnv getAddressEVMC) (\<lambda>sender.
     retM \<lparr>MKind = knd, MFlags = flags, MDepth = depth + 1, MGas = min gas maxGas, MDestination = destination,
       MSender = sender, MInput = None, MValue = val\<rparr>)))"

definition doCall :: "'w evmc_host \<Rightarrow> evmc_message \<Rightarrow> u32 \<Rightarrow> u32 \<Rightarrow> u32 \<Rightarrow> ('w, ErrCode \<times> ValVariant) eei" where
  "doCall H msg dataOffset dataLength resultOffset =
     bindM (callContract H msg dataOffset dataLength resultOffset) (\<lambda>r. retM (Success, V32 r))"

definition staticFlag :: "'w evmc_host \<Rightarrow> ('w, u32) eei" where
  "staticFlag H = getEnv (\<lambda>env. Flag env AND EVMC_STATIC H)"

definition EEICall :: "'w evmc_host \<Rightarrow> u64 \<Rightarrow> u32 \<Rightarrow> u32 \<Rightarrow> u32 \<Rightarrow> u32 \<Rightarrow> ('w, ErrCode \<times> ValVariant) eei" where
  "EEICall H gas addressOffset valueOffset dataOffset dataLength =
     bindM (loadAddress addressOffset) (\<lambda>addr.
     bindM (loadUInt valueOffset 16) (\<lambda>val.
     bindM (staticFlag H) (\<lambda>flags.
     bindM (callMessage EVMC_CALL flags gas addr val) (\<lambda>msg.
     doCall H msg dataOffset dataLength 0))))"

definition EEICallCode :: "'w evmc_host \<Rightarrow> u64 \<Rightarrow> u32 \<Rightarrow> u32 \<Rightarrow> u32 \<Rightarrow> u32 \<Rightarrow> ('w, ErrCode \<times> ValVariant) eei" where
  "EEICallCode H gas addressOffset valueOffset dataOffset dataLength =
     bindM (loadAddress addressOffset) (\<lambda>addr.
     bindM (loadUInt valueOffset 16) (\<lambda>val.
     bindM (staticFlag H) (\<lambda>flags.
     bindM (callMessage EVMC_CALLCODE flags gas addr val) (\<lambda>msg.
     doCall H msg dataOffset dataLength 0))))"

definition EEICallDelegate :: "'w evmc_host \<Rightarrow> u64 \<Rightarrow> u32 \<Rightarrow> u32 \<Rightarrow> u32 \<Rightarrow> ('w, ErrCode \<times> ValVariant) eei" where
  "EEICallDelegate H gas addressOffset dataOffset dataLength =
     bindM (loadAddress addressOffset) (\<lambda>addr.
     bindM (staticFlag H) (\<lambda>flags.
     bindM (tryEnv getCallValueEVMC) (\<lambda>val.
     bindM (callMessage EVMC_DELEGATECALL flags gas addr val) (\<lambda>msg.
     doCall H msg dataOffset dataLength 0))))"

definition EEICallStatic :: "'w evmc_host \<Rightarrow> (Bytes \<Rightarrow> Bytes) \<Rightarrow> u64 \<Rightarrow> u32 \<Rightarrow> u32 \<Rightarrow> u32 \<Rightarrow> ('w, ErrCode \<times> ValVariant) eei" where
  "EEICallStatic H keccak gas addressOffset dataOffset dataLength =
     bindM (loadAddress addressOffset) (\<lambda>addr.
     if fold shiftIn addr (0 :: 256 word) = 9 then
       seqM (addCopyCost dataLength)
      (bindM (onMemory (getBytes dataOffset dataLength)) (\<lambda>dat.
       seqM (setEnv (\<lambda>env. env\<lparr>ReturnData := keccak dat\<rparr>)) (retM (Success, V32 0))))
     else
       bindM (callMessage EVMC_CALL (EVMC_STATIC H) gas addr (replicate 32 0)) (\<lambda>msg.
       doCall H msg dataOffset dataLength 0))"

definition EEICreate :: "'w evmc_host \<Rightarrow> u32 \<Rightarrow> u32 \<Rightarrow> u32 \<Rightarrow> u32 \<Rightarrow> ('w, ErrCode \<times> ValVariant) eei" where
  "EEICreate H valueOffset dataOffset dataLength resultOffset =
     bindM (loadUInt valueOffset 16) (\<lambda>val.
     bindM getMaxCallGas (\<lambda>gas.
     bindM (callMessage EVMC_CREATE 0 gas (replicate 20 0) val) (\<lambda>msg.
     doCall H msg dataOffset dataLength resultOffset)))"


section \<open>Queries and copies\<close>

definition succeed :: "('w, ErrCode \<times> ValVariant) eei" where
  "succeed = retM (Success, V32 0)"

definition EEICallDataCopy :: "u32 \<Rightarrow> u32 \<Rightarrow> u32 \<Rightarrow> ('w, ErrCode \<times> ValVariant) eei" where
  "EEICallDataCopy resultOffset dataOffset len =
     seqM (addCopyCost len)
    (bindM (getEnv CallData) (\<lambda>src. seqM (onMemory (setBytes src resultOffset dataOffset len)) succeed))"

definition EEICodeCopy :: "u32 \<Rightarrow> u32 \<Rightarrow> u32 \<Rightarrow> ('w, ErrCode \<times> ValVariant) eei" where
  "EEICodeCopy resultOffset codeOffset len =
     seqM (addCopyCost len)
    (bindM (getEnv EnvCode) (\<lambda>src. seqM (onMemory (setBytes src resultOffset codeOffset len)) succeed))"

text \<open>\<open>&Buffer[0]\<close> of an empty vector is undefined. The host returns the bytes it has copied.\<close>

definition EEIExternalCodeCopy :: "'w evmc_host \<Rightarrow> u32 \<Rightarrow> u32 \<Rightarrow> u32 \<Rightarrow> u32 \<Rightarrow> ('w, ErrCode \<times> ValVariant) eei" where
  "EEIExternalCodeCopy H addressOffset resultOffset codeOffset len =
     seqM (addCopyCost len)
    (bindM (loadAddress addressOffset) (\<lambda>addr.
     if len = 0 then undefM
     else bindM (onHost (copy_code H addr codeOffset len)) (\<lambda>buffer.
       if length buffer \<noteq> unat len then errM AccessForbidMemory
       else seqM (onMemory (setBytes buffer resultOffset 0 len)) succeed)))"

definition EEIFinish :: "u32 \<Rightarrow> u32 \<Rightarrow> ('w, ErrCode \<times> ValVariant) eei" where
  "EEIFinish dataOffset dataLength =
     seqM (setEnv (\<lambda>env. env\<lparr>ReturnData := []\<rparr>))
    (bindM (onMemory (getBytes dataOffset dataLength)) (\<lambda>dat.
     seqM (setEnv (\<lambda>env. env\<lparr>ReturnData := dat\<rparr>)) (retM (Terminated, V32 0))))"

definition EEIGetAddress :: "u32 \<Rightarrow> ('w, ErrCode \<times> ValVariant) eei" where
  "EEIGetAddress resultOffset =
     bindM (getEnv Address) (\<lambda>src. seqM (onMemory (setBytes src resultOffset 0 20)) succeed)"

definition EEIGetBlockCoinbase :: "'w evmc_host \<Rightarrow> u32 \<Rightarrow> ('w, ErrCode \<times> ValVariant) eei" where
  "EEIGetBlockCoinbase H resultOffset =
     bindM (onHost (get_tx_context H)) (\<lambda>tx. seqM (storeAddress (block_coinbase tx) resultOffset) succeed)"

definition EEIGetBlockDifficulty :: "'w evmc_host \<Rightarrow> u32 \<Rightarrow> ('w, ErrCode \<times> ValVariant) eei" where
  "EEIGetBlockDifficulty H resultOffset =
     bindM (onHost (get_tx_context H)) (\<lambda>tx. seqM (storeUInt (block_difficulty tx) resultOffset 32) succeed)"

definition EEIGetBlockGasLimit :: "'w evmc_host \<Rightarrow> ('w, ErrCode \<times> ValVariant) eei" where
  "EEIGetBlockGasLimit H = bindM (onHost (get_tx_context H)) (\<lambda>tx. retM (Success, V64 (block_gas_limit tx)))"

definition EEIGetBlockHash :: "'w evmc_host \<Rightarrow> u64 \<Rightarrow> u32 \<Rightarrow> ('w, ErrCode \<times> ValVariant) eei" where
  "EEIGetBlockHash H number resultOffset =
     bindM (onHost (get_block_hash H number)) (\<lambda>hash.
     if is_zero hash then retM (Success, V32 1)
     else seqM (storeBytes32 hash resultOffset) (retM (Success, V32 0)))"

definition EEIGetBlockNumber :: "'w evmc_host \<Rightarrow> ('w, ErrCode \<times> ValVariant) eei" where
  "EEIGetBlockNumber H = bindM (onHost (get_tx_context H)) (\<lambda>tx. retM (Success, V64 (block_number tx)))"

definition EEIGetBlockTimestamp :: "'w evmc_host \<Rightarrow> ('w, ErrCode \<times> ValVariant) eei" where
  "EEIGetBlockTimestamp H = bindM (onHost (get_tx_context H)) (\<lambda>tx. retM (Success, V64 (block_timestamp tx)))"

definition EEIGetCallDataSize :: "('w, ErrCode \<times> ValVariant) eei" where
  "EEIGetCallDataSize = bindM (getEnv CallData) (\<lambda>d. retM (Success, V32 (of_nat (length d))))"

definition EEIGetCaller :: "u32 \<Rightarrow> ('w, ErrCode \<times> ValVariant) eei" where
  "EEIGetCaller resultOffset =
     bindM (getEnv Caller) (\<lambda>src. seqM (onMemory (setBytes src resultOffset 0 20)) succeed)"

definition EEIGetCallValue :: "u32 \<Rightarrow> ('w, ErrCode \<times> ValVariant) eei" where
  "EEIGetCallValue resultOffset =
     bindM (getEnv CallValue) (\<lambda>src. seqM (onMemory (setBytes src resultOffset 0 16)) succeed)"

definition EEIGetCodeSize :: "('w, ErrCode \<times> ValVariant) eei" where
  "EEIGetCodeSize = bindM (getEnv EnvCode) (\<lambda>d. retM (Success, V32 (of_nat (length d))))"

definition EEIGetExternalBalance :: "'w evmc_host \<Rightarrow> u32 \<Rightarrow> u32 \<Rightarrow> ('w, ErrCode \<times> ValVariant) eei" where
  "EEIGetExternalBalance H addressOffset resultOffset =
     bindM (loadAddress addressOffset) (\<lambda>addr.
     bindM (onHost (get_balance H addr)) (\<lambda>balance. seqM (storeUInt balance resultOffset 16) succeed))"

definition EEIGetExternalCodeSize :: "'w evmc_host \<Rightarrow> u32 \<Rightarrow> ('w, ErrCode \<times> ValVariant) eei" where
  "EEIGetExternalCodeSize H addressOffset =
     bindM (loadAddress addressOffset) (\<lambda>addr.
     bindM (onHost (get_code_size H addr)) (\<lambda>size. retM (Success, V32 (ucast size))))"

definition EEIGetGasLeft :: "('w, ErrCode \<times> ValVariant) eei" where
  "EEIGetGasLeft = bindM (onGas (\<lambda>m. (getGasLeft m, m))) (\<lambda>g. retM (Success, V64 g))"

definition EEIGetReturnDataSize :: "('w, ErrCode \<times> ValVariant) eei" where
  "EEIGetReturnDataSize = bindM (getEnv ReturnData) (\<lambda>d. retM (Success, V32 (of_nat (length d))))"

definition EEIGetTxGasPrice :: "'w evmc_host \<Rightarrow> u32 \<Rightarrow> ('w, ErrCode \<times> ValVariant) eei" where
  "EEIGetTxGasPrice H resultOffset =
     bindM (onHost (get_tx_context H)) (\<lambda>tx. seqM (storeUInt (tx_gas_price tx) resultOffset 16) succeed)"

definition EEIGetTxOrigin :: "'w evmc_host \<Rightarrow> u32 \<Rightarrow> ('w, ErrCode \<times> ValVariant) eei" where
  "EEIGetTxOrigin H resultOffset =
     bindM (onHost (get_tx_context H)) (\<lambda>tx. seqM (storeAddress (tx_origin tx) resultOffset) succeed)"

text \<open>The topics that are passed to the host; \<open>&Data[0]\<close> of an empty vector is undefined.\<close>

fun loadTopics :: "u32 list \<Rightarrow> ('w, Bytes list) eei" where
  "loadTopics [] = retM []"
| "loadTopics (off # offs) = bindM (loadBytes32 off) (\<lambda>t. bindM (loadTopics offs) (\<lambda>ts. retM (t # ts)))"

definition EEILog :: "'w evmc_host \<Rightarrow> u32 \<Rightarrow> u32 \<Rightarrow> u32 \<Rightarrow> u32 \<Rightarrow> u32 \<Rightarrow> u32 \<Rightarrow> u32 \<Rightarrow> ('w, ErrCode \<times> ValVariant) eei" where
  "EEILog H dataOffset dataLength numberOfTopics topic1 topic2 topic3 topic4 =
     (if 4 < numberOfTopics then errM ExecutionFailed
      else
        seqM (charged (375 * ucast numberOfTopics + 8 * ucast dataLength))
       (bindM (loadTopics (take (unat numberOfTopics) [topic1, topic2, topic3, topic4])) (\<lambda>topics.
        bindM (onMemory (getBytes dataOffset dataLength)) (\<lambda>dat.
        bindM (tryEnv getAddressEVMC) (\<lambda>addr.
        if dat = [] then undefM
        else bindM (onHost (emit_log H addr dat topics)) (\<lambda>_. succeed))))))"

definition EEIReturnDataCopy :: "u32 \<Rightarrow> u32 \<Rightarrow> u32 \<Rightarrow> ('w, ErrCode \<times> ValVariant) eei" where
  "EEIReturnDataCopy resultOffset dataOffset len =
     seqM (addCopyCost len)
    (bindM (getEnv ReturnData) (\<lambda>src. seqM (onMemory (setBytes src resultOffset dataOffset len)) succeed))"

definition EEIRevert :: "u32 \<Rightarrow> u32 \<Rightarrow> ('w, ErrCode \<times> ValVariant) eei" where
  "EEIRevert dataOffset dataLength =
     seqM (setEnv (\<lambda>env. env\<lparr>ReturnData := []\<rparr>))
    (bindM (onMemory (getBytes dataOffset dataLength)) (\<lambda>dat.
     seqM (setEnv (\<lambda>env. env\<lparr>ReturnData := dat\<rparr>)) (retM (Revert, V32 0))))"

definition EEISelfDestruct :: "'w evmc_host \<Rightarrow> u32 \<Rightarrow> ('w, ErrCode \<times> ValVariant) eei" where
  "EEISelfDestruct H addressOffset =
     bindM (loadAddress addressOffset) (\<lambda>addr.
     bindM (tryEnv getAddressEVMC) (\<lambda>self.
     bindM (onHost (account_exists H addr)) (\<lambda>ex.
     seqM (if \<not> ex then charged 25000 else retM ())
    (bindM (onHost (selfdestruct H self addr)) (\<lambda>_. retM (Terminated, V32 0))))))"

definition EEIStorageLoad :: "'w evmc_host \<Rightarrow> u32 \<Rightarrow> u32 \<Rightarrow> ('w, ErrCode \<times> ValVariant) eei" where
  "EEIStorageLoad H pathOffset valueOffset =
     bindM (tryEnv getAddressEVMC) (\<lambda>addr.
     bindM (loadBytes32 pathOffset) (\<lambda>path.
     bindM (onHost (get_storage H addr path)) (\<lambda>val.
     seqM (storeBytes32 val valueOffset) succeed)))"

definition EEIStorageStore :: "'w evmc_host \<Rightarrow> u32 \<Rightarrow> u32 \<Rightarrow> ('w, ErrCode \<times> ValVariant) eei" where
  "EEIStorageStore H pathOffset valueOffset =
     bindM (staticFlag H) (\<lambda>static.
     if static \<noteq> 0 then errM ExecutionFailed
     else
       bindM (tryEnv getAddressEVMC) (\<lambda>addr.
       bindM (loadBytes32 pathOffset) (\<lambda>path.
       bindM (loadBytes32 valueOffset) (\<lambda>val.
       bindM (onHost (get_storage H addr path)) (\<lambda>curr.
       seqM (if is_zero curr \<and> \<not> is_zero val then charged 15000 else retM ())
      (bindM (onHost (set_storage H addr path val)) (\<lambda>_. succeed)))))))"

definition EEIUseGas :: "u64 \<Rightarrow> ('w, ErrCode \<times> ValVariant) eei" where
  "EEIUseGas amount = seqM (charged amount) succeed"


section \<open>The module\<close>

definition eeiFunc ::
  "ValType list \<Rightarrow> ValType list \<Rightarrow> u64 \<Rightarrow> (ValVariant list \<Rightarrow> ('w, ErrCode \<times> ValVariant) eei) \<Rightarrow> 'w EVMEnvironment HostFunction" where
  "eeiFunc params returns cost body = \<lparr>HostType = \<lparr>Params = params, Returns = returns\<rparr>, HostCost = cost, HostBody = body\<rparr>"

text \<open>The classes: parameter and result types as the signature of \<open>body\<close> gives them, and the cost.\<close>

definition EEICall_class :: "'w evmc_host \<Rightarrow> 'w EVMEnvironment HostFunction" where
  "EEICall_class H = eeiFunc [I64, I32, I32, I32, I32] [I32] 700 (\<lambda>v. arg64 v 0 (\<lambda>g. EEICall H g (arg v 1) (arg v 2) (arg v 3) (arg v 4)))"

definition EEICallCode_class :: "'w evmc_host \<Rightarrow> 'w EVMEnvironment HostFunction" where
  "EEICallCode_class H = eeiFunc [I64, I32, I32, I32, I32] [I32] 700 (\<lambda>v. arg64 v 0 (\<lambda>g. EEICallCode H g (arg v 1) (arg v 2) (arg v 3) (arg v 4)))"

definition EEICallDataCopy_class :: "'w EVMEnvironment HostFunction" where
  "EEICallDataCopy_class = eeiFunc [I32, I32, I32] [] 3 (\<lambda>v. EEICallDataCopy (arg v 0) (arg v 1) (arg v 2))"

definition EEICallDelegate_class :: "'w evmc_host \<Rightarrow> 'w EVMEnvironment HostFunction" where
  "EEICallDelegate_class H = eeiFunc [I64, I32, I32, I32] [I32] 700 (\<lambda>v. arg64 v 0 (\<lambda>g. EEICallDelegate H g (arg v 1) (arg v 2) (arg v 3)))"

definition EEICallStatic_class :: "'w evmc_host \<Rightarrow> (Bytes \<Rightarrow> Bytes) \<Rightarrow> 'w EVMEnvironment HostFunction" where
  "EEICallStatic_class H keccak = eeiFunc [I64, I32, I32, I32] [I32] 700 (\<lambda>v. arg64 v 0 (\<lambda>g. EEICallStatic H keccak g (arg v 1) (arg v 2) (arg v 3)))"

definition EEICodeCopy_class :: "'w EVMEnvironment HostFunction" where
  "EEICodeCopy_class = eeiFunc [I32, I32, I32] [] 3 (\<lambda>v. EEICodeCopy (arg v 0) (arg v 1) (arg v 2))"

definition EEICreate_class :: "'w evmc_host \<Rightarrow> 'w EVMEnvironment HostFunction" where
  "EEICreate_class H = eeiFunc [I32, I32, I32, I32] [I32] 32000 (\<lambda>v. EEICreate H (arg v 0) (arg v 1) (arg v 2) (arg v 3))"

definition EEIExternalCodeCopy_class :: "'w evmc_host \<Rightarrow> 'w EVMEnvironment HostFunction" where
  "EEIExternalCodeCopy_class H = eeiFunc [I32, I32, I32, I32] [] 700 (\<lambda>v. EEIExternalCodeCopy H (arg v 0) (arg v 1) (arg v 2) (arg v 3))"

definition EEIFinish_class :: "'w EVMEnvironment HostFunction" where
  "EEIFinish_class = eeiFunc [I32, I32] [] 0 (\<lambda>v. EEIFinish (arg v 0) (arg v 1))"

definition EEIGetAddress_class :: "'w EVMEnvironment HostFunction" where
  "EEIGetAddress_class = eeiFunc [I32] [] 2 (\<lambda>v. EEIGetAddress (arg v 0))"

definition EEIGetBlockCoinbase_class :: "'w evmc_host \<Rightarrow> 'w EVMEnvironment HostFunction" where
  "EEIGetBlockCoinbase_class H = eeiFunc [I32] [] 2 (\<lambda>v. EEIGetBlockCoinbase H (arg v 0))"

definition EEIGetBlockDifficulty_class :: "'w evmc_host \<Rightarrow> 'w EVMEnvironment HostFunction" where
  "EEIGetBlockDifficulty_class H = eeiFunc [I32] [] 2 (\<lambda>v. EEIGetBlockDifficulty H (arg v 0))"

definition EEIGetBlockGasLimit_class :: "'w evmc_host \<Rightarrow> 'w EVMEnvironment HostFunction" where
  "EEIGetBlockGasLimit_class H = eeiFunc [] [I64] 2 (\<lambda>v. EEIGetBlockGasLimit H)"

definition EEIGetBlockHash_class :: "'w evmc_host \<Rightarrow> 'w EVMEnvironment HostFunction" where
  "EEIGetBlockHash_class H = eeiFunc [I64, I32] [I32] 800 (\<lambda>v. arg64 v 0 (\<lambda>n. EEIGetBlockHash H n (arg v 1)))"

definition EEIGetBlockNumber_class :: "'w evmc_host \<Rightarrow> 'w EVMEnvironment HostFunction" where
  "EEIGetBlockNumber_class H = eeiFunc [] [I64] 2 (\<lambda>v. EEIGetBlockNumber H)"

definition EEIGetBlockTimestamp_class :: "'w evmc_host \<Rightarrow> 'w EVMEnvironment HostFunction" where
  "EEIGetBlockTimestamp_class H = eeiFunc [] [I64] 2 (\<lambda>v. EEIGetBlockTimestamp H)"

definition EEIGetCallDataSize_class :: "'w EVMEnvironment HostFunction" where
  "EEIGetCallDataSize_class = eeiFunc [] [I32] 2 (\<lambda>v. EEIGetCallDataSize)"

definition EEIGetCallValue_class :: "'w EVMEnvironment HostFunction" where
  "EEIGetCallValue_class = eeiFunc [I32] [] 2 (\<lambda>v. EEIGetCallValue (arg v 0))"

definition EEIGetCaller_class :: "'w EVMEnvironment HostFunction" where
  "EEIGetCaller_class = eeiFunc [I32] [] 2 (\<lambda>v. EEIGetCaller (arg v 0))"

definition EEIGetCodeSize_class :: "'w EVMEnvironment HostFunction" where
  "EEIGetCodeSize_class = eeiFunc [] [I32] 2 (\<lambda>v. EEIGetCodeSize)"

definition EEIGetExternalBalance_class :: "'w evmc_host \<Rightarrow> 'w EVMEnvironment HostFunction" where
  "EEIGetExternalBalance_class H = eeiFunc [I32, I32] [] 400 (\<lambda>v. EEIGetExternalBalance H (arg v 0) (arg v 1))"

definition EEIGetExternalCodeSize_class :: "'w evmc_host \<Rightarrow> 'w EVMEnvironment HostFunction" where
  "EEIGetExternalCodeSize_class H = eeiFunc [I32] [I32] 700 (\<lambda>v. EEIGetExternalCodeSize H (arg v 0))"

definition EEIGetGasLeft_class :: "'w EVMEnvironment HostFunction" where
  "EEIGetGasLeft_class = eeiFunc [] [I64] 2 (\<lambda>v. EEIGetGasLeft)"

definition EEIGetReturnDataSize_class :: "'w EVMEnvironment HostFunction" where
  "EEIGetReturnDataSize_class = eeiFunc [] [I32] 2 (\<lambda>v. EEIGetReturnDataSize)"

definition EEIGetTxGasPrice_class :: "'w evmc_host \<Rightarrow> 'w EVMEnvironment HostFunction" where
  "EEIGetTxGasPrice_class H = eeiFunc [I32] [] 2 (\<lambda>v. EEIGetTxGasPrice H (arg v 0))"

definition EEIGetTxOrigin_class :: "'w evmc_host \<Rightarrow> 'w EVMEnvironment HostFunction" where
  "EEIGetTxOrigin_class H = eeiFunc [I32] [] 2 (\<lambda>v. EEIGetTxOrigin H (arg v 0))"

definition EEILog_class :: "'w evmc_host \<Rightarrow> 'w EVMEnvironment HostFunction" where
  "EEILog_class H = eeiFunc [I32, I32, I32, I32, I32, I32, I32] [] 375 (\<lambda>v. EEILog H (arg v 0) (arg v 1) (arg v 2) (arg v 3) (arg v 4) (arg v 5) (arg v 6))"

definition EEIReturnDataCopy_class :: "'w EVMEnvironment HostFunction" where
  "EEIReturnDataCopy_class = eeiFunc [I32, I32, I32] [] 3 (\<lambda>v. EEIReturnDataCopy (arg v 0) (arg v 1) (arg v 2))"

definition EEIRevert_class :: "'w EVMEnvironment HostFunction" where
  "EEIRevert_class = eeiFunc [I32, I32] [] 0 (\<lambda>v. EEIRevert (arg v 0) (arg v 1))"

definition EEISelfDestruct_class :: "'w evmc_host \<Rightarrow> 'w EVMEnvironment HostFunction" where
  "EEISelfDestruct_class H = eeiFunc [I32] [] 5000 (\<lambda>v. EEISelfDestruct H (arg v 0))"

definition EEIStorageLoad_class :: "'w evmc_host \<Rightarrow> 'w EVMEnvironment HostFunction" where
  "EEIStorageLoad_class H = eeiFunc [I32, I32] [] 200 (\<lambda>v. EEIStorageLoad H (arg v 0) (arg v 1))"

definition EEIStorageStore_class :: "'w evmc_host \<Rightarrow> 'w EVMEnvironment HostFunction" where
  "EEIStorageStore_class H = eeiFunc [I32, I32] [] 5000 (\<lambda>v. EEIStorageStore H (arg v 0) (arg v 1))"

definition EEIUseGas_class :: "'w EVMEnvironment HostFunction" where
  "EEIUseGas_class = eeiFunc [I64] [] 0 (\<lambda>v. arg64 v 0 EEIUseGas)"

text \<open>The environment is a member of the module, and every function refers to it.\<close>

definition eeiFunctions :: "'w evmc_host \<Rightarrow> (Bytes \<Rightarrow> Bytes) \<Rightarrow> (string \<times> 'w EVMEnvironment HostFunction) list" where
  "eeiFunctions H keccak = [
     (''call'', EEICall_class H),
     (''callCode'', EEICallCode_class H),
     (''callDataCopy'', EEICallDataCopy_class),
     (''callDelegate'', EEICallDelegate_class H),
     (''callStatic'', EEICallStatic_class H keccak),
     (''codeCopy'', EEICodeCopy_class),
     (''create'', EEICreate_class H),
     (''externalCodeCopy'', EEIExternalCodeCopy_class H),
     (''finish'', EEIFinish_class),
     (''getAddress'', EEIGetAddress_class),
     (''getBlockCoinbase'', EEIGetBlockCoinbase_class H),
     (''getBlockDifficulty'', EEIGetBlockDifficulty_class H),
     (''getBlockGasLimit'', EEIGetBlockGasLimit_class H),
     (''getBlockHash'', EEIGetBlockHash_class H),
     (''getBlockNumber'', EEIGetBlockNumber_class H),
     (''getBlockTimestamp'', EEIGetBlockTimestamp_class H),
     (''getCallDataSize'', EEIGetCallDataSize_class),
     (''getCallValue'', EEIGetCallValue_class),
     (''getCaller'', EEIGetCaller_class),
     (''getCodeSize'', EEIGetCodeSize_class),
     (''getExternalBalance'', EEIGetExternalBalance_class H),
     (''getExternalCodeSize'', EEIGetExternalCodeSize_class H),
     (''getGasLeft'', EEIGetGasLeft_class),
     (''getReturnDataSize'', EEIGetReturnDataSize_class),
     (''getTxGasPrice'', EEIGetTxGasPrice_class H),
     (''getTxOrigin'', EEIGetTxOrigin_class H),
     (''log'', EEILog_class H),
     (''returnDataCopy'', EEIReturnDataCopy_class),
     (''revert'', EEIRevert_class),
     (''selfDestruct'', EEISelfDestruct_class H),
     (''storageLoad'', EEIStorageLoad_class H),
     (''storageStore'', EEIStorageStore_class H),
     (''useGas'', EEIUseGas_class)]"

definition EEIModule :: "'w evmc_host \<Rightarrow> (Bytes \<Rightarrow> Bytes) \<Rightarrow> 'w EVMEnvironment ImportObject" where
  "EEIModule H keccak = fold (\<lambda>(name, f). addHostFunc (name_of name) f) (eeiFunctions H keccak) (newImportObject (name_of ''ethereum''))"

lemmas eei_class_defs = eeiFunc_def
  EEICall_class_def EEICallCode_class_def EEICallDataCopy_class_def EEICallDelegate_class_def EEICallStatic_class_def
  EEICodeCopy_class_def EEICreate_class_def EEIExternalCodeCopy_class_def EEIFinish_class_def EEIGetAddress_class_def
  EEIGetBlockCoinbase_class_def EEIGetBlockDifficulty_class_def EEIGetBlockGasLimit_class_def EEIGetBlockHash_class_def EEIGetBlockNumber_class_def
  EEIGetBlockTimestamp_class_def EEIGetCallDataSize_class_def EEIGetCallValue_class_def EEIGetCaller_class_def EEIGetCodeSize_class_def
  EEIGetExternalBalance_class_def EEIGetExternalCodeSize_class_def EEIGetGasLeft_class_def EEIGetReturnDataSize_class_def EEIGetTxGasPrice_class_def
  EEIGetTxOrigin_class_def EEILog_class_def EEIReturnDataCopy_class_def EEIRevert_class_def EEISelfDestruct_class_def
  EEIStorageLoad_class_def EEIStorageStore_class_def EEIUseGas_class_def

lemmas eei_body_defs =
  EEICall_def EEICallCode_def EEICallDataCopy_def EEICallDelegate_def EEICallStatic_def
  EEICodeCopy_def EEICreate_def EEIExternalCodeCopy_def EEIFinish_def EEIGetAddress_def
  EEIGetBlockCoinbase_def EEIGetBlockDifficulty_def EEIGetBlockGasLimit_def EEIGetBlockHash_def EEIGetBlockNumber_def
  EEIGetBlockTimestamp_def EEIGetCallDataSize_def EEIGetCallValue_def EEIGetCaller_def EEIGetCodeSize_def
  EEIGetExternalBalance_def EEIGetExternalCodeSize_def EEIGetGasLeft_def EEIGetReturnDataSize_def EEIGetTxGasPrice_def
  EEIGetTxOrigin_def EEILog_def EEIReturnDataCopy_def EEIRevert_def EEISelfDestruct_def
  EEIStorageLoad_def EEIStorageStore_def EEIUseGas_def

end
