(* ===== verification/EeiGas.thy ===== *)
theory EeiGas
  imports Eei EngineGas
begin

text \<open>
  The gas of the Ethereum host functions: which of them meet the contract that the engine needs to end
  its runs, and the two kinds of calls that give more gas back than they take.
\<close>

section \<open>Gas\<close>

interpretation consume_gas: gas_meter "\<lambda>m. unat (CostSum m)" "\<lambda>m. unat (CostLimit m)" consumeGas
  by unfold_locales (auto simp: consumeGas_def word_less_nat_alt unat_add_no_wrap unat_sub word_le_nat_alt min_def)

text \<open>
  \<open>gas_rel R m\<close>: on a machine with a measurement the call returns, and the measurements before and
  after it are related by \<open>R\<close>.
\<close>

definition gas_rel :: "(Measurement \<Rightarrow> Measurement \<Rightarrow> bool) \<Rightarrow> ('w, 'a) eei \<Rightarrow> bool" where
  "gas_rel R m \<longleftrightarrow> (\<forall>w me. HMeasure w = Some me \<longrightarrow>
     fst (m w) \<noteq> Timeout \<and> (\<exists>me'. HMeasure (snd (m w)) = Some me' \<and> R me me'))"

text \<open>Gas is consumed within the limit and none is given back.\<close>

definition spends :: "Measurement \<Rightarrow> Measurement \<Rightarrow> bool" where
  "spends me me' \<longleftrightarrow> (CostSum me \<le> CostLimit me \<longrightarrow> CostTab me' = CostTab me \<and> CostLimit me' = CostLimit me \<and>
     CostSum me \<le> CostSum me' \<and> CostSum me' \<le> CostLimit me')"

lemma spends_refl: "spends me me"
  by (simp add: spends_def)

lemma spends_trans: "spends a b \<Longrightarrow> spends b c \<Longrightarrow> spends a c"
  by (auto simp: spends_def)

named_theorems gas_rules "host operations and the gas they take"

lemma gas_relD:
  assumes "gas_rel R m" and "HMeasure w = Some me"
  obtains me' where "fst (m w) \<noteq> Timeout" "HMeasure (snd (m w)) = Some me'" "R me me'"
  using assms by (auto simp: gas_rel_def)

lemma gas_rel_compose:
  fixes m :: "('w, 'a) eei"
  assumes trans: "\<And>a b c. R1 a b \<Longrightarrow> R2 b c \<Longrightarrow> R a c" and stop: "\<And>a b. R1 a b \<Longrightarrow> R a b"
    and m: "gas_rel R1 m" and f: "\<And>x. gas_rel R2 (f x)"
  shows "gas_rel R (bindM m f)"
  unfolding gas_rel_def
proof (intro allI impI)
  fix w :: "'w EVMEnvironment HostWorld" and me assume w: "HMeasure w = Some me"
  obtain r v where v: "m w = (r, v)" by fastforce
  then obtain me1 where me1: "r \<noteq> Timeout" "HMeasure v = Some me1" "R1 me me1" using gas_relD [OF m w] by auto
  then show "fst (bindM m f w) \<noteq> Timeout \<and> (\<exists>me'. HMeasure (snd (bindM m f w)) = Some me' \<and> R me me')"
  proof (cases r)
    case (Ok x)
    obtain me2 where "fst (f x v) \<noteq> Timeout" "HMeasure (snd (f x v)) = Some me2" "R2 me1 me2" using gas_relD [OF f me1(2)] by auto
    then show ?thesis using v Ok me1(3) trans by (auto simp: bindM_def)
  qed (use v stop in \<open>auto simp: bindM_def\<close>)
qed

lemmas gas_bind = gas_rel_compose [of spends spends spends, OF spends_trans] gas_rel_compose [of "(=)" "(=)" "(=)", OF HOL.trans]

lemma gas_seq:
  "gas_rel spends m \<Longrightarrow> gas_rel spends n \<Longrightarrow> gas_rel spends (seqM m n)"
  "gas_rel (=) m \<Longrightarrow> gas_rel (=) n \<Longrightarrow> gas_rel (=) (seqM m n)"
  unfolding seqM_def by (auto intro: gas_bind)

lemma gas_rel_basic:
  assumes "\<And>me. R me me"
  shows "gas_rel R (retM x)" "gas_rel R (errM e)" "gas_rel R undefM" "gas_rel R (getEnv g)" "gas_rel R (setEnv h)"
    "r \<noteq> Timeout \<Longrightarrow> gas_rel R (liftM r)" "gas_rel R (onHost f)"
  using assms by (auto simp: gas_rel_def retM_def errM_def undefM_def getEnv_def setEnv_def liftM_def onHost_def split_beta split: option.split)

lemma memory_returns:
  "fst (getBytes off len m) \<noteq> Timeout" "fst (setBytes bs off start len m) \<noteq> Timeout"
  "fst (getArray off len r m) \<noteq> Timeout" "fst (setArray arr off len r m) \<noteq> Timeout"
  by (auto simp: getBytes_def setBytes_def getArray_def setArray_def guarded_def sliceM_def copyM_def bindM_def retM_def errM_def undefM_def
      split: prod.split outcome.split bool.split)

lemma gas_rel_memory:
  assumes "\<And>me. R me me"
  shows "gas_rel R (onMemory (getBytes off len))" "gas_rel R (onMemory (setBytes bs off start len))"
    "gas_rel R (onMemory (getArray off len b))" "gas_rel R (onMemory (setArray arr off len b))"
  using assms memory_returns by (auto simp: gas_rel_def onMemory_def split_beta)

lemmas gas_free [gas_rules] = gas_rel_basic [of spends, OF spends_refl] gas_rel_basic [of "(=)", OF refl]
  gas_rel_memory [of spends, OF spends_refl] gas_rel_memory [of "(=)", OF refl]

lemma gas_rel_if [gas_rules]: "gas_rel R m \<Longrightarrow> gas_rel R n \<Longrightarrow> gas_rel R (if b then m else n)"
  by simp

text \<open>Without a wrap-around: what is left covers a successful charge.\<close>

lemma unat_consumeGas:
  assumes "CostSum me \<le> CostLimit me" and "g \<le> CostLimit me - CostSum me"
  shows "unat (CostSum me + g) = unat (CostSum me) + unat g" and "unat (CostSum me) + unat g \<le> unat (CostLimit me)"
proof -
  show "unat (CostSum me) + unat g \<le> unat (CostLimit me)" using assms by (simp add: word_le_nat_alt unat_sub)
  then show "unat (CostSum me + g) = unat (CostSum me) + unat g" by (intro unat_add_no_wrap) (metis le_less_trans unsigned_less)
qed

lemma spends_consumeGas: "spends me (snd (consumeGas g me))"
  using unat_consumeGas [of me g] by (auto simp: spends_def consumeGas_def not_less word_le_nat_alt)

lemma gas_charged [gas_rules]: "gas_rel spends (charged g)"
proof -
  have "gas_rel spends (onGas (consumeGas g))"
    using spends_consumeGas by (auto simp: gas_rel_def onGas_def split_beta)
  then show ?thesis unfolding charged_def by (intro gas_bind gas_rules)
qed

lemma gas_quiet: "gas_rel (=) m \<Longrightarrow> gas_rel spends m"
  unfolding gas_rel_def by (metis spends_refl)

lemma gas_getGasLeft [gas_rules]: "gas_rel (=) (onGas (\<lambda>m. (getGasLeft m, m)))" "gas_rel (=) getMaxCallGas"
  by (auto simp: gas_rel_def onGas_def getMaxCallGas_def)

lemma env_returns: "getAddressEVMC env \<noteq> Timeout" "getCallValueEVMC env \<noteq> Timeout" "get64 v \<noteq> Timeout" "convToUInt128 bs \<noteq> Timeout"
  by (cases v; simp add: getAddressEVMC_def getCallValueEVMC_def convToUInt128_def)+

lemma gas_tryEnv [gas_rules]: "gas_rel (=) (tryEnv getAddressEVMC)" "gas_rel (=) (tryEnv getCallValueEVMC)"
  using env_returns by (auto simp: gas_rel_def tryEnv_def)

lemma gas_helpers [gas_rules]:
  "gas_rel spends (addCopyCost len)" "gas_rel (=) (loadUInt off b)" "gas_rel (=) (loadAddress off)" "gas_rel (=) (loadBytes32 off)"
  "gas_rel (=) (storeUInt bs off b)" "gas_rel (=) (storeAddress bs off)" "gas_rel (=) (storeBytes32 bs off)" "gas_rel (=) (staticFlag H)"
  "gas_rel (=) succeed"
  unfolding addCopyCost_def loadUInt_def loadAddress_def loadBytes32_def storeUInt_def storeAddress_def storeBytes32_def staticFlag_def succeed_def
  by (simp_all add: Let_def gas_rules gas_bind)

lemma gas_loadTopics [gas_rules]: "gas_rel (=) (loadTopics offs)"
  by (induction offs) (auto intro!: gas_rules gas_bind)

lemmas gas_spent = gas_tryEnv [THEN gas_quiet] gas_helpers(2-) [THEN gas_quiet] gas_loadTopics [THEN gas_quiet] gas_getGasLeft [THEN gas_quiet]
  gas_rules gas_bind gas_seq env_returns

lemma gas_arg64: "(\<And>g. gas_rel R (f g)) \<Longrightarrow> (\<And>me. R me me) \<Longrightarrow> gas_rel R (arg64 vs i f)"
  by (cases "vs ! i") (simp_all add: arg64_def gas_rel_def liftM_def bindM_def)

lemma gas_bodies:
  "gas_rel spends (EEICallDataCopy a b c)" "gas_rel spends (EEICodeCopy a b c)" "gas_rel spends (EEIExternalCodeCopy H a b c d)"
  "gas_rel spends (EEIFinish a b)" "gas_rel spends (EEIGetAddress a)" "gas_rel spends (EEIGetBlockCoinbase H a)"
  "gas_rel spends (EEIGetBlockDifficulty H a)" "gas_rel spends (EEIGetBlockGasLimit H)" "gas_rel spends (EEIGetBlockHash H n a)"
  "gas_rel spends (EEIGetBlockNumber H)" "gas_rel spends (EEIGetBlockTimestamp H)" "gas_rel spends EEIGetCallDataSize"
  "gas_rel spends (EEIGetCallValue a)" "gas_rel spends (EEIGetCaller a)" "gas_rel spends EEIGetCodeSize"
  "gas_rel spends (EEIGetExternalBalance H a b)" "gas_rel spends (EEIGetExternalCodeSize H a)" "gas_rel spends EEIGetGasLeft"
  "gas_rel spends EEIGetReturnDataSize" "gas_rel spends (EEIGetTxGasPrice H a)" "gas_rel spends (EEIGetTxOrigin H a)"
  "gas_rel spends (EEILog H a b c d e f g)" "gas_rel spends (EEIReturnDataCopy a b c)" "gas_rel spends (EEIRevert a b)"
  "gas_rel spends (EEISelfDestruct H a)" "gas_rel spends (EEIStorageLoad H a b)" "gas_rel spends (EEIStorageStore H a b)"
  "gas_rel spends (EEIUseGas n)"
  by (simp_all add: eei_body_defs gas_spent)

subsection \<open>Calls\<close>

text \<open>
  What EVMC documents of a call: the gas that is left does not exceed the gas that was given.
\<close>

definition honest_gas :: "'w evmc_host \<Rightarrow> bool" where
  "honest_gas H \<longleftrightarrow> (\<forall>msg c. 0 \<le> sint (RGasLeft (fst (host_call H msg c))) \<longrightarrow> RGasLeft (fst (host_call H msg c)) \<le> MGas msg)"

definition no_stipend :: "evmc_message \<Rightarrow> bool" where
  "no_stipend msg \<longleftrightarrow> is_zero (MValue msg) \<or> MKind msg = EVMC_CREATE"

definition covered :: "evmc_message \<Rightarrow> Measurement \<Rightarrow> Measurement \<Rightarrow> bool" where
  "covered msg me me' \<longleftrightarrow> (MGas msg \<le> getGasLeft me \<longrightarrow> spends me me')"

lemma spends_returnGas:
  assumes "g \<le> getGasLeft me" and "r \<le> g"
  shows "spends me (snd (returnGas r (snd (consumeGas g me))))"
proof -
  have "\<not> CostLimit me - CostSum me < g" using assms(1) by (simp add: getGasLeft_def not_less)
  moreover have "CostSum me \<le> CostLimit me \<Longrightarrow> unat (CostSum me + g) = unat (CostSum me) + unat g"
    "CostSum me \<le> CostLimit me \<Longrightarrow> unat (CostSum me) + unat g \<le> unat (CostLimit me)"
    using unat_consumeGas assms(1) by (auto simp: getGasLeft_def)
  moreover have "unat r \<le> unat g" using assms(2) by (simp add: word_le_nat_alt)
  ultimately show ?thesis
    by (auto simp: spends_def consumeGas_def returnGas_def word_le_nat_alt word_less_nat_alt unat_sub not_less)
qed

lemma gas_callReturn [gas_rules]: "gas_rel (=) (callReturn msg res off)"
  unfolding callReturn_def by (simp add: gas_spent)

lemma gas_callHost:
  fixes H :: "'w evmc_host"
  assumes "honest_gas H" and "no_stipend msg"
  shows "gas_rel (covered msg) (callHost H msg off)"
  unfolding gas_rel_def
proof (intro allI impI)
  fix w :: "'w EVMEnvironment HostWorld" and me assume w: "HMeasure w = Some me"
  let ?me1 = "snd (consumeGas (MGas msg) me)"
  have a: "addStipend msg = msg" using assms(2) by (auto simp: addStipend_def no_stipend_def)
  show "fst (callHost H msg off w) \<noteq> Timeout \<and> (\<exists>me'. HMeasure (snd (callHost H msg off w)) = Some me' \<and> covered msg me me')"
  proof (cases "EVMCContext (HState w)")
    case None
    then show ?thesis using w spends_consumeGas
      by (auto simp: callHost_def a onGas_def onHost_def bindM_def covered_def split_beta)
  next
    case (Some c)
    let ?r = "fst (host_call H msg c)" and ?c = "snd (host_call H msg c)"
    let ?w1 = "w\<lparr>HMeasure := Some ?me1, HState := (HState w)\<lparr>EVMCContext := Some ?c\<rparr>\<rparr>"
    let ?w2 = "?w1\<lparr>HMeasure := Some (snd (returnGas (RGasLeft ?r) ?me1))\<rparr>"
    have run: "callHost H msg off w = (if sint (RGasLeft ?r) < 0 then (Err ExecutionFailed, ?w1)
        else seqM (callReturn msg ?r off) (retM (callStatus ?r)) ?w2)"
      using w Some by (simp add: callHost_def a onGas_def onHost_def bindM_def split_beta errM_def)
    show ?thesis
    proof (cases "sint (RGasLeft ?r) < 0")
      case True
      then show ?thesis using run spends_consumeGas by (simp add: covered_def)
    next
      case False
      then have "RGasLeft ?r \<le> MGas msg" using assms(1) by (auto simp: honest_gas_def)
      then have "covered msg me (snd (returnGas (RGasLeft ?r) ?me1))" using spends_returnGas by (simp add: covered_def)
      moreover have "gas_rel (=) (seqM (callReturn msg ?r off) (retM (callStatus ?r)) :: ('w, u32) eei)"
        by (simp add: gas_spent gas_callReturn)
      moreover have "HMeasure ?w2 = Some (snd (returnGas (RGasLeft ?r) ?me1))" by simp
      ultimately show ?thesis using gas_relD run False by (metis (mono_tags, lifting))
    qed
  qed
qed

lemma gas_covered: "gas_rel (=) m \<Longrightarrow> (\<And>x. gas_rel (covered msg) (f x)) \<Longrightarrow> gas_rel (covered msg) (bindM m f)"
  by (rule gas_rel_compose [of "(=)" "covered msg"]) (simp_all add: covered_def spends_refl)

lemma gas_covered_free:
  "gas_rel (covered msg) (retM x)" "gas_rel (covered msg) (errM e)"
  by (simp_all add: gas_rel_basic covered_def spends_refl)

lemma gas_enoughBalance: "gas_rel (=) (enoughBalance H msg)"
  unfolding enoughBalance_def by (simp add: gas_spent)

text \<open>The input data change neither the kind, the value nor the gas of the message.\<close>

lemma gas_callContract:
  fixes H :: "'w evmc_host"
  assumes "honest_gas H" and "no_stipend msg"
  shows "gas_rel (covered msg) (callContract H msg off len res)"
proof -
  have c: "covered (msg\<lparr>MInput := i\<rparr>) = covered msg" "no_stipend (msg\<lparr>MInput := i\<rparr>)" "no_stipend m \<Longrightarrow> transferGas H m = retM ()" for i m
    using assms(2) by (auto simp: covered_def no_stipend_def transferGas_def transfers_def fun_eq_iff)
  have rest: "gas_rel (covered msg) (bindM (getEnv Flag) (\<lambda>flag. if refused H m flag then errM ExecutionFailed
      else seqM (transferGas H m) (bindM (enoughBalance H m) (\<lambda>enough. if \<not> enough then retM 1 else callHost H m res))))"
    if "covered m = covered msg" "no_stipend m" for m
    using gas_callHost [OF assms(1) that(2), of res] that c(3) [OF that(2)]
    by (auto simp: seqM_def gas_rules gas_covered_free intro!: gas_covered gas_enoughBalance)
  have input: "gas_rel (covered msg) (bindM (callInput msg off len) f)"
    if f: "\<And>m. covered m = covered msg \<Longrightarrow> no_stipend m \<Longrightarrow> gas_rel (covered msg) (f m)" for f :: "evmc_message \<Rightarrow> ('w, u32) eei"
  proof -
    have "bindM (callInput msg off len) f =
        (if 0 < len then bindM (onMemory (getBytes off len)) (\<lambda>code. f (msg\<lparr>MInput := Some code\<rparr>)) else f msg)"
      by (auto simp: callInput_def fun_eq_iff bindM_def retM_def split: prod.split outcome.split)
    then show ?thesis using f [OF c(1,2)] f [OF refl assms(2)] by (simp add: gas_covered gas_rules)
  qed
  show ?thesis unfolding callContract_def
    by (rule gas_covered, rule gas_rules, rule gas_rel_if, rule gas_covered_free, rule input, rule rest)
qed

lemma callMessage_cases:
  fixes w :: "'w EVMEnvironment HostWorld"
  assumes "HMeasure w = Some me"
  obtains msg where "callMessage k fl g d v w = (Ok msg, w)" "MKind msg = k" "MValue msg = v" "MGas msg \<le> getGasLeft me" "MFlags msg = fl"
  | "callMessage k fl g d v w = (Undef, w)"
proof (cases "length (Address (HState w)) < 20")
  case True
  then show thesis using that(2) assms
    by (simp add: callMessage_def getMaxCallGas_def getEnv_def tryEnv_def onGas_def getAddressEVMC_def bindM_def)
next
  case False
  let ?l = "getGasLeft me"
  have "?l - ?l div 64 \<le> ?l" by (metis div_le_dividend unat_div word_le_nat_alt word_sub_le)
  then have "min g (?l - ?l div 64) \<le> ?l" by (meson min.cobounded2 order_trans)
  then show thesis using that(1) assms False
    by (simp add: callMessage_def getMaxCallGas_def getEnv_def tryEnv_def onGas_def getAddressEVMC_def bindM_def retM_def)
qed

lemma gas_doCall:
  fixes H :: "'w evmc_host"
  assumes "honest_gas H" and "is_zero v \<or> k = EVMC_CREATE"
  shows "gas_rel spends (bindM (callMessage k fl g d v) (\<lambda>msg. doCall H msg off len res))"
  unfolding gas_rel_def
proof (intro allI impI)
  fix w :: "'w EVMEnvironment HostWorld" and me assume w: "HMeasure w = Some me"
  let ?m = "bindM (callMessage k fl g d v) (\<lambda>msg. doCall H msg off len res)"
  from w show "fst (?m w) \<noteq> Timeout \<and> (\<exists>me'. HMeasure (snd (?m w)) = Some me' \<and> spends me me')"
  proof (cases rule: callMessage_cases [where k = k and fl = fl and g = g and d = d and v = v])
    case (1 msg)
    then have "gas_rel (covered msg) (doCall H msg off len res)"
      unfolding doCall_def using assms
      by (intro gas_rel_compose [OF _ _ gas_callContract gas_rel_basic(1) [of "(=)", OF refl]]) (auto simp: covered_def no_stipend_def)
    then show ?thesis using 1 w by (auto simp: bindM_def covered_def elim!: gas_relD)
  next
    case 2
    then show ?thesis using w by (simp add: bindM_def spends_refl)
  qed
qed

lemma gas_rel_calls:
  assumes "honest_gas H"
  shows "gas_rel spends (EEICreate H a b c d)" "gas_rel spends (EEICallStatic H keccak g a b c)"
proof -
  show "gas_rel spends (EEICreate H a b c d)"
    unfolding EEICreate_def by (intro gas_bind gas_doCall assms) (simp_all add: gas_spent)
  have "is_zero (replicate 32 0)" by (simp add: is_zero_def list_all_iff)
  then show "gas_rel spends (EEICallStatic H keccak g a b c)"
    unfolding EEICallStatic_def using assms by (auto intro!: gas_bind gas_doCall simp: gas_spent)
qed

lemma host_gasI:
  assumes "\<And>vs. gas_rel spends (body vs)" and "unat L + unat cost < 2 ^ 64"
  shows "host_gas L (eeiFunc ps rs cost body)"
  unfolding host_gas_def
proof (intro conjI allI impI)
  show "unat L + unat (HostCost (eeiFunc ps rs cost body)) < 2 ^ 64" using assms(2) by (simp add: eeiFunc_def)
  fix args and w :: "'a EVMEnvironment HostWorld" and me
  assume w: "HMeasure w = Some me" and le: "CostSum me \<le> CostLimit me"
  obtain me' where "fst (body args w) \<noteq> Timeout" "HMeasure (snd (body args w)) = Some me'" "spends me me'"
    using gas_relD [OF assms(1) w] by blast
  then show "fst (HostBody (eeiFunc ps rs cost body) args w) \<noteq> Timeout"
    and "\<exists>m'. HMeasure (snd (HostBody (eeiFunc ps rs cost body) args w)) = Some m' \<and> CostTab m' = CostTab me \<and>
      CostLimit m' = CostLimit me \<and> CostSum me \<le> CostSum m' \<and> CostSum m' \<le> CostLimit me"
    using le by (auto simp: eeiFunc_def spends_def)
qed

lemma gas_classes:
  assumes "honest_gas H" and "unat L + 32000 < 2 ^ 64"
  shows
    "host_gas L EEICallDataCopy_class" "host_gas L (EEICallStatic_class H keccak)" "host_gas L EEICodeCopy_class"
    "host_gas L (EEICreate_class H)" "host_gas L (EEIExternalCodeCopy_class H)" "host_gas L EEIFinish_class"
    "host_gas L EEIGetAddress_class" "host_gas L (EEIGetBlockCoinbase_class H)"
    "host_gas L (EEIGetBlockDifficulty_class H)" "host_gas L (EEIGetBlockGasLimit_class H)"
    "host_gas L (EEIGetBlockHash_class H)" "host_gas L (EEIGetBlockNumber_class H)"
    "host_gas L (EEIGetBlockTimestamp_class H)" "host_gas L EEIGetCallDataSize_class" "host_gas L EEIGetCallValue_class"
    "host_gas L EEIGetCaller_class" "host_gas L EEIGetCodeSize_class" "host_gas L (EEIGetExternalBalance_class H)"
    "host_gas L (EEIGetExternalCodeSize_class H)" "host_gas L EEIGetGasLeft_class" "host_gas L EEIGetReturnDataSize_class"
    "host_gas L (EEIGetTxGasPrice_class H)" "host_gas L (EEIGetTxOrigin_class H)" "host_gas L (EEILog_class H)"
    "host_gas L EEIReturnDataCopy_class" "host_gas L EEIRevert_class" "host_gas L (EEISelfDestruct_class H)"
    "host_gas L (EEIStorageLoad_class H)" "host_gas L (EEIStorageStore_class H)" "host_gas L EEIUseGas_class"
  using assms
  by (simp_all add: eei_class_defs(2-) host_gasI gas_arg64 spends_refl gas_bodies gas_rel_calls)

section \<open>Properties\<close>

text \<open>C6. The gas of the Ethereum host functions: on a host that never returns more gas from a call than it was
  given, every function of the module but the three calls that can carry a value meets what the engine
  asks of a host function, for every limit that leaves room for the cost of a creation. It returns,
  leaves the cost table and the limit alone, gives no gas back and stays within the limit. A call to a
  contract counts too: what it assigns to the callee was left, and what comes back is not more.\<close>

theorem eei_host_gas:
  assumes "honest_gas H" and "unat L + 32000 < 2 ^ 64" and "(name, f) \<in> set (eeiFunctions H keccak)"
    and "name \<notin> {''call'', ''callCode'', ''callDelegate''}"
  shows "host_gas L f"
proof -
  have "list_all (\<lambda>(name, f). name \<in> {''call'', ''callCode'', ''callDelegate''} \<or> host_gas L f) (eeiFunctions H keccak)"
    by (simp add: eeiFunctions_def gas_classes [OF assms(1,2)])
  then show ?thesis using assms(3,4) by (auto simp: list_all_iff)
qed

text \<open>A host whose accounts exist and are rich, and whose callees use no gas; it is an honest one.\<close>

definition idleHost :: "unit evmc_host" where
  "idleHost = \<lparr>EVMC_STATIC = 1, account_exists = (\<lambda>_ c. (True, c)), get_storage = (\<lambda>_ _ c. (replicate 32 0, c)),
     set_storage = (\<lambda>_ _ _ c. ((), c)), get_balance = (\<lambda>_ c. (replicate 16 0 @ replicate 16 255, c)),
     get_code_size = (\<lambda>_ c. (0, c)), copy_code = (\<lambda>_ _ _ c. ([], c)), selfdestruct = (\<lambda>_ _ c. ((), c)),
     host_call = (\<lambda>msg c. (\<lparr>RStatus = EVMC_SUCCESS, RGasLeft = MGas msg, ROutput = None, RCreateAddress = replicate 20 0\<rparr>, c)),
     get_tx_context = (\<lambda>c. (\<lparr>tx_gas_price = replicate 32 0, tx_origin = replicate 20 0, block_coinbase = replicate 20 0,
       block_number = 0, block_timestamp = 0, block_gas_limit = 0, block_difficulty = replicate 32 0\<rparr>, c)),
     get_block_hash = (\<lambda>_ c. (replicate 32 0, c)), emit_log = (\<lambda>_ _ _ c. ((), c))\<rparr>"

lemma idleHost_honest: "honest_gas idleHost"
  by (simp add: honest_gas_def idleHost_def)

theorem eei_host_gas_witness: "host_gas 1000000 (EEICreate_class idleHost)"
  by (rule eei_host_gas [OF idleHost_honest, of _ "''create''" _ "\<lambda>_. []"]) (simp_all add: eeiFunctions_def)

lemma sint_small:
  fixes g :: u64
  assumes "unat g < 2 ^ 63"
  shows "sint g = int (unat g)"
proof -
  have "int (unat g) < int (2 ^ 63)" using assms by (simp only: of_nat_less_iff)
  then have "uint g < 2 ^ 63" by simp
  moreover have "- (2 ^ 63) \<le> uint g" using unsigned_greater_eq [of g, where ?'a = int] by (rule order_trans [rotated]) simp
  ultimately show ?thesis by (simp add: sint_uint signed_take_bit_int_eq_self)
qed

lemma same_context:
  "EVMCContext (HState w) = Some c \<Longrightarrow> w\<lparr>HMeasure := x, HState := (HState w)\<lparr>EVMCContext := Some c\<rparr>\<rparr> = w\<lparr>HMeasure := x\<rparr>"
  by (cases w; cases "HState w") simp

text \<open>What such a call does to the meter, once it is neither refused nor charged for a transfer.\<close>

lemma idle_callHost:
  assumes "HMeasure w = Some me" and "EVMCContext (HState w) = Some ()" and "\<not> is_zero (MValue msg)" and "MKind msg \<noteq> EVMC_CREATE"
    and "unat (MGas msg) + 2300 < 2 ^ 63"
  shows "HMeasure (snd (callHost idleHost msg off w)) = Some (snd (returnGas (MGas msg + 2300) (snd (consumeGas (MGas msg) me))))"
proof -
  have g: "unat (MGas msg + 2300) = unat (MGas msg) + 2300" using assms(5) by (subst unat_add_no_wrap) simp_all
  have "sint (MGas msg + 2300) = int (unat (MGas msg)) + 2300" using assms(5) g by (simp add: sint_small)
  then have "\<not> sint (MGas msg + 2300) < 0" unfolding not_less by (metis add_nonneg_nonneg of_nat_0_le_iff zero_le_numeral)
  then show ?thesis
    using assms(1-4) by (simp add: callHost_def addStipend_def onGas_def onHost_def idleHost_def bindM_def split_beta callReturn_def seqM_def setEnv_def retM_def)
qed

text \<open>The greatest balance.\<close>

lemma bit_255: "bit (255 :: int) i \<longleftrightarrow> i < 8"
proof -
  have "(255 :: int) = mask 8" by (simp add: mask_eq_exp_minus_1)
  then show ?thesis by (simp only: bit_mask_iff possible_bit_int) auto
qed

lemma shiftIn_mask: "shiftIn 255 (mask k :: 'a::len word) = mask (k + 8)"
  by (rule bit_word_eqI) (auto simp: shiftIn_def bit_simps bit_255)

lemma fold_shiftIn_mask: "fold shiftIn (replicate n 255) (mask k :: 'a::len word) = mask (k + 8 * n)"
  by (induction n arbitrary: k) (simp_all add: shiftIn_mask add.assoc)

lemma conv_max: "convToUInt128 (replicate 16 0 @ replicate 16 255) = Ok (- 1)"
proof -
  have "(mask 128 :: 128 word) = - 1" by (rule bit_word_eqI) (simp add: bit_simps)
  then show ?thesis using fold_shiftIn_mask [of 16 0, where 'a = 128]
    by (simp add: convToUInt128_def is_zero_def list_all_iff)
qed

text \<open>A machine in the middle of a run, and a message with a value.\<close>

definition runningWorld :: "u64 \<Rightarrow> u64 \<Rightarrow> unit EVMEnvironment HostWorld" where
  "runningWorld lim spent = \<lparr>HMem = newMemory (HasMin 1), HMeasure = Some ((newMeasurement [] lim)\<lparr>CostSum := spent\<rparr>),
     HState = newEVMEnvironment\<lparr>EVMCContext := Some ()\<rparr>\<rparr>"

definition valueMessage :: "evmc_call_kind \<Rightarrow> u64 \<Rightarrow> evmc_message" where
  "valueMessage knd gas = \<lparr>MKind = knd, MFlags = 0, MDepth = 1, MGas = gas, MDestination = replicate 20 0,
     MSender = replicate 20 0, MInput = None, MValue = replicate 16 0 @ replicate 16 1\<rparr>"

text \<open>C32. Delegated calls create gas: a delegated call in a frame whose call value is not zero gets the stipend of
  a value transfer, although no transfer is made or paid for. If the callee uses nothing, 2300 units of
  gas come back that were never taken; the sum of the meter is lower than before the call.\<close>

theorem delegate_mints_gas:
  assumes "HMeasure w = Some me" and "EVMCContext (HState w) = Some ()" and "Depth (HState w) < 1024"
    and "MKind msg = EVMC_DELEGATECALL" and "\<not> is_zero (MValue msg)"
    and "MGas msg \<le> getGasLeft me" and "CostSum me \<le> CostLimit me" and "2300 \<le> CostSum me" and "unat (CostLimit me) < 2 ^ 62"
  shows "HMeasure (snd (callContract idleHost msg off 0 res w)) = Some (me\<lparr>CostSum := CostSum me - 2300\<rparr>)"
proof -
  let ?s = "CostSum me" and ?g = "MGas msg"
  have u: "unat (?s + ?g) = unat ?s + unat ?g" "unat ?s + unat ?g \<le> unat (CostLimit me)"
    using unat_consumeGas [of me ?g] assms(6,7) by (simp_all add: getGasLeft_def)
  have g: "unat ?g + 2300 < 2 ^ 63" using u(2) assms(9) by simp
  then have g2: "unat (?g + 2300) = unat ?g + 2300" by (subst unat_add_no_wrap) simp_all
  have "\<not> ?s + ?g < ?g + 2300" using assms(8) u g2 by (simp add: word_less_nat_alt word_le_nat_alt)
  then have "snd (returnGas (?g + 2300) (snd (consumeGas ?g me))) = me\<lparr>CostSum := ?s - 2300\<rparr>"
    using assms(6) by (simp add: returnGas_def consumeGas_def getGasLeft_def not_less)
  moreover have d: "\<not> 1024 \<le> Depth (HState w)" using assms(3) by simp
  then have "callContract idleHost msg off 0 res w = callHost idleHost msg res w"
    using assms(4,5) d by (simp add: callContract_def getEnv_def callInput_def refused_def transferGas_def enoughBalance_def transfers_def
        seqM_def bindM_def retM_def)
  ultimately show ?thesis using idle_callHost [OF assms(1,2,5) _ g] assms(4) by simp
qed

theorem delegate_mints_gas_witness:
  "map_option CostSum (HMeasure (snd (callContract idleHost (valueMessage EVMC_DELEGATECALL 1000) 0 0 0 (runningWorld 100000 50000)))) = Some 47700"
  using delegate_mints_gas [of "runningWorld 100000 50000" _ "valueMessage EVMC_DELEGATECALL 1000" 0 0]
  by (simp add: runningWorld_def valueMessage_def newMeasurement_def newEVMEnvironment_def is_zero_def getGasLeft_def list_all_iff)

text \<open>C33. Calls with a value create gas as well: the gas for the callee is computed before the cost of the
  transfer is taken. When the rest does not cover it (the comment says that it always does), the meter
  is filled up, the failure is ignored, and the callee gets the gas nevertheless; if it uses nothing,
  the caller has afterwards what it had asked for and the stipend on top, and has paid nothing.\<close>

theorem value_call_mints_gas:
  assumes "HMeasure w = Some me" and "EVMCContext (HState w) = Some ()" and "Depth (HState w) < 1024" and "Flag (HState w) AND 1 = 0"
    and "MKind msg = EVMC_CALL" and "\<not> is_zero (MValue msg)" and "is_zero (take 16 (MValue msg))" and "length (MValue msg) = 32"
    and "CostSum me \<le> CostLimit me" and "9000 \<le> getGasLeft me" and "getGasLeft me < 9000 + MGas msg"
    and "unat (MGas msg) + 2300 \<le> unat (CostLimit me)" and "unat (CostLimit me) < 2 ^ 62"
  shows "\<exists>me'. HMeasure (snd (callContract idleHost msg off 0 res w)) = Some me' \<and> getGasLeft me' = MGas msg + 2300"
proof -
  let ?g = "MGas msg"
  let ?me1 = "me\<lparr>CostSum := CostSum me + 9000\<rparr>" and ?w1 = "w\<lparr>HMeasure := Some (me\<lparr>CostSum := CostSum me + 9000\<rparr>)\<rparr>"
  have "consumeGas 9000 me = (True, ?me1)" using assms(10) by (simp add: consumeGas_def getGasLeft_def not_less)
  then have t: "transferGas idleHost msg w = (Ok (), ?w1)"
    using assms(1,2,5,6) by (simp add: transferGas_def transfers_def charged_def onGas_def onHost_def idleHost_def seqM_def bindM_def retM_def)
  have b: "enoughBalance idleHost msg ?w1 = (Ok True, ?w1)"
    using assms(2,5-7) by (simp add: enoughBalance_def transfers_def onHost_def idleHost_def bindM_def liftM_def conv_max retM_def)
    (simp add: convToUInt128_def retM_def same_context)
  have "unat (CostLimit me - (CostSum me + 9000)) = unat (getGasLeft me) - 9000"
    using assms(10) by (simp add: getGasLeft_def diff_diff_add [symmetric] unat_sub word_le_nat_alt)
  moreover have "unat (9000 + ?g) = 9000 + unat ?g" using assms(12,13) by (subst unat_add_no_wrap) simp_all
  ultimately have "CostLimit me - (CostSum me + 9000) < ?g" using assms(10,11) by (simp add: word_less_nat_alt word_le_nat_alt)
  then have f: "snd (consumeGas ?g ?me1) = me\<lparr>CostSum := CostLimit me\<rparr>" by (simp add: consumeGas_def)
  have g: "unat ?g + 2300 < 2 ^ 63" using assms(12,13) by simp
  then have "unat (?g + 2300) = unat ?g + 2300" by (subst unat_add_no_wrap) simp_all
  then have "\<not> CostLimit me < ?g + 2300" using assms(12) by (simp add: word_less_nat_alt)
  then have r: "getGasLeft (snd (returnGas (?g + 2300) (me\<lparr>CostSum := CostLimit me\<rparr>))) = ?g + 2300"
    by (simp add: returnGas_def getGasLeft_def)
  have "\<not> 1024 \<le> Depth (HState w)" using assms(3) by simp
  then have "callContract idleHost msg off 0 res w = callHost idleHost msg res ?w1"
    using assms(4) t b by (simp add: callContract_def getEnv_def callInput_def refused_def idleHost_def seqM_def bindM_def retM_def)
  then show ?thesis using idle_callHost [of ?w1 ?me1 msg res] assms(2,5,6) g f r by simp
qed

theorem value_call_mints_gas_witness:
  "map_option getGasLeft (HMeasure (runningWorld 20000 10000)) = Some 10000 \<and>
   map_option getGasLeft (HMeasure (snd (callContract idleHost (valueMessage EVMC_CALL 9844) 0 0 0 (runningWorld 20000 10000)))) = Some 12144"
  using value_call_mints_gas [of "runningWorld 20000 10000" _ "valueMessage EVMC_CALL 9844" 0 0]
  by (auto simp: runningWorld_def valueMessage_def newMeasurement_def newEVMEnvironment_def is_zero_def getGasLeft_def list_all_iff)

end
