(* ===== verification/EeiProps.thy ===== *)
theory EeiProps
  imports EeiGas VmProps
begin

text \<open>
  What the Ethereum host functions may do to the state of the chain in static mode, and the byte order
  of 256-bit values in memory and in the environment.
\<close>

section \<open>Static mode\<close>

text \<open>
  A property \<open>I\<close> of the state of the chain that no query of the host and no call in static mode changes,
  as EVMC documents it, for a machine in static mode.
\<close>

definition static_host :: "'w evmc_host \<Rightarrow> ('w \<Rightarrow> bool) \<Rightarrow> bool" where
  "static_host H I \<longleftrightarrow> (\<forall>c. I c \<longrightarrow>
     (\<forall>a. I (snd (account_exists H a c)) \<and> I (snd (get_balance H a c)) \<and> I (snd (get_code_size H a c)) \<and>
        (\<forall>k. I (snd (get_storage H a k c))) \<and> (\<forall>off len. I (snd (copy_code H a off len c)))) \<and>
     I (snd (get_tx_context H c)) \<and> (\<forall>n. I (snd (get_block_hash H n c))) \<and>
     (\<forall>msg. MFlags msg AND EVMC_STATIC H \<noteq> 0 \<longrightarrow> I (snd (host_call H msg c))))"

definition in_static :: "'w evmc_host \<Rightarrow> ('w \<Rightarrow> bool) \<Rightarrow> 'w EVMEnvironment HostWorld \<Rightarrow> bool" where
  "in_static H I w \<longleftrightarrow> Flag (HState w) AND EVMC_STATIC H \<noteq> 0 \<and> pred_option I (EVMCContext (HState w))"

named_theorems static_rules "host operations that keep static mode and the state of the chain"

lemma static_local [static_rules]:
  "keeps (in_static H I) (getEnv g)" "keeps (in_static H I) (tryEnv h)" "keeps (in_static H I) (onMemory m)" "keeps (in_static H I) (onGas f)"
  "keeps (in_static H I) (setEnv (\<lambda>env. env\<lparr>ReturnData := d\<rparr>))"
  by (auto simp: keeps_def getEnv_def tryEnv_def onMemory_def onGas_def setEnv_def in_static_def split_beta split: option.split)

lemma static_onHost:
  assumes "\<And>c. I c \<Longrightarrow> I (snd (f c))"
  shows "keeps (in_static H I) (onHost f)"
  using assms by (auto simp: keeps_def onHost_def in_static_def split_beta split: option.split)

lemma static_queries [static_rules]:
  assumes "static_host H I"
  shows "keeps (in_static H I) (onHost (account_exists H a))" "keeps (in_static H I) (onHost (get_balance H a))"
    "keeps (in_static H I) (onHost (get_code_size H a))" "keeps (in_static H I) (onHost (get_storage H a k))"
    "keeps (in_static H I) (onHost (copy_code H a off len))" "keeps (in_static H I) (onHost (get_tx_context H))"
    "keeps (in_static H I) (onHost (get_block_hash H n))"
    "MFlags msg AND EVMC_STATIC H \<noteq> 0 \<Longrightarrow> keeps (in_static H I) (onHost (host_call H msg))"
  using assms by (auto simp: static_host_def intro!: static_onHost)

lemma static_flag:
  assumes "\<And>fl. fl AND EVMC_STATIC H \<noteq> 0 \<Longrightarrow> keeps (in_static H I) (f fl)"
  shows "keeps (in_static H I) (bindM (getEnv Flag) f)" "keeps (in_static H I) (bindM (staticFlag H) f)"
  unfolding staticFlag_def using assms
  by (auto intro!: keeps_bindM_given [where Q = "\<lambda>fl. fl AND EVMC_STATIC H \<noteq> 0"] static_rules simp: getEnv_def in_static_def and.assoc)

lemma static_if: "keeps I m \<Longrightarrow> keeps I n \<Longrightarrow> keeps I (if b then m else n)"
  by simp

lemma static_helpers [static_rules]:
  "keeps (in_static H I) (charged g)" "keeps (in_static H I) (addCopyCost len)" "keeps (in_static H I) getMaxCallGas" "keeps (in_static H I) (loadUInt off b)"
  "keeps (in_static H I) (loadAddress off)" "keeps (in_static H I) (loadBytes32 off)" "keeps (in_static H I) (storeUInt bs off b)"
  "keeps (in_static H I) (storeAddress bs off)" "keeps (in_static H I) (storeBytes32 bs off)" "keeps (in_static H I) succeed"
  "keeps (in_static H I) (callReturn msg r off)" "keeps (in_static H I) (callInput msg off len)"
  unfolding charged_def addCopyCost_def getMaxCallGas_def loadUInt_def loadAddress_def loadBytes32_def storeUInt_def storeAddress_def storeBytes32_def
    succeed_def callReturn_def callInput_def
  by (auto simp: Let_def intro!: keeps_bindM keeps_seqM static_rules static_if)

lemma static_callInput:
  assumes "\<And>m. MKind m = MKind msg \<Longrightarrow> MFlags m = MFlags msg \<Longrightarrow> keeps (in_static H I) (f m)"
  shows "keeps (in_static H I) (bindM (callInput msg off len) f)"
proof (rule keeps_bindM_given [where Q = "\<lambda>m. MKind m = MKind msg \<and> MFlags m = MFlags msg"])
  show "MKind x = MKind msg \<and> MFlags x = MFlags msg" if "callInput msg off len s = (Ok x, t)" for x t s
    using that by (auto simp: callInput_def retM_def bindM_Ok_iff split: if_splits)
qed (use assms in \<open>auto intro: static_rules\<close>)

lemma static_callHost:
  assumes "static_host H I" and "MFlags msg AND EVMC_STATIC H \<noteq> 0"
  shows "keeps (in_static H I) (callHost H msg off)"
proof -
  have "MFlags (addStipend msg) = MFlags msg" by (simp add: addStipend_def)
  then show ?thesis
    unfolding callHost_def Let_def using assms by (intro keeps_bindM keeps_seqM static_rules static_if keeps_basic) simp_all
qed

lemma static_callContract:
  assumes "static_host H I" and "MKind msg = EVMC_CREATE \<or> MFlags msg AND EVMC_STATIC H \<noteq> 0"
  shows "keeps (in_static H I) (callContract H msg off len res)"
proof -
  let ?Q = "\<lambda>m. MKind m = MKind msg \<and> MFlags m = MFlags msg"
  have c: "keeps (in_static H I) (bindM (getEnv Flag) (\<lambda>flag. if refused H m flag then errM ExecutionFailed
      else seqM (transferGas H m) (bindM (enoughBalance H m) (\<lambda>enough. if \<not> enough then retM 1 else callHost H m res))))"
    if "?Q m" for m
  proof (cases "MKind msg = EVMC_CREATE")
    case True
    then show ?thesis using that by (intro static_flag) (simp add: refused_def)
  next
    case False
    then have "keeps (in_static H I) (callHost H m res)" using static_callHost assms that by metis
    then show ?thesis unfolding transferGas_def enoughBalance_def
      using assms(1) by (auto intro!: keeps_bindM keeps_seqM static_rules static_if)
  qed
  show ?thesis
    unfolding callContract_def
    by (rule keeps_bindM [OF static_local(1)], rule static_if, rule keeps_basic, rule static_callInput, rule c) simp
qed

lemma static_message:
  assumes "\<And>m. MKind m = knd \<Longrightarrow> MFlags m = fl \<Longrightarrow> keeps (in_static H I) (f m)"
  shows "keeps (in_static H I) (bindM (callMessage knd fl g d v) f)"
proof (rule keeps_bindM_given [where Q = "\<lambda>m. MKind m = knd \<and> MFlags m = fl"])
  show "keeps (in_static H I) (callMessage knd fl g d v)"
    unfolding callMessage_def by (intro keeps_bindM static_rules keeps_basic)
  show "MKind x = knd \<and> MFlags x = fl" if "callMessage knd fl g d v s = (Ok x, t)" for s x t
    using that by (auto simp: callMessage_def bindM_Ok_iff retM_def)
qed (use assms in simp)

lemma static_call:
  assumes "static_host H I" and "knd = EVMC_CREATE \<or> fl AND EVMC_STATIC H \<noteq> 0"
  shows "keeps (in_static H I) (bindM (callMessage knd fl g d v) (\<lambda>msg. doCall H msg off len res))"
  unfolding doCall_def using assms by (intro static_message keeps_bindM static_callContract keeps_basic) auto

lemma static_calls:
  assumes "static_host H I" and "EVMC_STATIC H \<noteq> 0"
  shows "keeps (in_static H I) (EEICall H g a b c d)" "keeps (in_static H I) (EEICallCode H g a b c d)"
    "keeps (in_static H I) (EEICallDelegate H g a b c)" "keeps (in_static H I) (EEICallStatic H keccak g a b c)"
    "keeps (in_static H I) (EEICreate H a b c d)"
  unfolding EEICall_def EEICallCode_def EEICallDelegate_def EEICallStatic_def EEICreate_def using assms
  by (auto intro!: static_call static_flag keeps_bindM [of _ "loadAddress _"] keeps_bindM [of _ "loadUInt _ _"]
      keeps_bindM [of _ "tryEnv _"] keeps_bindM [of _ getMaxCallGas] keeps_bindM [of _ "onMemory _"] keeps_seqM static_rules static_if)

lemma static_bodies:
  assumes "static_host H I"
  shows "keeps (in_static H I) (EEICallDataCopy a b c)" "keeps (in_static H I) (EEICodeCopy a b c)"
    "keeps (in_static H I) (EEIExternalCodeCopy H a b c d)" "keeps (in_static H I) (EEIFinish a b)" "keeps (in_static H I) (EEIGetAddress a)"
    "keeps (in_static H I) (EEIGetBlockCoinbase H a)" "keeps (in_static H I) (EEIGetBlockDifficulty H a)"
    "keeps (in_static H I) (EEIGetBlockGasLimit H)" "keeps (in_static H I) (EEIGetBlockHash H n a)"
    "keeps (in_static H I) (EEIGetBlockNumber H)" "keeps (in_static H I) (EEIGetBlockTimestamp H)"
    "keeps (in_static H I) EEIGetCallDataSize" "keeps (in_static H I) (EEIGetCallValue a)" "keeps (in_static H I) (EEIGetCaller a)"
    "keeps (in_static H I) EEIGetCodeSize" "keeps (in_static H I) (EEIGetExternalBalance H a b)"
    "keeps (in_static H I) (EEIGetExternalCodeSize H a)" "keeps (in_static H I) EEIGetGasLeft"
    "keeps (in_static H I) EEIGetReturnDataSize" "keeps (in_static H I) (EEIGetTxGasPrice H a)"
    "keeps (in_static H I) (EEIGetTxOrigin H a)" "keeps (in_static H I) (EEIReturnDataCopy a b c)"
    "keeps (in_static H I) (EEIRevert a b)" "keeps (in_static H I) (EEIStorageLoad H a b)" "keeps (in_static H I) (EEIUseGas n)"
  using assms by (simp_all add: eei_body_defs keeps_bindM keeps_seqM static_rules static_if)

lemma static_store: "keeps (in_static H I) (EEIStorageStore H a b)"
  unfolding EEIStorageStore_def by (intro static_flag) auto

lemma static_arg64: "(\<And>g. keeps I (f g)) \<Longrightarrow> keeps I (arg64 vs i f)"
  by (simp add: arg64_def keeps_bindM)

text \<open>C7. Static mode protects the chain: when the flag of the frame is set, no host function but \<open>log\<close> and
  \<open>selfDestruct\<close>, with whatever arguments, changes the state of the chain, that is, falsifies any property
  of it that queries and calls in static mode keep. Storage is not written, nothing is created, no value
  is sent, and calls to other contracts are made in static mode.\<close>

theorem eei_static:
  assumes "static_host H I" and "in_static H I w" and "(name, f) \<in> set (eeiFunctions H keccak)"
    and "name \<notin> {''log'', ''selfDestruct''}"
  shows "in_static H I (snd (HostBody f args w))"
proof -
  have s: "EVMC_STATIC H \<noteq> 0" using assms(2) by (auto simp: in_static_def)
  have "list_all (\<lambda>(name, f). name \<in> {''log'', ''selfDestruct''} \<or> keeps (in_static H I) (HostBody f args)) (eeiFunctions H keccak)"
    by (simp add: eeiFunctions_def eei_class_defs static_arg64 static_bodies [OF assms(1)] static_calls [OF assms(1) s] static_store)
  then have "keeps (in_static H I) (HostBody f args)" using assms(3,4) by (auto simp: list_all_iff)
  then show ?thesis using assms(2) by (simp add: keeps_def)
qed

text \<open>A chain that counts its changes.\<close>

definition countingHost :: "nat evmc_host" where
  "countingHost = \<lparr>EVMC_STATIC = 1, account_exists = (\<lambda>_ c. (True, c)), get_storage = (\<lambda>_ _ c. (replicate 32 0, c)),
     set_storage = (\<lambda>_ _ _ c. ((), c + 1)), get_balance = (\<lambda>_ c. (replicate 32 0, c)),
     get_code_size = (\<lambda>_ c. (0, c)), copy_code = (\<lambda>_ _ _ c. ([], c)), selfdestruct = (\<lambda>_ _ c. ((), c + 1)),
     host_call = (\<lambda>msg c. (\<lparr>RStatus = EVMC_SUCCESS, RGasLeft = 0, ROutput = None, RCreateAddress = replicate 20 0\<rparr>,
       if MFlags msg AND 1 \<noteq> 0 then c else c + 1)),
     get_tx_context = (\<lambda>c. (\<lparr>tx_gas_price = replicate 32 0, tx_origin = replicate 20 0, block_coinbase = replicate 20 0,
       block_number = 0, block_timestamp = 0, block_gas_limit = 0, block_difficulty = replicate 32 0\<rparr>, c)),
     get_block_hash = (\<lambda>_ c. (replicate 32 0, c)), emit_log = (\<lambda>_ _ _ c. ((), c + 1))\<rparr>"

theorem eei_static_witness:
  "let w = \<lparr>HMem = newMemory (HasMin 1), HMeasure = None, HState = newEVMEnvironment\<lparr>Flag := 1, EVMCContext := Some 0\<rparr>\<rparr>
   in EVMCContext (HState (snd (HostBody (EEIStorageStore_class countingHost) [V32 0, V32 32] w))) = Some 0"
proof -
  let ?w = "\<lparr>HMem = newMemory (HasMin 1), HMeasure = None, HState = newEVMEnvironment\<lparr>Flag := 1, EVMCContext := Some 0\<rparr>\<rparr>"
  have "static_host countingHost (\<lambda>c. c = 0)" by (simp add: static_host_def countingHost_def)
  moreover have "in_static countingHost (\<lambda>c. c = 0) ?w" by (simp add: in_static_def countingHost_def)
  ultimately have "in_static countingHost (\<lambda>c. c = 0) (snd (HostBody (EEIStorageStore_class countingHost) [V32 0, V32 32] ?w))"
    by (rule eei_static [of _ _ _ "''storageStore''" _ "\<lambda>_. []"]) (simp_all add: eeiFunctions_def)
  then show ?thesis
    by (simp add: in_static_def EEIStorageStore_class_def eeiFunc_def EEIStorageStore_def staticFlag_def getEnv_def bindM_def errM_def countingHost_def)
qed

section \<open>Byte order\<close>

lemma hex_rev: "convertValVecToHexStr v p = convertBytesToHexStr (rev v) p False"
  by (simp add: convertValVecToHexStr_def convertBytesToHexStr_def)

text \<open>C34. The call value changes its byte order on its way through the environment. A value set from a
  hexadecimal string is kept in the order of the string, but the getter of the string expects the other
  order: it returns the digits of the reversed value. A value set from a message is kept reversed, as
  the comment at the member says, and the getter for EVMC, which feeds delegated calls, copies it
  without turning it back.\<close>

theorem call_value_byte_order:
  assumes "length v = 32" and "HMeasure w = Some me" and "MValue msg = v"
  shows "getCallValueStr (setCallValue (convertBytesToHexStr v 64 False) env) = convertBytesToHexStr (rev v) 64 False \<and>
    getCallValueEVMC (HState (snd (setEVMCMessage msg w))) = Ok (rev v)"
proof
  have "unat (64 :: u32) = 64" by simp
  then have "convertHexStrToBytes (convertBytesToHexStr v 64 False) 64 False = v" using assms(1) by (intro hex_round_trip) simp_all
  then show "getCallValueStr (setCallValue (convertBytesToHexStr v 64 False) env) = convertBytesToHexStr (rev v) 64 False"
    by (simp add: getCallValueStr_def setCallValue_def hex_rev convertHexStrToValVec_def)
  show "getCallValueEVMC (HState (snd (setEVMCMessage msg w))) = Ok (rev v)"
    using assms by (simp add: setEVMCMessage_def setEnv_def onGas_def seqM_def bindM_def getCallValueEVMC_def)
qed

theorem call_value_byte_order_witness:
  "getCallValueStr (setCallValue (convertBytesToHexStr (replicate 31 0 @ [1]) 64 False) (newEVMEnvironment :: unit EVMEnvironment))
     = convertBytesToHexStr (1 # replicate 31 0) 64 False"
  using call_value_byte_order [of "replicate 31 0 @ [1]" "runningWorld 1 0" _ "(valueMessage EVMC_CALL 0)\<lparr>MValue := replicate 31 0 @ [1]\<rparr>"
      "newEVMEnvironment :: unit EVMEnvironment"]
  by (simp add: runningWorld_def)

lemma setArray_setBytes:
  assumes "unat len \<le> length arr"
  shows "setArray arr off len r = setBytes (if r then rev (take (unat len) arr) else take (unat len) arr) off 0 len"
  using assms by (auto simp: setArray_def setBytes_def fun_eq_iff word_gt_0 unat_gt_0)

lemma getArray_getBytes: "getArray off len r = bindM (getBytes off len) (\<lambda>bs. retM (if r then rev bs else bs))"
  by (auto simp: getArray_def getBytes_def fun_eq_iff guarded_def bindM_def retM_def split: prod.split bool.split outcome.split)

text \<open>Integers of up to 256 bits survive the memory: a big-endian value that fits the given number of bytes is
  stored with its least significant byte first, and loading the same number of bytes from there gives
  the value back.\<close>

lemma uint_round_trip:
  assumes "mem_ok (HMem w)" and "length src = 32" and "b \<le> 32" and "is_zero (take (32 - unat b) src)"
    and "unat off + unat b \<le> msize (HMem w)"
  shows "fst (seqM (storeUInt src off b) (loadUInt off b) w) = Ok src \<and>
    fst (seqM (storeUInt src off b) (onMemory (getBytes off b)) w) = Ok (rev (drop (32 - unat b) src))"
proof -
  let ?n = "32 - unat b"
  let ?bs = "rev (drop ?n src)"
  have b: "unat b \<le> 32" "\<not> 32 < b" using assms(3) by (simp_all add: word_le_nat_alt word_less_nat_alt)
  then have len: "length ?bs = unat b" using assms(2) by simp
  then have "\<exists>m'. seqM (setBytes ?bs off 0 b) (getBytes off b) (HMem w) = (Ok ?bs, m')"
    using bytes_mem.read_after_write [of "HMem w" ?bs off] assms(1,5) b(1) by auto
  then obtain m1 m2 where m1: "setBytes ?bs off 0 b (HMem w) = (Ok (), m1)" and m2: "getBytes off b m1 = (Ok ?bs, m2)"
    by (auto simp: seqM_Ok_iff)
  have "storeUInt src off b w = onMemory (setBytes ?bs off 0 b) w"
    using assms(4) b len by (simp add: storeUInt_def setArray_setBytes)
  then have st: "storeUInt src off b w = (Ok (), w\<lparr>HMem := m1\<rparr>)" by (simp add: onMemory_def m1)
  have "take ?n src = replicate ?n 0"
    using assms(2,4) by (auto simp: is_zero_def list_all_iff intro!: replicate_eqI)
  then have "replicate ?n 0 @ drop ?n src = src" by (metis append_take_drop_id)
  then have "fst (loadUInt off b (w\<lparr>HMem := m1\<rparr>)) = Ok src"
    using b(2) by (simp add: loadUInt_def Let_def onMemory_def getArray_getBytes bindM_def m2 retM_def)
  then show ?thesis using st by (simp add: seqM_def bindM_def onMemory_def m2)
qed

end
