(* ===== verification/Wasi.thy ===== *)
theory Wasi
  imports HostEnv
begin

text \<open>
  The WASI host module: \<open>include/host/wasi/wasienv.h\<close>, \<open>wasibase.h\<close>, \<open>wasifunc.h\<close>, \<open>wasimodule.h\<close> and
  \<open>lib/host/wasi/\<close>. The environment of the module is the state \<open>HState\<close> of its host functions.

  The operating system is a parameter: the calls of POSIX that the sources make, and the constants of
  its headers, are the fields of \<open>posix\<close>, the parameter \<open>P\<close> of the definitions below. The state of the
  system, a value of the type \<open>'o\<close> that every call may change, is kept with the environment. A call
  that gets a buffer gets whether the pointer is not null; \<open>read\<close> returns its result and the bytes that
  it puts into the buffer, and \<open>write\<close> is given the bytes of the buffer. The constants of WASI are those of
  \<open>thirdparty/wasi/core.h\<close>.
\<close>

section \<open>POSIX and WASI\<close>

record 'o posix =
  O_RDONLY :: u32
  O_WRONLY :: u32
  O_RDWR :: u32
  O_ACCMODE :: u32
  O_CREAT :: u32
  O_DIRECTORY :: u32
  O_EXCL :: u32
  O_TRUNC :: u32
  O_APPEND :: u32
  O_DSYNC :: u32
  O_NONBLOCK :: u32
  O_RSYNC :: u32
  O_SYNC :: u32
  O_NOFOLLOW :: u32
  S_IFMT :: u32
  S_IFSOCK :: u32
  S_IFLNK :: u32
  S_IFREG :: u32
  S_IFBLK :: u32
  S_IFDIR :: u32
  S_IFCHR :: u32
  SEEK_SET :: u32
  SEEK_CUR :: u32
  SEEK_END :: u32
  sys_environ :: "'o \<Rightarrow> Bytes list \<times> 'o"
  sys_open :: "Bytes \<Rightarrow> u32 \<Rightarrow> u32 \<Rightarrow> 'o \<Rightarrow> u32 \<times> 'o"
  sys_close :: "u32 \<Rightarrow> 'o \<Rightarrow> u32 \<times> 'o"
  sys_fstat :: "u32 \<Rightarrow> 'o \<Rightarrow> u32 option \<times> 'o"
  sys_getfl :: "u32 \<Rightarrow> 'o \<Rightarrow> u32 \<times> 'o"
  sys_read :: "u32 \<Rightarrow> bool \<Rightarrow> u64 \<Rightarrow> 'o \<Rightarrow> (u64 \<times> Bytes) \<times> 'o"
  sys_write :: "u32 \<Rightarrow> Bytes option \<Rightarrow> u64 \<Rightarrow> 'o \<Rightarrow> u64 \<times> 'o"
  sys_lseek :: "u32 \<Rightarrow> u64 \<Rightarrow> u32 \<Rightarrow> 'o \<Rightarrow> u64 \<times> 'o"

section \<open>The environment\<close>

record PreStat =
  PFd :: u32
  PType :: u8
  PPath :: Bytes

text \<open>The member \<open>Status\<close> has no initial value.\<close>

record 'o WasiEnvironment =
  WStatus :: "u32 option"
  CmdArgs :: "Bytes list"
  PreStats :: "PreStat list"
  ExitCode :: u32
  System :: 'o

definition newWasiEnvironment :: "'o posix \<Rightarrow> 'o \<Rightarrow> 'o WasiEnvironment" where
  "newWasiEnvironment P os =
     (let (fd, os') = sys_open P [0x2E] (O_RDONLY P OR O_DIRECTORY P) 0 os
      in \<lparr>WStatus = None, CmdArgs = [], PreStats = [\<lparr>PFd = fd, PType = 0, PPath = [0x2E]\<rparr>], ExitCode = 0, System = os'\<rparr>)"

definition deleteWasiEnvironment :: "'o posix \<Rightarrow> 'o WasiEnvironment \<Rightarrow> 'o" where
  "deleteWasiEnvironment P env = fold (\<lambda>e os. snd (sys_close P (PFd e) os)) (PreStats env) (System env)"

definition clearEnv :: "'o WasiEnvironment \<Rightarrow> 'o WasiEnvironment" where
  "clearEnv env = env\<lparr>CmdArgs := []\<rparr>"

definition getStatus :: "'o WasiEnvironment \<Rightarrow> u32 Expect" where
  "getStatus env = (case WStatus env of None \<Rightarrow> Undef | Some s \<Rightarrow> Ok s)"

definition setStatus :: "u32 \<Rightarrow> 'o WasiEnvironment \<Rightarrow> 'o WasiEnvironment" where
  "setStatus s env = env\<lparr>WStatus := Some s\<rparr>"

definition setExitCode :: "u32 \<Rightarrow> 'o WasiEnvironment \<Rightarrow> 'o WasiEnvironment" where
  "setExitCode c env = env\<lparr>ExitCode := c\<rparr>"

type_synonym ('o, 'a) wasi = "('o WasiEnvironment, 'a) hostop"

definition onSystem :: "('o \<Rightarrow> 'a \<times> 'o) \<Rightarrow> ('o, 'a) wasi" where
  "onSystem f w = (let (x, os) = f (System (HState w)) in (Ok x, w\<lparr>HState := (HState w)\<lparr>System := os\<rparr>\<rparr>))"

text \<open>\<open>ErrNo = e; return ErrCode::Success;\<close>\<close>

definition errNo :: "u32 \<Rightarrow> ('o, ErrCode \<times> ValVariant) wasi" where
  "errNo e = retM (Success, V32 e)"

definition store32 :: "u32 \<Rightarrow> u32 \<Rightarrow> ('o, unit) wasi" where
  "store32 v off = onMemory (storeValue TU32 (ucast v) off 4)"

definition load32 :: "u32 \<Rightarrow> ('o, u32) wasi" where
  "load32 off = bindM (onMemory (loadValue TU32 0 off 4)) (\<lambda>v. retM (ucast v))"

section \<open>Arguments and environment variables\<close>

text \<open>The loop over the strings: their concatenation, and the table of their addresses.\<close>

fun storeTable :: "Bytes list \<Rightarrow> u32 \<Rightarrow> u32 \<Rightarrow> Bytes \<Rightarrow> ('o, u32 \<times> Bytes) wasi" where
  "storeTable [] ptr off buf = retM (ptr, buf)"
| "storeTable (s # ss) ptr off buf =
     seqM (store32 off ptr) (storeTable ss (ptr + 4) (off + of_nat (length s + 1)) (buf @ s @ [0]))"

definition storeStrings :: "Bytes list \<Rightarrow> u32 \<Rightarrow> u32 \<Rightarrow> ('o, ErrCode \<times> ValVariant) wasi" where
  "storeStrings ss ptr bufPtr =
     bindM (storeTable ss ptr bufPtr []) (\<lambda>(ptr', buf).
     seqM (store32 0 ptr')
    (seqM (onMemory (setBytes buf bufPtr 0 (of_nat (length buf)))) (errNo 0)))"

definition stringsSize :: "Bytes list \<Rightarrow> u32" where
  "stringsSize ss = fold (\<lambda>s n. n + of_nat (length s + 1)) ss 0"

definition WasiArgsGet :: "u32 \<Rightarrow> u32 \<Rightarrow> ('o, ErrCode \<times> ValVariant) wasi" where
  "WasiArgsGet argvPtr argvBufPtr = bindM (getEnv CmdArgs) (\<lambda>args. storeStrings args argvPtr argvBufPtr)"

definition WasiArgsSizesGet :: "u32 \<Rightarrow> u32 \<Rightarrow> ('o, ErrCode \<times> ValVariant) wasi" where
  "WasiArgsSizesGet argcPtr argvBufSizePtr =
     bindM (getEnv CmdArgs) (\<lambda>args.
     seqM (store32 (of_nat (length args)) argcPtr)
    (seqM (store32 (stringsSize args) argvBufSizePtr) (errNo 0)))"

definition WasiEnvironGet :: "'o posix \<Rightarrow> u32 \<Rightarrow> u32 \<Rightarrow> ('o, ErrCode \<times> ValVariant) wasi" where
  "WasiEnvironGet P envPtr envBufPtr = bindM (onSystem (sys_environ P)) (\<lambda>env. storeStrings env envPtr envBufPtr)"

text \<open>The branch for a failed first store is empty.\<close>

definition ignoreError :: "('o, unit) wasi \<Rightarrow> ('o, unit) wasi" where
  "ignoreError m w = (case m w of (Err _, w') \<Rightarrow> (Ok (), w') | (r, w') \<Rightarrow> (r, w'))"

definition WasiEnvironSizesGet :: "'o posix \<Rightarrow> u32 \<Rightarrow> u32 \<Rightarrow> ('o, ErrCode \<times> ValVariant) wasi" where
  "WasiEnvironSizesGet P envCntPtr envBufSizePtr =
     bindM (onSystem (sys_environ P)) (\<lambda>env.
     seqM (ignoreError (store32 (of_nat (length env)) envCntPtr))
    (seqM (store32 (stringsSize env) envBufSizePtr) (errNo 0)))"

section \<open>File descriptors\<close>

definition WasiFdClose :: "'o posix \<Rightarrow> u32 \<Rightarrow> ('o, ErrCode \<times> ValVariant) wasi" where
  "WasiFdClose P fd = bindM (onSystem (sys_close P fd)) (\<lambda>r. errNo (if r \<noteq> 0 then 1 else 0))"

definition fileType :: "'o posix \<Rightarrow> u32 \<Rightarrow> u8" where
  "fileType P mode = (let m = mode AND S_IFMT P in
     if m = S_IFSOCK P then 5
     else if m = S_IFLNK P then 7
     else if m = S_IFREG P then 4
     else if m = S_IFBLK P then 1
     else if m = S_IFDIR P then 3
     else if m = S_IFCHR P then 2
     else 0)"

definition fsFlags :: "'o posix \<Rightarrow> u32 \<Rightarrow> 16 word" where
  "fsFlags P fl =
     ucast (fl AND O_ACCMODE P) OR
     (if fl AND O_APPEND P \<noteq> 0 then 0x0001 else 0) OR
     (if fl AND O_DSYNC P \<noteq> 0 then 0x0002 else 0) OR
     (if fl AND O_NONBLOCK P \<noteq> 0 then 0x0004 else 0) OR
     (if fl AND O_SYNC P \<noteq> 0 then 0x0008 OR 0x0010 else 0)"

definition storeFdStat :: "u8 \<Rightarrow> 16 word \<Rightarrow> u64 \<Rightarrow> u64 \<Rightarrow> u32 \<Rightarrow> ('o, unit) wasi" where
  "storeFdStat ftype flags base inheriting ptr =
     seqM (onMemory (storeValue TU32 (ucast ftype) ptr 1))
    (seqM (onMemory (storeValue TU32 0 (ptr + 1) 1))
    (seqM (onMemory (storeValue TU32 (ucast flags) (ptr + 2) 2))
    (seqM (onMemory (storeValue TU32 0 (ptr + 4) 4))
    (seqM (onMemory (storeValue TU64 base (ptr + 8) 8))
          (onMemory (storeValue TU64 inheriting (ptr + 16) 8))))))"

definition WasiFdFdstatGet :: "'o posix \<Rightarrow> u32 \<Rightarrow> u32 \<Rightarrow> ('o, ErrCode \<times> ValVariant) wasi" where
  "WasiFdFdstatGet P fd fdStatPtr =
     bindM (onSystem (sys_fstat P fd)) (\<lambda>st. case st of
       None \<Rightarrow> errNo 1
     | Some mode \<Rightarrow>
         bindM (onSystem (sys_getfl P fd)) (\<lambda>fl.
         if sint fl < 0 then errNo 1
         else seqM (storeFdStat (fileType P mode) (fsFlags P fl) 0x1FFFFFFF 0x1FFFFFFF fdStatPtr) (errNo 0)))"

definition WasiFdFdstatSetFlags :: "u32 \<Rightarrow> u32 \<Rightarrow> ('o, ErrCode \<times> ValVariant) wasi" where
  "WasiFdFdstatSetFlags fd flags = errNo 0"

definition WasiFdPrestatDirName :: "u32 \<Rightarrow> u32 \<Rightarrow> u32 \<Rightarrow> ('o, ErrCode \<times> ValVariant) wasi" where
  "WasiFdPrestatDirName fd pathBufPtr pathLen =
     bindM (getEnv PreStats) (\<lambda>stats. case find (\<lambda>e. PFd e = fd) stats of
       None \<Rightarrow> errNo 8
     | Some e \<Rightarrow>
         if unat pathLen < length (PPath e) then errNo 28
         else seqM (onMemory (setBytes (PPath e) pathBufPtr 0 (of_nat (length (PPath e))))) (errNo 0))"

definition WasiFdPrestatGet :: "u32 \<Rightarrow> u32 \<Rightarrow> ('o, ErrCode \<times> ValVariant) wasi" where
  "WasiFdPrestatGet fd preStatPtr =
     bindM (getEnv PreStats) (\<lambda>stats. case find (\<lambda>e. PFd e = fd) stats of
       None \<Rightarrow> errNo 8
     | Some e \<Rightarrow>
         seqM (onMemory (storeValue TU32 (ucast (PType e)) preStatPtr 1))
        (seqM (onMemory (storeValue TU32 (of_nat (length (PPath e))) (preStatPtr + 4) 4)) (errNo 0)))"

text \<open>One call of \<open>read\<close> and of \<open>write\<close>; the results are converted to 32 bits. Bytes put past the end of the
  vector, or taken from there, are an access that is not defined.\<close>

definition readBuffer :: "'o posix \<Rightarrow> u32 \<Rightarrow> u32 \<Rightarrow> u32 \<Rightarrow> ('o, u32) wasi" where
  "readBuffer P fd bufPtr bufLen =
     bindM (onMemory (getPointer bufPtr)) (\<lambda>arr.
     bindM (onSystem (sys_read P fd (arr \<noteq> None) (ucast bufLen))) (\<lambda>(size, bs).
     seqM (case arr of None \<Rightarrow> if bs = [] then retM () else undefM | Some off \<Rightarrow> onMemory (copyM off bs))
          (retM (ucast size))))"

definition writeBuffer :: "'o posix \<Rightarrow> u32 \<Rightarrow> u32 \<Rightarrow> u32 \<Rightarrow> ('o, u32) wasi" where
  "writeBuffer P fd bufPtr bufLen =
     bindM (onMemory (getPointer bufPtr)) (\<lambda>arr.
     bindM (case arr of None \<Rightarrow> retM None
              | Some off \<Rightarrow> bindM (onMemory (sliceM off (unat bufLen))) (\<lambda>bs. retM (Some bs))) (\<lambda>buf.
     bindM (onSystem (sys_write P fd buf (ucast bufLen))) (\<lambda>size. retM (ucast size))))"

text \<open>The loop over the vector of buffers, the same for reading and writing.\<close>

fun ioLoop :: "(u32 \<Rightarrow> u32 \<Rightarrow> ('o, u32) wasi) \<Rightarrow> u32 \<Rightarrow> nat \<Rightarrow> u32 \<Rightarrow> u32 \<Rightarrow> ('o, ErrCode \<times> ValVariant) wasi" where
  "ioLoop transfer sizePtr 0 iovs n = seqM (store32 n sizePtr) (errNo 0)"
| "ioLoop transfer sizePtr (Suc k) iovs n =
     bindM (load32 iovs) (\<lambda>bufPtr.
     bindM (load32 (iovs + 4)) (\<lambda>bufLen.
     bindM (transfer bufPtr bufLen) (\<lambda>size.
     if size = - 1 then seqM (store32 n sizePtr) (errNo 1)
     else ioLoop transfer sizePtr k (iovs + 8) (n + size))))"

definition WasiFdRead :: "'o posix \<Rightarrow> u32 \<Rightarrow> u32 \<Rightarrow> u32 \<Rightarrow> u32 \<Rightarrow> ('o, ErrCode \<times> ValVariant) wasi" where
  "WasiFdRead P fd iovsPtr iovsCnt nReadPtr = ioLoop (readBuffer P fd) nReadPtr (unat iovsCnt) iovsPtr 0"

definition WasiFdWrite :: "'o posix \<Rightarrow> u32 \<Rightarrow> u32 \<Rightarrow> u32 \<Rightarrow> u32 \<Rightarrow> ('o, ErrCode \<times> ValVariant) wasi" where
  "WasiFdWrite P fd iovsPtr iovsCnt nWrittenPtr = ioLoop (writeBuffer P fd) nWrittenPtr (unat iovsCnt) iovsPtr 0"

definition seekWhence :: "'o posix \<Rightarrow> u32 \<Rightarrow> u32 option" where
  "seekWhence P whence =
     (if whence = 0 then Some (SEEK_CUR P)
      else if whence = 1 then Some (SEEK_END P)
      else if whence = 2 then Some (SEEK_SET P)
      else None)"

text \<open>The offset is an \<open>int32_t\<close>, extended for \<open>lseek\<close>.\<close>

definition WasiFdSeek :: "'o posix \<Rightarrow> u32 \<Rightarrow> u32 \<Rightarrow> u32 \<Rightarrow> u32 \<Rightarrow> ('o, ErrCode \<times> ValVariant) wasi" where
  "WasiFdSeek P fd offset whence newOffsetPtr = (case seekWhence P whence of
       None \<Rightarrow> errNo 28
     | Some wh \<Rightarrow>
         bindM (onSystem (sys_lseek P fd (scast offset) wh)) (\<lambda>newOffset.
         if newOffset = - 1 then errNo 1
         else seqM (onMemory (storeValue TU64 newOffset newOffsetPtr 8)) (errNo 0)))"

section \<open>Opening files\<close>

definition orIf :: "bool \<Rightarrow> u32 \<Rightarrow> u32 \<Rightarrow> u32" where
  "orIf b x flags = (if b then flags OR x else flags)"

definition accessMode :: "'o posix \<Rightarrow> u64 \<Rightarrow> u32" where
  "accessMode P rights =
     (let rd = rights AND (0x2 OR 0x4000) \<noteq> 0; wr = rights AND (0x1 OR 0x40 OR 0x100 OR 0x400000) \<noteq> 0
      in if wr then if rd then O_RDWR P else O_WRONLY P else O_RDONLY P)"

definition openFlags :: "'o posix \<Rightarrow> u32 \<Rightarrow> u32 \<Rightarrow> u64 \<Rightarrow> u32 \<Rightarrow> u32" where
  "openFlags P dirFlags oFlags rights flags =
     (let f0 = accessMode P rights;
          f1 = orIf (oFlags AND 0x0001 \<noteq> 0) (O_CREAT P) f0;
          f2 = orIf (oFlags AND 0x0002 \<noteq> 0) (O_DIRECTORY P) f1;
          f3 = orIf (oFlags AND 0x0004 \<noteq> 0) (O_EXCL P) f2;
          f4 = orIf (oFlags AND 0x0008 \<noteq> 0) (O_TRUNC P) f3;
          f5 = orIf (flags AND 0x0001 \<noteq> 0) (O_APPEND P) f4;
          f6 = orIf (flags AND 0x0002 \<noteq> 0) (O_DSYNC P) f5;
          f7 = orIf (flags AND 0x0004 \<noteq> 0) (O_NONBLOCK P) f6;
          f8 = orIf (flags AND 0x0008 \<noteq> 0) (O_RSYNC P) f7;
          f9 = orIf (flags AND 0x0010 \<noteq> 0) (O_SYNC P) f8
      in orIf (dirFlags AND 0x00000001 = 0) (O_NOFOLLOW P) f9)"

definition c_str :: "Bytes \<Rightarrow> Bytes" where
  "c_str bs = takeWhile (\<lambda>b. b \<noteq> 0) bs"

definition WasiPathOpen ::
  "'o posix \<Rightarrow> u32 \<Rightarrow> u32 \<Rightarrow> u32 \<Rightarrow> u32 \<Rightarrow> u32 \<Rightarrow> u64 \<Rightarrow> u64 \<Rightarrow> u32 \<Rightarrow> u32 \<Rightarrow> ('o, ErrCode \<times> ValVariant) wasi" where
  "WasiPathOpen P dirFd dirFlags pathPtr pathLen oFlags rightsBase rightsInheriting flags fdPtr =
     bindM (onMemory (getBytes pathPtr pathLen)) (\<lambda>path.
     bindM (onSystem (sys_open P (c_str path) (openFlags P dirFlags oFlags rightsBase flags) 0x1A4)) (\<lambda>fd.
     if fd = - 1 then errNo 1
     else seqM (store32 fd fdPtr) (errNo 0)))"

definition WasiProcExit :: "u32 \<Rightarrow> ('o, ErrCode \<times> ValVariant) wasi" where
  "WasiProcExit status = seqM (setEnv (setStatus status)) (retM (Terminated, V32 0))"

section \<open>The module\<close>

definition wasiFunc :: "ValType list \<Rightarrow> ValType list \<Rightarrow> (ValVariant list \<Rightarrow> ('o, ErrCode \<times> ValVariant) wasi) \<Rightarrow> 'o WasiEnvironment HostFunction" where
  "wasiFunc params returns body = \<lparr>HostType = \<lparr>Params = params, Returns = returns\<rparr>, HostCost = 0, HostBody = body\<rparr>"

definition WasiArgsGet_class :: "'o WasiEnvironment HostFunction" where
  "WasiArgsGet_class = wasiFunc [I32, I32] [I32] (\<lambda>v. WasiArgsGet (arg v 0) (arg v 1))"

definition WasiArgsSizesGet_class :: "'o WasiEnvironment HostFunction" where
  "WasiArgsSizesGet_class = wasiFunc [I32, I32] [I32] (\<lambda>v. WasiArgsSizesGet (arg v 0) (arg v 1))"

definition WasiEnvironGet_class :: "'o posix \<Rightarrow> 'o WasiEnvironment HostFunction" where
  "WasiEnvironGet_class P = wasiFunc [I32, I32] [I32] (\<lambda>v. WasiEnvironGet P (arg v 0) (arg v 1))"

definition WasiEnvironSizesGet_class :: "'o posix \<Rightarrow> 'o WasiEnvironment HostFunction" where
  "WasiEnvironSizesGet_class P = wasiFunc [I32, I32] [I32] (\<lambda>v. WasiEnvironSizesGet P (arg v 0) (arg v 1))"

definition WasiFdClose_class :: "'o posix \<Rightarrow> 'o WasiEnvironment HostFunction" where
  "WasiFdClose_class P = wasiFunc [I32] [I32] (\<lambda>v. WasiFdClose P (arg v 0))"

definition WasiFdFdstatGet_class :: "'o posix \<Rightarrow> 'o WasiEnvironment HostFunction" where
  "WasiFdFdstatGet_class P = wasiFunc [I32, I32] [I32] (\<lambda>v. WasiFdFdstatGet P (arg v 0) (arg v 1))"

definition WasiFdFdstatSetFlags_class :: "'o WasiEnvironment HostFunction" where
  "WasiFdFdstatSetFlags_class = wasiFunc [I32, I32] [I32] (\<lambda>v. WasiFdFdstatSetFlags (arg v 0) (arg v 1))"

definition WasiFdPrestatDirName_class :: "'o WasiEnvironment HostFunction" where
  "WasiFdPrestatDirName_class = wasiFunc [I32, I32, I32] [I32] (\<lambda>v. WasiFdPrestatDirName (arg v 0) (arg v 1) (arg v 2))"

definition WasiFdPrestatGet_class :: "'o WasiEnvironment HostFunction" where
  "WasiFdPrestatGet_class = wasiFunc [I32, I32] [I32] (\<lambda>v. WasiFdPrestatGet (arg v 0) (arg v 1))"

definition WasiFdRead_class :: "'o posix \<Rightarrow> 'o WasiEnvironment HostFunction" where
  "WasiFdRead_class P = wasiFunc [I32, I32, I32, I32] [I32] (\<lambda>v. WasiFdRead P (arg v 0) (arg v 1) (arg v 2) (arg v 3))"

definition WasiFdSeek_class :: "'o posix \<Rightarrow> 'o WasiEnvironment HostFunction" where
  "WasiFdSeek_class P = wasiFunc [I32, I32, I32, I32] [I32] (\<lambda>v. WasiFdSeek P (arg v 0) (arg v 1) (arg v 2) (arg v 3))"

definition WasiFdWrite_class :: "'o posix \<Rightarrow> 'o WasiEnvironment HostFunction" where
  "WasiFdWrite_class P = wasiFunc [I32, I32, I32, I32] [I32] (\<lambda>v. WasiFdWrite P (arg v 0) (arg v 1) (arg v 2) (arg v 3))"

definition WasiPathOpen_class :: "'o posix \<Rightarrow> 'o WasiEnvironment HostFunction" where
  "WasiPathOpen_class P = wasiFunc [I32, I32, I32, I32, I32, I64, I64, I32, I32] [I32]
     (\<lambda>v. arg64 v 5 (\<lambda>base. arg64 v 6 (\<lambda>inh.
        WasiPathOpen P (arg v 0) (arg v 1) (arg v 2) (arg v 3) (arg v 4) base inh (arg v 7) (arg v 8))))"

definition WasiProcExit_class :: "'o WasiEnvironment HostFunction" where
  "WasiProcExit_class = wasiFunc [I32] [] (\<lambda>v. WasiProcExit (arg v 0))"

definition wasiFunctions :: "'o posix \<Rightarrow> (string \<times> 'o WasiEnvironment HostFunction) list" where
  "wasiFunctions P = [
     (''args_get'', WasiArgsGet_class),
     (''args_sizes_get'', WasiArgsSizesGet_class),
     (''environ_get'', WasiEnvironGet_class P),
     (''environ_sizes_get'', WasiEnvironSizesGet_class P),
     (''fd_close'', WasiFdClose_class P),
     (''fd_fdstat_get'', WasiFdFdstatGet_class P),
     (''fd_fdstat_set_flags'', WasiFdFdstatSetFlags_class),
     (''fd_prestat_dir_name'', WasiFdPrestatDirName_class),
     (''fd_prestat_get'', WasiFdPrestatGet_class),
     (''fd_read'', WasiFdRead_class P),
     (''fd_seek'', WasiFdSeek_class P),
     (''fd_write'', WasiFdWrite_class P),
     (''path_open'', WasiPathOpen_class P),
     (''proc_exit'', WasiProcExit_class)]"

definition WasiModule :: "'o posix \<Rightarrow> 'o WasiEnvironment ImportObject" where
  "WasiModule P = fold (\<lambda>(name, f). addHostFunc (name_of name) f) (wasiFunctions P) (newImportObject (name_of ''wasi_unstable''))"

end
