(* ===== verification/WasiProps.thy ===== *)
theory WasiProps
  imports Wasi LinearMemory
begin

text \<open>
  What the WASI host functions put into the memory of the guest and what they take from it: the tables of
  strings, and the transfers of \<open>fd_read\<close> and \<open>fd_write\<close>.
\<close>

section \<open>Writing to the memory of the guest\<close>

text \<open>\<open>holds f off bs\<close>: the bytes from \<open>off\<close> on are \<open>bs\<close>.\<close>

definition holds :: "(nat \<Rightarrow> u8) \<Rightarrow> nat \<Rightarrow> Bytes \<Rightarrow> bool" where
  "holds f off bs \<longleftrightarrow> map f [off..<off + length bs] = bs"

lemma holds_iff: "holds f off bs \<longleftrightarrow> (\<forall>i < length bs. f (off + i) = bs ! i)"
  unfolding holds_def by (subst list_eq_iff_nth_eq) simp

lemma holds_append [simp]: "holds f off (xs @ ys) \<longleftrightarrow> holds f off xs \<and> holds f (off + length xs) ys"
proof -
  have "[off..<off + (length xs + length ys)] = [off..<off + length xs] @ [off + length xs..<off + length xs + length ys]"
    by (metis add.assoc le_add1 upt_add_eq_append)
  then show ?thesis by (auto simp: holds_def append_eq_append_conv)
qed

lemma holds_Nil [simp]: "holds f off []"
  by (simp add: holds_def)

lemma holds_Cons [simp]: "holds f off (x # xs) \<longleftrightarrow> f off = x \<and> holds f (Suc off) xs"
  using holds_append [of f off "[x]" xs] by (simp del: holds_append add: holds_def)

lemma patch_Nil [simp]: "patch off [] f = f"
  by (rule ext) (auto simp: patch_def)

lemma holds_patch [simp]: "holds (patch off bs f) off bs"
  by (simp add: holds_iff patch_def)

lemma holds_patch_other:
  assumes "off + length bs \<le> off' \<or> off' + length cs \<le> off"
  shows "holds (patch off bs f) off' cs \<longleftrightarrow> holds f off' cs"
proof -
  have "patch off bs f (off' + i) = f (off' + i)" if "i < length cs" for i using assms that by (auto simp: patch_def)
  then show ?thesis by (simp add: holds_iff)
qed

lemma patch_append: "patch (off + length xs) ys (patch off xs f) = patch off (xs @ ys) f"
  by (rule ext) (auto simp: patch_def nth_append)

text \<open>\<open>wrote w w' off bs\<close>: from \<open>w\<close> to \<open>w'\<close> the bytes \<open>bs\<close> were written to the memory and nothing else happened.\<close>

definition wrote :: "'h HostWorld \<Rightarrow> 'h HostWorld \<Rightarrow> nat \<Rightarrow> Bytes \<Rightarrow> bool" where
  "wrote w w' off bs \<longleftrightarrow> mem_ok (HMem w') \<and> msize (HMem w') = msize (HMem w) \<and>
     mbyte (HMem w') = patch off bs (mbyte (HMem w)) \<and> HState w' = HState w \<and> HMeasure w' = HMeasure w"

lemma wrote_append: "wrote w w1 off xs \<Longrightarrow> wrote w1 w2 (off + length xs) ys \<Longrightarrow> wrote w w2 off (xs @ ys)"
  by (simp add: wrote_def patch_append)

abbreviation bytes32 :: "u32 \<Rightarrow> Bytes" where
  "bytes32 v \<equiv> le_bytes 4 (ucast v :: u64)"

lemma store32_in:
  assumes "mem_ok (HMem w)" and "unat off + 4 \<le> msize (HMem w)"
  shows "\<exists>w'. store32 v off w = (Ok (), w') \<and> wrote w w' (unat off) (bytes32 v)"
  using storeValue_in [OF assms(1), of 4 TU32 off "ucast v"] assms(2)
  by (auto simp: store32_def onMemory_def wrote_def sizeof_def patch_def cong: if_cong)

lemma setBytes_wrote:
  assumes "mem_ok (HMem w)" and "length bs < 2 ^ 32" and "unat off + length bs \<le> msize (HMem w)"
  shows "\<exists>w'. onMemory (setBytes bs off 0 (of_nat (length bs))) w = (Ok (), w') \<and> wrote w w' (unat off) bs"
  using write_all_in [OF assms] by (auto simp: onMemory_def wrote_def patch_def)

lemma msize_less: "mem_ok m \<Longrightarrow> msize m < 2 ^ 32"
proof -
  assume "mem_ok m"
  then have "unat (CurrPage m) \<le> 59578" by (simp add: mem_ok_def word_le_nat_alt)
  then show "msize m < 2 ^ 32" by (simp add: msize_def)
qed

section \<open>Tables of strings\<close>

text \<open>A vector of C strings, such as \<open>argv\<close>: a table of addresses that ends with null, and the strings in a row.\<close>

definition word_at :: "MemoryInstance \<Rightarrow> u32 \<Rightarrow> u32 \<Rightarrow> bool" where
  "word_at m p v \<longleftrightarrow> holds (mbyte m) (unat p) (bytes32 v)"

definition string_at :: "MemoryInstance \<Rightarrow> u32 \<Rightarrow> Bytes \<Rightarrow> bool" where
  "string_at m a s \<longleftrightarrow> holds (mbyte m) (unat a) (s @ [0])"

fun strings_at :: "MemoryInstance \<Rightarrow> u32 \<Rightarrow> u32 \<Rightarrow> Bytes list \<Rightarrow> bool" where
  "strings_at m p a [] = word_at m p 0"
| "strings_at m p a (s # ss) = (word_at m p a \<and> string_at m a s \<and> strings_at m (p + 4) (a + of_nat (length s + 1)) ss)"

fun table_bytes :: "Bytes list \<Rightarrow> u32 \<Rightarrow> Bytes" where
  "table_bytes [] a = []"
| "table_bytes (s # ss) a = bytes32 a @ table_bytes ss (a + of_nat (length s + 1))"

definition strings_bytes :: "Bytes list \<Rightarrow> Bytes" where
  "strings_bytes ss = concat (map (\<lambda>s. s @ [0]) ss)"

lemma length_table_bytes [simp]: "length (table_bytes ss a) = 4 * length ss"
  by (induction ss arbitrary: a) auto

lemma strings_bytes_simps [simp]:
  "strings_bytes [] = []" "strings_bytes (s # ss) = s @ [0] @ strings_bytes ss"
  by (simp_all add: strings_bytes_def)

lemma unat_add_small: "unat p + n < 2 ^ 32 \<Longrightarrow> unat (p + of_nat n :: u32) = unat p + n"
  by (simp add: unat_of_nat_less unat_word_ariths(1))

lemma storeTable_in:
  assumes "mem_ok (HMem w)" and "unat p + 4 * length ss \<le> msize (HMem w)"
  shows "\<exists>w'. storeTable ss p a buf w = (Ok (p + of_nat (4 * length ss), buf @ strings_bytes ss), w') \<and>
    wrote w w' (unat p) (table_bytes ss a)"
  using assms
proof (induction ss arbitrary: w p a buf)
  case Nil
  then show ?case by (simp add: retM_def wrote_def)
next
  case (Cons s ss)
  obtain w1 where w1: "store32 a p w = (Ok (), w1)" "wrote w w1 (unat p) (bytes32 a)"
    using store32_in [of w p a] Cons.prems by auto
  have p: "ss \<noteq> [] \<Longrightarrow> unat (p + 4) = unat p + 4" using unat_add_small [of p 4] Cons.prems msize_less [of "HMem w"] by (cases ss) auto
  have m1: "mem_ok (HMem w1)" "msize (HMem w1) = msize (HMem w)" using w1(2) by (auto simp: wrote_def)
  show ?case
  proof (cases "ss = []")
    case True
    then show ?thesis using w1 by (simp add: seqM_simps retM_def)
  next
    case False
    then obtain w2 where "storeTable ss (p + 4) (a + of_nat (length s + 1)) (buf @ s @ [0]) w1 =
        (Ok (p + 4 + of_nat (4 * length ss), (buf @ s @ [0]) @ strings_bytes ss), w2)"
        "wrote w1 w2 (unat (p + 4)) (table_bytes ss (a + of_nat (length s + 1)))"
      using Cons.IH [of w1 "p + 4"] Cons.prems m1 p by fastforce
    then show ?thesis using w1 p False wrote_append [OF w1(2)] by (simp add: seqM_simps algebra_simps)
  qed
qed

lemma strings_at_holds:
  assumes "holds (mbyte m) (unat p) (table_bytes ss a @ bytes32 0)" and "holds (mbyte m) (unat a) (strings_bytes ss)"
    and "unat p + 4 * length ss < 2 ^ 32" and "unat a + length (strings_bytes ss) < 2 ^ 32"
  shows "strings_at m p a ss"
  using assms
proof (induction ss arbitrary: p a)
  case Nil
  then show ?case by (simp add: word_at_def)
next
  case (Cons s ss)
  have u: "unat (p + 4) = unat p + 4" "unat (a + of_nat (length s + 1)) = unat a + (length s + 1)"
    using unat_add_small [of p 4] unat_add_small [of a "length s + 1"] Cons.prems(3,4) by auto
  show ?case
    using Cons.prems Cons.IH [of "p + 4" "a + of_nat (length s + 1)"] u
    by (simp add: word_at_def string_at_def ac_simps)
qed

lemma stringsSize_eq: "stringsSize ss = of_nat (length (strings_bytes ss))"
proof -
  have "fold (\<lambda>s n. n + of_nat (length s + 1)) ss n = n + (of_nat (length (strings_bytes ss)) :: u32)" for n
    by (induction ss arbitrary: n) (auto simp: algebra_simps)
  then show ?thesis by (simp add: stringsSize_def)
qed

lemma storeStrings_in:
  assumes m: "mem_ok (HMem w)" and p: "unat p + 4 * length ss + 4 \<le> msize (HMem w)"
    and b: "unat b + length (strings_bytes ss) \<le> msize (HMem w)"
    and dis: "unat p + 4 * length ss + 4 \<le> unat b \<or> unat b + length (strings_bytes ss) \<le> unat p"
  shows "\<exists>w'. storeStrings ss p b w = (Ok (Success, V32 0), w') \<and> strings_at (HMem w') p b ss \<and> HState w' = HState w \<and>
    mbyte (HMem w') = patch (unat b) (strings_bytes ss) (patch (unat p) (table_bytes ss b @ bytes32 0) (mbyte (HMem w)))"
proof -
  note small = msize_less [OF m]
  obtain w1 where w1: "storeTable ss p b [] w = (Ok (p + of_nat (4 * length ss), strings_bytes ss), w1)"
      "wrote w w1 (unat p) (table_bytes ss b)"
    using storeTable_in [of w p ss b "[]"] m p by auto
  have u: "unat (p + of_nat (4 * length ss)) = unat p + 4 * length ss" using unat_add_small [of p "4 * length ss"] p small by simp
  obtain w2 where w2: "store32 0 (p + of_nat (4 * length ss)) w1 = (Ok (), w2)" "wrote w1 w2 (unat p + 4 * length ss) (bytes32 0)"
    using store32_in [of w1 "p + of_nat (4 * length ss)" 0] w1(2) p u by (auto simp: wrote_def)
  have w02: "wrote w w2 (unat p) (table_bytes ss b @ bytes32 0)" using wrote_append [OF w1(2)] w2(2) by simp
  obtain w3 where w3: "onMemory (setBytes (strings_bytes ss) b 0 (of_nat (length (strings_bytes ss)))) w2 = (Ok (), w3)"
      "wrote w2 w3 (unat b) (strings_bytes ss)"
    using setBytes_wrote [of w2 "strings_bytes ss" b] w02 b small by (auto simp: wrote_def)
  have f: "mbyte (HMem w3) = patch (unat b) (strings_bytes ss) (patch (unat p) (table_bytes ss b @ bytes32 0) (mbyte (HMem w)))"
    using w02 w3(2) by (simp add: wrote_def)
  have t: "holds (mbyte (HMem w3)) (unat p) (table_bytes ss b @ bytes32 0)"
    unfolding f using dis by (subst holds_patch_other) (auto simp: algebra_simps simp del: holds_append)
  have "holds (mbyte (HMem w3)) (unat b) (strings_bytes ss)" by (simp add: f)
  from strings_at_holds [OF t this] have "strings_at (HMem w3) p b ss" using p b small by linarith
  moreover have "storeStrings ss p b w = (Ok (Success, V32 0), w3)"
    using w1(1) w2(1) w3(1) by (simp add: storeStrings_def bindM_simps seqM_simps errNo_def retM_def)
  moreover have "HState w3 = HState w" using w02 w3(2) by (simp add: wrote_def)
  ultimately show ?thesis using f by blast
qed

text \<open>A system for examples, with the constants of Linux, that records what is written and has nothing to read, and
  guests with a page of memory; the second has a vector of one buffer, the third of a buffer it has not
  touched.\<close>

definition recorder :: "Bytes list posix" where
  "recorder = \<lparr>O_RDONLY = 0, O_WRONLY = 1, O_RDWR = 2, O_ACCMODE = 3, O_CREAT = 0x40, O_DIRECTORY = 0x10000, O_EXCL = 0x80,
     O_TRUNC = 0x200, O_APPEND = 0x400, O_DSYNC = 0x1000, O_NONBLOCK = 0x800, O_RSYNC = 0x101000, O_SYNC = 0x101000,
     O_NOFOLLOW = 0x20000, S_IFMT = 0xF000, S_IFSOCK = 0xC000, S_IFLNK = 0xA000, S_IFREG = 0x8000, S_IFBLK = 0x6000,
     S_IFDIR = 0x4000, S_IFCHR = 0x2000, SEEK_SET = 0, SEEK_CUR = 1, SEEK_END = 2,
     sys_environ = (\<lambda>os. ([], os)), sys_open = (\<lambda>_ _ _ os. (3, os)), sys_close = (\<lambda>_ os. (0, os)),
     sys_fstat = (\<lambda>_ os. (Some 0x2000, os)), sys_getfl = (\<lambda>_ os. (1, os)),
     sys_read = (\<lambda>_ ok _ os. ((if ok then 0 else - 1, []), os)),
     sys_write = (\<lambda>_ buf n os. (n, case buf of None \<Rightarrow> os | Some bs \<Rightarrow> os @ [bs])),
     sys_lseek = (\<lambda>_ _ _ os. (- 1, os))\<rparr>"

definition guestWith :: "Bytes \<Rightarrow> Bytes list WasiEnvironment HostWorld" where
  "guestWith bs = \<lparr>HMem = (newMemory (HasMin 1))\<lparr>Data := bs\<rparr>, HMeasure = None,
     HState = \<lparr>WStatus = None, CmdArgs = [[0x61, 0x62], []], PreStats = [], ExitCode = 0, System = []\<rparr>\<rparr>"

text \<open>C20. \<open>args_get\<close> gives the guest its arguments: where the two buffers have the sizes that \<open>args_sizes_get\<close>
  reports and do not overlap, the first holds the addresses of the strings and a null at the end, the
  second the strings in order, each with a null byte at its end; nothing else in the memory changes.\<close>

theorem args_get_layout:
  assumes "mem_ok (HMem w)" and "CmdArgs (HState w) = args" and "unat p + 4 * (length args + 1) \<le> msize (HMem w)"
    and "unat b + length (strings_bytes args) \<le> msize (HMem w)"
    and "unat p + 4 * (length args + 1) \<le> unat b \<or> unat b + length (strings_bytes args) \<le> unat p"
  shows "stringsSize args = of_nat (length (strings_bytes args)) \<and>
    (\<exists>w'. WasiArgsGet p b w = (Ok (Success, V32 0), w') \<and> strings_at (HMem w') p b args \<and>
      (\<forall>i. (i < unat p \<or> unat p + 4 * (length args + 1) \<le> i) \<and> (i < unat b \<or> unat b + length (strings_bytes args) \<le> i) \<longrightarrow>
         mbyte (HMem w') i = mbyte (HMem w) i))"
proof -
  obtain w' where "storeStrings args p b w = (Ok (Success, V32 0), w')" "strings_at (HMem w') p b args"
    "mbyte (HMem w') = patch (unat b) (strings_bytes args) (patch (unat p) (table_bytes args b @ bytes32 0) (mbyte (HMem w)))"
    using storeStrings_in [of w p args b] assms by auto
  then show ?thesis using assms(2) by (auto simp: stringsSize_eq WasiArgsGet_def getEnv_def bindM_simps patch_def)
qed

theorem args_get_layout_witness:
  "\<exists>w'. WasiArgsGet 16 64 (guestWith []) = (Ok (Success, V32 0), w') \<and> strings_at (HMem w') 16 64 [[0x61, 0x62], []]"
proof -
  have "mem_ok (HMem (guestWith []))" "CmdArgs (HState (guestWith [])) = [[0x61, 0x62], []]" "msize (HMem (guestWith [])) = 65536"
    by (simp_all add: guestWith_def newMemory_def mem_ok_def msize_def)
  then show ?thesis using args_get_layout [of "guestWith []" "[[0x61, 0x62], []]" 16 64] by auto
qed

section \<open>Vectors of buffers\<close>

fun iovs_at :: "MemoryInstance \<Rightarrow> u32 \<Rightarrow> (u32 \<times> u32) list \<Rightarrow> bool" where
  "iovs_at m p [] = True"
| "iovs_at m p ((a, n) # vs) = (word_at m p a \<and> word_at m (p + 4) n \<and> iovs_at m (p + 8) vs)"

text \<open>\<open>reads w w'\<close>: the guest sees no difference; the vector behind its memory may have grown.\<close>

definition reads :: "'h HostWorld \<Rightarrow> 'h HostWorld \<Rightarrow> bool" where
  "reads w w' \<longleftrightarrow> mem_ok (HMem w') \<and> msize (HMem w') = msize (HMem w) \<and> mbyte (HMem w') = mbyte (HMem w) \<and>
     length (Data (HMem w)) \<le> length (Data (HMem w')) \<and> HState w' = HState w \<and> HMeasure w' = HMeasure w"

lemma checkDataSize_grows:
  assumes "mem_ok m" and "checkDataSize off len m = (b, m')"
  shows "length (Data m) \<le> length (Data m')"
proof (cases "b \<and> length (Data m) < unat (off + len)")
  case True
  then have "unat (off + len) \<le> unat off + unat len" using unat_plus_if_size by (simp add: unat_word_ariths(1))
  then show ?thesis using True checkDataSize_spec [OF assms] by auto
next
  case False
  then show ?thesis using assms(2) by (auto simp: checkDataSize_def Let_def split: if_splits)
qed

lemma checkDataSize_allocated:
  assumes "mem_ok m" and "unat off + unat len \<le> length (Data m)"
  shows "checkDataSize off len m = (True, m)"
proof -
  have "unat (off + len) \<le> unat off + unat len" by (simp add: unat_word_ariths(1))
  then show ?thesis using assms by (auto simp: checkDataSize_def mem_ok_def msize_def)
qed

lemma loadValue_state:
  "loadValue t old off len m = (r, m') \<Longrightarrow> m' = m \<or> m' = snd (checkDataSize off len m)"
  by (auto simp: loadValue_def guarded_def sliceM_def bindM_def retM_def errM_def split_beta Let_def split: if_splits prod.splits bool.splits)

lemma load_bits_bytes32: "load_bits TU32 4 (le_word (bytes32 v)) = ucast v"
  by (simp add: load_bits_def isSigned_def sizeof_def le_word_le_bytes)
    (rule bit_word_eqI, auto simp: bit_simps dest: bit_imp_le_length)

lemma ucast_up_down [simp]: "ucast (ucast (v :: u32) :: u64) = v"
  by (rule bit_word_eqI) (auto simp: bit_simps)

lemma load32_at:
  assumes "mem_ok (HMem w)" and "word_at (HMem w) p v" and "unat p + 4 \<le> msize (HMem w)"
  shows "\<exists>w'. load32 p w = (Ok v, w') \<and> reads w w' \<and> (unat p + 4 \<le> length (Data (HMem w)) \<longrightarrow> w' = w)"
proof -
  have bs: "map (mbyte (HMem w)) [unat p..<unat p + 4] = bytes32 v" using assms(2) by (simp add: word_at_def holds_def)
  obtain m' where m': "loadValue TU32 0 p 4 (HMem w) = (Ok (ucast v), m')" "mem_ok m'" "same_mem (HMem w) m'"
    using loadValue_in [OF assms(1), of TU32 4 p 0] assms(3) by (auto simp: isFloat_def sizeof_def bs load_bits_bytes32)
  have "length (Data (HMem w)) \<le> length (Data m')" "unat p + 4 \<le> length (Data (HMem w)) \<longrightarrow> m' = HMem w"
    using loadValue_state [OF m'(1)] checkDataSize_grows [OF assms(1), of p 4] checkDataSize_allocated [OF assms(1), of p 4]
    by (auto simp: prod_eq_iff)
  then show ?thesis using m'
    by (auto simp: load32_def onMemory_def bindM_simps retM_def reads_def same_mem_def msize_def)
qed

lemma word_at_reads: "reads w w' \<Longrightarrow> word_at (HMem w') p v = word_at (HMem w) p v"
  by (simp add: word_at_def reads_def)

lemma iovs_at_reads: "reads w w' \<Longrightarrow> iovs_at (HMem w') p vs = iovs_at (HMem w) p vs"
  by (induction vs arbitrary: p) (auto simp: word_at_reads)

text \<open>A system that takes what it is given: \<open>put bs\<close> is the effect of writing \<open>bs\<close> to the descriptor.\<close>

definition takes_all :: "'o posix \<Rightarrow> u32 \<Rightarrow> (Bytes \<Rightarrow> 'o \<Rightarrow> 'o) \<Rightarrow> bool" where
  "takes_all P fd put \<longleftrightarrow> (\<forall>bs os. sys_write P fd (Some bs) (of_nat (length bs)) os = (of_nat (length bs), put bs os))"

definition buffer :: "MemoryInstance \<Rightarrow> u32 \<times> u32 \<Rightarrow> Bytes" where
  "buffer m v = map (mbyte m) [unat (fst v)..<unat (fst v) + unat (snd v)]"

definition allocated :: "MemoryInstance \<Rightarrow> u32 \<times> u32 \<Rightarrow> bool" where
  "allocated m v \<longleftrightarrow> unat (fst v) < length (Data m) \<and> unat (fst v) + unat (snd v) \<le> length (Data m)"

lemma writeBuffer_allocated:
  assumes "takes_all P fd put" and "mem_ok (HMem w)" and "allocated (HMem w) (a, n)"
  shows "writeBuffer P fd a n w =
    (Ok n, w\<lparr>HState := (HState w)\<lparr>System := put (buffer (HMem w) (a, n)) (System (HState w))\<rparr>\<rparr>)"
proof -
  let ?bs = "buffer (HMem w) (a, n)"
  have "sliceM (unat a) (unat n) (HMem w) = (Ok ?bs, HMem w)"
    using sliceM_in [of "HMem w" "HMem w" "unat a" "unat n"] assms(2,3) by (simp add: allocated_def buffer_def same_mem_def)
  moreover have "sys_write P fd (Some ?bs) (ucast n) os = (ucast n, put ?bs os)" for os
    using assms(1) [unfolded takes_all_def, rule_format, of ?bs os] by (simp add: buffer_def)
  ultimately show ?thesis using assms(3)
    by (simp add: writeBuffer_def onMemory_def getPointer_def onSystem_def bindM_simps retM_def allocated_def)
qed

lemma reads_trans: "reads w w1 \<Longrightarrow> reads w1 w2 \<Longrightarrow> reads w w2"
  by (auto simp: reads_def)

lemma allocated_reads: "reads w w' \<Longrightarrow> allocated (HMem w) v \<Longrightarrow> allocated (HMem w') v"
  by (auto simp: allocated_def reads_def)

lemma buffer_reads: "reads w w' \<Longrightarrow> buffer (HMem w') = buffer (HMem w)"
  by (auto simp: buffer_def reads_def)

lemma allocated_size: "mem_ok m \<Longrightarrow> allocated m (a, k) \<Longrightarrow> k \<noteq> - 1"
proof -
  assume "mem_ok m" "allocated m (a, k)"
  moreover have "unat (CurrPage m) \<le> 59578" using \<open>mem_ok m\<close> by (simp add: mem_ok_def word_le_nat_alt)
  ultimately have "unat k < 2 ^ 32 - 1" by (simp add: allocated_def mem_ok_def msize_def)
  moreover have "unat (- 1 :: u32) = 2 ^ 32 - 1" by (simp add: unsigned_minus_1_eq_mask mask_eq_exp_minus_1)
  ultimately show "k \<noteq> - 1" by auto
qed

text \<open>The first entry of a vector of buffers, as the loop reads it.\<close>

lemma load_entry:
  assumes "mem_ok (HMem w)" and "iovs_at (HMem w) p ((a, k) # vs)" and "unat p + 8 \<le> msize (HMem w)"
  shows "\<exists>w1 w2. load32 p w = (Ok a, w1) \<and> load32 (p + 4) w1 = (Ok k, w2) \<and> reads w w2 \<and> unat (p + 8) = unat p + 8"
proof -
  have u: "unat (p + 4) = unat p + 4" "unat (p + 8) = unat p + 8"
    using unat_add_small [of p 4] unat_add_small [of p 8] assms(3) msize_less [OF assms(1)] by auto
  obtain w1 where w1: "load32 p w = (Ok a, w1)" "reads w w1" using load32_at [OF assms(1), of p a] assms(2,3) by auto
  obtain w2 where w2: "load32 (p + 4) w1 = (Ok k, w2)" "reads w1 w2"
    using load32_at [of w1 "p + 4" k] w1(2) word_at_reads [OF w1(2)] assms(2,3) u by (auto simp: reads_def)
  show ?thesis using w1 w2 u reads_trans by blast
qed

lemma ioLoop_write:
  assumes "takes_all P fd put" and "mem_ok (HMem w)" and "iovs_at (HMem w) p vs" and "unat p + 8 * length vs \<le> msize (HMem w)"
    and "list_all (allocated (HMem w)) vs" and "unat q + 4 \<le> msize (HMem w)"
  shows "\<exists>w'. ioLoop (writeBuffer P fd) q (length vs) p n w = (Ok (Success, V32 0), w') \<and>
    System (HState w') = fold put (map (buffer (HMem w)) vs) (System (HState w)) \<and> word_at (HMem w') q (n + sum_list (map snd vs))"
  using assms(2-)
proof (induction vs arbitrary: w p n)
  case Nil
  obtain w' where w': "store32 n q w = (Ok (), w')" "wrote w w' (unat q) (bytes32 n)" using store32_in Nil.prems by blast
  then have "word_at (HMem w') q n" by (simp add: wrote_def word_at_def)
  then show ?case using w' by (auto simp: seqM_simps errNo_def retM_def wrote_def)
next
  case (Cons v vs)
  obtain a k where v: "v = (a, k)" by (cases v)
  obtain w1 w2 where l: "load32 p w = (Ok a, w1)" "load32 (p + 4) w1 = (Ok k, w2)" and r: "reads w w2" and u: "unat (p + 8) = unat p + 8"
    using load_entry [of w p a k vs] Cons.prems v by auto
  let ?w3 = "w2\<lparr>HState := (HState w2)\<lparr>System := put (buffer (HMem w2) (a, k)) (System (HState w2))\<rparr>\<rparr>"
  have al: "allocated (HMem w2) (a, k)" using Cons.prems(4) v allocated_reads [OF r] by simp
  have b: "writeBuffer P fd a k w2 = (Ok k, ?w3)" using writeBuffer_allocated [OF assms(1) _ al] r by (simp add: reads_def)
  have "list_all (allocated (HMem w2)) vs" using Cons.prems(4) allocated_reads [OF r] by (auto simp: list_all_iff)
  then obtain w' where "ioLoop (writeBuffer P fd) q (length vs) (p + 8) (n + k) ?w3 = (Ok (Success, V32 0), w')"
    "System (HState w') = fold put (map (buffer (HMem ?w3)) vs) (System (HState ?w3))" "word_at (HMem w') q (n + k + sum_list (map snd vs))"
    using Cons.IH [of ?w3 "p + 8" "n + k"] Cons.prems v r u iovs_at_reads [OF r] by (auto simp: reads_def)
  then show ?case using l b v allocated_size [OF _ al] r buffer_reads [OF r]
    by (auto simp: bindM_simps reads_def add.assoc)
qed



text \<open>C37. \<open>fd_read\<close> fails on memory that the guest has but has not touched: where a buffer lies in the memory and past
  the end of the vector behind it, the system gets a null pointer, for which it reports an error; the
  guest gets an error code and no bytes.\<close>

theorem fd_read_untouched:
  assumes "mem_ok (HMem w)" and "iovs_at (HMem w) p [(a, k)]" and "unat p + 8 \<le> length (Data (HMem w))"
    and "length (Data (HMem w)) \<le> unat a" and "unat a + unat k \<le> msize (HMem w)" and "unat q + 4 \<le> msize (HMem w)"
    and "\<And>os. sys_read P fd False (ucast k) os = ((- 1, []), os)"
  shows "\<exists>w'. WasiFdRead P fd p 1 q w = (Ok (Success, V32 1), w') \<and> word_at (HMem w') q 0 \<and> HState w' = HState w"
proof -
  have sz: "unat p + 8 \<le> msize (HMem w)" using assms(1,3) by (simp add: mem_ok_def)
  have u: "unat (p + 4) = unat p + 4" using unat_add_small [of p 4] sz msize_less [OF assms(1)] by auto
  have l: "load32 p w = (Ok a, w)" "load32 (p + 4) w = (Ok k, w)"
    using load32_at [OF assms(1), of p a] load32_at [OF assms(1), of "p + 4" k] assms(2,3) sz u by auto
  have "ucast (- 1 :: u64) = (- 1 :: u32)" by (rule bit_word_eqI) (simp add: bit_simps)
  then have "readBuffer P fd a k w = (Ok (- 1), w)"
    using assms(4,7) by (simp add: readBuffer_def onMemory_def getPointer_def onSystem_def bindM_simps seqM_simps retM_def)
  moreover obtain w' where w': "store32 0 q w = (Ok (), w')" "wrote w w' (unat q) (bytes32 0)" using store32_in assms(1,6) by blast
  moreover have "word_at (HMem w') q 0" using w'(2) by (simp add: wrote_def word_at_def)
  ultimately show ?thesis using l by (auto simp: WasiFdRead_def bindM_simps seqM_simps errNo_def retM_def wrote_def)
qed

theorem fd_read_untouched_witness:
  "\<exists>w'. WasiFdRead recorder 0 0 1 8 (guestWith [16, 0, 0, 0, 2, 0, 0, 0]) = (Ok (Success, V32 1), w') \<and> word_at (HMem w') 8 0"
proof -
  let ?w = "guestWith [16, 0, 0, 0, 2, 0, 0, 0]"
  have m: "mem_ok (HMem ?w)" "msize (HMem ?w) = 65536" by (simp_all add: guestWith_def newMemory_def mem_ok_def msize_def)
  have le: "le_bytes 4 (16 :: u64) = [16, 0, 0, 0]" "le_bytes 4 (2 :: u64) = [2, 0, 0, 0]" by code_simp+
  have "iovs_at (HMem ?w) 0 [(16, 2)]" by (simp add: word_at_def le guestWith_def mbyte_def)
  moreover have "sys_read recorder 0 False (ucast (2 :: u32)) os = ((- 1, []), os)" for os by (simp add: recorder_def)
  ultimately show ?thesis using fd_read_untouched [OF m(1), of 0 16 2 8 recorder 0] m(2) by (auto simp: guestWith_def)
qed

end
