(* ===== verification/HostRuns.thy ===== *)
theory HostRuns
  imports InstantiateProps
begin

text \<open>
  What host functions keep, runs of the machine keep. The measurement and the state of the host are
  changed in two places only: by the charges for instructions and host calls, and by the bodies of host
  functions. An invariant of the two that charges and the host functions of the store keep is kept by
  every instruction, by instantiation and by \<open>invoke\<close>, however they end.
\<close>

section \<open>Operations that touch neither the measurement nor the host\<close>

definition quiet :: "('h, 'a) interp \<Rightarrow> bool" where
  "quiet m \<longleftrightarrow> (\<forall>st. Meter (snd (m st)) = Meter st \<and> Host (snd (m st)) = Host st)"

named_theorems quiet_intros "operations that touch neither the measurement nor the host"

lemma quietI: "(\<And>st. Meter (snd (m st)) = Meter st \<and> Host (snd (m st)) = Host st) \<Longrightarrow> quiet m"
  by (simp add: quiet_def)

lemma quietD: "quiet m \<Longrightarrow> Meter (snd (m st)) = Meter st \<and> Host (snd (m st)) = Host st"
  by (simp add: quiet_def)

lemma quiet_bindM [quiet_intros]: "quiet m \<Longrightarrow> (\<And>x. quiet (f x)) \<Longrightarrow> quiet (bindM m f)"
  unfolding quiet_def bindM_def by (auto split: prod.split outcome.split) (metis snd_conv)+

lemma quiet_seqM [quiet_intros]: "quiet m \<Longrightarrow> quiet n \<Longrightarrow> quiet (seqM m n)"
  unfolding seqM_def by (rule quiet_bindM)

lemma quiet_basic [quiet_intros]:
  "quiet (retM x)" "quiet (errM e)" "quiet undefM" "quiet (liftM r)" "quiet (getsM f)"
  by (simp_all add: quiet_def getsM_def monad_simps)

lemma quiet_if [quiet_intros]: "quiet m \<Longrightarrow> quiet n \<Longrightarrow> quiet (if b then m else n)"
  by simp

lemma quiet_machine [quiet_intros]: "quiet (onStack s)" "quiet (onPdr p)" "quiet (onMem a me)" "quiet (onStore so)"
  by (rule quietI; simp add: onStack_def onPdr_def onMem_def onStore_def split_beta)+

lemma quiet_instances [quiet_intros]:
  "quiet currentModule" "quiet (getTabInstByIdx i)" "quiet (getMemInstByIdx i)" "quiet (getGlobInstByIdx i)"
  unfolding getTabInstByIdx_def getMemInstByIdx_def getGlobInstByIdx_def currentModule_def
  by (intro quiet_intros)+

lemma quiet_variable [quiet_intros]: "quiet (executeVariable c i)"
proof -
  have "quiet (\<lambda>st. onStack (push (GValue (globAt (Store st) a))) st)" for a
    by (rule quietI) (simp add: onStack_def push_def)
  moreover have "quiet (modifyM (\<lambda>st. st\<lparr>Store := setGlob a ((globAt (Store st) a)\<lparr>GValue := v\<rparr>) (Store st)\<rparr>))" for a v
    by (rule quietI) (simp add: modifyM_def)
  ultimately show ?thesis
    by (cases c) (auto simp: runLocalGetOp_def runLocalSetOp_def runLocalTeeOp_def runGlobalGetOp_def runGlobalSetOp_def intro!: quiet_intros)
qed

lemma quiet_memory [quiet_intros]: "quiet (executeMemory c off)"
proof -
  have "quiet (runMemorySizeOp mem)" for mem
    by (rule quietI) (simp add: runMemorySizeOp_def onStack_def push_def)
  moreover have "quiet (runMemoryGrowOp mem)" for mem
    unfolding runMemoryGrowOp_def
    by (intro quiet_intros, rule quietI) (simp add: Let_def split_beta quietD [OF quiet_machine(1)] quietD [OF quiet_machine(3)])
  moreover have "quiet (runLoadOp t mem off b)" "quiet (runStoreOp t mem off b)" for t mem b
    unfolding runLoadOp_def runStoreOp_def by (intro quiet_intros)+
  ultimately have "quiet (memoryOp c mem off)" for mem by (cases c) simp_all
  then show ?thesis unfolding executeMemory_def by (intro quiet_intros)
qed

lemma quiet_numeric [quiet_intros]:
  "quiet (executeUnary F u)" "quiet (executeBinary F b)" "quiet (executeConst v)" "quiet (executeParametric p)"
proof -
  show "quiet (executeParametric p)" by (cases p) (auto intro!: quiet_intros)
qed (unfold executeUnary_def executeBinary_def executeConst_def, (intro quiet_intros)+)

lemma quiet_blocks [quiet_intros]: "quiet (enterBlock k i body)" "quiet leaveBlock" "quiet leaveFunction"
  unfolding enterBlock_def leaveBlock_def leaveFunction_def by (intro quiet_intros)+

lemma quiet_branch [quiet_intros]: "quiet (runLoopOp i)" "quiet (runBlockOp i)" "quiet (branchToLabel n)"
proof -
  show l: "quiet (runLoopOp i)" for i by (cases i) (simp_all add: quiet_intros)
  show "quiet (runBlockOp i)" by (cases i) (simp_all add: quiet_intros)
  have "quiet (case Target x of None \<Rightarrow> retM () | Some i \<Rightarrow> runLoopOp i)" for x
    using l by (cases "Target x") (simp_all add: quiet_intros)
  then show "quiet (branchToLabel n)" unfolding branchToLabel_def by (intro quiet_intros)
qed

lemma quiet_stores [quiet_intros]: "quiet (insertInst psh imp x)" "quiet (modInst ma)" "quiet (updMod ma g)"
  unfolding updMod_def modInst_def
  by (rule quietI, simp add: insertInst_def split_beta) (intro quiet_intros)+

lemma quiet_instantiation [quiet_intros]:
  "quiet (instantiateImport ma d)" "quiet (instantiateFunction ma ts cs i)" "quiet (instantiateTable ma t)"
  "quiet (instantiateMemory ma l)" "quiet (instantiateExport ma e)"
proof -
  have "quiet (exportAddr e n)" for e n by (cases "e n") (simp_all add: exportAddr_def quiet_intros)
  then show "quiet (instantiateImport ma d)"
    unfolding instantiateImport_def importFunc_def importTab_def importMem_def importGlob_def
    by (cases "ImpContent d") (auto intro!: quiet_intros)
  show "quiet (instantiateExport ma e)" by (cases "ExpExtType e") (simp_all add: instantiateExport_def quiet_intros)
qed (unfold instantiateFunction_def instantiateTable_def instantiateMemory_def, (intro quiet_intros)+)

section \<open>The interface\<close>

lemma deref_eq_Ok: "deref r = Ok x \<longleftrightarrow> r = Ok x"
  by (cases r) (simp_all add: deref_def)

locale host_invariant =
  fixes J :: "Measurement option \<Rightarrow> 'h \<Rightarrow> bool" and B :: "'h FunctionInstance set"
  assumes charge_cost: "J (Some m) h \<Longrightarrow> J (Some (snd (addCost c m))) h"
    and count_instr: "J (Some m) h \<Longrightarrow> J (Some (incInstrCnt m)) h"
    and host_body: "HostFunc f \<in> B \<Longrightarrow> J (HMeasure w) (HState w) \<Longrightarrow>
      J (HMeasure (snd (HostBody f vs w))) (HState (snd (HostBody f vs w)))"
    and native: "Native ft ma ls is \<in> B"
begin

definition holds_in :: "'h Interp \<Rightarrow> bool" where
  "holds_in st \<longleftrightarrow> J (Meter st) (Host st) \<and> funcs_in B st"

lemma keeps_quiet: "quiet m \<Longrightarrow> keeps (funcs_in B) m \<Longrightarrow> keeps holds_in m"
  by (auto simp: keeps_def quiet_def holds_in_def)

lemma keeps_still: "quiet m \<Longrightarrow> framed m \<Longrightarrow> keeps holds_in m"
  by (intro keeps_quiet keeps_framed)

lemma keeps_charge:
  assumes "\<And>m h. J (Some m) h \<Longrightarrow> J (Some (snd (g m))) h"
  shows "keeps holds_in (charge g)" "keeps holds_in (chargeUnchecked g)"
  using assms by (auto intro!: keepsI simp: holds_in_def charge_def chargeUnchecked_def funcs_in_def split_beta split: option.split)

lemma charge_instr: "J (Some m) h \<Longrightarrow> J (Some (snd (addInstrCost c m))) h"
  unfolding addInstrCost_def by (rule charge_cost)

lemma keeps_invokeHost: "HostFunc f \<in> B \<Longrightarrow> keeps holds_in (invokeHost f mem)"
proof (rule keepsI)
  fix st assume f: "HostFunc f \<in> B" and st: "holds_in st"
  let ?w = "\<lparr>HMem = memAt (Store st) mem, HMeasure = Meter st, HState = Host st\<rparr>"
  have "J (HMeasure (snd (HostBody f vs ?w))) (HState (snd (HostBody f vs ?w)))" for vs
    using host_body [OF f, of ?w vs] st by (simp add: holds_in_def)
  moreover have "funcs_in B (snd (invokeHost f mem st))"
    using keeps_framed [OF framed_invokeHost] st by (auto simp: keeps_def holds_in_def)
  ultimately show "holds_in (snd (invokeHost f mem st))" using st
    by (auto simp: holds_in_def invokeHost_def Let_def split_beta onStack_def push_def seqM_def bindM_def retM_def split: outcome.split)
qed

lemmas still_machine = keeps_still [OF quiet_machine(1) framed_machine(1)] keeps_still [OF quiet_machine(2) framed_machine(2)]
  keeps_still [OF quiet_machine(3) framed_onMem]

lemmas still_instances = keeps_still [OF quiet_instances(1) framed_instances(1)] keeps_still [OF quiet_instances(2) framed_instances(2)]
  keeps_still [OF quiet_instances(3) framed_instances(3)] keeps_still [OF quiet_instances(4) framed_instances(4)]

lemmas still_control = keeps_still [OF quiet_blocks(1) framed_enter(1)] keeps_still [OF quiet_blocks(2) framed_enter(3)]
  keeps_still [OF quiet_blocks(3) framed_enter(4)] keeps_still [OF quiet_branch(1) framed_branch(1)]
  keeps_still [OF quiet_branch(2) framed_branch(2)] keeps_still [OF quiet_branch(3) framed_branch(3)]

lemmas still_other = keeps_still [OF quiet_variable framed_variable] keeps_still [OF quiet_memory framed_memory]
  keeps_still [OF quiet_numeric(1) framed_numeric(1)] keeps_still [OF quiet_numeric(2) framed_numeric(2)]
  keeps_still [OF quiet_numeric(3) framed_numeric(3)] keeps_still [OF quiet_numeric(4) framed_numeric(4)]

lemmas keeps_engine = keeps_bindM keeps_seqM keeps_basic keeps_if keeps_getsM still_machine still_instances still_control still_other
  keeps_charge [OF charge_cost] keeps_charge [OF charge_instr]

lemma keeps_enterFunction: "f \<in> B \<Longrightarrow> keeps holds_in (enterFunction f)"
  by (cases f) (auto simp: enterFunction_def intro!: keeps_engine keeps_invokeHost)

lemma function_in: "holds_in st \<Longrightarrow> getFunction (Store st) a = Ok f \<Longrightarrow> f \<in> B"
  by (auto simp: getFunction_def holds_in_def funcs_in_def lookup_Ok_iff)

lemma keeps_call:
  assumes "\<And>st f. holds_in st \<Longrightarrow> g st = Ok f \<Longrightarrow> f \<in> B" and "\<And>f. f \<in> B \<Longrightarrow> keeps holds_in (k f)"
  shows "keeps holds_in (bindM (getsM g) k)"
  using assms by (intro keeps_bindM_given [where Q = "\<lambda>f. f \<in> B"]) (auto simp: keeps_getsM getsM_def)

lemma keeps_executeCall: "keeps holds_in (executeCall c i)"
proof (cases c)
  case Call
  have "keeps holds_in (runCallOp i)" unfolding runCallOp_def
    by (rule keeps_bindM [OF still_instances(1)], rule keeps_call [OF _ keeps_enterFunction])
      (auto simp: obind_Ok_iff deref_eq_Ok intro: function_in)
  then show ?thesis using Call by simp
next
  case Call_indirect
  have c: "keeps holds_in (bindM (getsM (\<lambda>st. deref (getFunction (Store st) a)))
      (\<lambda>f. if Params t \<noteq> Params (getType f) \<or> Returns t \<noteq> Returns (getType f) then errM TypeNotMatch else enterFunction f))" for a t
    by (rule keeps_call) (auto simp: deref_eq_Ok keeps_enterFunction intro: function_in)
  have "keeps holds_in (runCallIndirectOp i)" unfolding runCallIndirectOp_def
    by (intro c keeps_bindM keeps_basic still_instances still_machine)
  then show ?thesis using Call_indirect by simp
qed

lemma keeps_executeInstr: "keeps holds_in (executeInstr F i)"
proof (cases i)
  case (ControlInstr c)
  then show ?thesis by (cases c) (simp_all add: runReturnOp_def keeps_engine)
next
  case (BlockInstr c t body)
  then show ?thesis by (cases c) (simp_all del: runLoopOp.simps runBlockOp.simps add: keeps_engine)
next
  case (IfElseInstr t a b)
  then show ?thesis by (simp add: runIfElseOp_def Let_def keeps_engine)
next
  case (BrInstr c n)
  then show ?thesis by (cases c) (simp_all add: runBrOp_def runBrIfOp_def keeps_engine)
next
  case (BrTableInstr ns n)
  then show ?thesis by (simp add: runBrTableOp_def keeps_engine)
next
  case (CallInstr c n)
  then show ?thesis by (simp add: keeps_executeCall)
qed (simp_all add: keeps_engine)

lemma keeps_step: "keeps holds_in (step F)"
proof (rule keepsI)
  fix st assume st: "holds_in st"
  have p: "holds_in (st\<lparr>InstrPdr := p\<rparr>)" for p using st by (simp add: holds_in_def funcs_in_def)
  have c: "keeps holds_in (charge (\<lambda>m. addInstrCost c (incInstrCnt m)))" for c
    by (rule keeps_charge) (rule charge_instr, rule count_instr)
  have "keeps holds_in (seqM (charge (\<lambda>m. addInstrCost (getOpCode i) (incInstrCnt m))) (executeInstr F i))" for i
    by (intro keeps_seqM c keeps_executeInstr)
  then show "holds_in (snd (step F st))"
    using p still_control(2,3) still_machine(2) [of popInstrs] unfolding step_def keeps_def
    by (auto split: prod.split option.split SeqType.split)
qed

lemma keeps_execute: "keeps holds_in (execute F n)"
proof (induction n)
  case 0
  show ?case by (rule keepsI) simp
next
  case (Suc n)
  have "keeps holds_in (seqM (step F) (execute F n))" by (intro keeps_seqM keeps_step Suc.IH)
  then show ?case by (auto simp: keeps_def)
qed

lemma keeps_run: "keeps holds_in (runExpression F n is)" "f \<in> B \<Longrightarrow> keeps holds_in (runFunction F n f)"
proof -
  show "keeps holds_in (runExpression F n is)" unfolding runExpression_def by (intro keeps_seqM still_machine keeps_execute)
  have "keeps holds_in (\<lambda>st. case execute F n st of (r, st') \<Rightarrow> (if r = Err Terminated then Ok () else r, st'))"
    using keeps_execute by (auto simp: keeps_def split_beta)
  then show "keeps holds_in (runFunction F n f)" if "f \<in> B" unfolding runFunction_def by (intro keeps_seqM keeps_enterFunction that)
qed

text \<open>What the client gets: the invocation of a function and the instantiation of a module keep the invariant.\<close>

lemma keeps_invoke: "keeps holds_in (invoke F n name params)"
proof (rule keepsI)
  fix st assume st: "holds_in st"
  let ?k = "\<lambda>f. if length (Params (getType f)) \<noteq> length params then errM TypeNotMatch
          else seqM (onPdr (modifyM resetInstrs)) (seqM (onStack (modifyM resetStack)) (seqM (onStack (forM push params))
           (seqM (runFunction F n f) (bindM (onStack (repeatM (length (Returns (getType f))) pop)) (\<lambda>vs. retM (rev vs))))))"
  have "keeps holds_in (?k f)" if "f \<in> B" for f
    using that by (auto intro!: keeps_seqM keeps_bindM keeps_basic still_machine keeps_run(2))
  then have "holds_in (snd (bindM (liftM (deref (getFunction (Store st) a))) ?k st))" for a
    using st function_in [OF st, of a]
    by (cases "getFunction (Store st) a") (auto simp: bindM_def liftM_def deref_def keeps_def)
  then show "holds_in (snd (invoke F n name params st))" using st by (simp add: invoke_def split: option.split)
qed

lemma newFunction_in: "newFunction ma ft ls is \<in> B"
  by (simp add: newFunction_def native)

lemma keeps_onStore_quiet: "keeps (funcs_in B) (onStore m) \<Longrightarrow> keeps holds_in (onStore m)"
  by (rule keeps_quiet [OF quiet_machine(4)])

lemma keeps_instantiation:
  "keeps holds_in (modInst ma)" "keeps holds_in (updMod ma g)" "keeps holds_in (instantiateImport ma d)"
  "keeps holds_in (instantiateFunction ma ts cs i)" "keeps holds_in (instantiateTable ma t)"
  "keeps holds_in (instantiateMemory ma l)" "keeps holds_in (instantiateExport ma e)"
  by (intro keeps_quiet quiet_intros keeps_modInst keeps_onMod keeps_import keeps_function keeps_allocations keeps_export newFunction_in)+

lemmas keeps_inst = keeps_bindM keeps_seqM keeps_basic keeps_getsM keeps_onSec keeps_forM keeps_instantiation still_machine keeps_run(1)

lemma keeps_insertGlobal: "keeps holds_in (insertInst pushGlobal importGlobal g)"
  by (intro keeps_quiet quiet_intros keeps_insertInst) simp_all

lemma keeps_instantiateGlobals: "keeps holds_in (instantiateGlobals F n ma gs)"
proof -
  have "keeps holds_in (onStore (\<lambda>s. let (a, s') = pushModule m s in (Ok a, s')))" for m
    by (rule keeps_onStore_quiet, rule keeps_onStore) (simp add: split_beta)
  moreover have "keeps holds_in (onStore popModule)" by (rule keeps_onStore_quiet, rule keeps_onStore) simp
  ultimately show ?thesis unfolding instantiateGlobals_def instantiateGlobal_def
    by (intro keeps_inst keeps_insertGlobal)
qed

lemma keeps_segments: "keeps holds_in (instantiateElement F n ma e)" "keeps holds_in (instantiateData F n ma d)"
proof -
  have "keeps holds_in (onStore (\<lambda>s. let (r, t') = setInitList off addrs t in (r, setTab a t' s)))" for off addrs t a
    by (rule keeps_onStore_quiet, rule keeps_onStore) (simp add: split_beta setTab_def)
  then show "keeps holds_in (instantiateElement F n ma e)" unfolding instantiateElement_def by (intro keeps_inst)
  show "keeps holds_in (instantiateData F n ma d)" unfolding instantiateData_def by (intro keeps_inst)
qed

lemma keeps_instantiateStart: "keeps holds_in (instantiateStart F n ma i)"
proof -
  have s: "keeps holds_in (onStore (onMod ma (setStartIdx i)))" by (intro keeps_onStore_quiet keeps_onMod)
  have r: "keeps holds_in (bindM (getsM (\<lambda>st. deref (getFunction (Store st) a))) (runFunction F n))" for a
    by (rule keeps_call [OF _ keeps_run(2)]) (auto simp: deref_eq_Ok intro: function_in)
  show ?thesis unfolding instantiateStart_def by (intro s r keeps_seqM keeps_bindM keeps_basic keeps_instantiation)
qed

lemma keeps_instantiate_all: "keeps holds_in (instantiate F n md name)"
proof -
  have f: "keeps holds_in (case (FunctionSec md, CodeSec md) of
      (Some ts, Some cs) \<Rightarrow> instantiateFunctions ma ts cs | _ \<Rightarrow> retM ())" for ma
    by (auto simp: instantiateFunctions_def intro!: keeps_inst split: option.splits)
  have i: "keeps holds_in (instantiateInto F n md ma)" for ma
    unfolding instantiateInto_def instantiateImports_def
    by (intro f keeps_inst keeps_instantiateGlobals keeps_segments keeps_instantiateStart)
  have "keeps holds_in (seqM (onStore (resetStore False)) (seqM (onStack (modifyM resetStack)) (seqM (onPdr (modifyM resetInstrs))
        (bindM (insertInst pushModule importModule (newModuleInstance name)) (instantiateInto F n md)))))"
    by (intro keeps_seqM keeps_bindM i still_machine keeps_onStore_quiet keeps_resetStore keeps_quiet [OF quiet_stores(1)] keeps_insertInst) simp_all
  then show ?thesis by (auto simp: keeps_def instantiate_def split: outcome.split)
qed

lemma keeps_mode: "keeps holds_in (modifyM (\<lambda>st. st\<lparr>InsMode := b\<rparr>))"
  by (simp add: keeps_def modifyM_def holds_in_def funcs_in_def)

lemma keeps_instantiateModule: "keeps holds_in (instantiateModule F n md name)" "keeps holds_in (registerModule F n md name)"
  unfolding instantiateModule_def registerModule_def by (intro keeps_seqM keeps_mode keeps_instantiate_all)+

end

end
