(* ===== verification/VmRuns.thy ===== *)
theory VmRuns
  imports HostRuns VmProps HostEnv
begin

text \<open>
  The interface \<open>host_invariant\<close> for the whole machine: its stages keep what the engine keeps. With it come
  the facts about the construction of a machine with a host module that the tools rest on.
\<close>

section \<open>Stages\<close>

context host_invariant
begin

definition vm_holds :: "'h VM \<Rightarrow> bool" where
  "vm_holds vm \<longleftrightarrow> holds_in (Engine vm)"

lemma vm_onEngine: "keeps holds_in m \<Longrightarrow> keeps vm_holds (onEngine m)"
  by (auto simp: keeps_def vm_holds_def onEngine_def split_beta)

lemma vm_others: "keeps vm_holds (onChecker c)" "keeps vm_holds (onLoader l)" "keeps vm_holds loadedModule" "keeps vm_holds (getsM g)"
  by (auto simp: keeps_def vm_holds_def onChecker_def onLoader_def loadedModule_def getsM_def split_beta split: option.split)

lemma vm_stages:
  "keeps vm_holds (loadWasm parse)" "keeps vm_holds validateVM" "keeps vm_holds (instantiateVM F n)" "keeps vm_holds (executeVM F n func params)"
proof -
  have m: "keeps vm_holds (modifyM (\<lambda>vm. vm\<lparr>Mod := x, Stage := y\<rparr>))" "keeps vm_holds (modifyM (\<lambda>vm. vm\<lparr>Stage := y\<rparr>))" for x y
    by (auto simp: vm_holds_def intro: keeps_modifyM)
  show "keeps vm_holds (loadWasm parse)" unfolding loadWasm_def by (intro keeps_bindM vm_others m)
  have "keeps vm_holds (bindM loadedModule (\<lambda>m. seqM (onChecker (validateModule m)) (modifyM (\<lambda>vm. vm\<lparr>Stage := Validated\<rparr>))))"
    by (intro keeps_bindM keeps_seqM vm_others m)
  then show "keeps vm_holds validateVM" by (auto simp: keeps_def validateVM_def)
  have "keeps vm_holds (bindM loadedModule (\<lambda>m. seqM (onEngine (instantiateModule F n m [])) (modifyM (\<lambda>vm. vm\<lparr>Stage := Instantiated\<rparr>))))"
    by (intro keeps_bindM keeps_seqM vm_others vm_onEngine keeps_instantiateModule m)
  then show "keeps vm_holds (instantiateVM F n)" by (auto simp: keeps_def instantiateVM_def)
  show "keeps vm_holds (executeVM F n func params)" unfolding executeVM_def by (intro vm_onEngine keeps_invoke)
qed

end

text \<open>The invariant of the meter that both tools need.\<close>

definition gas_within :: "u64 \<Rightarrow> Measurement option \<Rightarrow> 'h \<Rightarrow> bool" where
  "gas_within L mo h \<longleftrightarrow> (\<exists>m. mo = Some m \<and> CostLimit m = L \<and> CostSum m \<le> L)"

section \<open>Machines with a host module\<close>

text \<open>The functions that can be in a store with one host module: those of modules and those of the host.\<close>

definition module_funcs :: "(string \<times> 'h HostFunction) list \<Rightarrow> 'h FunctionInstance set" where
  "module_funcs fs = {f. \<forall>h. f = HostFunc h \<longrightarrow> h \<in> snd ` set fs}"

lemma IFuncs_add: "snd ` set (IFuncs (addHostFunc n f ob)) \<subseteq> insert (HostFunc f) (snd ` set (IFuncs ob))"
  using emplace_entries [of n "HostFunc f" "IFuncs ob"] by (auto simp: addHostFunc_def dest!: subsetD)

lemma IFuncs_fold:
  assumes "HostFunc ` snd ` set fs \<subseteq> B" and "snd ` set (IFuncs ob) \<subseteq> B"
  shows "snd ` set (IFuncs (fold (\<lambda>(name, f). addHostFunc (name_of name) f) fs ob)) \<subseteq> B"
  using assms
proof (induction fs arbitrary: ob)
  case (Cons nf fs)
  obtain n f where nf: "nf = (n, f)" by (cases nf)
  have "snd ` set (IFuncs (addHostFunc (name_of n) f ob)) \<subseteq> B" 
    by (rule order_trans [OF IFuncs_add]) (use Cons.prems nf in simp)
  then show ?case using Cons.IH [of "addHostFunc (name_of n) f ob"] Cons.prems(1) nf by simp
qed simp

lemma module_import:
  "snd ` set (IFuncs (fold (\<lambda>(name, f). addHostFunc (name_of name) f) fs (newImportObject n))) \<subseteq> module_funcs fs"
  by (rule IFuncs_fold) (auto simp: module_funcs_def newImportObject_def image_iff)

lemma no_funcs: "snd ` set (IFuncs (newImportObject n)) \<subseteq> B"
  by (simp add: newImportObject_def)

text \<open>A machine before it runs: no gas is used and the host is as it was made.\<close>

definition unspent :: "'h FunctionInstance set \<Rightarrow> 'h \<Rightarrow> 'h VM \<Rightarrow> bool" where
  "unspent B h vm \<longleftrightarrow> (\<exists>m. Meter (Engine vm) = Some m \<and> CostSum m = 0) \<and> funcs_in B (Engine vm) \<and> Host (Engine vm) = h"

lemma unspent_newVM: "unspent B h (newVM newStoreManager h)"
  by (simp add: unspent_def newVM_def newInterp_def newMeasurement_def funcs_in_def newStoreManager_def emptyVec_def)

lemma unspent_useTable: "keeps (unspent B h) (useTable t)"
  by (auto simp: keeps_def useTable_def unspent_def funcs_in_def setCostTable_def Let_def split: option.split)

lemma unspent_addHostModule:
  assumes "snd ` set (IFuncs ob) \<subseteq> B"
  shows "keeps (unspent B h) (addHostModule t ob)"
proof -
  have "keeps (unspent B h) (onEngine (onStore (registerHostModule ob)))"
    using keeps_registerHostModule [OF assms] by (auto simp: keeps_def unspent_def onEngine_def onStore_def split_beta funcs_in_def)
  moreover have "keeps (unspent B h) (seqM (modifyM (\<lambda>v. v\<lparr>ImpObjs := g v\<rparr>)) (useTable t))" for g
    by (intro keeps_seqM unspent_useTable keeps_modifyM) (simp add: unspent_def)
  ultimately show ?thesis unfolding addHostModule_def keeps_def by (auto simp: prod_eq_iff split: prod.split outcome.split)
qed

lemma unspent_made:
  assumes "snd ` set (IFuncs wasi) \<subseteq> B" and "snd ` set (IFuncs eei) \<subseteq> B"
  shows "unspent B h (snd (initVM config wasi eei (newVM newStoreManager h)))"
proof -
  have "keeps (unspent B h) (initVM config wasi eei)"
    unfolding initVM_def using assms by (auto intro!: keeps_seqM unspent_useTable unspent_addHostModule)
  then show ?thesis by (simp add: keeps_def unspent_newVM)
qed

section \<open>Registration is defined\<close>

text \<open>The module is there and the index of an export is the last one.\<close>

lemma registerFuncs_ok:
  assumes "unat ma < length (Insts (Mods s))" and "length (FuncAddrs (Insts (Mods s) ! unat ma)) + length fs < 2 ^ 32"
  shows "fst (registerAll importHostFunction addFuncAddr getFuncNum exportFuncion ma fs s) = Ok ()"
  using assms
proof (induction fs arbitrary: s)
  case Nil
  then show ?case by (simp add: registerAll_def retM_def)
next
  case (Cons nf fs)
  obtain n f where nf: "nf = (n, f)" by (cases nf)
  let ?m = "Insts (Mods s) ! unat ma"
  obtain a s1 where s1: "importHostFunction f s = (a, s1)" by fastforce
  have mods: "Mods s1 = Mods s" using s1 by (auto simp: importHostFunction_def split_beta)
  have i: "unat (of_nat (Suc (length (FuncAddrs ?m))) - 1 :: u32) < Suc (length (FuncAddrs ?m))"
    using Cons.prems(2) by (simp add: unat_of_nat_less)
  obtain s2 where s2: "onMod ma (\<lambda>m. let m1 = addFuncAddr a m in exportFuncion n (getFuncNum m1 - 1) m1) s1 = (Ok (), s2)"
      "unat ma < length (Insts (Mods s2))" "length (FuncAddrs (Insts (Mods s2) ! unat ma)) = Suc (length (FuncAddrs ?m))"
    using Cons.prems(1) i mods
    by (auto simp: onMod_def getModule_def lookup_def deref_def obind_def addFuncAddr_def exportFuncion_def getFuncNum_def at_def setMod_def)
  have "fst (registerAll importHostFunction addFuncAddr getFuncNum exportFuncion ma fs s2) = Ok ()"
    using Cons.IH [of s2] Cons.prems s2 by simp
  then show ?case using s1 s2(1) nf by (simp add: registerAll_def seqM_def bindM_def)
qed

lemma length_emplace: "length (emplace k v m) \<le> Suc (length m)"
  by (induction k v m rule: emplace.induct) auto

lemma length_IFuncs: "length (IFuncs (fold (\<lambda>(name, f). addHostFunc (name_of name) f) fs ob)) \<le> length (IFuncs ob) + length fs"
proof (induction fs arbitrary: ob)
  case (Cons nf fs)
  obtain n f where nf: "nf = (n, f)" by (cases nf)
  have "length (IFuncs (addHostFunc (name_of n) f ob)) \<le> Suc (length (IFuncs ob))"
    using length_emplace by (simp add: addHostFunc_def)
  then show ?case using Cons.IH [of "addHostFunc (name_of n) f ob"] nf by simp
qed simp

lemma fold_only_funcs:
  "ITabs (fold (\<lambda>(name, f). addHostFunc (name_of name) f) fs ob) = ITabs ob"
  "IMems (fold (\<lambda>(name, f). addHostFunc (name_of name) f) fs ob) = IMems ob"
  "IGlobs (fold (\<lambda>(name, f). addHostFunc (name_of name) f) fs ob) = IGlobs ob"
  by (induction fs arbitrary: ob) (auto simp: addHostFunc_def)

end
