(* ===== verification/Evmc.thy ===== *)
theory Evmc
  imports Vm Eei
begin

text \<open>
  \<open>tools/ssvm-evmc/evmccreate.cpp\<close>: the entry point through which an EVMC client runs a contract. Every call
  makes a new machine with the Ethereum module, whose environment is the state of the host functions.
  \<open>EVMC_FAILURE\<close> is the only status but success and revert that the function gives.
\<close>

definition isWasmBinary :: "Bytes \<Rightarrow> bool" where
  "isWasmBinary code \<longleftrightarrow> 8 \<le> length code \<and> take 4 code = [0, 0x61, 0x73, 0x6D]"

type_synonym ('w, 'a) evm = "('w EVMEnvironment, 'a) vmop"

text \<open>A call on the environment from outside of a host function: there is no memory.\<close>

definition onEnvironment :: "('w, 'a) eei \<Rightarrow> ('w, 'a) evm" where
  "onEnvironment m vm =
     (let (r, w) = m \<lparr>HMem = newMemory (HasMin 0), HMeasure = Meter (Engine vm), HState = Host (Engine vm)\<rparr>
      in (r, vm\<lparr>Engine := (Engine vm)\<lparr>Meter := HMeasure w, Host := HState w\<rparr>\<rparr>))"

definition createEVM :: "'w evmc_host \<Rightarrow> (Bytes \<Rightarrow> Bytes) \<Rightarrow> ('w, unit) evm" where
  "createEVM H keccak = initVM (addVMType Ewasm newConfigure) (newImportObject []) (EEIModule H keccak)"

definition setData :: "'w \<Rightarrow> evmc_message \<Rightarrow> Bytes \<Rightarrow> ('w, unit) evm" where
  "setData context msg code =
     seqM (onEnvironment (setEnv (setEVMCContext context)))
    (seqM (onEnvironment (setEVMCMessage msg))
    (seqM (onEnvironment (setEnv (setEVMCCode code)))
    (seqM (case MInput msg of None \<Rightarrow> retM () | Some d \<Rightarrow> onEnvironment (setEnv (\<lambda>env. env\<lparr>CallData := d\<rparr>)))
          (onEnvironment (onGas (\<lambda>m. ((), m\<lparr>CostLimit := MGas msg\<rparr>)))))))"

text \<open>\<open>if (result.status_code == EVMC_SUCCESS && !m) result.status_code = EVMC_FAILURE;\<close>\<close>

definition attempt :: "('w, 'a) evm \<Rightarrow> evmc_status_code \<Rightarrow> ('w, evmc_status_code) evm" where
  "attempt m status vm =
     (if status \<noteq> EVMC_SUCCESS then (Ok status, vm)
      else case m vm of
        (Ok _, vm') \<Rightarrow> (Ok EVMC_SUCCESS, vm')
      | (Err _, vm') \<Rightarrow> (Ok EVMC_FAILURE, vm')
      | (Undef, vm') \<Rightarrow> (Undef, vm')
      | (Timeout, vm') \<Rightarrow> (Timeout, vm'))"

definition checkExports :: "evmc_status_code \<Rightarrow> ('w, evmc_status_code) evm" where
  "checkExports status vm = (Ok (if status = EVMC_SUCCESS \<and> getMemExports (Store (Engine vm)) = Map.empty then EVMC_FAILURE else status), vm)"

definition checkStart :: "evmc_status_code \<Rightarrow> ('w, evmc_status_code) evm" where
  "checkStart status =
     (if status \<noteq> EVMC_SUCCESS then retM status
      else bindM (getsM (\<lambda>vm. deref (getActiveModule (Store (Engine vm))))) (\<lambda>m.
        retM (if StartAddr m \<noteq> None then EVMC_FAILURE else status)))"

definition runMain :: "fpu \<Rightarrow> nat \<Rightarrow> evmc_status_code \<Rightarrow> ('w, evmc_status_code) evm" where
  "runMain F n status vm =
     (if status \<noteq> EVMC_SUCCESS then (Ok status, vm)
      else case executeVM F n (name_of ''main'') [] vm of
        (Ok _, vm') \<Rightarrow> (Ok EVMC_SUCCESS, vm')
      | (Err e, vm') \<Rightarrow> (Ok (if e = Revert then EVMC_REVERT else EVMC_FAILURE), vm')
      | (Undef, vm') \<Rightarrow> (Undef, vm')
      | (Timeout, vm') \<Rightarrow> (Timeout, vm'))"

text \<open>The code that a creation returns is parsed by a loader of its own.\<close>

definition verifyDeployed :: "evmc_message \<Rightarrow> Bytes \<Rightarrow> evmc_status_code \<Rightarrow> evmc_status_code Expect" where
  "verifyDeployed msg ret status =
     (if isWasmBinary ret \<and> MKind msg = EVMC_CREATE \<and> status \<noteq> EVMC_REVERT then
        case fst (parseModule ret newFileMgrVector) of
          Ok m \<Rightarrow> Ok (if StartSec m \<noteq> None then EVMC_FAILURE else status)
        | Err _ \<Rightarrow> Ok EVMC_FAILURE
        | Undef \<Rightarrow> Undef
        | Timeout \<Rightarrow> Timeout
      else Ok status)"

definition getCostSum :: "('w, u64) evm" where
  "getCostSum = onEnvironment (onGas (\<lambda>m. (CostSum m, m)))"

definition evmcResult :: "evmc_message \<Rightarrow> u64 \<Rightarrow> Bytes \<Rightarrow> evmc_status_code \<Rightarrow> evmc_result" where
  "evmcResult msg usedGas ret status =
     \<lparr>RStatus = status, RGasLeft = (if status = EVMC_FAILURE then 0 else MGas msg - usedGas),
      ROutput = (if ret \<noteq> [] then Some ret else None), RCreateAddress = replicate 20 0\<rparr>"

definition runContract :: "fpu \<Rightarrow> nat \<Rightarrow> Bytes \<Rightarrow> ('w, evmc_status_code) evm" where
  "runContract F n code =
     bindM (attempt (loadWasm (parseModule code)) EVMC_SUCCESS) (\<lambda>status.
     bindM (attempt validateVM status) (\<lambda>status.
     bindM (attempt (instantiateVM F n) status) (\<lambda>status.
     bindM (checkExports status) (\<lambda>status.
     bindM (checkStart status) (runMain F n)))))"

definition collectResult :: "evmc_message \<Rightarrow> evmc_status_code \<Rightarrow> ('w, evmc_result) evm" where
  "collectResult msg status =
     bindM getCostSum (\<lambda>usedGas.
     bindM (onEnvironment (getEnv ReturnData)) (\<lambda>ret.
     bindM (liftM (verifyDeployed msg ret status)) (\<lambda>status.
     retM (evmcResult msg usedGas ret status))))"

definition evmcExecute ::
  "'w evmc_host \<Rightarrow> (Bytes \<Rightarrow> Bytes) \<Rightarrow> fpu \<Rightarrow> nat \<Rightarrow> 'w \<Rightarrow> evmc_message \<Rightarrow> Bytes \<Rightarrow> ('w, evmc_result) evm" where
  "evmcExecute H keccak F n context msg code =
     seqM (createEVM H keccak)
    (seqM (setData context msg code)
    (bindM (runContract F n code) (collectResult msg)))"

text \<open>The machine that the call starts from; the environment has not been set up.\<close>

definition newEVM :: "'w EVMEnvironment VM" where
  "newEVM = newVM newStoreManager newEVMEnvironment"

end
