(* ===== verification/EvmcProps.thy ===== *)
theory EvmcProps
  imports Evmc VmRuns EeiProps
begin

text \<open>
  What a client of the EVMC entry point can rely on, whatever contract is run: the gas that is returned is
  at most the gas that was given, and a call in static mode leaves the storage of the chain alone.
  Both are invariants that the host functions keep and, through the interface \<open>host_invariant\<close>, every run.
\<close>

section \<open>The limit\<close>

definition limit_in :: "u64 \<Rightarrow> 'h HostWorld \<Rightarrow> bool" where
  "limit_in L w \<longleftrightarrow> (\<exists>m. HMeasure w = Some m \<and> CostLimit m = L \<and> CostSum m \<le> L)"

named_theorems limit_rules "host operations that keep the sum within the limit"

lemma limit_local [limit_rules]:
  "keeps (limit_in L) (getEnv g)" "keeps (limit_in L) (tryEnv h)" "keeps (limit_in L) (onMemory m)" "keeps (limit_in L) (setEnv s)"
  "keeps (limit_in L) (onHost f)" "keeps (limit_in L) (onGas (\<lambda>m. (q m, m)))"
  by (auto simp: keeps_def getEnv_def tryEnv_def onMemory_def setEnv_def onHost_def onGas_def limit_in_def split_beta split: option.split)

lemma limit_gas [limit_rules]: "keeps (limit_in L) (onGas (consumeGas g))" "keeps (limit_in L) (onGas (returnGas g))"
proof -
  have "CostSum m + g \<le> CostLimit m" if "CostSum m \<le> CostLimit m" "\<not> CostLimit m - CostSum m < g" for m
    using that by (simp add: word_le_nat_alt word_less_nat_alt unat_sub unat_word_ariths(1))
  then show "keeps (limit_in L) (onGas (consumeGas g))"
    by (auto simp: keeps_def onGas_def limit_in_def consumeGas_def split_beta split: option.split)
  have "CostSum m - g \<le> CostLimit m" if "CostSum m \<le> CostLimit m" "\<not> CostSum m < g" for m
    using that by (simp add: word_le_nat_alt word_less_nat_alt unat_sub)
  then show "keeps (limit_in L) (onGas (returnGas g))"
    by (auto simp: keeps_def onGas_def limit_in_def returnGas_def split_beta split: option.split)
qed

lemma limit_helpers [limit_rules]:
  "keeps (limit_in L) (charged g)" "keeps (limit_in L) (addCopyCost len)" "keeps (limit_in L) getMaxCallGas" "keeps (limit_in L) (loadUInt off b)"
  "keeps (limit_in L) (loadAddress off)" "keeps (limit_in L) (loadBytes32 off)" "keeps (limit_in L) (storeUInt bs off b)"
  "keeps (limit_in L) (storeAddress bs off)" "keeps (limit_in L) (storeBytes32 bs off)" "keeps (limit_in L) succeed"
  "keeps (limit_in L) (callReturn msg r off)" "keeps (limit_in L) (callInput msg off len)" "keeps (limit_in L) (staticFlag H)"
  unfolding charged_def addCopyCost_def getMaxCallGas_def loadUInt_def loadAddress_def loadBytes32_def storeUInt_def storeAddress_def storeBytes32_def
    succeed_def callReturn_def callInput_def staticFlag_def
  by (auto simp: Let_def intro!: keeps_bindM keeps_seqM limit_rules static_if)

lemma limit_topics [limit_rules]: "keeps (limit_in L) (loadTopics offs)"
  by (induction offs) (auto intro!: keeps_bindM limit_rules)

lemma limit_call [limit_rules]:
  "keeps (limit_in L) (callHost H msg off)" "keeps (limit_in L) (transferGas H msg)" "keeps (limit_in L) (enoughBalance H msg)"
  "keeps (limit_in L) (callMessage knd fl g d v)"
  unfolding callHost_def transferGas_def enoughBalance_def callMessage_def Let_def
  by (auto intro!: keeps_bindM keeps_seqM limit_rules static_if)

lemma limit_doCall [limit_rules]: "keeps (limit_in L) (doCall H msg off len res)"
  unfolding doCall_def callContract_def by (auto intro!: keeps_bindM keeps_seqM limit_rules static_if)

lemma limit_functions:
  "list_all (\<lambda>(name, f). keeps (limit_in L) (HostBody f args)) (eeiFunctions H keccak)"
  by (simp add: eeiFunctions_def eei_class_defs static_arg64 eei_body_defs keeps_bindM keeps_seqM limit_rules static_if Let_def)

section \<open>Functions of a contract\<close>

interpretation contract_gas: host_invariant "gas_within L" "module_funcs (eeiFunctions H keccak)" for L H keccak
proof
  fix f vs and w :: "'a EVMEnvironment HostWorld"
  assume "HostFunc f \<in> module_funcs (eeiFunctions H keccak)" and "gas_within L (HMeasure w) (HState w)"
  then show "gas_within L (HMeasure (snd (HostBody f vs w))) (HState (snd (HostBody f vs w)))"
    using limit_functions [of L vs H keccak]
    by (auto simp: module_funcs_def gas_within_def keeps_def limit_in_def list_all_iff split_beta)
qed (auto simp: gas_within_def addCost_def incInstrCnt_def module_funcs_def Let_def)

text \<open>Static mode for a whole run: neither logs nor selfdestruct, which are not guarded, falsify \<open>I\<close>.\<close>

definition quiet_logs :: "'w evmc_host \<Rightarrow> ('w \<Rightarrow> bool) \<Rightarrow> bool" where
  "quiet_logs H I \<longleftrightarrow> (\<forall>c. I c \<longrightarrow> (\<forall>a d ts. I (snd (emit_log H a d ts c))) \<and> (\<forall>a b. I (snd (selfdestruct H a b c))))"

definition static_env :: "'w evmc_host \<Rightarrow> ('w \<Rightarrow> bool) \<Rightarrow> Measurement option \<Rightarrow> 'w EVMEnvironment \<Rightarrow> bool" where
  "static_env H I mo env \<longleftrightarrow> Flag env AND EVMC_STATIC H \<noteq> 0 \<and> pred_option I (EVMCContext env)"

lemma static_topics: "keeps (in_static H I) (loadTopics offs)"
  by (induction offs) (auto intro!: keeps_bindM static_rules)

lemma static_logs:
  assumes "static_host H I" and "quiet_logs H I"
  shows "keeps (in_static H I) (EEILog H a b c d e f g)" "keeps (in_static H I) (EEISelfDestruct H a)"
proof -
  have l: "keeps (in_static H I) (onHost (emit_log H x y z))" "keeps (in_static H I) (onHost (selfdestruct H x x'))" for x x' y z
    using assms(2) by (auto simp: quiet_logs_def intro!: static_onHost)
  show "keeps (in_static H I) (EEILog H a b c d e f g)" "keeps (in_static H I) (EEISelfDestruct H a)"
    unfolding EEILog_def EEISelfDestruct_def using assms(1)
    by (auto intro!: keeps_bindM keeps_seqM static_rules static_if static_topics l)
qed

lemma static_functions:
  assumes "static_host H I" and "quiet_logs H I" and "EVMC_STATIC H \<noteq> 0"
  shows "list_all (\<lambda>(name, f). keeps (in_static H I) (HostBody f args)) (eeiFunctions H keccak)"
  by (simp add: eeiFunctions_def eei_class_defs static_arg64 static_bodies [OF assms(1)] static_calls [OF assms(1,3)] static_store
      static_logs [OF assms(1,2)])

lemma contract_static:
  assumes "static_host H I" and "quiet_logs H I" and "EVMC_STATIC H \<noteq> 0"
  shows "host_invariant (static_env H I) (module_funcs (eeiFunctions H keccak))"
proof
  fix f vs and w :: "'a EVMEnvironment HostWorld"
  assume "HostFunc f \<in> module_funcs (eeiFunctions H keccak)" and "static_env H I (HMeasure w) (HState w)"
  then show "static_env H I (HMeasure (snd (HostBody f vs w))) (HState (snd (HostBody f vs w)))"
    using static_functions [OF assms, of vs keccak]
    by (auto simp: module_funcs_def static_env_def keeps_def in_static_def list_all_iff split_beta)
qed (auto simp: static_env_def module_funcs_def)

section \<open>The machine\<close>

lemma keeps_runContract:
  fixes I :: "'w EVMEnvironment VM \<Rightarrow> bool"
  assumes "keeps I (loadWasm (parseModule code))" and "keeps I validateVM" and "keeps I (instantiateVM F n)"
    and "keeps I (executeVM F n (name_of ''main'') [])"
  shows "keeps I (runContract F n code)"
proof -
  have a: "keeps I m \<Longrightarrow> keeps I (attempt m st)" for m :: "('w, 'a) evm" and st
    by (simp add: keeps_def attempt_def split_beta split: outcome.split)
  have "keeps I (runMain F n st)" for st
    using assms(4) by (simp add: keeps_def runMain_def split_beta split: outcome.split)
  moreover have "keeps I (checkExports st)" "keeps I (checkStart st)" for st
    unfolding checkStart_def by (simp add: keeps_def checkExports_def, simp add: keeps_bindM keeps_getsM)
  ultimately show ?thesis unfolding runContract_def by (intro keeps_bindM a assms)
qed

lemma onEnvironment_reads:
  "fst (m \<lparr>HMem = newMemory (HasMin 0), HMeasure = Meter (Engine vm), HState = Host (Engine vm)\<rparr>) = r \<Longrightarrow>
   snd (m \<lparr>HMem = newMemory (HasMin 0), HMeasure = Meter (Engine vm), HState = Host (Engine vm)\<rparr>) =
     \<lparr>HMem = newMemory (HasMin 0), HMeasure = Meter (Engine vm), HState = Host (Engine vm)\<rparr> \<Longrightarrow> onEnvironment m vm = (r, vm)"
  by (simp add: onEnvironment_def split_beta)

lemma collectResult_run:
  assumes "Meter (Engine vm) = Some m"
  shows "collectResult msg status vm = (case verifyDeployed msg (ReturnData (Host (Engine vm))) status of
      Ok s \<Rightarrow> (Ok (evmcResult msg (CostSum m) (ReturnData (Host (Engine vm))) s), vm)
    | Err e \<Rightarrow> (Err e, vm) | Undef \<Rightarrow> (Undef, vm) | Timeout \<Rightarrow> (Timeout, vm))"
proof -
  have "getCostSum vm = (Ok (CostSum m), vm)"
    unfolding getCostSum_def by (rule onEnvironment_reads) (simp_all add: onGas_def assms)
  moreover have "onEnvironment (getEnv ReturnData) vm = (Ok (ReturnData (Host (Engine vm))), vm)"
    by (rule onEnvironment_reads) (simp_all add: getEnv_def)
  ultimately show ?thesis
    by (simp add: collectResult_def bindM_def liftM_def retM_def split: outcome.split)
qed

text \<open>A machine as \<open>createEVM\<close> leaves it: no gas used, functions of the Ethereum module, no context.\<close>

definition fresh :: "'w evmc_host \<Rightarrow> (Bytes \<Rightarrow> Bytes) \<Rightarrow> 'w EVMEnvironment VM \<Rightarrow> bool" where
  "fresh H keccak vm \<longleftrightarrow> unspent (module_funcs (eeiFunctions H keccak)) newEVMEnvironment vm"

lemma fresh_createEVM: "fresh H keccak (snd (createEVM H keccak newEVM))"
  unfolding fresh_def createEVM_def newEVM_def EEIModule_def by (intro unspent_made no_funcs module_import)

lemma setData_run:
  assumes "fresh H keccak vm"
  shows "\<exists>vm'. setData chain msg code vm = (Ok (), vm') \<and> contract_gas.vm_holds (MGas msg) H keccak vm' \<and>
    Flag (Host (Engine vm')) = MFlags msg \<and> EVMCContext (Host (Engine vm')) = Some chain"
proof -
  obtain m where "Meter (Engine vm) = Some m" "CostSum m = 0" using assms by (auto simp: fresh_def unspent_def)
  then show ?thesis using assms
    by (cases "MInput msg") (auto simp: setData_def onEnvironment_def setEnv_def setEVMCMessage_def setEVMCContext_def setEVMCCode_def onGas_def
        seqM_def bindM_def retM_def contract_gas.vm_holds_def contract_gas.holds_in_def gas_within_def fresh_def unspent_def funcs_in_def)
qed

section \<open>Construction succeeds\<close>

lemma registerEEI_ok: "fst (registerHostModule (EEIModule H keccak) newStoreManager) = Ok ()"
proof -
  have "length (eeiFunctions H keccak) = 33" by (simp add: eeiFunctions_def)
  then have len: "length (IFuncs (EEIModule H keccak)) \<le> 33"
    using length_IFuncs [of "eeiFunctions H keccak" "newImportObject (name_of ''ethereum'')"] by (simp add: EEIModule_def newImportObject_def)
  have e: "ITabs (EEIModule H keccak) = []" "IMems (EEIModule H keccak) = []" "IGlobs (EEIModule H keccak) = []"
    by (simp_all add: EEIModule_def fold_only_funcs newImportObject_def)
  have r: "resetStore False newStoreManager = (Ok (), newStoreManager :: 'a EVMEnvironment StoreManager)"
    by (simp add: resetStore_def newStoreManager_def emptyVec_def resetVec_def popInstances.simps seqM_def bindM_def)
  have n: "registerAll put add num exp ma [] s = (Ok (), s)" for put :: "'b \<Rightarrow> 'a EVMEnvironment StoreManager \<Rightarrow> u32 \<times> 'a EVMEnvironment StoreManager" and add num exp ma s
    by (simp add: registerAll_def retM_def)
  obtain ma s1 where s1: "importModule (newModuleInstance (IModName (EEIModule H keccak))) (newStoreManager :: 'a EVMEnvironment StoreManager) = (ma, s1)"
    by fastforce
  have "fst (registerAll importHostFunction addFuncAddr getFuncNum exportFuncion ma (IFuncs (EEIModule H keccak)) s1) = Ok ()"
    using s1 len by (intro registerFuncs_ok) (auto simp: importModule_def importInstance_def newStoreManager_def emptyVec_def newModuleInstance_def)
  then obtain s2 where "registerAll importHostFunction addFuncAddr getFuncNum exportFuncion ma (IFuncs (EEIModule H keccak)) s1 = (Ok (), s2)"
    by (metis prod.collapse)
  moreover have "findModule (newStoreManager :: 'a EVMEnvironment StoreManager) nm = Err WrongInstanceAddress" for nm
    by (simp add: findModule_def newStoreManager_def emptyVec_def)
  ultimately show ?thesis
    by (simp add: registerHostModule_def seqM_def bindM_def r s1 e n)
qed

lemma createEVM_ok: "fst (createEVM H keccak newEVM) = Ok ()"
proof -
  obtain s where s: "registerHostModule (EEIModule H keccak) newStoreManager = (Ok (), s)"
    using registerEEI_ok [of H keccak] by (cases "registerHostModule (EEIModule H keccak) newStoreManager") simp
  obtain v :: "'a EVMEnvironment VM" where w: "useTable Wasm newEVM = (Ok (), v)" "Store (Engine v) = newStoreManager"
    by (simp add: useTable_def getCostTable_def newEVM_def newVM_def newInterp_def Let_def)
  have "fst (addHostModule Ewasm (EEIModule H keccak) vm) = Ok ()" if "Store (Engine vm) = newStoreManager" for vm
    by (simp add: addHostModule_def onEngine_def onStore_def that s seqM_def bindM_def modifyM_def useTable_def getCostTable_def Let_def)
  then show ?thesis
    unfolding createEVM_def initVM_def by (simp add: hasVMType_def addVMType_def newConfigure_def seqM_def bindM_def w retM_def)
qed

section \<open>Properties\<close>

text \<open>A message for examples, in static mode.\<close>

definition plainMessage :: evmc_message where
  "plainMessage = \<lparr>MKind = EVMC_CALL, MFlags = 1, MDepth = 0, MGas = 100, MDestination = replicate 20 0, MSender = replicate 20 0,
     MInput = None, MValue = replicate 32 0\<rparr>"

lemma evmc_runs:
  assumes "evmcExecute H keccak F n chain msg code newEVM = (r, vm)"
  obtains (created) "fresh H keccak vm" "\<And>x. r \<noteq> Ok x"
  | (started) vm1 r2 vm2 where "contract_gas.vm_holds (MGas msg) H keccak vm1" "Flag (Host (Engine vm1)) = MFlags msg"
      "EVMCContext (Host (Engine vm1)) = Some chain" "runContract F n code vm1 = (r2, vm2)" "bindM (runContract F n code) (collectResult msg) vm1 = (r, vm)"
proof -
  obtain r0 vm0 where c: "createEVM H keccak newEVM = (r0, vm0)" by fastforce
  have f: "fresh H keccak vm0" using fresh_createEVM [of H keccak] c by simp
  show thesis
  proof (cases "r0 = Ok ()")
    case True
    obtain vm1 where v: "setData chain msg code vm0 = (Ok (), vm1)" "contract_gas.vm_holds (MGas msg) H keccak vm1"
        "Flag (Host (Engine vm1)) = MFlags msg" "EVMCContext (Host (Engine vm1)) = Some chain" using setData_run [OF f] by blast
    obtain r2 vm2 where "runContract F n code vm1 = (r2, vm2)" by fastforce
    then show ?thesis using started v assms c True by (simp add: evmcExecute_def seqM_def bindM_def)
  next
    case False
    then show ?thesis using created f assms c by (cases r0) (auto simp: evmcExecute_def seqM_def bindM_def)
  qed
qed

text \<open>C8. A contract cannot make gas: whatever the code, the host and the message, the gas that the entry point
  returns is at most the gas that the message gave, it is what the meter shows as not used, and after a
  failure it is zero.\<close>

theorem evmc_gas_left:
  assumes "evmcExecute H keccak F n chain msg code newEVM = (Ok res, vm)"
  shows "RGasLeft res \<le> MGas msg \<and> (RStatus res = EVMC_FAILURE \<longrightarrow> RGasLeft res = 0) \<and>
    (RStatus res \<noteq> EVMC_FAILURE \<longrightarrow> (\<exists>m. Meter (Engine vm) = Some m \<and> RGasLeft res = MGas msg - CostSum m \<and> CostSum m \<le> MGas msg))"
  using assms
proof (cases rule: evmc_runs)
  case (started vm1 r2 vm2)
  let ?V = "contract_gas.vm_holds (MGas msg) H keccak"
  have "keeps ?V (runContract F n code)" by (intro keeps_runContract contract_gas.vm_stages)
  then have "?V vm2" using started(1,4) by (rule keepsD)
  then obtain m where m: "Meter (Engine vm2) = Some m" "CostLimit m = MGas msg" "CostSum m \<le> MGas msg"
    by (auto simp: contract_gas.vm_holds_def contract_gas.holds_in_def gas_within_def)
  have "MGas msg - CostSum m \<le> MGas msg" using m(3) by (simp add: word_le_nat_alt unat_sub)
  then show ?thesis using started(4,5) m
    by (cases r2) (auto simp: bindM_def collectResult_run [OF m(1)] evmcResult_def split: outcome.splits)
qed blast

theorem evmc_gas_left_witness:
  "\<forall>F. \<exists>res vm. evmcExecute countingHost (\<lambda>_. []) F 0 0 plainMessage [] newEVM = (Ok res, vm) \<and> RGasLeft res \<le> 100 \<and> RStatus res = EVMC_FAILURE"
proof
  fix F
  obtain vm0 where c: "createEVM countingHost (\<lambda>_. []) newEVM = (Ok (), vm0)" using createEVM_ok by (metis prod.collapse)
  obtain vm1 where d: "setData 0 plainMessage [] vm0 = (Ok (), vm1)" "contract_gas.vm_holds (MGas plainMessage) countingHost (\<lambda>_. []) vm1"
    using setData_run [of countingHost "\<lambda>_. []" vm0 0 plainMessage "[]"] fresh_createEVM [of countingHost "\<lambda>_. []"] c by auto
  let ?vm = "vm1\<lparr>FVMgr := \<lparr>Code = [], Pos = 0, Status = EndOfFile\<rparr>\<rparr>"
  obtain m where m: "Meter (Engine ?vm) = Some m"
    using d(2) by (auto simp: contract_gas.vm_holds_def contract_gas.holds_in_def gas_within_def)
  have "runContract F 0 [] vm1 = (Ok EVMC_FAILURE, ?vm)"
    by (simp add: runContract_def attempt_def loadWasm_def onLoader_def parseModule_def setCode_def checkExports_def checkStart_def runMain_def
        bindM_def retM_def Let_def split_beta)
  then obtain res where r: "evmcExecute countingHost (\<lambda>_. []) F 0 0 plainMessage [] newEVM = (Ok res, ?vm)" "RStatus res = EVMC_FAILURE"
    using c d(1) collectResult_run [OF m] by (simp add: evmcExecute_def seqM_def bindM_def verifyDeployed_def plainMessage_def evmcResult_def)
  then show "\<exists>res vm. evmcExecute countingHost (\<lambda>_. []) F 0 0 plainMessage [] newEVM = (Ok res, vm) \<and> RGasLeft res \<le> 100 \<and> RStatus res = EVMC_FAILURE"
    using evmc_gas_left [OF r(1)] by (auto simp: plainMessage_def)
qed

text \<open>C9. A static call does not change the chain: when the flag of the message is set, no run of a contract, however it
  ends, falsifies a property of the chain that queries, calls in static mode, logs and selfdestruct keep,
  such as the contents of the storage.\<close>

theorem evmc_static:
  assumes "static_host H I" and "quiet_logs H I" and "MFlags msg AND EVMC_STATIC H \<noteq> 0" and "I chain"
    and "evmcExecute H keccak F n chain msg code newEVM = (r, vm)"
  shows "pred_option I (EVMCContext (Host (Engine vm)))"
  using assms(5)
proof (cases rule: evmc_runs)
  case created
  then show ?thesis by (simp add: fresh_def unspent_def newEVMEnvironment_def)
next
  case (started vm1 r2 vm2)
  have hi: "host_invariant (static_env H I) (module_funcs (eeiFunctions H keccak))" using assms(1-3) by (intro contract_static) auto
  let ?V = "host_invariant.vm_holds (static_env H I) (module_funcs (eeiFunctions H keccak))"
  note V = host_invariant.vm_holds_def [OF hi] host_invariant.holds_in_def [OF hi]
  have "?V vm1" using started(1-3) assms(3,4) by (simp add: V static_env_def contract_gas.vm_holds_def contract_gas.holds_in_def)
  moreover have "keeps ?V (runContract F n code)" by (intro keeps_runContract host_invariant.vm_stages [OF hi])
  ultimately have v2: "?V vm2" using started(4) keepsD by metis
  have "keeps (contract_gas.vm_holds (MGas msg) H keccak) (runContract F n code)" by (intro keeps_runContract contract_gas.vm_stages)
  then have "contract_gas.vm_holds (MGas msg) H keccak vm2" using started(1,4) by (rule keepsD)
  then obtain m where m: "Meter (Engine vm2) = Some m"
    by (auto simp: contract_gas.vm_holds_def contract_gas.holds_in_def gas_within_def)
  have "vm = vm2" using started(4,5) by (cases r2) (auto simp: bindM_def collectResult_run [OF m] split: outcome.splits)
  then show ?thesis using v2 by (simp add: V static_env_def)
qed

text \<open>The chain of the example with a storage that only \<open>set_storage\<close> changes.\<close>

theorem evmc_static_witness:
  "\<forall>F n code. pred_option (\<lambda>c. c = 0) (EVMCContext (Host (Engine (snd
     (evmcExecute (countingHost\<lparr>emit_log := \<lambda>_ _ _ c. ((), c), selfdestruct := \<lambda>_ _ c. ((), c)\<rparr>) (\<lambda>_. []) F n 0 plainMessage code newEVM)))))"
proof (intro allI)
  fix F n code
  let ?H = "countingHost\<lparr>emit_log := \<lambda>_ _ _ c. ((), c), selfdestruct := \<lambda>_ _ c. ((), c)\<rparr>"
  have "static_host ?H (\<lambda>c. c = 0)" "quiet_logs ?H (\<lambda>c. c = 0)" "MFlags plainMessage AND EVMC_STATIC ?H \<noteq> 0"
    by (simp_all add: static_host_def quiet_logs_def countingHost_def plainMessage_def)
  then show "pred_option (\<lambda>c. c = 0) (EVMCContext (Host (Engine (snd (evmcExecute ?H (\<lambda>_. []) F n 0 plainMessage code newEVM)))))"
    by (rule evmc_static [where chain = 0 and keccak = "\<lambda>_. []" and F = F and n = n and code = code
        and r = "fst (evmcExecute ?H (\<lambda>_. []) F n 0 plainMessage code newEVM)"]) simp_all
qed

end
