(* ===== verification/RpcProxy.thy ===== *)
theory RpcProxy
  imports Vm Wasi HexStr Digits
begin

text \<open>
  The proxy behind the RPC service: \<open>lib/proxy/proxy.cpp\<close>, \<open>lib/proxy/cmdparser.cpp\<close>, \<open>include/proxy/\<close> and
  \<open>tools/ssvm-proxy/main.cpp\<close>. A request is a JSON document: the proxy makes a machine, restores the
  globals and memories of an earlier run, executes a function and writes a JSON document with the
  results and a snapshot.

  Documents are values of the datatype \<open>Json\<close>. A failed assertion of the accessors of rapidjson and
  an exception, which nothing here catches, are \<open>Undef\<close>. What is not part of the sources is a parameter,
  the fields of \<open>platform\<close>: the reader and the writer of rapidjson, the routines of boost, the conversions
  of floating-point numbers and the files. The loader for a path is the field \<open>parseFile\<close>.
\<close>

section \<open>JSON\<close>

datatype Json = JNull | JBool bool | JInt int | JDouble u64 | JStr Bytes | JArr "Json list" | JObj "(Bytes \<times> Json) list"

text \<open>A \<open>const char *\<close> ends at the first zero byte, which is \<open>c_str\<close>.\<close>

definition findMember :: "string \<Rightarrow> Json \<Rightarrow> Json option Expect" where
  "findMember key j = (case j of JObj ms \<Rightarrow> Ok (map_of ms (name_of key)) | _ \<Rightarrow> Undef)"

definition member :: "string \<Rightarrow> Json \<Rightarrow> Json Expect" where
  "member key j = obind (findMember key j) (\<lambda>r. case r of None \<Rightarrow> Undef | Some v \<Rightarrow> Ok v)"

fun getArr :: "Json \<Rightarrow> Json list Expect" where
  "getArr (JArr xs) = Ok xs"
| "getArr _ = Undef"

fun getString :: "Json \<Rightarrow> Bytes Expect" where
  "getString (JStr s) = Ok (c_str s)"
| "getString _ = Undef"

definition getNumber :: "int \<Rightarrow> int \<Rightarrow> Json \<Rightarrow> int Expect" where
  "getNumber lo hi j = (case j of JInt i \<Rightarrow> if lo \<le> i \<and> i < hi then Ok i else Undef | _ \<Rightarrow> Undef)"

definition getUint :: "Json \<Rightarrow> u32 Expect" where
  "getUint j = obind (getNumber 0 (2 ^ 32) j) (\<lambda>i. Ok (of_int i))"

definition getUint64 :: "Json \<Rightarrow> u64 Expect" where
  "getUint64 j = obind (getNumber 0 (2 ^ 64) j) (\<lambda>i. Ok (of_int i))"

definition getInt64 :: "Json \<Rightarrow> u64 Expect" where
  "getInt64 j = obind (getNumber (- (2 ^ 63)) (2 ^ 63) j) (\<lambda>i. Ok (of_int i))"

definition elemAt :: "Json list \<Rightarrow> nat \<Rightarrow> Json Expect" where
  "elemAt xs i = (if i < length xs then Ok (xs ! i) else Undef)"

text \<open>A result of the standard library or of boost; \<open>None\<close> is an exception.\<close>

definition throws :: "'a option \<Rightarrow> 'a Expect" where
  "throws r = (case r of None \<Rightarrow> Undef | Some x \<Rightarrow> Ok x)"

record platform =
  jsonParse :: "Bytes \<Rightarrow> Json"
  jsonPrint :: "Json \<Rightarrow> Bytes"
  stof :: "Bytes \<Rightarrow> u32 option"
  stod :: "Bytes \<Rightarrow> u64 option"
  showFloat :: "u32 \<Rightarrow> Bytes"
  showDouble :: "u64 \<Rightarrow> Bytes"
  hex_lower :: "Bytes \<Rightarrow> Bytes"
  unhex :: "Bytes \<Rightarrow> Bytes option"
  format016llx :: "u64 \<Rightarrow> Bytes"
  weakly_canonical :: "Bytes \<Rightarrow> Bytes option"
  pathExists :: "Bytes \<Rightarrow> bool"
  readable :: "Bytes \<rightharpoonup> Bytes"
  writable :: "Bytes \<Rightarrow> bool"
  homeDir :: "Bytes option"
  parseFile :: "Bytes \<Rightarrow> Module reader"

section \<open>Snapshots\<close>

definition restoreGlobal :: "ModuleInstance \<Rightarrow> Json \<Rightarrow> ('h StoreManager, unit) exec" where
  "restoreGlobal m e =
     bindM (liftM (obind (getArr e) (\<lambda>xs. obind (elemAt xs 0) getUint))) (\<lambda>idx.
     bindM (liftM (getGlobalAddr m idx)) (\<lambda>a.
     bindM (getsM (\<lambda>s. deref (getGlobal s a))) (\<lambda>g.
     bindM (liftM (obind (getArr e) (\<lambda>xs. obind (elemAt xs 1) (\<lambda>v. obind (getString v) (\<lambda>t. throws (stoull 16 t)))))) (\<lambda>w.
     modifyM (setGlob a (g\<lparr>GValue := V64 w\<rparr>))))))"

definition restoreMemory :: "platform \<Rightarrow> ModuleInstance \<Rightarrow> Json \<Rightarrow> ('h StoreManager, unit) exec" where
  "restoreMemory L m e =
     bindM (liftM (obind (getArr e) (\<lambda>xs. obind (elemAt xs 0) getUint))) (\<lambda>idx.
     bindM (liftM (obind (getArr e) (\<lambda>xs. obind (elemAt xs 1) getString))) (\<lambda>hex.
     bindM (liftM (getMemAddr m idx)) (\<lambda>a.
     bindM (getsM (\<lambda>s. deref (getMemory s a))) (\<lambda>mem.
     bindM (liftM (throws (unhex L hex))) (\<lambda>bytes s.
       let (r, mem') = setBytes bytes 0 0 (of_nat (length bytes)) mem in (r, setMem a mem' s))))))"

definition restoreAll :: "string \<Rightarrow> (Json \<Rightarrow> ('h StoreManager, unit) exec) \<Rightarrow> Json \<Rightarrow> ('h StoreManager, unit) exec" where
  "restoreAll key f doc =
     bindM (liftM (findMember key doc)) (\<lambda>r. case r of
       None \<Rightarrow> retM ()
     | Some v \<Rightarrow> bindM (liftM (getArr v)) (forM f))"

definition restore :: "platform \<Rightarrow> Json \<Rightarrow> ('h StoreManager, unit) exec" where
  "restore L doc =
     bindM (getsM getActiveModule) (\<lambda>m.
     seqM (restoreAll ''global'' (restoreGlobal m) doc)
          (restoreAll ''memory'' (restoreMemory L m) doc))"

text \<open>One round of each loop of \<open>snapshot\<close>: the element that is pushed, if there is one.\<close>

definition snapshotGlobal :: "platform \<Rightarrow> 'h StoreManager \<Rightarrow> ModuleInstance \<Rightarrow> u32 \<Rightarrow> Json list Expect" where
  "snapshotGlobal L s m i =
     obind (deref (getGlobalAddr m i)) (\<lambda>a.
     obind (deref (getGlobal s a)) (\<lambda>g.
     obind (get64 (GValue g)) (\<lambda>w.
     Ok [JArr [JInt (uint i), JStr (c_str (format016llx L w))]])))"

definition snapshotMemory :: "platform \<Rightarrow> 'h StoreManager \<Rightarrow> ModuleInstance \<Rightarrow> u32 \<Rightarrow> Json list Expect" where
  "snapshotMemory L s m i =
     obind (deref (getMemAddr m i)) (\<lambda>a.
     obind (deref (getMemory s a)) (\<lambda>mem.
     let hex = hex_lower L (Data mem) in
     Ok (if length hex > 0 then [JArr [JInt (uint i), JStr (c_str hex)]] else [])))"

fun collect :: "('a \<Rightarrow> Json list Expect) \<Rightarrow> 'a list \<Rightarrow> Json list Expect" where
  "collect f [] = Ok []"
| "collect f (x # xs) = obind (f x) (\<lambda>js. obind (collect f xs) (\<lambda>ks. Ok (js @ ks)))"

definition indices :: "u32 \<Rightarrow> u32 list" where
  "indices n = map of_nat [0..<unat n]"

definition snapshot :: "platform \<Rightarrow> 'h StoreManager \<Rightarrow> (Bytes \<times> Json) list \<Rightarrow> (Bytes \<times> Json) list Expect" where
  "snapshot L s doc =
     obind (getActiveModule s) (\<lambda>m.
     obind (if getGlobalNum m > 0
            then obind (collect (snapshotGlobal L s m) (indices (getGlobalNum m))) (\<lambda>gs. Ok (doc @ [(name_of ''global'', JArr gs)]))
            else Ok doc) (\<lambda>doc1.
     if getMemNum m > 0
     then obind (collect (snapshotMemory L s m) (indices (getMemNum m))) (\<lambda>ms.
            Ok (if length ms > 0 then doc1 @ [(name_of ''memory'', JArr ms)] else doc1))
     else Ok doc1))"

section \<open>Arguments and results\<close>

definition convStrToVal :: "platform \<Rightarrow> Bytes \<Rightarrow> Bytes \<Rightarrow> ValVariant Expect" where
  "convStrToVal L str type =
     (if type = name_of ''i32'' then obind (throws (stoll 10 str)) (\<lambda>w. Ok (V32 (ucast w)))
      else if type = name_of ''i64'' then obind (throws (stoll 10 str)) (\<lambda>w. Ok (V64 w))
      else if type = name_of ''f32'' then obind (throws (stof L str)) (\<lambda>w. Ok (V32 w))
      else if type = name_of ''f64'' then obind (throws (stod L str)) (\<lambda>w. Ok (V64 w))
      else Ok (V32 0))"

definition convValToStr :: "platform \<Rightarrow> ValVariant \<Rightarrow> Bytes \<Rightarrow> Bytes Expect" where
  "convValToStr L v type =
     (if type = name_of ''i32'' then Ok (showInt (sint (get32 v)))
      else if type = name_of ''i64'' then obind (get64 v) (\<lambda>w. Ok (showInt (sint w)))
      else if type = name_of ''f32'' then Ok (showFloat L (get32 v))
      else if type = name_of ''f64'' then obind (get64 v) (\<lambda>w. Ok (showDouble L w))
      else Ok [])"

section \<open>The proxy\<close>

text \<open>The document that is written; its members are in the order of \<open>prepareOutputJSON\<close>.\<close>

record Output =
  OService :: Bytes
  OUUID :: Bytes
  OStatus :: Bytes
  OMessage :: Bytes
  OGas :: u64
  OGasUsed :: u64
  OSnapshot :: "(Bytes \<times> Json) list"
  OReturn :: "Json list"

definition outputJson :: "Output \<Rightarrow> Json" where
  "outputJson d = JObj [
     (name_of ''service_name'', JStr (OService d)),
     (name_of ''uuid'', JStr (OUUID d)),
     (name_of ''result'', JObj [
        (name_of ''status'', JStr (OStatus d)),
        (name_of ''error_message'', JStr (OMessage d)),
        (name_of ''gas'', JInt (uint (OGas d))),
        (name_of ''gas_used'', JInt (uint (OGasUsed d))),
        (name_of ''vm_snapshot'', JObj (OSnapshot d)),
        (name_of ''return_value'', JArr (OReturn d))])]"

definition preparedOutput :: Output where
  "preparedOutput = \<lparr>OService = [], OUUID = name_of ''0x0'', OStatus = name_of ''Failed'', OMessage = [], OGas = 0, OGasUsed = 0,
     OSnapshot = [], OReturn = []\<rparr>"

text \<open>\<open>ProxyOS\<close> is the operating system while there is no machine to keep it.\<close>

record 'o Proxy =
  InputJSONPath :: Bytes
  OutputJSONPath :: Bytes
  WasmPath :: Bytes
  InputDoc :: Json
  OutputDoc :: Output
  VMUnit :: "'o WasiEnvironment VM option"
  VMConf :: Configure
  ProxyOS :: 'o

type_synonym ('o, 'a) rpc = "('o Proxy, 'a) exec"

definition newProxy :: "'o \<Rightarrow> 'o Proxy" where
  "newProxy os = \<lparr>InputJSONPath = [], OutputJSONPath = [], WasmPath = [], InputDoc = JNull, OutputDoc = preparedOutput, VMUnit = None,
     VMConf = newConfigure, ProxyOS = os\<rparr>"

definition getAbsPath :: "platform \<Rightarrow> Bytes \<Rightarrow> Bytes Expect" where
  "getAbsPath L relPath = (case relPath of
       [] \<Rightarrow> Ok []
     | c # _ \<Rightarrow>
         if c = 0x7E then
           case homeDir L of
             None \<Rightarrow> throws (weakly_canonical L [])
           | Some home \<Rightarrow> if length relPath < 2 then Undef else throws (weakly_canonical L (home @ [0x2F] @ drop 2 relPath))
         else throws (weakly_canonical L relPath))"

definition setInputJSONPath :: "platform \<Rightarrow> Bytes \<Rightarrow> ('o, unit) rpc" where
  "setInputJSONPath L s = bindM (liftM (getAbsPath L s)) (\<lambda>x. modifyM (\<lambda>p. p\<lparr>InputJSONPath := x\<rparr>))"

definition setOutputJSONPath :: "platform \<Rightarrow> Bytes \<Rightarrow> ('o, unit) rpc" where
  "setOutputJSONPath L s = bindM (liftM (getAbsPath L s)) (\<lambda>x. modifyM (\<lambda>p. p\<lparr>OutputJSONPath := x\<rparr>))"

definition setWasmPath :: "platform \<Rightarrow> Bytes \<Rightarrow> ('o, unit) rpc" where
  "setWasmPath L s = bindM (liftM (getAbsPath L s)) (\<lambda>x. modifyM (\<lambda>p. p\<lparr>WasmPath := x\<rparr>))"

definition setOutput :: "(Output \<Rightarrow> Output) \<Rightarrow> ('o, unit) rpc" where
  "setOutput f = modifyM (\<lambda>p. p\<lparr>OutputDoc := f (OutputDoc p)\<rparr>)"

text \<open>\<open>OutputDoc["result"]["error_message"].SetString(...)\<close>\<close>

definition setError :: "string \<Rightarrow> ('o, unit) rpc" where
  "setError msg = setOutput (\<lambda>d. d\<lparr>OMessage := name_of msg\<rparr>)"

definition prepareOutputJSON :: "('o, unit) rpc" where
  "prepareOutputJSON = setOutput (\<lambda>_. preparedOutput)"

text \<open>The machine is destroyed with its module, which closes its directories, and a new one is made.\<close>

definition resetVM :: "'o posix \<Rightarrow> ('o, unit) rpc" where
  "resetVM P = modifyM (\<lambda>p. p\<lparr>VMUnit := None, VMConf := newConfigure,
     ProxyOS := (case VMUnit p of None \<Rightarrow> ProxyOS p | Some vm \<Rightarrow> deleteWasiEnvironment P (Host (Engine vm)))\<rparr>)"

definition noEnvironment :: "'o \<Rightarrow> 'o WasiEnvironment" where
  "noEnvironment os = \<lparr>WStatus = None, CmdArgs = [], PreStats = [], ExitCode = 0, System = os\<rparr>"

definition makeVM :: "'o posix \<Rightarrow> ('o, unit) rpc" where
  "makeVM P p =
     (let env = (if hasVMType (VMConf p) Wasi then newWasiEnvironment P (ProxyOS p) else noEnvironment (ProxyOS p));
          (r, vm) = initVM (VMConf p) (WasiModule P) (newImportObject []) (newVM newStoreManager env)
      in (r, p\<lparr>VMUnit := Some vm\<rparr>))"

text \<open>The loop over the module types; its value says whether it went through.\<close>

fun configure :: "Json list \<Rightarrow> ('o, bool) rpc" where
  "configure [] = retM True"
| "configure (v # vs) =
     bindM (liftM (getString v)) (\<lambda>t.
     if t = name_of ''Rust'' then seqM (modifyM (\<lambda>p. p\<lparr>VMConf := addVMType Wasi (VMConf p)\<rparr>)) (configure vs)
     else if t = name_of ''ethereum'' then seqM (setError ''Ethereum mode is not supported in SSVM-RPC.'') (retM False)
     else configure vs)"

text \<open>\<open>if (It != InputDoc.MemberEnd()) { ... }\<close>\<close>

definition whenSome :: "'a option \<Rightarrow> ('a \<Rightarrow> ('o, unit) rpc) \<Rightarrow> ('o, unit) rpc" where
  "whenSome r f = (case r of None \<Rightarrow> retM () | Some x \<Rightarrow> f x)"

definition parseHeader :: "'o posix \<Rightarrow> Json \<Rightarrow> ('o, unit) rpc" where
  "parseHeader P doc =
     bindM (liftM (findMember ''service_name'' doc)) (\<lambda>itServiceName.
     bindM (liftM (findMember ''uuid'' doc)) (\<lambda>itUUID.
     bindM (liftM (findMember ''modules'' doc)) (\<lambda>itModules.
     bindM (liftM (findMember ''execution'' doc)) (\<lambda>itExecution.
     case (itModules, itExecution) of
       (Some modules, Some execution) \<Rightarrow>
         seqM (whenSome itServiceName (\<lambda>v. bindM (liftM (getString v)) (\<lambda>s. setOutput (\<lambda>d. d\<lparr>OService := s\<rparr>))))
        (seqM (whenSome itUUID (\<lambda>v. bindM (liftM (getString v)) (\<lambda>s. setOutput (\<lambda>d. d\<lparr>OUUID := s\<rparr>))))
        (bindM (liftM (findMember ''gas'' execution)) (\<lambda>itGas.
         seqM (whenSome itGas (\<lambda>v. bindM (liftM (getInt64 v)) (\<lambda>g. setOutput (\<lambda>d. d\<lparr>OGas := g\<rparr>))))
        (seqM (resetVM P)
        (bindM (liftM (getArr modules)) (\<lambda>ms.
         bindM (configure ms) (\<lambda>go. if go then makeVM P else retM ())))))))
     | _ \<Rightarrow> setError ''Module not determined.''))))"

definition parseInputJSON :: "platform \<Rightarrow> 'o posix \<Rightarrow> ('o, unit) rpc" where
  "parseInputJSON L P p =
     (case readable L (InputJSONPath p) of
        None \<Rightarrow> setError ''Input JSON file not found.'' p
      | Some bytes \<Rightarrow> (let doc = jsonParse L (c_str bytes) in parseHeader P doc (p\<lparr>InputDoc := doc\<rparr>)))"

section \<open>Running a request\<close>

definition onVM :: "('o WasiEnvironment, 'a) vmop \<Rightarrow> ('o, 'a) rpc" where
  "onVM m p = (case VMUnit p of None \<Rightarrow> (Undef, p) | Some vm \<Rightarrow> (let (r, vm') = m vm in (r, p\<lparr>VMUnit := Some vm'\<rparr>)))"

definition setIdentity :: "('o, unit) rpc" where
  "setIdentity p = onVM (modifyM (\<lambda>vm. vm\<lparr>ServiceName := OService (OutputDoc p), UUID := Some (strtoull 16 (OUUID (OutputDoc p)))\<rparr>)) p"

text \<open>\<open>VMUnit->getMeasurement().getCostLimit() = g;\<close>\<close>

definition setCostLimit :: "u64 \<Rightarrow> ('h, unit) vmop" where
  "setCostLimit g = modifyM (\<lambda>vm. vm\<lparr>Engine := (Engine vm)\<lparr>Meter := map_option (\<lambda>m. m\<lparr>CostLimit := g\<rparr>) (Meter (Engine vm))\<rparr>\<rparr>)"

definition costSum :: "('h, u64) vmop" where
  "costSum vm = (case Meter (Engine vm) of None \<Rightarrow> (Undef, vm) | Some m \<Rightarrow> (Ok (CostSum m), vm))"

fun convArgs :: "platform \<Rightarrow> Json list \<Rightarrow> Json list \<Rightarrow> ValVariant list Expect" where
  "convArgs L (a # as) (t # ts) =
     obind (getString a) (\<lambda>str. obind (getString t) (\<lambda>type. obind (convStrToVal L str type) (\<lambda>v.
     obind (convArgs L as ts) (\<lambda>vs. Ok (v # vs)))))"
| "convArgs L _ _ = Ok []"

text \<open>\<open>None\<close> where the two arrays differ in length.\<close>

definition readArgs :: "platform \<Rightarrow> Json option \<Rightarrow> Json option \<Rightarrow> ValVariant list option Expect" where
  "readArgs L itArgs itTypes = (case (itArgs, itTypes) of
       (Some a, Some t) \<Rightarrow>
         obind (getArr a) (\<lambda>as. obind (getArr t) (\<lambda>ts.
         if length as \<noteq> length ts then Ok None else obind (convArgs L as ts) (\<lambda>vs. Ok (Some vs))))
     | _ \<Rightarrow> Ok (Some []))"

text \<open>\<open>if (Status == Success) if (auto Res = m; !Res) { Status = Res.error(); ... }\<close>; not every step has a message.\<close>

definition tryStep :: "('o, unit) rpc \<Rightarrow> ('o, unit) rpc \<Rightarrow> ErrCode \<Rightarrow> ('o, ErrCode) rpc" where
  "tryStep onError m status p =
     (if status \<noteq> Success then (Ok status, p)
      else case m p of
        (Ok _, p') \<Rightarrow> (Ok Success, p')
      | (Err e, p') \<Rightarrow> bindM onError (\<lambda>_. retM e) p'
      | (Undef, p') \<Rightarrow> (Undef, p')
      | (Timeout, p') \<Rightarrow> (Timeout, p'))"

definition restoreVM :: "platform \<Rightarrow> Json \<Rightarrow> ('o, unit) rpc" where
  "restoreVM L execution =
     bindM (liftM (findMember ''vm_snapshot'' execution)) (\<lambda>it.
     whenSome it (\<lambda>doc. onVM (onEngine (onStore (restore L doc)))))"

fun writeResults :: "platform \<Rightarrow> ValVariant list \<Rightarrow> Json list \<Rightarrow> ('o, unit) rpc" where
  "writeResults L (v # vs) (t # ts) =
     bindM (liftM (obind (getString t) (convValToStr L v))) (\<lambda>str.
     seqM (setOutput (\<lambda>d. d\<lparr>OReturn := OReturn d @ [JStr (c_str str)]\<rparr>)) (writeResults L vs ts))"
| "writeResults L _ _ = retM ()"

text \<open>The branch of a successful execution; the value says whether the function goes on.\<close>

definition succeeded :: "platform \<Rightarrow> ValVariant list \<Rightarrow> Json option \<Rightarrow> ('o, bool) rpc" where
  "succeeded L results itRetTypes =
     bindM (onVM costSum) (\<lambda>g.
     seqM (setOutput (\<lambda>d. d\<lparr>OGasUsed := g\<rparr>))
    (bindM (liftM (case itRetTypes of None \<Rightarrow> Ok [] | Some t \<Rightarrow> getArr t)) (\<lambda>ts.
     if ts \<noteq> [] \<and> length results \<noteq> length ts
     then seqM (setError ''Return value array length and wasm function not matched.'') (retM False)
     else seqM (if ts = [] then retM () else writeResults L results ts)
         (seqM (setOutput (\<lambda>d. d\<lparr>OStatus := name_of ''Succeeded''\<rparr>)) (retM True)))))"

definition executionFailed :: "ErrCode \<Rightarrow> ('o, unit) rpc" where
  "executionFailed e =
     (if e = Revert
      then setOutput (\<lambda>d. d\<lparr>OStatus := name_of ''Reverted'', OMessage := name_of ''Reverted by Ewasm.''\<rparr>)
      else setError ''Wasm execution failed.'')"

definition executeFunction :: "platform \<Rightarrow> fpu \<Rightarrow> nat \<Rightarrow> Bytes \<Rightarrow> ValVariant list \<Rightarrow> Json option \<Rightarrow> ('o, bool) rpc" where
  "executeFunction L F n func params itRetTypes p =
     (case onVM (executeVM F n func params) p of
        (Ok vs, p') \<Rightarrow> succeeded L vs itRetTypes p'
      | (Err e, p') \<Rightarrow> seqM (executionFailed e) (retM False) p'
      | (Undef, p') \<Rightarrow> (Undef, p')
      | (Timeout, p') \<Rightarrow> (Timeout, p'))"

text \<open>The result of \<open>snapshot\<close> is discarded.\<close>

definition snapshotVM :: "platform \<Rightarrow> ('o, unit) rpc" where
  "snapshotVM L p = (case VMUnit p of
       None \<Rightarrow> (Undef, p)
     | Some vm \<Rightarrow> (case snapshot L (Store (Engine vm)) (OSnapshot (OutputDoc p)) of
         Ok doc \<Rightarrow> setOutput (\<lambda>d. d\<lparr>OSnapshot := doc\<rparr>) p
       | Err _ \<Rightarrow> (Ok (), p)
       | Undef \<Rightarrow> (Undef, p)
       | Timeout \<Rightarrow> (Timeout, p)))"

definition runModule :: "platform \<Rightarrow> fpu \<Rightarrow> nat \<Rightarrow> Json \<Rightarrow> Json option \<Rightarrow> Json option \<Rightarrow> ValVariant list \<Rightarrow> ('o, unit) rpc" where
  "runModule L F n execution itFuncName itRetTypes params =
     bindM (\<lambda>p. tryStep (setError ''Wasm decoding failed.'') (onVM (loadWasm (parseFile L (WasmPath p)))) Success p) (\<lambda>status.
     bindM (tryStep (setError ''Wasm validation failed.'') (onVM validateVM) status) (\<lambda>status.
     bindM (tryStep (setError ''Wasm instantiation failed.'') (onVM (instantiateVM F n)) status) (\<lambda>status.
     bindM (tryStep (retM ()) (restoreVM L execution) status) (\<lambda>status.
     if status \<noteq> Success then retM ()
     else bindM (liftM (case itFuncName of None \<Rightarrow> Ok [] | Some v \<Rightarrow> getString v)) (\<lambda>func.
          bindM (executeFunction L F n func params itRetTypes) (\<lambda>go.
          if go then snapshotVM L else retM ()))))))"

definition executeRequest :: "platform \<Rightarrow> fpu \<Rightarrow> nat \<Rightarrow> ('o, unit) rpc" where
  "executeRequest L F n =
     seqM setIdentity
    (bindM (getsM (\<lambda>p. member ''execution'' (InputDoc p))) (\<lambda>execution.
     bindM (liftM (findMember ''function_name'' execution)) (\<lambda>itFuncName.
     bindM (liftM (findMember ''gas'' execution)) (\<lambda>itGas.
     bindM (liftM (findMember ''argument'' execution)) (\<lambda>itArgs.
     bindM (liftM (findMember ''argument_types'' execution)) (\<lambda>itArgTypes.
     bindM (liftM (findMember ''return_types'' execution)) (\<lambda>itRetTypes.
     seqM (whenSome itGas (\<lambda>v. bindM (liftM (getUint64 v)) (\<lambda>g. onVM (setCostLimit g))))
    (bindM (liftM (readArgs L itArgs itArgTypes)) (\<lambda>args. case args of
       None \<Rightarrow> setError ''Arguments and types array length not matched.''
     | Some params \<Rightarrow> runModule L F n execution itFuncName itRetTypes params)))))))))"

definition proxyExecuteVM :: "platform \<Rightarrow> fpu \<Rightarrow> nat \<Rightarrow> ('o, unit) rpc" where
  "proxyExecuteVM L F n p =
     (if WasmPath p = [] \<or> \<not> pathExists L (WasmPath p) then setError ''Wasm file not found.'' p
      else if VMUnit p = None then (Ok (), p)
      else executeRequest L F n p)"

text \<open>The document goes to a file, or to the standard output when the file cannot be opened.\<close>

datatype Exported = ToFile Bytes Bytes | ToStdout Bytes

definition exportOutputJSON :: "platform \<Rightarrow> ('o, Exported) rpc" where
  "exportOutputJSON L p =
     (let text = c_str (jsonPrint L (outputJson (OutputDoc p))) in
      (Ok (if writable L (OutputJSONPath p) then ToFile (OutputJSONPath p) text
           else ToStdout ([0x0A] @ name_of '' Cannot open output path: '' @ [0x22] @ OutputJSONPath p @ [0x22] @ [0x0A] @
             name_of '' ===================  Results  =================='' @ [0x0A] @ name_of '' '' @ text @ [0x0A])), p))"

definition runRequest :: "platform \<Rightarrow> 'o posix \<Rightarrow> fpu \<Rightarrow> nat \<Rightarrow> ('o, Exported) rpc" where
  "runRequest L P F n =
     seqM prepareOutputJSON (seqM (parseInputJSON L P) (seqM (proxyExecuteVM L F n) (exportOutputJSON L)))"

section \<open>The command line\<close>

record CmdParser =
  CInput :: Bytes
  COutput :: Bytes
  CWasm :: Bytes

text \<open>The positions of an occurrence; \<open>rfind\<close> gives the last one.\<close>

definition occurrences :: "Bytes \<Rightarrow> Bytes \<Rightarrow> nat list" where
  "occurrences p s = filter (\<lambda>i. take (length p) (drop i s) = p) [0..<Suc (length s) - length p]"

definition rfind :: "Bytes \<Rightarrow> Bytes \<Rightarrow> nat option" where
  "rfind p s = (if occurrences p s = [] then None else Some (last (occurrences p s)))"

definition parseArg :: "Bytes \<Rightarrow> CmdParser \<Rightarrow> CmdParser" where
  "parseArg s c =
     (let c1 = (if rfind (name_of ''--input_file='') s = Some 0 then c\<lparr>CInput := drop 13 s\<rparr> else c);
          c2 = (if rfind (name_of ''--output_file='') s = Some 0 then c1\<lparr>COutput := drop 14 s\<rparr> else c1)
      in if rfind (name_of ''--wasm_file='') s = Some 0 then c2\<lparr>CWasm := drop 12 s\<rparr> else c2)"

definition parseCommandLine :: "Bytes list \<Rightarrow> CmdParser \<Rightarrow> CmdParser" where
  "parseCommandLine argv c = fold parseArg argv c"

definition proxyMain :: "platform \<Rightarrow> 'o posix \<Rightarrow> fpu \<Rightarrow> nat \<Rightarrow> Bytes list \<Rightarrow> ('o, Exported) rpc" where
  "proxyMain L P F n argv =
     (let cmd = parseCommandLine argv \<lparr>CInput = [], COutput = [], CWasm = []\<rparr> in
      seqM (setInputJSONPath L (CInput cmd))
     (seqM (setOutputJSONPath L (COutput cmd))
     (seqM (setWasmPath L (CWasm cmd)) (runRequest L P F n))))"

end
