(* ===== verification/RpcProps.thy ===== *)
theory RpcProps
  imports RpcProxy
begin

text \<open>
  What the client of the proxy relies on: the numbers in a result can be sent back as arguments, and the
  snapshot of a machine can be restored in a fresh one.
\<close>

section \<open>Numbers\<close>

lemma c_str_id: "list_all (\<lambda>c. c \<noteq> 0) s \<Longrightarrow> c_str s = s"
  by (simp add: c_str_def list_all_iff)

lemma digit_nonzero: "list_all (\<lambda>d. (0x30 + of_nat d :: u8) \<noteq> 0) [0..<10]"
  by code_simp

lemma c_str_showInt: "c_str (showInt i) = showInt i"
proof -
  have "list_all (\<lambda>c. c \<noteq> 0) (showNat n)" for n
    using showNat_digits [of n] digit_nonzero by (auto simp: list_all_iff)
  then show ?thesis by (intro c_str_id) (simp add: showInt_def)
qed

lemma conv_i32: "convValToStr L (V32 w) (name_of ''i32'') = Ok (showInt (sint w))"
  "convStrToVal L (showInt (sint w)) (name_of ''i32'') = Ok (V32 w)"
proof -
  have "sint w < 2 ^ 63" "- (2 ^ 63) \<le> sint w" using sint_lt [of w] sint_ge [of w] by simp_all
  then have "stoll 10 (showInt (sint w)) = Some (of_int (sint w))" by (intro stoll_showInt)
  moreover have "(ucast (word_of_int (sint w) :: u64) :: u32) = w" by (rule bit_word_eqI) (auto simp: bit_simps)
  ultimately show "convStrToVal L (showInt (sint w)) (name_of ''i32'') = Ok (V32 w)"
    by (simp add: convStrToVal_def throws_def obind_def)
qed (simp add: convValToStr_def)

lemma conv_i64: "convValToStr L (V64 w) (name_of ''i64'') = Ok (showInt (sint w))"
  "convStrToVal L (showInt (sint w)) (name_of ''i64'') = Ok (V64 w)"
proof -
  have n: "name_of ''i64'' \<noteq> name_of ''i32''" by (simp add: name_of_def)
  have "stoll 10 (showInt (sint w)) = Some (of_int (sint w))"
    using sint_lt [of w] sint_ge [of w] by (intro stoll_showInt) simp_all
  then show "convStrToVal L (showInt (sint w)) (name_of ''i64'') = Ok (V64 w)"
    using n by (simp add: convStrToVal_def throws_def obind_def)
  show "convValToStr L (V64 w) (name_of ''i64'') = Ok (showInt (sint w))"
    using n by (simp add: convValToStr_def obind_def)
qed

text \<open>A value and the name of its type, for the integers.\<close>

fun intOf :: "ValVariant \<Rightarrow> Json \<Rightarrow> bool" where
  "intOf (V32 _) t \<longleftrightarrow> t = JStr (name_of ''i32'')"
| "intOf (V64 _) t \<longleftrightarrow> t = JStr (name_of ''i64'')"

lemma intOf_conv:
  assumes "intOf v t"
  shows "\<exists>type str. getString t = Ok type \<and> convValToStr L v type = Ok str \<and> c_str str = str \<and> convStrToVal L str type = Ok v"
proof -
  have "c_str (name_of ''i32'') = name_of ''i32''" "c_str (name_of ''i64'') = name_of ''i64''" by code_simp+
  then show ?thesis using assms by (cases v) (auto simp: conv_i32 conv_i64 c_str_showInt)
qed

text \<open>C22. The integers of a result can be sent back: the array that the proxy writes for results of the integer types,
  read as the arguments of a request with the same types, gives the results.\<close>

theorem results_as_arguments:
  assumes "list_all2 intOf vs ts"
  shows "\<exists>js. writeResults L vs ts p = (Ok (), p\<lparr>OutputDoc := (OutputDoc p)\<lparr>OReturn := OReturn (OutputDoc p) @ js\<rparr>\<rparr>) \<and>
    readArgs L (Some (JArr js)) (Some (JArr ts)) = Ok (Some vs)"
proof -
  have "\<exists>js. writeResults L vs ts p = (Ok (), p\<lparr>OutputDoc := (OutputDoc p)\<lparr>OReturn := OReturn (OutputDoc p) @ js\<rparr>\<rparr>) \<and>
      length js = length ts \<and> convArgs L js ts = Ok vs"
    using assms
  proof (induction vs ts arbitrary: p rule: list_all2_induct)
    case Nil
    then show ?case by (simp add: retM_def)
  next
    case (Cons v vs t ts)
    obtain type str where c: "getString t = Ok type" "convValToStr L v type = Ok str" "c_str str = str" "convStrToVal L str type = Ok v"
      using intOf_conv Cons.hyps(1) by blast
    let ?p = "p\<lparr>OutputDoc := (OutputDoc p)\<lparr>OReturn := OReturn (OutputDoc p) @ [JStr str]\<rparr>\<rparr>"
    obtain js where js: "writeResults L vs ts ?p = (Ok (), ?p\<lparr>OutputDoc := (OutputDoc ?p)\<lparr>OReturn := OReturn (OutputDoc ?p) @ js\<rparr>\<rparr>)"
        "length js = length ts" "convArgs L js ts = Ok vs" using Cons.IH by blast
    have "writeResults L (v # vs) (t # ts) p = writeResults L vs ts ?p"
      using c by (simp add: setOutput_def monad_simps bindM_def seqM_def)
    then show ?case using js c by (intro exI [of _ "JStr str # js"]) (simp add: obind_def)
  qed
  then obtain js where "writeResults L vs ts p = (Ok (), p\<lparr>OutputDoc := (OutputDoc p)\<lparr>OReturn := OReturn (OutputDoc p) @ js\<rparr>\<rparr>)"
      "length js = length ts" "convArgs L js ts = Ok vs" by blast
  moreover from this have "readArgs L (Some (JArr js)) (Some (JArr ts)) = Ok (Some vs)" by (simp add: readArgs_def obind_def)
  ultimately show ?thesis by blast
qed

theorem results_as_arguments_witness:
  "\<forall>L (p :: nat Proxy). \<exists>js. writeResults L [V32 7, V64 (- 1)] [JStr (name_of ''i32''), JStr (name_of ''i64'')] p =
      (Ok (), p\<lparr>OutputDoc := (OutputDoc p)\<lparr>OReturn := OReturn (OutputDoc p) @ js\<rparr>\<rparr>) \<and>
    readArgs L (Some (JArr js)) (Some (JArr [JStr (name_of ''i32''), JStr (name_of ''i64'')])) = Ok (Some [V32 7, V64 (- 1)])"
  by (intro allI results_as_arguments) simp

section \<open>Snapshots\<close>

text \<open>What boost documents of its formatting, and of printing and reading hexadecimal digits.\<close>

definition boost_spec :: "platform \<Rightarrow> bool" where
  "boost_spec L \<longleftrightarrow> (\<forall>w. format016llx L w = [0x30, 0x78] @ hexDigits 16 (unat w)) \<and>
     (\<forall>bs. hex_lower L bs = concat (map hexByte bs) \<and> unhex L (concat (map hexByte bs)) = Some bs)"

lemma hexDigit_code: "list_all (\<lambda>n. hexDigit (of_nat n) \<noteq> 0) [0..<16]"
  by code_simp

lemma hexByte_nonzero: "list_all (\<lambda>c. c \<noteq> 0) (concat (map hexByte bs))"
proof -
  have "hexDigit n \<noteq> 0" if "unat n < 16" for n
    using hexDigit_code that by (auto simp: list_all_iff dest!: bspec [of _ _ "unat n"])
  moreover have "unat (take_bit 4 b) < 2 ^ 4" "unat (drop_bit 4 b) < 2 ^ 4" for b :: u8
    using take_bit_nat_less_exp [of 4 "unat b"] unat_u8_less [of b]
    by (simp_all add: unsigned_take_bit_eq drop_bit_eq_div unat_div less_mult_imp_div_less)
  ultimately show ?thesis by (induction bs) (simp_all add: hexByte_def)
qed

definition globalEntry :: "platform \<Rightarrow> u64 \<Rightarrow> u32 \<Rightarrow> Json" where
  "globalEntry L w i = JArr [JInt (uint i), JStr (c_str (format016llx L w))]"

definition memoryEntry :: "platform \<Rightarrow> Bytes \<Rightarrow> u32 \<Rightarrow> Json" where
  "memoryEntry L bs i = JArr [JInt (uint i), JStr (c_str (hex_lower L bs))]"

lemma collect_Ok: "(\<And>x. x \<in> set xs \<Longrightarrow> f x = Ok (g x)) \<Longrightarrow> collect f xs = Ok (concat (map g xs))"
  by (induction xs) (simp_all add: obind_def)

lemma getUint_uint: "getUint (JInt (uint i)) = Ok i"
  using unsigned_less [where w = i and ?'a = int] by (simp add: getUint_def getNumber_def obind_def)

lemma readGlobal: "boost_spec L \<Longrightarrow> getString (JStr (c_str (format016llx L w))) = Ok t \<Longrightarrow> stoull 16 t = Some w"
  using c_str_id [of "[0x30, 0x78] @ hexDigits 16 (unat w)"] hexDigits_digits(2) [of 16 "unat w"] stoull_hexDigits [of w]
  by (auto simp: boost_spec_def)

lemma readMemory: "boost_spec L \<Longrightarrow> getString (JStr (c_str (hex_lower L bs))) = Ok t \<Longrightarrow> unhex L t = Some bs"
  using c_str_id [OF hexByte_nonzero] by (auto simp: boost_spec_def)

subsection \<open>Restoring globals\<close>

lemma restoreGlobal_entry:
  assumes "boost_spec L" and "unat i < length (GlobalAddrs m)" and "unat (GlobalAddrs m ! unat i) < length (Insts (Globs t))"
  shows "restoreGlobal m (globalEntry L w i) t =
    (Ok (), setGlob (GlobalAddrs m ! unat i) ((globAt t (GlobalAddrs m ! unat i))\<lparr>GValue := V64 w\<rparr>) t)"
proof -
  obtain str where "getString (JStr (c_str (format016llx L w))) = Ok str" by simp
  moreover from this have "stoull 16 str = Some w" by (rule readGlobal [OF assms(1)])
  ultimately show ?thesis using assms(2,3)
    by (simp add: restoreGlobal_def globalEntry_def elemAt_def getUint_uint obind_def getGlobalAddr_def lookup_def getGlobal_def deref_def
        throws_def globAt_def bindM_def liftM_def getsM_def modifyM_def del: getString.simps)
qed

lemma setGlob_others:
  "Mods (setGlob a g t) = Mods t" "Mems (setGlob a g t) = Mems t" "length (Insts (Globs (setGlob a g t))) = length (Insts (Globs t))"
  by (simp_all add: setGlob_def)

lemma globAt_setGlob: "unat a < length (Insts (Globs t)) \<Longrightarrow> globAt (setGlob a g t) b = (if b = a then g else globAt t b)"
  by (auto simp: globAt_def setGlob_def nth_list_update word_unat_eq_iff)

lemma restore_globals:
  assumes "boost_spec L" and "distinct (GlobalAddrs m)" and "list_all (\<lambda>a. unat a < length (Insts (Globs t))) (GlobalAddrs m)"
    and "list_all (\<lambda>i. unat i < length (GlobalAddrs m)) is"
  shows "\<exists>t'. forM (restoreGlobal m) (map (\<lambda>i. globalEntry L (val i) i) is) t = (Ok (), t') \<and> Mods t' = Mods t \<and> Mems t' = Mems t \<and>
    (\<forall>i. unat i < length (GlobalAddrs m) \<longrightarrow> GValue (globAt t' (GlobalAddrs m ! unat i)) =
      (if i \<in> set is then V64 (val i) else GValue (globAt t (GlobalAddrs m ! unat i))))"
  using assms(3,4)
proof (induction "is" arbitrary: t)
  case Nil
  then show ?case by (simp add: retM_def)
next
  case (Cons i js)
  let ?A = "GlobalAddrs m"
  have i: "unat i < length ?A" "unat (?A ! unat i) < length (Insts (Globs t))" using Cons.prems by (auto simp: list_all_iff)
  let ?t = "setGlob (?A ! unat i) ((globAt t (?A ! unat i))\<lparr>GValue := V64 (val i)\<rparr>) t"
  obtain t' where t': "forM (restoreGlobal m) (map (\<lambda>i. globalEntry L (val i) i) js) ?t = (Ok (), t')" "Mods t' = Mods ?t" "Mems t' = Mems ?t"
      "\<forall>i. unat i < length ?A \<longrightarrow> GValue (globAt t' (?A ! unat i)) = (if i \<in> set js then V64 (val i) else GValue (globAt ?t (?A ! unat i)))"
    using Cons.IH [of ?t] Cons.prems by (auto simp: setGlob_others)
  have "?A ! unat k = ?A ! unat i \<longleftrightarrow> k = i" if "unat k < length ?A" for k
    using nth_eq_iff_index_eq [OF assms(2) that i(1)] by (simp add: word_unat_eq_iff [of k])
  then have "\<forall>k. unat k < length ?A \<longrightarrow> GValue (globAt t' (?A ! unat k)) = (if k \<in> set (i # js) then V64 (val k) else GValue (globAt t (?A ! unat k)))"
    using t'(4) i(2) by (simp add: globAt_setGlob)
  moreover have "forM (restoreGlobal m) (map (\<lambda>i. globalEntry L (val i) i) (i # js)) t = (Ok (), t')"
    using restoreGlobal_entry [OF assms(1) i] t'(1) by (simp add: seqM_def bindM_def)
  ultimately show ?case using t'(2,3) by (auto simp: setGlob_others)
qed

subsection \<open>Restoring memories\<close>

lemma memAt_setMem: "unat a < length (Insts (Mems t)) \<Longrightarrow> memAt (setMem a g t) b = (if b = a then g else memAt t b)"
  by (auto simp: memAt_def setMem_def nth_list_update word_unat_eq_iff)

lemma setMem_others:
  "Mods (setMem a g t) = Mods t" "Globs (setMem a g t) = Globs t" "length (Insts (Mems (setMem a g t))) = length (Insts (Mems t))"
  by (simp_all add: setMem_def)

text \<open>The memory of an instance holds the bytes and is large enough for those of the snapshot.\<close>

definition has_room :: "Bytes \<Rightarrow> MemoryInstance \<Rightarrow> bool" where
  "has_room bs mem \<longleftrightarrow> mem_ok mem \<and> length bs \<le> msize mem"

lemma restoreMemory_entry:
  assumes "boost_spec L" and "unat i < length (MemAddrs m)" and "unat (MemAddrs m ! unat i) < length (Insts (Mems t))"
    and "has_room bs (memAt t (MemAddrs m ! unat i))"
  shows "\<exists>mem. restoreMemory L m (memoryEntry L bs i) t = (Ok (), setMem (MemAddrs m ! unat i) mem t) \<and> mem_ok mem \<and>
    msize mem = msize (memAt t (MemAddrs m ! unat i)) \<and>
    mbyte mem = (\<lambda>j. if j < length bs then bs ! j else mbyte (memAt t (MemAddrs m ! unat i)) j)"
proof -
  let ?m = "memAt t (MemAddrs m ! unat i)"
  obtain str where str: "getString (JStr (c_str (hex_lower L bs))) = Ok str" by simp
  then have u: "unhex L str = Some bs" by (rule readMemory [OF assms(1)])
  have room: "mem_ok ?m" "length bs \<le> msize ?m" using assms(4) by (simp_all add: has_room_def)
  then have "length bs < 2 ^ 32" by (simp add: mem_ok_def msize_def word_le_nat_alt)
  then obtain mem where mem: "setBytes bs 0 0 (of_nat (length bs)) ?m = (Ok (), mem)" "mem_ok mem" "msize mem = msize ?m"
      "mbyte mem = (\<lambda>j. if j < length bs then bs ! j else mbyte ?m j)"
    using write_all_in [OF room(1), of bs 0] room(2) by (auto cong: if_cong)
  have "restoreMemory L m (memoryEntry L bs i) t = (Ok (), setMem (MemAddrs m ! unat i) mem t)"
    using assms(2,3) mem(1) u str
    by (simp add: restoreMemory_def memoryEntry_def elemAt_def getUint_uint obind_def getMemAddr_def lookup_def getMemory_def deref_def
        throws_def memAt_def bindM_def liftM_def getsM_def del: getString.simps)
  then show ?thesis using mem by blast
qed

lemma restore_memories:
  assumes "boost_spec L" and "distinct (MemAddrs m)" and "list_all (\<lambda>a. unat a < length (Insts (Mems t))) (MemAddrs m)"
    and "list_all (\<lambda>i. unat i < length (MemAddrs m)) is" and "list_all (\<lambda>i. has_room (dat i) (memAt t (MemAddrs m ! unat i))) is"
  shows "\<exists>t'. forM (restoreMemory L m) (map (\<lambda>i. memoryEntry L (dat i) i) is) t = (Ok (), t') \<and> Globs t' = Globs t \<and>
    (\<forall>i. unat i < length (MemAddrs m) \<longrightarrow> mbyte (memAt t' (MemAddrs m ! unat i)) =
      (\<lambda>j. if i \<in> set is \<and> j < length (dat i) then dat i ! j else mbyte (memAt t (MemAddrs m ! unat i)) j))"
  using assms(3-)
proof (induction "is" arbitrary: t)
  case Nil
  then show ?case by (simp add: retM_def)
next
  case (Cons i js)
  let ?A = "MemAddrs m"
  have i: "unat i < length ?A" "unat (?A ! unat i) < length (Insts (Mems t))" "has_room (dat i) (memAt t (?A ! unat i))"
    using Cons.prems by (auto simp: list_all_iff)
  obtain mem where mem: "restoreMemory L m (memoryEntry L (dat i) i) t = (Ok (), setMem (?A ! unat i) mem t)" "mem_ok mem"
      "msize mem = msize (memAt t (?A ! unat i))" "mbyte mem = (\<lambda>j. if j < length (dat i) then dat i ! j else mbyte (memAt t (?A ! unat i)) j)"
    using restoreMemory_entry [OF assms(1) i] by blast
  let ?t = "setMem (?A ! unat i) mem t"
  have eq: "?A ! unat k = ?A ! unat i \<longleftrightarrow> k = i" if "unat k < length ?A" for k
    using nth_eq_iff_index_eq [OF assms(2) that i(1)] by (simp add: word_unat_eq_iff [of k])
  have "list_all (\<lambda>i. has_room (dat i) (memAt ?t (?A ! unat i))) js"
    using Cons.prems(2,3) mem(2,3) i(2) eq by (auto simp: list_all_iff memAt_setMem has_room_def)
  then obtain t' where t': "forM (restoreMemory L m) (map (\<lambda>i. memoryEntry L (dat i) i) js) ?t = (Ok (), t')" "Globs t' = Globs ?t"
      "\<forall>i. unat i < length ?A \<longrightarrow> mbyte (memAt t' (?A ! unat i)) =
        (\<lambda>j. if i \<in> set js \<and> j < length (dat i) then dat i ! j else mbyte (memAt ?t (?A ! unat i)) j)"
    using Cons.IH [of ?t] Cons.prems by (auto simp: setMem_others)
  have "forM (restoreMemory L m) (map (\<lambda>i. memoryEntry L (dat i) i) (i # js)) t = (Ok (), t')"
    using mem(1) t'(1) by (simp add: seqM_def bindM_def)
  moreover have "\<forall>k. unat k < length ?A \<longrightarrow> mbyte (memAt t' (?A ! unat k)) =
      (\<lambda>j. if k \<in> set (i # js) \<and> j < length (dat k) then dat k ! j else mbyte (memAt t (?A ! unat k)) j)"
    using t'(3) i(2) eq mem(4) by (auto simp: memAt_setMem fun_eq_iff)
  ultimately show ?case using t'(2) by (auto simp: setMem_others)
qed

subsection \<open>The round trip\<close>

lemma indices_iff: "length xs < 2 ^ 32 \<Longrightarrow> i \<in> set (indices (of_nat (length xs))) \<longleftrightarrow> unat i < length xs"
  by (auto simp: indices_def unat_of_nat_less image_iff intro!: bexI [of _ "unat i"])

text \<open>The values of the globals and the bytes of the memories of a module, by index.\<close>

definition globalWord :: "'h StoreManager \<Rightarrow> ModuleInstance \<Rightarrow> u32 \<Rightarrow> u64" where
  "globalWord s m i = (case GValue (globAt s (GlobalAddrs m ! unat i)) of V64 w \<Rightarrow> w | V32 w \<Rightarrow> ucast w)"

definition memoryData :: "'h StoreManager \<Rightarrow> ModuleInstance \<Rightarrow> u32 \<Rightarrow> Bytes" where
  "memoryData s m i = Data (memAt s (MemAddrs m ! unat i))"

text \<open>A store whose active module is \<open>m\<close>, with instances at its addresses.\<close>

definition store_of :: "'h StoreManager \<Rightarrow> ModuleInstance \<Rightarrow> bool" where
  "store_of s m \<longleftrightarrow> getActiveModule s = Ok m \<and> distinct (GlobalAddrs m) \<and> distinct (MemAddrs m) \<and>
     length (GlobalAddrs m) < 2 ^ 32 \<and> length (MemAddrs m) < 2 ^ 32 \<and>
     list_all (\<lambda>a. unat a < length (Insts (Globs s))) (GlobalAddrs m) \<and> list_all (\<lambda>a. unat a < length (Insts (Mems s))) (MemAddrs m)"

lemma snapshot_parts:
  assumes "boost_spec L" and "store_of s m" and "list_all (\<lambda>a. fits (GValue (globAt s a)) I64) (GlobalAddrs m)"
  shows "collect (snapshotGlobal L s m) (indices (getGlobalNum m)) =
      Ok (map (\<lambda>i. globalEntry L (globalWord s m i) i) (indices (getGlobalNum m)))"
    and "collect (snapshotMemory L s m) (indices (getMemNum m)) =
      Ok (map (\<lambda>i. memoryEntry L (memoryData s m i) i) (filter (\<lambda>i. memoryData s m i \<noteq> []) (indices (getMemNum m))))"
proof -
  have g: "snapshotGlobal L s m i = Ok [globalEntry L (globalWord s m i) i]" if "i \<in> set (indices (getGlobalNum m))" for i
  proof -
    have i: "unat i < length (GlobalAddrs m)" using that assms(2) by (simp add: getGlobalNum_def store_of_def indices_iff)
    then have "unat (GlobalAddrs m ! unat i) < length (Insts (Globs s))" using assms(2) by (simp add: store_of_def list_all_length)
    moreover obtain w where "GValue (globAt s (GlobalAddrs m ! unat i)) = V64 w" using assms(3) i by (auto simp: list_all_length)
    ultimately show ?thesis using i
      by (simp add: snapshotGlobal_def globalEntry_def globalWord_def getGlobalAddr_def getGlobal_def lookup_def deref_def obind_def globAt_def)
  qed
  then show "collect (snapshotGlobal L s m) (indices (getGlobalNum m)) =
      Ok (map (\<lambda>i. globalEntry L (globalWord s m i) i) (indices (getGlobalNum m)))"
    by (simp add: collect_Ok [where g = "\<lambda>i. [globalEntry L (globalWord s m i) i]"] concat_map_singleton)
  have "snapshotMemory L s m i = Ok (if memoryData s m i \<noteq> [] then [memoryEntry L (memoryData s m i) i] else [])"
    if "i \<in> set (indices (getMemNum m))" for i
  proof -
    have i: "unat i < length (MemAddrs m)" using that assms(2) by (simp add: getMemNum_def store_of_def indices_iff)
    then have "unat (MemAddrs m ! unat i) < length (Insts (Mems s))" using assms(2) by (simp add: store_of_def list_all_length)
    moreover have "hex_lower L bs = [] \<longleftrightarrow> bs = []" for bs using assms(1) by (auto simp: boost_spec_def hexByte_def)
    ultimately show ?thesis using i
      by (auto simp: snapshotMemory_def memoryEntry_def memoryData_def getMemAddr_def getMemory_def lookup_def deref_def obind_def memAt_def Let_def)
  qed
  then have "collect (snapshotMemory L s m) (indices (getMemNum m)) =
      Ok (concat (map (\<lambda>i. if memoryData s m i \<noteq> [] then [memoryEntry L (memoryData s m i) i] else []) (indices (getMemNum m))))"
    by (rule collect_Ok)
  also have "concat (map (\<lambda>i. if memoryData s m i \<noteq> [] then [memoryEntry L (memoryData s m i) i] else []) is) =
      map (\<lambda>i. memoryEntry L (memoryData s m i) i) (filter (\<lambda>i. memoryData s m i \<noteq> []) is)" for "is"
    by (induction "is") simp_all
  finally show "collect (snapshotMemory L s m) (indices (getMemNum m)) =
      Ok (map (\<lambda>i. memoryEntry L (memoryData s m i) i) (filter (\<lambda>i. memoryData s m i \<noteq> []) (indices (getMemNum m))))" .
qed

text \<open>The document of a snapshot: what its two members hold, where a missing one counts as empty.\<close>

definition entries :: "string \<Rightarrow> (Bytes \<times> Json) list \<Rightarrow> Json list" where
  "entries key doc = (case map_of doc (name_of key) of Some (JArr xs) \<Rightarrow> xs | _ \<Rightarrow> [])"

lemma restoreAll_entries:
  assumes "\<forall>key v. map_of doc key = Some v \<longrightarrow> (\<exists>xs. v = JArr xs)"
  shows "restoreAll key f (JObj doc) = forM f (entries key doc)"
proof (cases "map_of doc (name_of key)")
  case (Some v)
  then obtain xs where "v = JArr xs" using assms by blast
  with Some show ?thesis by (simp add: restoreAll_def findMember_def entries_def liftM_def bindM_def fun_eq_iff)
qed (simp add: restoreAll_def findMember_def entries_def liftM_def bindM_def fun_eq_iff)

lemma snapshot_doc:
  assumes "boost_spec L" and "store_of s m" and "list_all (\<lambda>a. fits (GValue (globAt s a)) I64) (GlobalAddrs m)"
  obtains doc where "snapshot L s [] = Ok doc"
    and "entries ''global'' doc = map (\<lambda>i. globalEntry L (globalWord s m i) i) (indices (getGlobalNum m))"
    and "entries ''memory'' doc = map (\<lambda>i. memoryEntry L (memoryData s m i) i) (filter (\<lambda>i. memoryData s m i \<noteq> []) (indices (getMemNum m)))"
    and "\<forall>key v. map_of doc key = Some v \<longrightarrow> (\<exists>xs. v = JArr xs)"
proof -
  let ?gs = "map (\<lambda>i. globalEntry L (globalWord s m i) i) (indices (getGlobalNum m))"
  let ?ms = "map (\<lambda>i. memoryEntry L (memoryData s m i) i) (filter (\<lambda>i. memoryData s m i \<noteq> []) (indices (getMemNum m)))"
  have n: "name_of ''memory'' \<noteq> name_of ''global''" by (simp add: name_of_def)
  have z: "indices 0 = []" by (simp add: indices_def)
  let ?doc = "(if getGlobalNum m > 0 then [(name_of ''global'', JArr ?gs)] else []) @ (if ?ms \<noteq> [] then [(name_of ''memory'', JArr ?ms)] else [])"
  have "getActiveModule s = Ok m" using assms(2) by (simp add: store_of_def)
  then have "snapshot L s [] = Ok ?doc"
    using snapshot_parts [OF assms] z by (auto simp: snapshot_def obind_def word_gt_0)
  moreover have "entries ''global'' ?doc = ?gs" "entries ''memory'' ?doc = ?ms"
    using n z by (auto simp: entries_def word_gt_0)
  moreover have "\<forall>key v. map_of ?doc key = Some v \<longrightarrow> (\<exists>xs. v = JArr xs)" by (auto split: if_splits)
  ultimately show thesis by (rule that)
qed

text \<open>C10. The snapshot of a machine can be restored: where the globals have values of eight bytes and the memories of
  the new machine have room for the bytes of the old ones, the document that \<open>snapshot\<close> makes of one store
  is restored without an error in a store with a module of the same shape, every global then has the
  value it had, and every memory the bytes.\<close>

theorem snapshot_restore:
  assumes "boost_spec L" and "store_of s m" and "store_of t k"
    and "length (GlobalAddrs k) = length (GlobalAddrs m)" and "length (MemAddrs k) = length (MemAddrs m)"
    and "list_all (\<lambda>a. fits (GValue (globAt s a)) I64) (GlobalAddrs m)"
    and "list_all2 (\<lambda>a b. has_room (Data (memAt s a)) (memAt t b)) (MemAddrs m) (MemAddrs k)"
  shows "\<exists>doc t'. snapshot L s [] = Ok doc \<and> restore L (JObj doc) t = (Ok (), t') \<and>
    list_all2 (\<lambda>a b. GValue (globAt t' b) = GValue (globAt s a)) (GlobalAddrs m) (GlobalAddrs k) \<and>
    list_all2 (\<lambda>a b. \<forall>j < length (Data (memAt s a)). mbyte (memAt t' b) j = mbyte (memAt s a) j) (MemAddrs m) (MemAddrs k)"
proof -
  obtain doc where doc: "snapshot L s [] = Ok doc"
      "entries ''global'' doc = map (\<lambda>i. globalEntry L (globalWord s m i) i) (indices (getGlobalNum m))"
      "entries ''memory'' doc = map (\<lambda>i. memoryEntry L (memoryData s m i) i) (filter (\<lambda>i. memoryData s m i \<noteq> []) (indices (getMemNum m)))"
      "\<forall>key v. map_of doc key = Some v \<longrightarrow> (\<exists>xs. v = JArr xs)"
    by (rule snapshot_doc [OF assms(1,2,6)])
  have gi: "i \<in> set (indices (getGlobalNum m)) \<longleftrightarrow> unat i < length (GlobalAddrs k)" for i
    using assms(2,4) by (simp add: getGlobalNum_def store_of_def indices_iff)
  have mi: "i \<in> set (indices (getMemNum m)) \<longleftrightarrow> unat i < length (MemAddrs k)" for i
    using assms(2,5) by (simp add: getMemNum_def store_of_def indices_iff)
  have k: "getActiveModule t = Ok k" "distinct (GlobalAddrs k)" "distinct (MemAddrs k)" "length (GlobalAddrs k) < 2 ^ 32" "length (MemAddrs k) < 2 ^ 32"
      "list_all (\<lambda>a. unat a < length (Insts (Globs t))) (GlobalAddrs k)" "list_all (\<lambda>a. unat a < length (Insts (Mems t))) (MemAddrs k)"
    using assms(3) by (simp_all add: store_of_def)
  obtain t1 where t1: "forM (restoreGlobal k) (entries ''global'' doc) t = (Ok (), t1)" "Mems t1 = Mems t"
      "\<And>i. unat i < length (GlobalAddrs k) \<Longrightarrow> GValue (globAt t1 (GlobalAddrs k ! unat i)) = V64 (globalWord s m i)"
  proof -
    have "list_all (\<lambda>i. unat i < length (GlobalAddrs k)) (indices (getGlobalNum m))" by (simp add: list_all_iff gi)
    from restore_globals [OF assms(1) k(2,6) this, of "globalWord s m"] show thesis using doc(2) gi that by auto
  qed
  have at1: "memAt t1 = memAt t" using t1(2) by (simp add: memAt_def fun_eq_iff)
  have room: "has_room (memoryData s m i) (memAt t1 (MemAddrs k ! unat i))" if "unat i < length (MemAddrs k)" for i
    using assms(7) that unfolding at1 memoryData_def by (simp add: list_all2_conv_all_nth)
  obtain t2 where t2: "forM (restoreMemory L k) (entries ''memory'' doc) t1 = (Ok (), t2)" "Globs t2 = Globs t1"
      "\<And>i. unat i < length (MemAddrs k) \<Longrightarrow> mbyte (memAt t2 (MemAddrs k ! unat i)) =
        (\<lambda>j. if memoryData s m i \<noteq> [] \<and> j < length (memoryData s m i) then memoryData s m i ! j else mbyte (memAt t1 (MemAddrs k ! unat i)) j)"
  proof -
    let ?is = "filter (\<lambda>i. memoryData s m i \<noteq> []) (indices (getMemNum m))"
    have "list_all (\<lambda>i. unat i < length (MemAddrs k)) ?is" "list_all (\<lambda>i. has_room (memoryData s m i) (memAt t1 (MemAddrs k ! unat i))) ?is"
      using room by (auto simp: list_all_iff mi)
    moreover have "list_all (\<lambda>a. unat a < length (Insts (Mems t1))) (MemAddrs k)" using k(7) t1(2) by simp
    ultimately show thesis using restore_memories [OF assms(1) k(3), of t1 ?is "memoryData s m"] doc(3) mi that by auto
  qed
  have "restore L (JObj doc) t = (Ok (), t2)"
    using t1(1) t2(1) k(1) by (simp add: restore_def restoreAll_entries [OF doc(4)] seqM_def bindM_def getsM_def)
  moreover have "list_all2 (\<lambda>a b. GValue (globAt t2 b) = GValue (globAt s a)) (GlobalAddrs m) (GlobalAddrs k)"
  proof (intro list_all2_all_nthI)
    fix i assume i: "i < length (GlobalAddrs m)"
    then have u: "unat (of_nat i :: u32) = i" using k(4) assms(4) by (simp add: unat_of_nat_less)
    obtain w where w: "GValue (globAt s (GlobalAddrs m ! i)) = V64 w" using assms(6) i by (auto simp: list_all_length)
    show "GValue (globAt t2 (GlobalAddrs k ! i)) = GValue (globAt s (GlobalAddrs m ! i))"
      using t1(3) [of "of_nat i"] t2(2) u i assms(4) w by (simp add: globalWord_def globAt_def)
  qed (use assms(4) in simp)
  moreover have "list_all2 (\<lambda>a b. \<forall>j < length (Data (memAt s a)). mbyte (memAt t2 b) j = mbyte (memAt s a) j) (MemAddrs m) (MemAddrs k)"
  proof (intro list_all2_all_nthI)
    fix i assume i: "i < length (MemAddrs m)"
    then have u: "unat (of_nat i :: u32) = i" using k(5) assms(5) by (simp add: unat_of_nat_less)
    show "\<forall>j < length (Data (memAt s (MemAddrs m ! i))). mbyte (memAt t2 (MemAddrs k ! i)) j = mbyte (memAt s (MemAddrs m ! i)) j"
      using t2(3) [of "of_nat i"] u i assms(5) by (auto simp: memoryData_def mbyte_def)
  qed (use assms(5) in simp)
  ultimately show ?thesis using doc(1) by blast
qed

text \<open>A platform and two stores for examples: the first machine has run, the second is new.\<close>

definition samplePlatform :: platform where
  "samplePlatform = \<lparr>jsonParse = \<lambda>_. JNull, jsonPrint = \<lambda>_. [], stof = \<lambda>_. None, stod = \<lambda>_. None, showFloat = \<lambda>_. [], showDouble = \<lambda>_. [],
     hex_lower = \<lambda>bs. concat (map hexByte bs), unhex = \<lambda>s. Some (hexLoop s), format016llx = \<lambda>w. [0x30, 0x78] @ hexDigits 16 (unat w),
     weakly_canonical = Some, pathExists = \<lambda>_. False, readable = Map.empty, writable = \<lambda>_. True, homeDir = None,
     parseFile = \<lambda>_ m. (Err InvalidPath, m)\<rparr>"

definition sampleModule :: ModuleInstance where
  "sampleModule = (newModuleInstance [])\<lparr>GlobalAddrs := [0], MemAddrs := [0]\<rparr>"

definition sampleStore :: "u64 \<Rightarrow> Bytes \<Rightarrow> unit StoreManager" where
  "sampleStore w bs = newStoreManager\<lparr>Mods := \<lparr>Insts = [sampleModule], ImpInsts = [0], Num = 1\<rparr>,
     Globs := \<lparr>Insts = [\<lparr>GType = I64, GMut = Var, GValue = V64 w\<rparr>], ImpInsts = [0], Num = 1\<rparr>,
     Mems := \<lparr>Insts = [(newMemory (HasMin 1))\<lparr>Data := bs\<rparr>], ImpInsts = [0], Num = 1\<rparr>\<rparr>"

lemma samplePlatform_ok: "boost_spec samplePlatform"
  by (simp add: boost_spec_def samplePlatform_def hexLoop_hex)

theorem snapshot_restore_witness:
  "\<exists>doc t'. snapshot samplePlatform (sampleStore 5 [1, 2, 3]) [] = Ok doc \<and> restore samplePlatform (JObj doc) (sampleStore 0 []) = (Ok (), t') \<and>
    GValue (globAt t' 0) = V64 5 \<and> mbyte (memAt t' 0) 2 = 3"
proof -
  have st: "store_of (sampleStore w bs) sampleModule" for w bs
    by (simp add: store_of_def sampleStore_def sampleModule_def newModuleInstance_def getActiveModule_def)
  have "list_all (\<lambda>a. fits (GValue (globAt (sampleStore 5 [1, 2, 3]) a)) I64) (GlobalAddrs sampleModule)"
    by (simp add: sampleModule_def sampleStore_def globAt_def)
  moreover have "list_all2 (\<lambda>a b. has_room (Data (memAt (sampleStore 5 [1, 2, 3]) a)) (memAt (sampleStore 0 []) b)) (MemAddrs sampleModule) (MemAddrs sampleModule)"
    by (simp add: sampleModule_def sampleStore_def memAt_def has_room_def mem_ok_def msize_def newMemory_def)
  ultimately obtain doc t' where r: "snapshot samplePlatform (sampleStore 5 [1, 2, 3]) [] = Ok doc" "restore samplePlatform (JObj doc) (sampleStore 0 []) = (Ok (), t')"
      "list_all2 (\<lambda>a b. GValue (globAt t' b) = GValue (globAt (sampleStore 5 [1, 2, 3]) a)) (GlobalAddrs sampleModule) (GlobalAddrs sampleModule)"
      "list_all2 (\<lambda>a b. \<forall>j < length (Data (memAt (sampleStore 5 [1, 2, 3]) a)). mbyte (memAt t' b) j = mbyte (memAt (sampleStore 5 [1, 2, 3]) a) j)
        (MemAddrs sampleModule) (MemAddrs sampleModule)"
    using snapshot_restore [OF samplePlatform_ok st st refl refl, of 5 "[1, 2, 3]" 0 "[]"] by blast
  have a: "MemAddrs sampleModule = [0]" "GlobalAddrs sampleModule = [0]" by (simp_all add: sampleModule_def)
  have d: "Data (memAt (sampleStore 5 [1, 2, 3]) 0) = [1, 2, 3]" "GValue (globAt (sampleStore 5 [1, 2, 3]) 0) = V64 5"
    by (simp_all add: sampleStore_def memAt_def globAt_def)
  have "mbyte (memAt t' 0) 2 = mbyte (memAt (sampleStore 5 [1, 2, 3]) 0) 2" using r(4) by (simp add: a d)
  then have "mbyte (memAt t' 0) 2 = 3" by (simp add: mbyte_def d)
  moreover have "GValue (globAt t' 0) = V64 5" using r(3) by (simp add: a d)
  ultimately show ?thesis using r(1,2) by blast
qed

text \<open>The number of pages is not part of a snapshot: a memory that had grown cannot be restored.\<close>

lemma restoreMemory_no_room:
  assumes "boost_spec L" and "unat i < length (MemAddrs m)" and "unat (MemAddrs m ! unat i) < length (Insts (Mems t))"
    and "mem_ok (memAt t (MemAddrs m ! unat i))" and "msize (memAt t (MemAddrs m ! unat i)) < length bs" and "length bs < 2 ^ 32"
  shows "restoreMemory L m (memoryEntry L bs i) t = (Err MemorySizeExceeded, t)"
proof -
  obtain str where str: "getString (JStr (c_str (hex_lower L bs))) = Ok str" by simp
  then have u: "unhex L str = Some bs" by (rule readMemory [OF assms(1)])
  have w: "setBytes bs 0 0 (of_nat (length bs)) (memAt t (MemAddrs m ! unat i)) = (Err MemorySizeExceeded, memAt t (MemAddrs m ! unat i))"
    using setBytes_out [OF assms(4), of 0 "of_nat (length bs)" bs 0] assms(5,6) by (simp add: unat_of_nat_less)
  have "setMem a (memAt t a) t = t" if "unat a < length (Insts (Mems t))" for a by (simp add: setMem_def memAt_def)
  then show ?thesis using assms(2,3) w u str
    by (simp add: restoreMemory_def memoryEntry_def elemAt_def getUint_uint obind_def getMemAddr_def lookup_def getMemory_def deref_def
        throws_def memAt_def bindM_def liftM_def getsM_def del: getString.simps)
qed

end
