(* ===== verification/RpcGas.thy ===== *)
theory RpcGas
  imports RpcProps VmRuns
begin

text \<open>
  The gas of a request: the functions of the WASI module leave the meter alone, so through the interface
  \<open>host_invariant\<close> no run of a module takes the sum past the limit that the request has set.
\<close>

section \<open>The functions of the module\<close>

definition metered_as :: "Measurement option \<Rightarrow> 'h HostWorld \<Rightarrow> bool" where
  "metered_as mo w \<longleftrightarrow> HMeasure w = mo"

named_theorems metered_rules "host operations that leave the meter alone"

lemma metered_local [metered_rules]:
  "keeps (metered_as mo) (getEnv g)" "keeps (metered_as mo) (onMemory m)" "keeps (metered_as mo) (setEnv s)" "keeps (metered_as mo) (onSystem f)"
  by (auto simp: keeps_def getEnv_def onMemory_def setEnv_def onSystem_def metered_as_def split_beta)

lemma metered_if [metered_rules]:
  "keeps (metered_as mo) m \<Longrightarrow> keeps (metered_as mo) m' \<Longrightarrow> keeps (metered_as mo) (if b then m else m')"
  by simp

lemma metered_arg64 [metered_rules]: "(\<And>x. keeps (metered_as mo) (f x)) \<Longrightarrow> keeps (metered_as mo) (arg64 vs i f)"
  unfolding arg64_def by (intro keeps_bindM keeps_basic)

lemma metered_helpers [metered_rules]:
  "keeps (metered_as mo) (errNo e)" "keeps (metered_as mo) (store32 v off)" "keeps (metered_as mo) (load32 off)"
  "keeps (metered_as mo) (storeFdStat t fl b i p)"
  unfolding errNo_def store32_def load32_def storeFdStat_def by (intro keeps_bindM keeps_seqM keeps_basic metered_rules)+

lemma metered_ignoreError [metered_rules]: "keeps (metered_as mo) m \<Longrightarrow> keeps (metered_as mo) (ignoreError m)"
  by (simp add: keeps_def ignoreError_def split_beta split: outcome.split)

lemma metered_storeTable [metered_rules]: "keeps (metered_as mo) (storeTable ss ptr off buf)"
  by (induction ss ptr off buf rule: storeTable.induct) (auto intro!: keeps_seqM metered_rules)

lemma metered_storeStrings [metered_rules]: "keeps (metered_as mo) (storeStrings ss ptr buf)"
  unfolding storeStrings_def by (auto intro!: keeps_bindM keeps_seqM metered_rules split: prod.split)

lemma metered_buffers:
  "keeps (metered_as mo) (readBuffer P fd ptr len)" "keeps (metered_as mo) (writeBuffer P fd ptr len)"
  unfolding readBuffer_def writeBuffer_def by (auto intro!: keeps_bindM keeps_seqM metered_rules split: option.split)

lemma metered_ioLoop:
  assumes "\<And>a b. keeps (metered_as mo) (transfer a b)"
  shows "keeps (metered_as mo) (ioLoop transfer ptr k iovs n)"
  by (induction k arbitrary: iovs n) (auto intro!: keeps_bindM keeps_seqM metered_rules assms)

lemmas wasi_class_defs = WasiArgsGet_class_def WasiArgsSizesGet_class_def WasiEnvironGet_class_def WasiEnvironSizesGet_class_def WasiFdClose_class_def
  WasiFdFdstatGet_class_def WasiFdFdstatSetFlags_class_def WasiFdPrestatDirName_class_def WasiFdPrestatGet_class_def WasiFdRead_class_def
  WasiFdSeek_class_def WasiFdWrite_class_def WasiPathOpen_class_def WasiProcExit_class_def wasiFunc_def

lemma metered_bodies:
  "keeps (metered_as mo) (WasiArgsGet a b)" "keeps (metered_as mo) (WasiArgsSizesGet a b)" "keeps (metered_as mo) (WasiEnvironGet P a b)"
  "keeps (metered_as mo) (WasiEnvironSizesGet P a b)" "keeps (metered_as mo) (WasiFdClose P a)" "keeps (metered_as mo) (WasiFdFdstatGet P a b)"
  "keeps (metered_as mo) (WasiFdFdstatSetFlags a b)" "keeps (metered_as mo) (WasiFdPrestatDirName a b c)" "keeps (metered_as mo) (WasiFdPrestatGet a b)"
  "keeps (metered_as mo) (WasiFdRead P a b c d)" "keeps (metered_as mo) (WasiFdSeek P a b c d)" "keeps (metered_as mo) (WasiFdWrite P a b c d)"
  "keeps (metered_as mo) (WasiPathOpen P a b c d e f g h i)" "keeps (metered_as mo) (WasiProcExit a)"
  unfolding WasiArgsGet_def WasiArgsSizesGet_def WasiEnvironGet_def WasiEnvironSizesGet_def WasiFdClose_def WasiFdFdstatGet_def WasiFdFdstatSetFlags_def
    WasiFdPrestatDirName_def WasiFdPrestatGet_def WasiFdRead_def WasiFdSeek_def WasiFdWrite_def WasiPathOpen_def WasiProcExit_def
  by (auto intro!: keeps_bindM keeps_seqM metered_rules metered_buffers metered_ioLoop split: option.split)

lemma metered_functions: "list_all (\<lambda>(name, f). keeps (metered_as mo) (HostBody f args)) (wasiFunctions P)"
  by (simp add: wasiFunctions_def wasi_class_defs metered_bodies metered_arg64)

interpretation request_gas: host_invariant "gas_within L" "module_funcs (wasiFunctions P)" for L P
proof
  fix f vs and w :: "'a WasiEnvironment HostWorld"
  assume f: "HostFunc f \<in> module_funcs (wasiFunctions P)" and g: "gas_within L (HMeasure w) (HState w)"
  have "keeps (metered_as (HMeasure w)) (HostBody f vs)"
    using f metered_functions [of "HMeasure w" vs P] by (auto simp: module_funcs_def list_all_iff)
  then have "HMeasure (snd (HostBody f vs w)) = HMeasure w" by (simp add: keeps_def metered_as_def)
  then show "gas_within L (HMeasure (snd (HostBody f vs w))) (HState (snd (HostBody f vs w)))" using g by (simp add: gas_within_def)
qed (auto simp: gas_within_def addCost_def incInstrCnt_def module_funcs_def Let_def)

section \<open>A request with a limit\<close>

text \<open>The machine works within \<open>G\<close>, and so does what has been reported; the request is not changed.\<close>

definition granted :: "'o posix \<Rightarrow> u64 \<Rightarrow> Json \<Rightarrow> u64 \<Rightarrow> 'o Proxy \<Rightarrow> bool" where
  "granted P G doc g p \<longleftrightarrow> InputDoc p = doc \<and> OGas (OutputDoc p) = g \<and> OGasUsed (OutputDoc p) \<le> G \<and>
     pred_option (request_gas.vm_holds G P) (VMUnit p)"

named_theorems granted_rules "operations of the proxy that stay within the gas"

lemma granted_onVM [granted_rules]:
  "keeps (request_gas.vm_holds G P) m \<Longrightarrow> keeps (granted P G doc g) (onVM m)"
  by (auto simp: keeps_def onVM_def granted_def split_beta split: option.split)

lemma granted_setOutput [granted_rules]:
  "(\<And>d. OGas (f d) = OGas d \<and> OGasUsed (f d) = OGasUsed d) \<Longrightarrow> keeps (granted P G doc g) (setOutput f)"
  unfolding setOutput_def by (rule keeps_modifyM) (simp add: granted_def)

lemma granted_setError [granted_rules]: "keeps (granted P G doc g) (setError msg)"
  unfolding setError_def by (intro granted_rules) simp

lemma granted_executionFailed [granted_rules]: "keeps (granted P G doc g) (executionFailed e)"
  unfolding executionFailed_def by (auto intro!: granted_rules)

lemma granted_whenSome [granted_rules]: "(\<And>x. keeps (granted P G doc g) (f x)) \<Longrightarrow> keeps (granted P G doc g) (whenSome r f)"
  by (simp add: whenSome_def split: option.split)

lemma granted_tryStep [granted_rules]:
  assumes "keeps (granted P G doc g) onError" and "keeps (granted P G doc g) m"
  shows "keeps (granted P G doc g) (tryStep onError m status)"
proof (rule keepsI)
  fix p assume p: "granted P G doc g p"
  have "keeps (granted P G doc g) (bindM onError (\<lambda>_. retM e))" for e :: ErrCode by (intro keeps_bindM keeps_basic assms(1))
  moreover obtain r q where m: "m p = (r, q)" by fastforce
  moreover have "granted P G doc g q" using keepsD [OF assms(2) p m] .
  ultimately show "granted P G doc g (snd (tryStep onError m status p))"
    using p by (simp add: tryStep_def keeps_def split: outcome.split)
qed

lemma granted_writeResults [granted_rules]: "keeps (granted P G doc g) (writeResults L vs ts)"
  by (induction L vs ts rule: writeResults.induct) (auto intro!: keeps_bindM keeps_seqM granted_rules)

lemma granted_snapshotVM [granted_rules]: "keeps (granted P G doc g) (snapshotVM L)"
  by (auto simp: keeps_def snapshotVM_def setOutput_def modifyM_def granted_def split: option.split outcome.split)

text \<open>Restoring a snapshot does not touch the functions of the store.\<close>

lemma restore_funcs: "keeps (\<lambda>s. Funcs s = fs) (restore L doc)"
proof -
  have "keeps (\<lambda>s. Funcs s = fs) (restoreGlobal m e)" for m e
    unfolding restoreGlobal_def by (intro keeps_bindM keeps_basic keeps_getsM keeps_modifyM) (simp add: setGlob_def)
  moreover have "keeps (\<lambda>s. Funcs s = fs) (\<lambda>s. let (r, mem') = setBytes bs 0 0 (of_nat (length bs)) mem in (r, setMem a mem' s))" for bs mem a
    by (simp add: keeps_def setMem_def split_beta)
  then have "keeps (\<lambda>s. Funcs s = fs) (restoreMemory L m e)" for m e
    unfolding restoreMemory_def by (intro keeps_bindM keeps_basic keeps_getsM)
  ultimately show ?thesis unfolding restore_def restoreAll_def
    by (auto intro!: keeps_bindM keeps_seqM keeps_basic keeps_getsM keeps_forM split: option.split)
qed

lemma granted_restoreVM [granted_rules]: "keeps (granted P G doc g) (restoreVM L execution)"
proof -
  have "Funcs (snd (restore L d s)) = Funcs s" for d and s :: "'a WasiEnvironment StoreManager"
    using restore_funcs [of "Funcs s" L d] by (simp add: keeps_def)
  then have "keeps (request_gas.vm_holds G P) (onEngine (onStore (restore L d)))" for d
    by (auto simp: keeps_def request_gas.vm_holds_def request_gas.holds_in_def onEngine_def onStore_def split_beta funcs_in_def)
  then show ?thesis unfolding restoreVM_def by (intro keeps_bindM keeps_basic granted_rules)
qed

lemma granted_succeeded [granted_rules]: "keeps (granted P G doc g) (succeeded L vs it)"
proof -
  have c: "keeps (request_gas.vm_holds G P) costSum" by (auto simp: keeps_def costSum_def split: option.split)
  have "x \<le> G" if "granted P G doc g p" "onVM costSum p = (Ok x, q)" for p q x
    using that by (auto simp: granted_def onVM_def costSum_def request_gas.vm_holds_def request_gas.holds_in_def gas_within_def split: option.splits prod.splits)
  moreover have "keeps (granted P G doc g) (setOutput (\<lambda>d. d\<lparr>OGasUsed := x\<rparr>))" if "x \<le> G" for x
    unfolding setOutput_def by (rule keeps_modifyM) (use that in \<open>simp add: granted_def\<close>)
  moreover have "keeps (granted P G doc g) (bindM (liftM (case it of None \<Rightarrow> Ok [] | Some t \<Rightarrow> getArr t)) (\<lambda>ts.
     if ts \<noteq> [] \<and> length vs \<noteq> length ts
     then seqM (setError ''Return value array length and wasm function not matched.'') (retM False)
     else seqM (if ts = [] then retM () else writeResults L vs ts)
         (seqM (setOutput (\<lambda>d. d\<lparr>OStatus := name_of ''Succeeded''\<rparr>)) (retM True))))"
    by (auto intro!: keeps_bindM keeps_seqM granted_rules)
  ultimately show ?thesis unfolding succeeded_def
    by (intro keeps_bindM_given [where Q = "\<lambda>x. x \<le> G", OF granted_onVM [OF c]] keeps_seqM)
qed

lemma granted_executeFunction [granted_rules]: "keeps (granted P G doc g) (executeFunction L F n func params it)"
proof (rule keepsI)
  fix p assume p: "granted P G doc g p"
  obtain r q where m: "onVM (executeVM F n func params) p = (r, q)" by fastforce
  have "keeps (granted P G doc g) (onVM (executeVM F n func params))" by (intro granted_rules request_gas.vm_stages)
  then have q: "granted P G doc g q" using p m by (rule keepsD)
  have "keeps (granted P G doc g) (seqM (executionFailed e) (retM False))" for e by (intro keeps_seqM keeps_basic granted_rules)
  then show "granted P G doc g (snd (executeFunction L F n func params it p))"
    using q m granted_succeeded [of P G doc g L _ it] by (simp add: executeFunction_def keeps_def split: outcome.split)
qed

lemma granted_runModule: "keeps (granted P G doc g) (runModule L F n execution itF itR params)"
proof -
  have "keeps (granted P G doc g) (\<lambda>p. tryStep (setError msg) (onVM (loadWasm (parseFile L (WasmPath p)))) Success p)" for msg
  proof -
    have "keeps (granted P G doc g) (tryStep (setError msg) (onVM (loadWasm parse)) Success)" for parse
      by (intro granted_rules request_gas.vm_stages)
    then show ?thesis by (simp add: keeps_def)
  qed
  then show ?thesis unfolding runModule_def
    by (auto intro!: keeps_bindM keeps_basic granted_rules request_gas.vm_stages)
qed

section \<open>From the request to the machine\<close>

text \<open>What the proxy has when the function is about to run: nothing is used, the machine is new, and the
  limit that was copied to the answer is that of the request.\<close>

definition announced :: "Json \<Rightarrow> u64 \<Rightarrow> bool" where
  "announced doc g \<longleftrightarrow> (\<exists>ex. member ''execution'' doc = Ok ex \<and> (\<forall>v. findMember ''gas'' ex = Ok (Some v) \<longrightarrow> getInt64 v = Ok g))"

definition prepared :: "'o posix \<Rightarrow> 'o Proxy \<Rightarrow> bool" where
  "prepared P p \<longleftrightarrow> OGasUsed (OutputDoc p) = 0 \<and> (\<forall>vm. VMUnit p = Some vm \<longrightarrow>
     (\<exists>h. unspent (module_funcs (wasiFunctions P)) h vm) \<and> announced (InputDoc p) (OGas (OutputDoc p)))"

lemma unspent_makeVM:
  "\<exists>h vm. VMUnit (snd (makeVM P p)) = Some vm \<and> unspent (module_funcs (wasiFunctions P)) h vm \<and>
    OutputDoc (snd (makeVM P p)) = OutputDoc p \<and> InputDoc (snd (makeVM P p)) = InputDoc p"
proof -
  let ?h = "if hasVMType (VMConf p) Wasi then newWasiEnvironment P (ProxyOS p) else noEnvironment (ProxyOS p)"
  have "unspent (module_funcs (wasiFunctions P)) ?h (snd (initVM (VMConf p) (WasiModule P) (newImportObject []) (newVM newStoreManager ?h)))"
    unfolding WasiModule_def by (intro unspent_made module_import no_funcs)
  then show ?thesis by (auto simp: makeVM_def Let_def split_beta)
qed

lemma keeps_configure:
  "keeps (\<lambda>p. OGasUsed (OutputDoc p) = u \<and> OGas (OutputDoc p) = g \<and> InputDoc p = doc \<and> VMUnit p = None) (configure vs)"
  by (induction vs) (auto simp: setError_def setOutput_def intro!: keeps_bindM keeps_seqM keeps_modifyM)

lemmas header_simps = whenSome_def bindM_Ok_iff seqM_Ok_iff liftM_def setError_def setOutput_def modifyM_def retM_def

lemma prepared_parseHeader:
  assumes "parseHeader P doc p = (Ok (), p')" and "InputDoc p = doc" and "VMUnit p = None" and "OGasUsed (OutputDoc p) = 0"
  shows "prepared P p'"
proof -
  obtain s u ms ex where f: "findMember ''service_name'' doc = Ok s" "findMember ''uuid'' doc = Ok u" "findMember ''modules'' doc = Ok ms"
      "findMember ''execution'' doc = Ok ex"
    using assms(1) by (auto simp: parseHeader_def bindM_Ok_iff liftM_def)
  show ?thesis
  proof (cases "ms = None \<or> ex = None")
    case True
    then have "p' = p\<lparr>OutputDoc := (OutputDoc p)\<lparr>OMessage := name_of ''Module not determined.''\<rparr>\<rparr>"
      using assms(1) f by (auto simp: parseHeader_def header_simps split: option.splits)
    then show ?thesis using assms(3,4) by (simp add: prepared_def)
  next
    case False
    then obtain modules execution where e: "ms = Some modules" "ex = Some execution" by auto
    let ?J = "\<lambda>p. OGasUsed (OutputDoc p) = 0 \<and> InputDoc p = doc \<and> VMUnit p = None"
    obtain p1 p2 p3 p4 itGas vs p5 go where st:
        "whenSome s (\<lambda>v. bindM (liftM (getString v)) (\<lambda>s. setOutput (\<lambda>d. d\<lparr>OService := s\<rparr>))) p = (Ok (), p1)"
        "whenSome u (\<lambda>v. bindM (liftM (getString v)) (\<lambda>s. setOutput (\<lambda>d. d\<lparr>OUUID := s\<rparr>))) p1 = (Ok (), p2)"
        "findMember ''gas'' execution = Ok itGas"
        "whenSome itGas (\<lambda>v. bindM (liftM (getInt64 v)) (\<lambda>g. setOutput (\<lambda>d. d\<lparr>OGas := g\<rparr>))) p2 = (Ok (), p3)"
        "resetVM P p3 = (Ok (), p4)" "configure vs p4 = (Ok go, p5)" "(if go then makeVM P else retM ()) p5 = (Ok (), p')"
      using assms(1) f e by (auto simp: parseHeader_def bindM_Ok_iff seqM_Ok_iff liftM_def)
    have "?J p1" using st(1) assms(2-4) by (auto simp: header_simps split: option.splits)
    then have "?J p2" using st(2) by (auto simp: header_simps split: option.splits)
    then have j3: "?J p3" and og: "\<And>v. itGas = Some v \<Longrightarrow> getInt64 v = Ok (OGas (OutputDoc p3))"
      using st(4) by (auto simp: header_simps split: option.splits)
    have p4: "OutputDoc p4 = OutputDoc p3" "InputDoc p4 = doc" "VMUnit p4 = None" using st(5) j3 by (auto simp: resetVM_def modifyM_def)
    have p5: "OGasUsed (OutputDoc p5) = 0 \<and> OGas (OutputDoc p5) = OGas (OutputDoc p3) \<and> InputDoc p5 = doc \<and> VMUnit p5 = None"
      using keepsD [OF keeps_configure [of 0 "OGas (OutputDoc p3)" doc] _ st(6)] p4 j3 by simp
    have an: "announced doc (OGas (OutputDoc p3))"
      using f(4) e(2) st(3) og by (auto simp: announced_def member_def obind_def)
    show ?thesis
    proof (cases go)
      case True
      then show ?thesis using st(7) unspent_makeVM [of P p5] p5 an by (auto simp: prepared_def)
    next
      case False
      then show ?thesis using st(7) p5 by (simp add: prepared_def retM_def)
    qed
  qed
qed

lemma getInt64_getUint64: "getInt64 v = Ok g \<Longrightarrow> getUint64 v = Ok w \<Longrightarrow> g = w"
  by (auto simp: getInt64_def getUint64_def getNumber_def obind_def split: Json.splits if_splits)

lemma granted_start:
  assumes "prepared P p" and "VMUnit p = Some vm" and "setIdentity p = (Ok (), p1)"
    and "whenSome it (\<lambda>v. bindM (liftM (getUint64 v)) (\<lambda>g. onVM (setCostLimit g))) p1 = (Ok (), p2)"
  shows "\<exists>G. granted P G (InputDoc p) (OGas (OutputDoc p)) p2 \<and> (\<forall>v. it = Some v \<longrightarrow> getUint64 v = Ok G)"
proof -
  obtain h m where "unspent (module_funcs (wasiFunctions P)) h vm" "Meter (Engine vm) = Some m" "CostSum m = 0"
    using assms(1,2) by (auto simp: prepared_def unspent_def)
  moreover have "OGasUsed (OutputDoc p) = 0" using assms(1) by (simp add: prepared_def)
  ultimately show ?thesis using assms(2-4)
    by (cases it) (auto simp: whenSome_def bindM_Ok_iff liftM_def retM_def setIdentity_def onVM_def setCostLimit_def modifyM_def granted_def
        request_gas.vm_holds_def request_gas.holds_in_def gas_within_def unspent_def funcs_in_def)
qed

lemma executeRequest_within:
  assumes "executeRequest L F n p = (Ok (), p')" and "prepared P p" and "VMUnit p = Some vm" and "member ''execution'' (InputDoc p) = Ok ex"
  shows "\<exists>G. granted P G (InputDoc p) (OGas (OutputDoc p)) p' \<and> (\<forall>v. findMember ''gas'' ex = Ok (Some v) \<longrightarrow> getUint64 v = Ok G)"
proof -
  obtain p1 where p1: "setIdentity p = (Ok (), p1)" "InputDoc p1 = InputDoc p" using assms(3) by (simp add: setIdentity_def onVM_def modifyM_def)
  let ?rest = "\<lambda>args itF itR. case args of
      None \<Rightarrow> setError ''Arguments and types array length not matched.'' | Some params \<Rightarrow> runModule L F n ex itF itR params"
  obtain itF it itR args p2 where st: "findMember ''gas'' ex = Ok it"
      "whenSome it (\<lambda>v. bindM (liftM (getUint64 v)) (\<lambda>g. onVM (setCostLimit g))) p1 = (Ok (), p2)" "?rest args itF itR p2 = (Ok (), p')"
    using assms(1) p1 assms(4) by (auto simp: executeRequest_def seqM_Ok_iff bindM_Ok_iff getsM_def liftM_def)
  obtain G where G: "granted P G (InputDoc p) (OGas (OutputDoc p)) p2" "\<And>v. it = Some v \<Longrightarrow> getUint64 v = Ok G"
    using granted_start [OF assms(2,3) p1(1) st(2)] by blast
  have "keeps (granted P G (InputDoc p) (OGas (OutputDoc p))) (?rest args itF itR)"
    by (simp add: granted_setError granted_runModule split: option.split)
  then have "granted P G (InputDoc p) (OGas (OutputDoc p)) p'" using G(1) st(3) by (rule keepsD)
  then show ?thesis using G(2) st(1) by auto
qed

text \<open>C11. A request does not use more gas than it names: when a request is answered, the gas that the answer reports as
  used is at most the gas of the request, and at most the gas that the answer repeats, whatever the
  module, its imports and the snapshot.\<close>

theorem request_gas_used:
  assumes "runRequest L P F n p = (Ok e, p')" and "VMUnit p = None"
    and "member ''execution'' (InputDoc p') = Ok ex" and "findMember ''gas'' ex = Ok (Some v)" and "getUint64 v = Ok g"
  shows "OGasUsed (OutputDoc p') \<le> g \<and> OGasUsed (OutputDoc p') \<le> OGas (OutputDoc p')"
proof -
  let ?p = "p\<lparr>OutputDoc := preparedOutput\<rparr>"
  obtain p2 where p2: "parseInputJSON L P ?p = (Ok (), p2)" "proxyExecuteVM L F n p2 = (Ok (), p')"
    using assms(1) by (auto simp: runRequest_def seqM_Ok_iff prepareOutputJSON_def setOutput_def modifyM_def exportOutputJSON_def Let_def)
  have pr: "prepared P p2"
  proof (cases "readable L (InputJSONPath p)")
    case None
    then show ?thesis using p2(1) assms(2) by (auto simp: parseInputJSON_def setError_def setOutput_def modifyM_def prepared_def preparedOutput_def)
  next
    case (Some bs)
    then have "parseHeader P (jsonParse L (c_str bs)) (?p\<lparr>InputDoc := jsonParse L (c_str bs)\<rparr>) = (Ok (), p2)"
      using p2(1) by (simp add: parseInputJSON_def Let_def)
    then show ?thesis by (rule prepared_parseHeader) (use assms(2) in \<open>simp_all add: preparedOutput_def\<close>)
  qed
  consider (none) "OGasUsed (OutputDoc p') = 0" | (run) vm where "VMUnit p2 = Some vm" "executeRequest L F n p2 = (Ok (), p')"
    using p2(2) pr by (auto simp: proxyExecuteVM_def setError_def setOutput_def modifyM_def prepared_def split: if_splits)
  then show ?thesis
  proof cases
    case run
    obtain k where k: "member ''execution'' (InputDoc p2) = Ok k" "\<And>v. findMember ''gas'' k = Ok (Some v) \<Longrightarrow> getInt64 v = Ok (OGas (OutputDoc p2))"
      using pr run(1) by (auto simp: prepared_def announced_def)
    obtain G where G: "granted P G (InputDoc p2) (OGas (OutputDoc p2)) p'" "\<And>v. findMember ''gas'' k = Ok (Some v) \<Longrightarrow> getUint64 v = Ok G"
      using executeRequest_within [OF run(2) pr run(1) k(1)] by blast
    then have "k = ex" using assms(3) k(1) by (simp add: granted_def)
    then have "G = g" "OGas (OutputDoc p2) = g" using G(2) k(2) assms(4,5) getInt64_getUint64 by fastforce+
    then show ?thesis using G(1) by (simp add: granted_def)
  qed simp
qed

text \<open>A request for five units of gas, to a machine that cannot load the module.\<close>

definition sampleExecution :: Json where
  "sampleExecution = JObj [(name_of ''gas'', JInt 5)]"

definition sampleRequest :: Json where
  "sampleRequest = JObj [(name_of ''modules'', JArr []), (name_of ''execution'', sampleExecution)]"

definition requestPlatform :: platform where
  "requestPlatform = samplePlatform\<lparr>jsonParse := \<lambda>_. sampleRequest, readable := \<lambda>_. Some [], pathExists := \<lambda>_. True\<rparr>"

lemma sampleRequest_members:
  "findMember ''service_name'' sampleRequest = Ok None" "findMember ''uuid'' sampleRequest = Ok None"
  "findMember ''modules'' sampleRequest = Ok (Some (JArr []))" "findMember ''execution'' sampleRequest = Ok (Some sampleExecution)"
  "findMember ''gas'' sampleExecution = Ok (Some (JInt 5))" "findMember ''function_name'' sampleExecution = Ok None"
  "findMember ''argument'' sampleExecution = Ok None" "findMember ''argument_types'' sampleExecution = Ok None"
  "findMember ''return_types'' sampleExecution = Ok None"
  by (simp_all add: findMember_def sampleRequest_def sampleExecution_def name_of_def)

lemma sample_run:
  "\<exists>e p'. runRequest requestPlatform P F n ((newProxy ())\<lparr>WasmPath := [1]\<rparr>) = (Ok e, p') \<and> InputDoc p' = sampleRequest"
proof -
  have m: "member ''execution'' sampleRequest = Ok sampleExecution" by (simp add: member_def sampleRequest_members obind_def)
  have "fst (initVM newConfigure wasi eei vm) = Ok ()" for wasi eei and vm :: "'h VM"
    by (simp add: initVM_def hasVMType_def newConfigure_def useTable_def getCostTable_def seqM_def bindM_def retM_def Let_def)
  then obtain vm where i: "initVM newConfigure (WasiModule P) (newImportObject []) (newVM newStoreManager (noEnvironment ())) = (Ok (), vm)"
    by (metis prod.collapse)
  have w: "\<not> hasVMType newConfigure Wasi" by (simp add: newConfigure_def hasVMType_def)
  let ?d = "preparedOutput\<lparr>OGas := 5\<rparr>"
  let ?p = "(newProxy ())\<lparr>WasmPath := [1], InputDoc := sampleRequest, OutputDoc := ?d, VMUnit := Some vm\<rparr>"
  have "parseInputJSON requestPlatform P ((newProxy ())\<lparr>WasmPath := [1], OutputDoc := preparedOutput\<rparr>) = (Ok (), ?p)"
    using i w by (simp add: parseInputJSON_def requestPlatform_def parseHeader_def sampleRequest_members bindM_def seqM_def liftM_def whenSome_def retM_def
        getInt64_def getNumber_def obind_def setOutput_def modifyM_def resetVM_def newProxy_def makeVM_def Let_def)
  moreover obtain q where "proxyExecuteVM requestPlatform F n ?p = (Ok (), q)" "InputDoc q = sampleRequest"
    by (simp add: proxyExecuteVM_def requestPlatform_def samplePlatform_def executeRequest_def setIdentity_def onVM_def modifyM_def seqM_def bindM_def
        getsM_def m liftM_def sampleRequest_members whenSome_def getUint64_def getNumber_def obind_def setCostLimit_def readArgs_def runModule_def
        tryStep_def loadWasm_def onLoader_def setError_def setOutput_def retM_def)
  ultimately show ?thesis
    by (simp add: runRequest_def prepareOutputJSON_def setOutput_def modifyM_def seqM_def bindM_def exportOutputJSON_def Let_def newProxy_def)
qed

theorem request_gas_used_witness:
  "\<forall>P F n. \<exists>e p'. runRequest requestPlatform P F n ((newProxy ())\<lparr>WasmPath := [1]\<rparr>) = (Ok e, p') \<and> OGasUsed (OutputDoc p') \<le> 5"
proof (intro allI)
  fix P F n
  obtain e p' where r: "runRequest requestPlatform P F n ((newProxy ())\<lparr>WasmPath := [1]\<rparr>) = (Ok e, p')" "InputDoc p' = sampleRequest"
    using sample_run by blast
  have "member ''execution'' (InputDoc p') = Ok sampleExecution" by (simp add: r(2) member_def sampleRequest_members obind_def)
  moreover have "getUint64 (JInt 5) = Ok 5" by (simp add: getUint64_def getNumber_def obind_def)
  ultimately have "OGasUsed (OutputDoc p') \<le> 5" using request_gas_used [OF r(1) _ _ sampleRequest_members(5)] by (simp add: newProxy_def)
  then show "\<exists>e p'. runRequest requestPlatform P F n ((newProxy ())\<lparr>WasmPath := [1]\<rparr>) = (Ok e, p') \<and> OGasUsed (OutputDoc p') \<le> 5"
    using r(1) by blast
qed

end
