(* ===== verification/Tools.thy ===== *)
theory Tools
  imports Vm HostEnv Digits
begin

text \<open>
  The command-line tools on the machine: \<open>tools/ssvm/main.cpp\<close>, and the timers of \<open>include/support/time.h\<close>
  with the host module of \<open>tools/ssvm-qitc/helper.h\<close> that gives them to a guest. What the tool prints is a value of
  \<open>Ending\<close>. The clock, \<open>gettimeofday\<close>, is a parameter: it takes the state of the system to seconds,
  microseconds and a new state. The loader for a path is a parameter as well.
\<close>

section \<open>The tool \<open>ssvm\<close>\<close>

datatype Ending = Usage | ReturnValues "u32 list" | Failure ErrCode

fun readParams :: "Bytes list \<Rightarrow> ValVariant list Expect" where
  "readParams [] = Ok []"
| "readParams (s # ss) = (case stoull 10 s of
       None \<Rightarrow> Undef
     | Some w \<Rightarrow> obind (readParams ss) (\<lambda>vs. Ok (V32 (ucast w) # vs)))"

definition ssvmMain :: "fpu \<Rightarrow> nat \<Rightarrow> (Bytes \<Rightarrow> Module reader) \<Rightarrow> 'h \<Rightarrow> Bytes list \<Rightarrow> Ending Expect" where
  "ssvmMain F n parseFile h argv =
     (if length argv < 3 then Ok Usage
      else case initVM newConfigure (newImportObject []) (newImportObject []) (newVM newStoreManager h) of
        (Ok _, vm) \<Rightarrow>
          obind (readParams (drop 3 argv)) (\<lambda>params.
          case fst (runWasmFile F n (parseFile (argv ! 1)) (argv ! 2) params vm) of
            Ok vs \<Rightarrow> Ok (ReturnValues (map get32 vs))
          | Err e \<Rightarrow> Ok (Failure e)
          | Undef \<Rightarrow> Undef
          | Timeout \<Rightarrow> Timeout)
      | (Err e, _) \<Rightarrow> Err e
      | (Undef, _) \<Rightarrow> Undef
      | (Timeout, _) \<Rightarrow> Timeout)"

section \<open>Timers\<close>

record TimeRecord =
  StartTime :: "u32 \<rightharpoonup> u64"
  RecTime :: "u32 \<rightharpoonup> u64"

definition newTimeRecord :: TimeRecord where
  "newTimeRecord = \<lparr>StartTime = Map.empty, RecTime = Map.empty\<rparr>"

type_synonym 'o clock = "'o \<Rightarrow> (u64 \<times> u64) \<times> 'o"

definition micros :: "u64 \<times> u64 \<Rightarrow> u64" where
  "micros t = 1000000 * fst t + snd t"

text \<open>\<open>insert\<close> keeps an entry that is there.\<close>

definition startRecord :: "'o clock \<Rightarrow> u32 \<Rightarrow> TimeRecord \<times> 'o \<Rightarrow> TimeRecord \<times> 'o" where
  "startRecord clock k = (\<lambda>(r, os). let (t, os') = clock os in
     (if StartTime r k = None then r\<lparr>StartTime := (StartTime r)(k \<mapsto> micros t)\<rparr> else r, os'))"

definition stopRecord :: "'o clock \<Rightarrow> u32 \<Rightarrow> TimeRecord \<times> 'o \<Rightarrow> u64 \<times> (TimeRecord \<times> 'o)" where
  "stopRecord clock k = (\<lambda>(r, os).
     let (nDiff, r1, os1) = (case StartTime r k of
            None \<Rightarrow> (0, r, os)
          | Some start \<Rightarrow> (let (t, os') = clock os in (micros t - start, r\<lparr>StartTime := (StartTime r)(k := None)\<rparr>, os')));
         total = (case RecTime r1 k of None \<Rightarrow> nDiff | Some old \<Rightarrow> old + nDiff)
     in (total, (r1\<lparr>RecTime := (RecTime r1)(k \<mapsto> total)\<rparr>, os1)))"

definition clearRecord :: "u32 \<Rightarrow> TimeRecord \<Rightarrow> TimeRecord" where
  "clearRecord k r = r\<lparr>StartTime := (StartTime r)(k := None), RecTime := (RecTime r)(k := None)\<rparr>"

definition getRecord :: "u32 \<Rightarrow> TimeRecord \<Rightarrow> u64" where
  "getRecord k r = (case RecTime r k of None \<Rightarrow> 0 | Some t \<Rightarrow> t)"

definition resetRecords :: "TimeRecord \<Rightarrow> TimeRecord" where
  "resetRecords r = newTimeRecord"

section \<open>The module of timers\<close>

record 'o QITCEnv =
  Timer :: TimeRecord
  Printed :: "(u64 \<times> u64) list"
  QSystem :: 'o

definition TIMER_TAG_QITC_INFER_SSVM :: u32 where
  "TIMER_TAG_QITC_INFER_SSVM = 256"

definition TIMER_TAG_QITC_INFER_HOST :: u32 where
  "TIMER_TAG_QITC_INFER_HOST = 257"

definition onTimer :: "(TimeRecord \<times> 'o \<Rightarrow> 'a \<times> (TimeRecord \<times> 'o)) \<Rightarrow> ('o QITCEnv, 'a) hostop" where
  "onTimer f w = (let (x, r, os) = f (Timer (HState w), QSystem (HState w)) in (Ok x, w\<lparr>HState := (HState w)\<lparr>Timer := r, QSystem := os\<rparr>\<rparr>))"

definition qitcOk :: "('o QITCEnv, ErrCode \<times> ValVariant) hostop" where
  "qitcOk = retM (Success, V32 0)"

definition QITCTimerStart :: "'o clock \<Rightarrow> ('o QITCEnv, ErrCode \<times> ValVariant) hostop" where
  "QITCTimerStart clock = seqM (onTimer (\<lambda>s. ((), startRecord clock TIMER_TAG_QITC_INFER_SSVM s))) qitcOk"

definition QITCTimerStop :: "'o clock \<Rightarrow> ('o QITCEnv, ErrCode \<times> ValVariant) hostop" where
  "QITCTimerStop clock =
     bindM (onTimer (stopRecord clock TIMER_TAG_QITC_INFER_SSVM)) (\<lambda>ssvmTime.
     bindM (onTimer (stopRecord clock TIMER_TAG_QITC_INFER_HOST)) (\<lambda>hostTime.
     seqM (setEnv (\<lambda>env. env\<lparr>Printed := Printed env @ [(ssvmTime, hostTime)]\<rparr>)) qitcOk))"

definition QITCTimerClear :: "('o QITCEnv, ErrCode \<times> ValVariant) hostop" where
  "QITCTimerClear = seqM (onTimer (\<lambda>(r, os). ((), (clearRecord TIMER_TAG_QITC_INFER_HOST (clearRecord TIMER_TAG_QITC_INFER_SSVM r), os)))) qitcOk"

definition qitcFunc :: "('o QITCEnv, ErrCode \<times> ValVariant) hostop \<Rightarrow> 'o QITCEnv HostFunction" where
  "qitcFunc body = \<lparr>HostType = \<lparr>Params = [], Returns = []\<rparr>, HostCost = 0, HostBody = (\<lambda>_. body)\<rparr>"

definition qitcFunctions :: "'o clock \<Rightarrow> (string \<times> 'o QITCEnv HostFunction) list" where
  "qitcFunctions clock = [
     (''QITC_time_start'', qitcFunc (QITCTimerStart clock)),
     (''QITC_time_stop'', qitcFunc (QITCTimerStop clock)),
     (''QITC_time_clear'', qitcFunc QITCTimerClear)]"

definition QITCModule :: "'o clock \<Rightarrow> 'o QITCEnv ImportObject" where
  "QITCModule clock = fold (\<lambda>(name, f). addHostFunc (name_of name) f) (qitcFunctions clock) (newImportObject (name_of ''QITC''))"

section \<open>Records\<close>

text \<open>A record grows by the time between a start and a stop, without regard to starts in between, and the
  other records stay.\<close>

lemma record_grows:
  assumes "StartTime r k = None" and "clock os = (t, os1)" and "clock os2 = (t', os3)" and "startRecord clock k (r, os) = (r1, os1)"
  shows "stopRecord clock k (fst (startRecord clock k (r1, os1)), os2) =
    (getRecord k r + (micros t' - micros t),
     (r\<lparr>RecTime := (RecTime r)(k \<mapsto> getRecord k r + (micros t' - micros t)), StartTime := (StartTime r)(k := None)\<rparr>, os3))"
  using assms by (auto simp: startRecord_def stopRecord_def getRecord_def Let_def split_beta split: option.split)

text \<open>The time of the host functions that is printed is always zero on a new record: nothing starts it.\<close>

lemma host_time_unrecorded:
  assumes "StartTime (Timer (HState w)) TIMER_TAG_QITC_INFER_HOST = None" and "getRecord TIMER_TAG_QITC_INFER_HOST (Timer (HState w)) = 0"
    and "QITCTimerStop clock w = (r, w')"
  shows "\<exists>t. Printed (HState w') = Printed (HState w) @ [(t, 0)]"
proof -
  have "TIMER_TAG_QITC_INFER_HOST \<noteq> TIMER_TAG_QITC_INFER_SSVM" by (simp add: TIMER_TAG_QITC_INFER_HOST_def TIMER_TAG_QITC_INFER_SSVM_def)
  then show ?thesis using assms
    by (auto simp: QITCTimerStop_def bindM_def seqM_def onTimer_def stopRecord_def setEnv_def qitcOk_def retM_def getRecord_def Let_def split_beta
        split: option.splits)
qed

end
