(* ===== verification/Native.thy ===== *)
theory Native
  imports VmRuns
begin

text \<open>
  The host module \<open>ssvm_native\<close>: \<open>include/host/ssvm_native/\<close> and \<open>lib/host/ssvm_native/\<close>. The storage behind it has
  not been written: every body returns \<open>Success\<close> and does nothing. The functions with a result leave it
  without a value, and \<open>HostFunction::invoke\<close> pushes it, which is undefined.
\<close>

type_synonym 'h native = "('h, ErrCode \<times> ValVariant) hostop"

definition nativeFunc :: "ValType list \<Rightarrow> ValType list \<Rightarrow> (ValVariant list \<Rightarrow> 'h native) \<Rightarrow> 'h HostFunction" where
  "nativeFunc params returns body = \<lparr>HostType = \<lparr>Params = params, Returns = returns\<rparr>, HostCost = 0, HostBody = body\<rparr>"

text \<open>A body without a result, and the result that is never written.\<close>

definition nativeDone :: "'h native" where
  "nativeDone = retM (Success, V32 0)"

definition nativeUnset :: "'h native" where
  "nativeUnset = undefM"

definition SSVMNativeStorageCreateUUID :: "'h HostFunction" where
  "SSVMNativeStorageCreateUUID = nativeFunc [] [I64] (\<lambda>v. nativeUnset)"

definition SSVMNativeStorageBeginStoreTx :: "'h HostFunction" where
  "SSVMNativeStorageBeginStoreTx = nativeFunc [I64] [] (\<lambda>v. arg64 v 0 (\<lambda>newKey. nativeDone))"

definition SSVMNativeStorageBeginLoadTx :: "'h HostFunction" where
  "SSVMNativeStorageBeginLoadTx = nativeFunc [I64] [] (\<lambda>v. arg64 v 0 (\<lambda>newKey. nativeDone))"

definition SSVMNativeStorageStoreI32 :: "'h HostFunction" where
  "SSVMNativeStorageStoreI32 = nativeFunc [I32] [] (\<lambda>v. nativeDone)"

definition SSVMNativeStorageLoadI32 :: "'h HostFunction" where
  "SSVMNativeStorageLoadI32 = nativeFunc [] [I32] (\<lambda>v. nativeUnset)"

definition SSVMNativeStorageStoreI64 :: "'h HostFunction" where
  "SSVMNativeStorageStoreI64 = nativeFunc [I64] [] (\<lambda>v. arg64 v 0 (\<lambda>val. nativeDone))"

definition SSVMNativeStorageLoadI64 :: "'h HostFunction" where
  "SSVMNativeStorageLoadI64 = nativeFunc [] [I64] (\<lambda>v. nativeUnset)"

definition SSVMNativeStorageEndStoreTx :: "'h HostFunction" where
  "SSVMNativeStorageEndStoreTx = nativeFunc [] [] (\<lambda>v. nativeDone)"

definition SSVMNativeStorageEndLoadTx :: "'h HostFunction" where
  "SSVMNativeStorageEndLoadTx = nativeFunc [] [] (\<lambda>v. nativeDone)"

definition nativeFunctions :: "(string \<times> 'h HostFunction) list" where
  "nativeFunctions = [
     (''ssvm_storage_createUUID'', SSVMNativeStorageCreateUUID),
     (''ssvm_storage_beginStoreTx'', SSVMNativeStorageBeginStoreTx),
     (''ssvm_storage_beginLoadTx'', SSVMNativeStorageBeginLoadTx),
     (''ssvm_storage_storeI32'', SSVMNativeStorageStoreI32),
     (''ssvm_storage_loadI32'', SSVMNativeStorageLoadI32),
     (''ssvm_storage_storeI64'', SSVMNativeStorageStoreI64),
     (''ssvm_storage_loadI64'', SSVMNativeStorageLoadI64),
     (''ssvm_storage_endStoreTx'', SSVMNativeStorageEndStoreTx),
     (''ssvm_storage_endLoadTx'', SSVMNativeStorageEndLoadTx)]"

definition SSVMNativeModule :: "'h ImportObject" where
  "SSVMNativeModule = fold (\<lambda>(name, f). addHostFunc (name_of name) f) nativeFunctions (newImportObject (name_of ''ssvm_native''))"

lemmas native_defs = nativeFunctions_def nativeFunc_def nativeDone_def nativeUnset_def SSVMNativeStorageCreateUUID_def SSVMNativeStorageBeginStoreTx_def
  SSVMNativeStorageBeginLoadTx_def SSVMNativeStorageStoreI32_def SSVMNativeStorageLoadI32_def SSVMNativeStorageStoreI64_def SSVMNativeStorageLoadI64_def
  SSVMNativeStorageEndStoreTx_def SSVMNativeStorageEndLoadTx_def

text \<open>No function changes the memory, the meter or the host, and those with a result are undefined.\<close>

lemma native_idle: "list_all (\<lambda>(name, f). snd (HostBody f vs w) = w) nativeFunctions"
  by (simp add: native_defs arg64_def bindM_def liftM_def retM_def undefM_def split: outcome.split)

lemma native_unset: "list_all (\<lambda>(name, f). Returns (HostType f) \<noteq> [] \<longrightarrow> fst (HostBody f vs w) = Undef) nativeFunctions"
  by (simp add: native_defs undefM_def)

text \<open>So every invariant of the meter and the host is kept by runs with this module.\<close>

lemma native_invariant:
  assumes "\<And>m h g. J (Some m) h \<Longrightarrow> J (Some (snd (addCost g m))) h" and "\<And>m h. J (Some m) h \<Longrightarrow> J (Some (incInstrCnt m)) h"
  shows "host_invariant (J :: Measurement option \<Rightarrow> 'h \<Rightarrow> bool) (module_funcs nativeFunctions)"
proof
  fix f :: "'h HostFunction" and vs and w :: "'h HostWorld"
  assume "HostFunc f \<in> module_funcs nativeFunctions" and "J (HMeasure w) (HState w)"
  then show "J (HMeasure (snd (HostBody f vs w))) (HState (snd (HostBody f vs w)))"
    using native_idle [of vs w] by (auto simp: module_funcs_def list_all_iff)
qed (use assms in \<open>auto simp: module_funcs_def\<close>)

end
